(* ===== verification/Prelude.thy ===== *)
theory Prelude
  imports Main "HOL-Library.Word" "HOL-Library.AList" "HOL-Library.Sublist"
    "HOL-Library.List_Lexorder" "HOL-Library.Char_ord"
begin

text \<open>
  What the components share: the machine integers and the clock of the Go runtime, the
  functions of the packages \<open>strings\<close>, \<open>slices\<close> and \<open>strconv\<close> that the code calls, the
  association lists that stand for Go maps, and the lemma collections.

  Strings are byte strings. Case folding and white space are those of ASCII: Go folds and
  trims Unicode as well, which the code relies on nowhere. An instant is the number of
  nanoseconds since Go's zero \<open>time.Time\<close>, so \<open>IsZero\<close> is equality with 0; a duration is a
  signed 64 bit count of nanoseconds, and \<open>Sub\<close> saturates as Go's does.
\<close>

named_theorems alist_simps \<open>lookup and domain of updated association lists\<close>
named_theorems frame_simps \<open>what an operation leaves unchanged\<close>

subsection \<open>Integers and time\<close>

type_synonym uint64 = "64 word"
type_synonym f64 = "64 word"
type_synonym duration = int
type_synonym instant = int

abbreviation (input) zeroTime :: instant where "zeroTime \<equiv> 0"

definition maxDuration :: duration where "maxDuration = 9223372036854775807"
definition minDuration :: duration where "minDuration = - 9223372036854775808"

text \<open>\<open>time.Time.Sub\<close>: the difference, saturated to the range of \<open>int64\<close>.\<close>

definition time_sub :: "instant \<Rightarrow> instant \<Rightarrow> duration" where
  "time_sub t u = max minDuration (min maxDuration (t - u))"

text \<open>\<open>int64\<close> subtraction of two durations, which wraps.\<close>

definition dur_minus :: "duration \<Rightarrow> duration \<Rightarrow> duration" where
  "dur_minus a b = (a - b + 9223372036854775808) mod 18446744073709551616 - 9223372036854775808"

abbreviation (input) nsecond :: duration where "nsecond \<equiv> 1000000000"
abbreviation (input) nminute :: duration where "nminute \<equiv> 60000000000"
abbreviation (input) nhour :: duration where "nhour \<equiv> 3600000000000"

lemma time_sub_ge: "minDuration < d \<Longrightarrow> d \<le> maxDuration \<Longrightarrow> d \<le> time_sub t u \<longleftrightarrow> d \<le> t - u"
  by (auto simp: time_sub_def minDuration_def maxDuration_def)

lemma time_sub_range: "minDuration \<le> time_sub t u \<and> time_sub t u \<le> maxDuration"
  by (auto simp: time_sub_def minDuration_def maxDuration_def)

lemma uint64_inc_less: "a < b \<Longrightarrow> a < a + 1 \<and> a + 1 \<le> b" for a b :: uint64
  by unat_arith

lemma unat_inc_less: "a < b \<Longrightarrow> unat (a + 1) = Suc (unat a)" for a b :: uint64
  by unat_arith

subsection \<open>The package strings\<close>

definition is_space :: "char \<Rightarrow> bool" where
  "is_space c = (of_char c = (32::nat) \<or> (9 \<le> (of_char c :: nat) \<and> (of_char c :: nat) \<le> 13))"

definition trim_space :: "string \<Rightarrow> string" where
  "trim_space s = rev (dropWhile is_space (rev (dropWhile is_space s)))"

definition trim_left :: "char list \<Rightarrow> string \<Rightarrow> string" where
  "trim_left cs s = dropWhile (\<lambda>c. c \<in> set cs) s"

definition trim_right :: "char list \<Rightarrow> string \<Rightarrow> string" where
  "trim_right cs s = rev (dropWhile (\<lambda>c. c \<in> set cs) (rev s))"

definition lower_char :: "char \<Rightarrow> char" where
  "lower_char c = (if 65 \<le> (of_char c :: nat) \<and> (of_char c :: nat) \<le> 90
     then char_of ((of_char c :: nat) + 32) else c)"

definition to_lower :: "string \<Rightarrow> string" where
  "to_lower s = map lower_char s"

definition up_char :: "char \<Rightarrow> char" where
  "up_char c = (if 97 \<le> (of_char c :: nat) \<and> (of_char c :: nat) \<le> 122 then char_of ((of_char c :: nat) - 32) else c)"

definition to_upper :: "string \<Rightarrow> string" where
  "to_upper s = map up_char s"

definition equal_fold :: "string \<Rightarrow> string \<Rightarrow> bool" where
  "equal_fold a b = (to_lower a = to_lower b)"

abbreviation has_prefix :: "string \<Rightarrow> string \<Rightarrow> bool" where
  "has_prefix s p \<equiv> prefix p s"

abbreviation has_suffix :: "string \<Rightarrow> string \<Rightarrow> bool" where
  "has_suffix s q \<equiv> suffix q s"

definition trim_prefix :: "string \<Rightarrow> string \<Rightarrow> string" where
  "trim_prefix s p = (if prefix p s then drop (length p) s else s)"

definition trim_suffix :: "string \<Rightarrow> string \<Rightarrow> string" where
  "trim_suffix s q = (if suffix q s then take (length s - length q) s else s)"

text \<open>\<open>strings.Index\<close>: the first position of a substring, \<open>None\<close> for -1; \<open>strings.LastIndex\<close>.\<close>

fun index_of :: "string \<Rightarrow> string \<Rightarrow> nat option" where
  "index_of [] p = (if p = [] then Some 0 else None)"
| "index_of (c # s) p = (if prefix p (c # s) then Some 0 else map_option Suc (index_of s p))"

fun last_index :: "string \<Rightarrow> string \<Rightarrow> nat option" where
  "last_index [] p = (if p = [] then Some 0 else None)"
| "last_index (c # s) p = (case last_index s p of
      Some n \<Rightarrow> Some (Suc n)
    | None \<Rightarrow> if prefix p (c # s) then Some 0 else None)"

definition contains_sub :: "string \<Rightarrow> string \<Rightarrow> bool" where
  "contains_sub s p = (index_of s p \<noteq> None)"

text \<open>\<open>strings.Split(s, "\\n")\<close>.\<close>

fun split_lines :: "string \<Rightarrow> string list" where
  "split_lines [] = [[]]"
| "split_lines (c # s) = (if of_char c = (10::nat) then [] # split_lines s
     else case split_lines s of [] \<Rightarrow> [[c]] | x # xs \<Rightarrow> (c # x) # xs)"

text \<open>\<open>strings.FieldsFunc\<close>: the maximal non-empty runs of characters that are not separators.\<close>

fun fields_acc :: "(char \<Rightarrow> bool) \<Rightarrow> string \<Rightarrow> string \<Rightarrow> string list" where
  "fields_acc sep acc [] = (if acc = [] then [] else [rev acc])"
| "fields_acc sep acc (c # s) =
     (if sep c then (if acc = [] then fields_acc sep [] s else rev acc # fields_acc sep [] s)
      else fields_acc sep (c # acc) s)"

definition fields_func :: "(char \<Rightarrow> bool) \<Rightarrow> string \<Rightarrow> string list" where
  "fields_func sep s = fields_acc sep [] s"

fun join :: "string \<Rightarrow> string list \<Rightarrow> string" where
  "join sep [] = []"
| "join sep [x] = x"
| "join sep (x # y # xs) = x @ sep @ join sep (y # xs)"

definition replace_char :: "char \<Rightarrow> char \<Rightarrow> string \<Rightarrow> string" where
  "replace_char a b s = map (\<lambda>c. if c = a then b else c) s"

lemma fields_acc_nonempty: "x \<in> set (fields_acc sep acc s) \<Longrightarrow> x \<noteq> []"
  by (induction sep acc s rule: fields_acc.induct) (auto split: if_splits)

lemma fields_func_nonempty: "x \<in> set (fields_func sep s) \<Longrightarrow> x \<noteq> []"
  unfolding fields_func_def by (rule fields_acc_nonempty)

subsection \<open>The package strconv\<close>

definition digit_char :: "nat \<Rightarrow> char" where
  "digit_char d = char_of (48 + d)"

fun itoa :: "nat \<Rightarrow> string" where
  "itoa n = (if n < 10 then [digit_char n] else itoa (n div 10) @ [digit_char (n mod 10)])"

declare itoa.simps [simp del]

definition is_digit :: "char \<Rightarrow> bool" where
  "is_digit c = (48 \<le> (of_char c :: nat) \<and> (of_char c :: nat) \<le> 57)"

definition digits_value :: "string \<Rightarrow> nat" where
  "digits_value s = foldl (\<lambda>n c. 10 * n + (of_char c - 48)) 0 s"

text \<open>\<open>strconv.ParseUint(s, 10, bits)\<close>: digits only, at least one, below \<open>2 ^ bits\<close>.\<close>

definition parse_uint :: "nat \<Rightarrow> string \<Rightarrow> nat option" where
  "parse_uint bits s = (if s \<noteq> [] \<and> list_all is_digit s \<and> digits_value s < 2 ^ bits
     then Some (digits_value s) else None)"

lemma of_char_digit: "d < 10 \<Longrightarrow> (of_char (digit_char d) :: nat) = 48 + d"
  by (simp add: digit_char_def)

lemma itoa_nonempty [simp]: "itoa n \<noteq> []"
  by (subst itoa.simps) simp

lemma digits_value_snoc: "digits_value (s @ [c]) = 10 * digits_value s + (of_char c - 48)"
  by (simp add: digits_value_def)

lemma digits_value_itoa: "digits_value (itoa n) = n"
proof (induction n rule: itoa.induct)
  case (1 n)
  show ?case
  proof (cases "n < 10")
    case True
    then show ?thesis by (subst itoa.simps) (simp add: digits_value_def of_char_digit)
  next
    case False
    with 1 show ?thesis by (subst itoa.simps) (simp add: digits_value_snoc of_char_digit)
  qed
qed

lemma itoa_inject [simp]: "itoa m = itoa n \<longleftrightarrow> m = n"
  by (metis digits_value_itoa)

subsection \<open>Maps as association lists\<close>

text \<open>
  A Go map is an association list with distinct keys; the position of an entry is where
  \<open>range\<close> visits it. \<open>aget\<close> reads, \<open>AList.update\<close> writes and \<open>AList.delete\<close> deletes.
\<close>

abbreviation aget :: "('k \<times> 'v) list \<Rightarrow> 'k \<Rightarrow> 'v option" where
  "aget \<equiv> map_of"

abbreviation aput :: "'k \<Rightarrow> 'v \<Rightarrow> ('k \<times> 'v) list \<Rightarrow> ('k \<times> 'v) list" where
  "aput \<equiv> AList.update"

abbreviation adel :: "'k \<Rightarrow> ('k \<times> 'v) list \<Rightarrow> ('k \<times> 'v) list" where
  "adel \<equiv> AList.delete"

definition akeys :: "('k \<times> 'v) list \<Rightarrow> 'k list" where
  "akeys m = map fst m"

definition amap :: "('k \<Rightarrow> 'v \<Rightarrow> 'w) \<Rightarrow> ('k \<times> 'v) list \<Rightarrow> ('k \<times> 'w) list" where
  "amap f m = map (\<lambda>(k, v). (k, f k v)) m"

lemma aget_aput [simp, alist_simps]: "aget (aput k v m) = (aget m)(k \<mapsto> v)"
  by (simp add: update_conv')

lemma aget_adel [simp, alist_simps]: "aget (adel k m) = (aget m)(k := None)"
  by (simp add: delete_conv')

lemma aget_amap [simp, alist_simps]: "aget (amap f m) k = map_option (f k) (aget m k)"
  by (induction m) (auto simp: amap_def)

lemma akeys_aput [simp, alist_simps]:
  "akeys (aput k v m) = (if k \<in> set (akeys m) then akeys m else akeys m @ [k])"
  by (auto simp: akeys_def update_keys)

lemma akeys_amap [simp, alist_simps]: "akeys (amap f m) = akeys m"
  by (simp add: akeys_def amap_def case_prod_beta)

lemma akeys_adel [simp, alist_simps]: "akeys (adel k m) = filter (\<lambda>x. x \<noteq> k) (akeys m)"
  by (induction m) (auto simp: akeys_def AList.delete_eq)

lemma aget_None [alist_simps]: "aget m k = None \<longleftrightarrow> k \<notin> set (akeys m)"
  by (auto simp: akeys_def map_of_eq_None_iff image_iff)

lemma aget_Some_key: "aget m k = Some v \<Longrightarrow> k \<in> set (akeys m)"
  by (metis aget_None option.distinct(1))

lemma distinct_aput [intro]: "distinct (akeys m) \<Longrightarrow> distinct (akeys (aput k v m))"
  by simp

lemma distinct_adel [intro]: "distinct (akeys m) \<Longrightarrow> distinct (akeys (adel k m))"
  by simp

subsection \<open>The package slices\<close>

text \<open>\<open>slices.IndexFunc\<close> with \<open>None\<close> for -1, and \<open>slices.Delete(s, i, i+1)\<close>.\<close>

fun index_func :: "('a \<Rightarrow> bool) \<Rightarrow> 'a list \<Rightarrow> nat option" where
  "index_func P [] = None"
| "index_func P (x # xs) = (if P x then Some 0 else map_option Suc (index_func P xs))"

definition delete_at :: "nat \<Rightarrow> 'a list \<Rightarrow> 'a list" where
  "delete_at i xs = take i xs @ drop (Suc i) xs"

lemma index_func_None: "index_func P xs = None \<longleftrightarrow> (\<forall>x \<in> set xs. \<not> P x)"
  by (induction xs) auto

lemma index_func_Some:
  "index_func P xs = Some i \<Longrightarrow> i < length xs \<and> P (xs ! i) \<and> (\<forall>x \<in> set (take i xs). \<not> P x)"
  by (induction xs arbitrary: i) (auto split: if_splits simp: nth_Cons')

lemma delete_at_split:
  assumes "i < length xs"
  shows "\<exists>ys zs. xs = ys @ xs ! i # zs \<and> length ys = i \<and> delete_at i xs = ys @ zs"
  by (metis (no_types, lifting) assms delete_at_def id_take_nth_drop length_take min.absorb4)

lemma index_func_split:
  assumes "index_func P xs = Some i"
  obtains ys x zs where "xs = ys @ x # zs" "P x" "\<forall>y \<in> set ys. \<not> P y" "xs ! i = x"
    "delete_at i xs = ys @ zs"
proof -
  from index_func_Some [OF assms] have i: "i < length xs" "P (xs ! i)"
    and before: "\<forall>x \<in> set (take i xs). \<not> P x" by auto
  have "xs = take i xs @ xs ! i # drop (Suc i) xs" using i(1) by (rule id_take_nth_drop)
  with i before that show thesis by (auto simp: delete_at_def)
qed

text \<open>\<open>slices.Sort\<close> on strings, byte order.\<close>

abbreviation sort_strings :: "string list \<Rightarrow> string list" where
  "sort_strings \<equiv> sort"

text \<open>
  The dedup idiom of the code: a \<open>seen\<close> set and an output slice, the first occurrence kept.
\<close>

fun dedup_acc :: "'a list \<Rightarrow> 'a list \<Rightarrow> 'a list" where
  "dedup_acc seen [] = []"
| "dedup_acc seen (x # xs) = (if x \<in> set seen then dedup_acc seen xs
     else x # dedup_acc (x # seen) xs)"

lemma set_dedup_acc: "set (dedup_acc seen xs) = set xs - set seen"
  by (induction xs arbitrary: seen) auto

lemma distinct_dedup_acc: "distinct (dedup_acc seen xs)"
  by (induction xs arbitrary: seen) (auto simp: set_dedup_acc)

end
