(* ===== verification/Status.thy ===== *)
theory Status
  imports Prelude
begin

text \<open>
  \<open>pkg/extract/status.go\<close>: the enumeration of extract statuses, its order, its words and the
  parser that reads a word or an event number back. In Go a status is a \<open>uint8\<close>; the ten
  named values are the datatype, \<open>status_code\<close> is its byte, and \<open>Desc\<close> and \<open>String\<close> are given
  on bytes because they have a branch for bytes that name no status.
\<close>

datatype status =
    WAITING | QUEUED | EXTRACTING | EXTRACTFAILED | EXTRACTED
  | IMPORTED | DELETING | DELETEFAILED | DELETED | EXTRACTEDNOTHING

type_synonym uint8 = "8 word"

fun status_nat :: "status \<Rightarrow> nat" where
  "status_nat WAITING = 0"
| "status_nat QUEUED = 1"
| "status_nat EXTRACTING = 2"
| "status_nat EXTRACTFAILED = 3"
| "status_nat EXTRACTED = 4"
| "status_nat IMPORTED = 5"
| "status_nat DELETING = 6"
| "status_nat DELETEFAILED = 7"
| "status_nat DELETED = 8"
| "status_nat EXTRACTEDNOTHING = 9"

definition status_code :: "status \<Rightarrow> uint8" where
  "status_code s = of_nat (status_nat s)"

definition all_statuses :: "status list" where
  "all_statuses = [WAITING, QUEUED, EXTRACTING, EXTRACTFAILED, EXTRACTED,
     IMPORTED, DELETING, DELETEFAILED, DELETED, EXTRACTEDNOTHING]"

instantiation status :: linorder
begin

definition less_eq_status :: "status \<Rightarrow> status \<Rightarrow> bool" where
  "less_eq_status a b = (status_nat a \<le> status_nat b)"

definition less_status :: "status \<Rightarrow> status \<Rightarrow> bool" where
  "less_status a b = (status_nat a < status_nat b)"

lemma status_nat_inject: "status_nat a = status_nat b \<Longrightarrow> a = b"
  by (cases a; cases b) simp_all

instance
  by standard (auto simp: less_eq_status_def less_status_def intro: status_nat_inject)

end

lemmas status_order = less_eq_status_def less_status_def

definition status_descs :: "string list" where
  "status_descs = [''Waiting, pre-Queue'', ''Queued'', ''Extracting'', ''Extraction Failed'',
     ''Extracted, Awaiting Import'', ''Imported'', ''Deleting'', ''Delete Failed'', ''Deleted'',
     ''Nothing Extracted'']"

definition status_words :: "string list" where
  "status_words = [''waiting'', ''queued'', ''extracting'', ''extractfailed'', ''extracted'',
     ''imported'', ''deleting'', ''deletefailed'', ''deleted'', ''extractednothing'']"

definition Desc :: "uint8 \<Rightarrow> string" where
  "Desc b = (if b > status_code EXTRACTEDNOTHING then ''Unknown'' else status_descs ! unat b)"

definition String :: "uint8 \<Rightarrow> string" where
  "String b = (if b > status_code EXTRACTEDNOTHING then ''unknown'' else status_words ! unat b)"

definition MarshalText :: "uint8 \<Rightarrow> string" where
  "MarshalText b = String b"

text \<open>
  \<open>UnmarshalText\<close>: a number of at most 8 bits that is a status wins; otherwise the words are
  tried in order. \<open>None\<close> is the error, which leaves the receiver as it was.
\<close>

fun find_status :: "string \<Rightarrow> status list \<Rightarrow> status option" where
  "find_status name [] = None"
| "find_status name (s # ss) =
     (if String (status_code s) = name then Some s else find_status name ss)"

definition UnmarshalText :: "string \<Rightarrow> status option" where
  "UnmarshalText text = (let name = trim_space text in
     case (case parse_uint 8 name of
             Some n \<Rightarrow> if n < length all_statuses then Some (all_statuses ! n) else None
           | None \<Rightarrow> None) of
       Some s \<Rightarrow> Some s
     | None \<Rightarrow> find_status name all_statuses)"

abbreviation status_word :: "status \<Rightarrow> string" where
  "status_word s \<equiv> String (status_code s)"

subsection \<open>The words are those of the statuses\<close>

lemma all_statuses_complete [simp]: "s \<in> set all_statuses"
  by (cases s) (simp_all add: all_statuses_def)

lemma status_code_inject [simp]: "status_code a = status_code b \<longleftrightarrow> a = b"
  by (cases a; cases b) (simp_all add: status_code_def)

lemma status_word_eqs [simp]:
  "status_word WAITING = ''waiting''" "status_word QUEUED = ''queued''"
  "status_word EXTRACTING = ''extracting''" "status_word EXTRACTFAILED = ''extractfailed''"
  "status_word EXTRACTED = ''extracted''" "status_word IMPORTED = ''imported''"
  "status_word DELETING = ''deleting''" "status_word DELETEFAILED = ''deletefailed''"
  "status_word DELETED = ''deleted''" "status_word EXTRACTEDNOTHING = ''extractednothing''"
  by (simp_all add: String_def status_code_def status_words_def)

lemma status_word_inject [simp]: "status_word a = status_word b \<longleftrightarrow> a = b"
  by (cases a; cases b) simp_all

lemma trim_space_id:
  assumes "s \<noteq> []" "\<not> is_space (hd s)" "\<not> is_space (last s)"
  shows "trim_space s = s"
proof -
  have "dropWhile is_space t = t" if "t \<noteq> []" "\<not> is_space (hd t)" for t
    using that by (cases t) auto
  with assms show ?thesis by (simp add: trim_space_def hd_rev)
qed

lemma trim_status_word [simp]: "trim_space (status_word s) = status_word s"
  by (rule trim_space_id; cases s) (simp_all add: is_space_def)

lemma parse_status_word [simp]: "parse_uint 8 (status_word s) = None"
  by (cases s) (simp_all add: parse_uint_def is_digit_def)

lemma find_status_word: "find_status (status_word s) ss = (if s \<in> set ss then Some s else None)"
  by (induction ss) auto

text \<open>
  The word a status is written as reads back as that status: for all ten statuses
  \<open>UnmarshalText\<close> inverts \<open>MarshalText\<close>, so a status survives the history file and the JSON API.
\<close>

theorem status_text_roundtrip: "UnmarshalText (MarshalText (status_code s)) = Some s"
  by (simp add: UnmarshalText_def MarshalText_def find_status_word)

text \<open>
  The parser takes a status number or a status word and nothing else: it succeeds exactly
  when the trimmed text is the decimal form of a number below ten or one of the ten words, so
  the word \<open>unknown\<close>, which \<open>String\<close> gives to any other byte, is refused.
\<close>

theorem unmarshal_accepts_exactly:
  "UnmarshalText t \<noteq> None \<longleftrightarrow>
     (\<exists>n < 10. parse_uint 8 (trim_space t) = Some n) \<or> trim_space t \<in> set status_words"
proof -
  have find: "find_status name all_statuses \<noteq> None \<longleftrightarrow> name \<in> set status_words" for name
    by (simp add: all_statuses_def status_words_def)
  have "length all_statuses = 10" by (simp add: all_statuses_def)
  then show ?thesis
    using find [of "trim_space t"]
    by (auto simp: UnmarshalText_def Let_def split: option.splits if_splits)
qed

end
