(* ===== verification/GoPath.thy ===== *)
theory GoPath
  imports Prelude
begin

text \<open>
  The functions of Go's package \<open>path/filepath\<close> on Unix that the code calls: \<open>Clean\<close>,
  \<open>Base\<close>, \<open>Dir\<close>, \<open>Ext\<close>, \<open>Join\<close>, \<open>IsAbs\<close> and \<open>Rel\<close>, by their documented component-wise
  reading. The lemmas relate the string prefix tests of the code to prefixes of component
  lists: the cleaned form of an absolute path determines its components and back.
\<close>

abbreviation (input) sl :: char where "sl \<equiv> CHR ''/''"

fun split_slash :: "string \<Rightarrow> string list" where
  "split_slash [] = [[]]"
| "split_slash (c # s) = (if c = sl then [] # split_slash s
     else (case split_slash s of [] \<Rightarrow> [[c]] | x # xs \<Rightarrow> (c # x) # xs))"

text \<open>The component stack of \<open>Clean\<close>, top first.\<close>

fun clean_comps :: "bool \<Rightarrow> string list \<Rightarrow> string list \<Rightarrow> string list" where
  "clean_comps rooted acc [] = rev acc"
| "clean_comps rooted acc (c # cs) =
     (if c = '''' \<or> c = ''.'' then clean_comps rooted acc cs
      else if c = ''..'' then
        (case acc of
           [] \<Rightarrow> if rooted then clean_comps rooted [] cs else clean_comps rooted [''..''] cs
         | a # as \<Rightarrow> if a = ''..'' then clean_comps rooted (''..'' # acc) cs
             else clean_comps rooted as cs)
      else clean_comps rooted (c # acc) cs)"

definition is_abs :: "string \<Rightarrow> bool" where
  "is_abs p = prefix ''/'' p"

definition path_comps :: "string \<Rightarrow> string list" where
  "path_comps p = clean_comps (is_abs p) [] (split_slash p)"

definition clean :: "string \<Rightarrow> string" where
  "clean p = (if is_abs p then sl # join ''/'' (path_comps p)
     else if path_comps p = [] then ''.'' else join ''/'' (path_comps p))"

definition up_to_slash :: "string \<Rightarrow> string" where
  "up_to_slash p = rev (dropWhile (\<lambda>c. c \<noteq> sl) (rev p))"

definition after_slash :: "string \<Rightarrow> string" where
  "after_slash p = rev (takeWhile (\<lambda>c. c \<noteq> sl) (rev p))"

definition base :: "string \<Rightarrow> string" where
  "base p = (if p = [] then ''.''
     else let q = trim_right ''/'' p in if q = [] then ''/'' else after_slash q)"

definition dir :: "string \<Rightarrow> string" where
  "dir p = clean (up_to_slash p)"

definition ext :: "string \<Rightarrow> string" where
  "ext p = (let f = after_slash p in
     case last_index f ''.'' of None \<Rightarrow> '''' | Some i \<Rightarrow> drop i f)"

definition path_join :: "string list \<Rightarrow> string" where
  "path_join es = (case dropWhile (\<lambda>e. e = []) es of [] \<Rightarrow> [] | xs \<Rightarrow> clean (join ''/'' xs))"

fun strip_common :: "string list \<Rightarrow> string list \<Rightarrow> string list \<times> string list" where
  "strip_common (b # bs) (t # ts) = (if b = t then strip_common bs ts else (b # bs, t # ts))"
| "strip_common bs ts = (bs, ts)"

text \<open>\<open>filepath.Rel(base, targ)\<close>, \<open>None\<close> for its error.\<close>

definition rel :: "string \<Rightarrow> string \<Rightarrow> string option" where
  "rel b t = (if clean t = clean b then Some ''.''
     else if is_abs b \<noteq> is_abs t then None
     else case strip_common (path_comps b)
            (if path_comps t = [] \<and> \<not> is_abs t then [''.''] else path_comps t) of (bs, ts) \<Rightarrow>
       if bs \<noteq> [] \<and> hd bs = ''..'' then None
       else Some (join ''/'' (replicate (length bs) ''..'' @ ts)))"

subsection \<open>Components of a cleaned path\<close>

definition good_comp :: "string \<Rightarrow> bool" where
  "good_comp c = (c \<noteq> [] \<and> c \<noteq> ''.'' \<and> c \<noteq> ''..'' \<and> sl \<notin> set c)"

lemma split_slash_ne [simp]: "split_slash s \<noteq> []"
  by (induction s) (auto split: list.splits)

lemma split_slash_no_slash: "c \<in> set (split_slash s) \<Longrightarrow> sl \<notin> set c"
proof (induction s arbitrary: c)
  case (Cons a s)
  then show ?case by (cases "split_slash s") (auto split: if_splits)
qed simp

lemma clean_comps_good:
  "\<forall>c \<in> set cs. sl \<notin> set c \<Longrightarrow> \<forall>c \<in> set acc. good_comp c \<Longrightarrow>
   \<forall>c \<in> set (clean_comps True acc cs). good_comp c"
proof (induction cs arbitrary: acc)
  case (Cons c cs)
  from Cons.prems(1) have cs: "\<forall>c \<in> set cs. sl \<notin> set c" by simp
  consider "c = '''' \<or> c = ''.''" | "c = ''..''" | "good_comp c"
    using Cons.prems(1) by (auto simp only: good_comp_def list.set insert_iff)
  then show ?case
  proof cases
    case 1
    then show ?thesis using Cons.IH [OF cs Cons.prems(2)] by auto
  next
    case 2
    show ?thesis
    proof (cases acc)
      case Nil
      then show ?thesis using 2 Cons.IH [OF cs, of "[]"] by simp
    next
      case (Cons a as)
      then have "a \<noteq> ''..''" using Cons.prems(2) by (simp add: good_comp_def)
      then show ?thesis using 2 Cons Cons.IH [OF cs, of as] Cons.prems(2) by simp
    qed
  next
    case 3
    then have "\<not> (c = '''' \<or> c = ''.'')" "c \<noteq> ''..''" by (simp_all add: good_comp_def)
    then have "clean_comps True acc (c # cs) = clean_comps True (c # acc) cs"
      by (simp only: clean_comps.simps if_False)
    moreover have "\<forall>x \<in> set (c # acc). good_comp x"
      using 3 Cons.prems(2) by (metis set_ConsD)
    ultimately show ?thesis using Cons.IH [OF cs] by presburger
  qed
qed simp

lemma path_comps_good: "is_abs p \<Longrightarrow> c \<in> set (path_comps p) \<Longrightarrow> good_comp c"
  using clean_comps_good [of "split_slash p" "[]"] split_slash_no_slash
  by (auto simp: path_comps_def)

lemma clean_comps_id:
  "\<forall>c \<in> set cs. good_comp c \<Longrightarrow> clean_comps r acc cs = rev acc @ cs"
  by (induction cs arbitrary: acc) (auto simp: good_comp_def)

text \<open>The string of a component list below the root, each component after its slash.\<close>

definition slashed :: "string list \<Rightarrow> string" where
  "slashed cs = concat (map (\<lambda>c. sl # c) cs)"

lemma slashed_simps [simp]: "slashed [] = []" "slashed (c # cs) = sl # c @ slashed cs"
  by (simp_all add: slashed_def)

lemma slashed_join: "cs \<noteq> [] \<Longrightarrow> sl # join ''/'' cs = slashed cs"
  by (induction cs rule: induct_list012) auto

lemma clean_abs: "is_abs p \<Longrightarrow>
    clean p = (if path_comps p = [] then ''/'' else slashed (path_comps p))"
  by (simp add: clean_def slashed_join)

lemma slash_head_eq:
  assumes "sl \<notin> set c" "sl \<notin> set d" "e = [] \<or> hd e = sl" "f = [] \<or> hd f = sl"
    "c @ e = d @ f"
  shows "c = d \<and> e = f"
proof -
  have "takeWhile (\<lambda>x. x \<noteq> sl) (c @ e) = c" if "sl \<notin> set c" "e = [] \<or> hd e = sl" for c e
    using that by (cases e) (auto simp: takeWhile_append takeWhile_eq_all_conv)
  with assms show ?thesis by (metis append_same_eq same_append_eq)
qed

lemma slashed_head: "slashed cs = [] \<or> hd (slashed cs) = sl"
  by (cases cs) auto

lemma prefix_slashed:
  assumes "\<forall>c \<in> set xs. sl \<notin> set c" "\<forall>c \<in> set ys. sl \<notin> set c \<and> c \<noteq> []"
  shows "prefix (slashed xs @ ''/'') (slashed ys) \<longleftrightarrow> strict_prefix xs ys"
  using assms
proof (induction xs arbitrary: ys)
  case Nil
  then show ?case by (cases ys) auto
next
  case (Cons x xs)
  show ?case
  proof (cases ys)
    case (Cons y zs)
    have x: "sl \<notin> set x" and y: "sl \<notin> set y" using Cons.prems Cons by auto
    have hd: "slashed xs @ sl # r \<noteq> [] \<and> hd (slashed xs @ sl # r) = sl" for r
      by (cases xs) auto
    have "prefix (x @ slashed xs @ ''/'') (y @ slashed zs) \<longleftrightarrow>
        x = y \<and> prefix (slashed xs @ ''/'') (slashed zs)"
    proof
      assume "prefix (x @ slashed xs @ ''/'') (y @ slashed zs)"
      then obtain r where "y @ slashed zs = x @ (slashed xs @ sl # r)"
        by (auto simp: prefix_def)
      from slash_head_eq [OF y x slashed_head _ this] hd
      show "x = y \<and> prefix (slashed xs @ ''/'') (slashed zs)"
        by (auto simp: prefix_def)
    qed auto
    with Cons Cons.prems Cons.IH [of zs] show ?thesis
      by (simp add: strict_prefix_def) blast
  qed simp
qed

lemma slashed_inject:
  assumes "\<forall>c \<in> set xs. sl \<notin> set c \<and> c \<noteq> []" "\<forall>c \<in> set ys. sl \<notin> set c \<and> c \<noteq> []"
  shows "slashed xs = slashed ys \<longleftrightarrow> xs = ys"
  using assms
proof (induction xs arbitrary: ys)
  case Nil
  then show ?case by (cases ys) auto
next
  case (Cons x xs)
  then show ?case
  proof (cases ys)
    case (Cons y zs)
    with Cons.prems Cons.IH [of zs] show ?thesis
      using slash_head_eq [OF _ _ slashed_head slashed_head, of x y xs zs] by auto
  qed simp
qed

lemma comps_ok: "is_abs p \<Longrightarrow> \<forall>c \<in> set (path_comps p). sl \<notin> set c \<and> c \<noteq> []"
  using path_comps_good by (auto simp: good_comp_def)

lemma clean_eq_iff:
  assumes "is_abs p" "is_abs q"
  shows "clean p = clean q \<longleftrightarrow> path_comps p = path_comps q"
proof -
  have root: "slashed cs \<noteq> ''/''" if "\<forall>c \<in> set cs. sl \<notin> set c \<and> c \<noteq> []" for cs
    using that by (cases cs) auto
  show ?thesis
    using assms comps_ok [of p] comps_ok [of q] slashed_inject [of "path_comps p" "path_comps q"]
      root [of "path_comps p"] root [of "path_comps q"]
    by (auto simp: clean_abs)
qed

lemma split_slashed:
  "\<forall>c \<in> set cs. sl \<notin> set c \<Longrightarrow> split_slash (slashed cs) = [] # cs"
proof (induction cs)
  case (Cons c cs)
  have "split_slash (d @ slashed cs) = d # cs" if "sl \<notin> set d" for d
    using that Cons by (induction d) auto
  with Cons.prems show ?case by simp
qed simp

lemma is_abs_clean [simp]: "is_abs p \<Longrightarrow> is_abs (clean p)"
  by (simp add: clean_def is_abs_def)

lemma path_comps_clean [simp]:
  assumes "is_abs p"
  shows "path_comps (clean p) = path_comps p"
proof (cases "path_comps p = []")
  case True
  then show ?thesis
    using assms by (simp add: clean_abs) (simp add: path_comps_def is_abs_def)
next
  case False
  have "path_comps (slashed (path_comps p)) = clean_comps True [] ([] # path_comps p)"
    using False assms comps_ok [OF assms] split_slashed [of "path_comps p"]
    by (cases "path_comps p") (auto simp: path_comps_def is_abs_def)
  also have "\<dots> = path_comps p"
    using path_comps_good [OF assms] by (simp add: clean_comps_id)
  finally show ?thesis using False assms by (simp add: clean_abs)
qed

lemma clean_idem [simp]: "is_abs p \<Longrightarrow> clean (clean p) = clean p"
  by (simp add: clean_eq_iff)

subsection \<open>Relative paths\<close>

lemma strip_common_prefix:
  "strip_common bs ts = (bs', ts') \<Longrightarrow> \<exists>p. bs = p @ bs' \<and> ts = p @ ts'"
proof (induction bs ts rule: strip_common.induct)
  case (1 b bs t ts)
  then show ?case
  proof (cases "b = t")
    case True
    with 1 obtain p where "bs = p @ bs' \<and> ts = p @ ts'" by auto
    with True have "b # bs = (b # p) @ bs' \<and> t # ts = (b # p) @ ts'" by simp
    then show ?thesis by blast
  qed auto
qed auto

lemma strip_common_append [simp]: "strip_common bs (bs @ ts) = ([], ts)"
  by (induction bs) auto

lemma rel_below:
  assumes "is_abs b" "is_abs t" "path_comps t = path_comps b @ ts"
  shows "rel b t = Some (if ts = [] then ''.'' else join ''/'' ts)"
  using assms by (auto simp: rel_def clean_eq_iff)

lemma rel_not_below:
  assumes "is_abs b" "is_abs t" "\<not> prefix (path_comps b) (path_comps t)"
  shows "\<exists>r. rel b t = Some r \<and> (r = ''..'' \<or> prefix ''../'' r)"
proof -
  obtain bs ts where s: "strip_common (path_comps b) (path_comps t) = (bs, ts)" by force
  obtain p where p: "path_comps b = p @ bs" "path_comps t = p @ ts"
    using strip_common_prefix [OF s] by blast
  have "bs \<noteq> []" using p assms(3) by auto
  then obtain x xs where bs: "bs = x # xs" by (cases bs) auto
  have "good_comp x" using path_comps_good [OF assms(1), of x] p bs by simp
  moreover have "clean t \<noteq> clean b" using assms p by (auto simp: clean_eq_iff)
  ultimately have "rel b t = Some (join ''/'' (''..'' # replicate (length xs) ''..'' @ ts))"
    using assms s bs by (auto simp: rel_def good_comp_def)
  then show ?thesis by (cases "replicate (length xs) ''..'' @ ts") auto
qed

lemma join_good_head:
  assumes "ts \<noteq> []" "\<forall>c \<in> set ts. good_comp c"
  shows "join ''/'' ts \<noteq> ''..'' \<and> join ''/'' ts \<noteq> ''.'' \<and> \<not> prefix ''../'' (join ''/'' ts)"
proof -
  obtain c cs where ts: "ts = c # cs" using assms(1) by (cases ts) auto
  have c: "good_comp c" using assms ts by simp
  then have j: "join ''/'' ts = c @ slashed cs"
    using ts slashed_join [of cs] by (cases cs) auto
  have "\<forall>x \<in> set c. x \<noteq> sl" using c by (auto simp: good_comp_def)
  moreover have "takeWhile (\<lambda>x. x \<noteq> sl) (slashed cs) = []" by (cases cs) simp_all
  ultimately have tw: "takeWhile (\<lambda>x. x \<noteq> sl) (c @ slashed cs) = c"
    by (simp add: takeWhile_append2)
  have "c \<noteq> ''.''" "c \<noteq> ''..''" using c by (simp_all add: good_comp_def)
  then have ne: "c @ slashed cs \<noteq> d"
    if "takeWhile (\<lambda>x. x \<noteq> sl) d = ''.'' \<or> takeWhile (\<lambda>x. x \<noteq> sl) d = ''..''" for d
    using that tw by metis
  have "c @ slashed cs \<noteq> ''../'' @ r" for r by (rule ne) simp
  moreover have "c @ slashed cs \<noteq> ''..''" "c @ slashed cs \<noteq> ''.''" by (rule ne, simp)+
  ultimately show ?thesis unfolding j prefix_def by blast
qed

end
