(* ===== verification/Model.thy ===== *)
theory Model
  imports Status GoPath
begin

text \<open>
  The data of the daemon: \<open>pkg/extract\<close> (\<open>Extract\<close>, \<open>Progress\<close>), \<open>pkg/folders/config.go\<close>
  (\<open>FolderConfig\<close>, \<open>Folder\<close>, \<open>Event\<close>) and \<open>pkg/unpackerr/historyfile.go\<close> (\<open>HistoryRecord\<close>,
  \<open>QueueItem\<close>), one field per field of the source. A pointer that may be nil is an option; a
  pointer whose identity the code compares carries an address (\<open>e_addr\<close>, \<open>xf_addr\<close>).

  The record \<open>env\<close> collects what the code calls and this repository does not contain: the
  archive library \<open>golift.io/xtractr\<close>, the JSON form of untyped metadata, the text form of a
  duration, and IEEE arithmetic on \<open>float64\<close> (a \<open>float64\<close> is its bit pattern). Every definition
  that uses one of them takes the record as its first argument.
\<close>

subsection \<open>The archive library's data\<close>

type_synonym archive_list = "(string \<times> string list) list"

datatype rerror = NoCompressedFiles string | LimitError string | OtherError string

fun err_text :: "rerror \<Rightarrow> string" where
  "err_text (NoCompressedFiles m) = m"
| "err_text (LimitError m) = m"
| "err_text (OtherError m) = m"

record response =
  rs_Name :: string
  rs_Path :: string
  rs_Done :: bool
  rs_Error :: "rerror option"
  rs_Started :: instant
  rs_Elapsed :: duration
  rs_Archives :: archive_list
  rs_Extras :: archive_list
  rs_NewFiles :: "string list"
  rs_Size :: uint64
  rs_Queued :: int
  rs_Output :: string
  rs_Refused :: "string list"
  rs_FinalDests :: "(string \<times> string) list"

definition empty_response :: response where
  "empty_response = \<lparr>rs_Name = '''', rs_Path = '''', rs_Done = False, rs_Error = None,
     rs_Started = zeroTime, rs_Elapsed = 0, rs_Archives = [], rs_Extras = [], rs_NewFiles = [],
     rs_Size = 0, rs_Queued = 0, rs_Output = '''', rs_Refused = [], rs_FinalDests = []\<rparr>"

record xfile =
  xf_addr :: nat
  xf_FilePath :: string

record xprogress =
  xp_Wrote :: uint64
  xp_Total :: uint64
  xp_Read :: uint64
  xp_Compressed :: uint64
  xp_Files :: int
  xp_Count :: int
  xp_XFile :: "xfile option"

subsection \<open>Extracts\<close>

record progress =
  pg_Progress :: "xprogress option"
  pg_Archives :: int
  pg_Extracted :: int
  pg_SpeedBps :: uint64
  pg_AvgSpeedBps :: uint64
  pg_ETA :: instant
  pg_startedAt :: instant
  pg_sampleAt :: instant
  pg_sampleBytes :: uint64
  pg_doneBytes :: uint64

definition new_progress :: progress where
  "new_progress = \<lparr>pg_Progress = None, pg_Archives = 0, pg_Extracted = 0, pg_SpeedBps = 0,
     pg_AvgSpeedBps = 0, pg_ETA = zeroTime, pg_startedAt = zeroTime, pg_sampleAt = zeroTime,
     pg_sampleBytes = 0, pg_doneBytes = 0\<rparr>"

datatype idval = IdStr string | IdInt int

type_synonym prefiles = "(string \<times> nat option) list"

record extract_item =
  e_addr :: nat
  e_Syncthing :: bool
  e_SplitFlac :: bool
  e_APEFormat :: string
  e_APECompression :: int
  e_Retries :: uint64
  e_HookFail :: uint64
  e_HookMessages :: "(string \<times> string) list"
  e_Path :: string
  e_OutputPath :: string
  e_App :: string
  e_Name :: string
  e_URL :: string
  e_Updated :: instant
  e_DeleteDelay :: duration
  e_DeleteOrig :: bool
  e_Status :: status
  e_Due :: instant
  e_DueKind :: string
  e_IDs :: "(string \<times> idval) list"
  e_Resp :: "response option"
  e_XProg :: "progress option"
  e_Note :: string
  e_Event :: string
  e_PreFiles :: "prefiles option"
  e_NoRetry :: bool
  e_MaxBytes :: uint64

text \<open>The zero value of \<open>Extract\<close>, which composite literals start from.\<close>

definition zero_extract :: extract_item where
  "zero_extract = \<lparr>e_addr = 0, e_Syncthing = False, e_SplitFlac = False, e_APEFormat = '''',
     e_APECompression = 0, e_Retries = 0, e_HookFail = 0, e_HookMessages = [], e_Path = '''',
     e_OutputPath = '''', e_App = '''', e_Name = '''', e_URL = '''', e_Updated = zeroTime,
     e_DeleteDelay = 0, e_DeleteOrig = False, e_Status = WAITING, e_Due = zeroTime,
     e_DueKind = '''', e_IDs = [], e_Resp = None, e_XProg = None, e_Note = '''', e_Event = '''',
     e_PreFiles = None, e_NoRetry = False, e_MaxBytes = 0\<rparr>"

abbreviation FolderString :: string where "FolderString \<equiv> ''Folder''"
abbreviation Sonarr :: string where "Sonarr \<equiv> ''Sonarr''"
abbreviation Radarr :: string where "Radarr \<equiv> ''Radarr''"
abbreviation Lidarr :: string where "Lidarr \<equiv> ''Lidarr''"
abbreviation Readarr :: string where "Readarr \<equiv> ''Readarr''"

definition Label :: "extract_item \<Rightarrow> string" where
  "Label e = (let name = trim_space (e_Name e) in if name \<noteq> '''' then name else e_App e)"

subsection \<open>Watched folders\<close>

record folder_config =
  fc_DeleteOrig :: bool
  fc_DeleteFiles :: bool
  fc_DisableLog :: bool
  fc_MoveBack :: bool
  fc_DeleteAfter :: "duration option"
  fc_ExtractPath :: string
  fc_ExtractISOs :: bool
  fc_PreserveExec :: bool
  fc_DisableRecursion :: bool
  fc_MaxNested :: int
  fc_ExtrasMaxDepth :: int
  fc_AllowSymlinks :: bool
  fc_MaxBytes :: string
  fc_MaxFiles :: int
  fc_MaxRatio :: f64
  fc_ResolvedMaxBytes :: uint64
  fc_ExcludePaths :: "string list"
  fc_Interval :: duration
  fc_WaitExtensions :: "string list"
  fc_SkipEmpty :: bool
  fc_Path :: string

definition zero_folder_config :: folder_config where
  "zero_folder_config = \<lparr>fc_DeleteOrig = False, fc_DeleteFiles = False, fc_DisableLog = False,
     fc_MoveBack = False, fc_DeleteAfter = None, fc_ExtractPath = '''', fc_ExtractISOs = False,
     fc_PreserveExec = False, fc_DisableRecursion = False, fc_MaxNested = 0,
     fc_ExtrasMaxDepth = 0, fc_AllowSymlinks = False, fc_MaxBytes = '''', fc_MaxFiles = 0,
     fc_MaxRatio = 0, fc_ResolvedMaxBytes = 0, fc_ExcludePaths = [], fc_Interval = 0,
     fc_WaitExtensions = [], fc_SkipEmpty = False, fc_Path = ''''\<rparr>"

record folder =
  fo_Updated :: instant
  fo_WaitFile :: string
  fo_Status :: status
  fo_Config :: "folder_config option"
  fo_Files :: "string list"
  fo_Retries :: uint64
  fo_Archives :: archive_list
  fo_PreFiles :: "prefiles option"
  fo_NoRetry :: bool

definition zero_folder :: folder where
  "zero_folder = \<lparr>fo_Updated = zeroTime, fo_WaitFile = '''', fo_Status = WAITING,
     fo_Config = None, fo_Files = [], fo_Retries = 0, fo_Archives = [], fo_PreFiles = None,
     fo_NoRetry = False\<rparr>"

record event =
  ev_Config :: "folder_config option"
  ev_Name :: string
  ev_File :: string
  ev_Op :: string

abbreviation KindPolling :: string where "KindPolling \<equiv> ''polling''"
abbreviation KindFSNotify :: string where "KindFSNotify \<equiv> ''fsnotify''"

text \<open>\<open>(*Event).Kind\<close>: the first letter of the operation.\<close>

definition Kind :: "event \<Rightarrow> string" where
  "Kind e = (case ev_Op e of [] \<Rightarrow> ''''
     | c # _ \<Rightarrow> if c = CHR ''w'' then KindPolling else if c = CHR ''f'' then KindFSNotify else '''')"

abbreviation (input) MinimumPollInterval :: duration where "MinimumPollInterval \<equiv> 5000000"

definition UsesPoller :: "folder_config option \<Rightarrow> bool" where
  "UsesPoller c = (case c of None \<Rightarrow> False | Some cfg \<Rightarrow> fc_Interval cfg \<ge> MinimumPollInterval)"

subsection \<open>Durations as text\<close>

text \<open>\<open>Duration.Round(m)\<close> for positive \<open>m\<close>: half away from zero, \<open>int64\<close> overflow kept at the ends.\<close>

definition dur_round :: "duration \<Rightarrow> duration \<Rightarrow> duration" where
  "dur_round d m = (if d < 0
     then (let r = (- d) mod m in if r + r < m then d + r
           else if d - m + r \<ge> minDuration then d - m + r else minDuration)
     else (let r = d mod m in if r + r < m then d - r
           else if d + m - r \<le> maxDuration then d + m - r else maxDuration))"

subsection \<open>History rows and queue rows\<close>

record history_record =
  h_ID :: string
  h_App :: string
  h_Kind :: string
  h_Title :: string
  h_Reason :: string
  h_URL :: string
  h_Path :: string
  h_OutputPath :: string
  h_Status :: status
  h_Retries :: uint64
  h_HookFail :: uint64
  h_HookMessages :: "(string \<times> string) list"
  h_Started :: instant
  h_Updated :: instant
  h_Finished :: instant
  h_Archives :: int
  h_Files :: int
  h_Bytes :: uint64
  h_Ratio :: f64
  h_Elapsed :: string
  h_Error :: string
  h_Progress :: string
  h_DeleteOrig :: bool
  h_DeleteDelay :: string
  h_DeleteAt :: "instant option"
  h_Syncthing :: bool
  h_SplitFlac :: bool
  h_APEFormat :: string
  h_APECompression :: int
  h_MaxBytes :: uint64
  h_NoRetry :: bool
  h_NewFiles :: "string list"
  h_OrigFiles :: "string list"
  h_ExtraFiles :: "string list"
  h_PreFiles :: "string list"
  h_Forgotten :: bool
  h_IDs :: "(string \<times> idval) list"
  h_Event :: string
  h_Queue :: int
  h_Output :: string

record queue_item =
  q_ID :: string
  q_App :: string
  q_Title :: string
  q_Reason :: string
  q_URL :: string
  q_Path :: string
  q_OutputPath :: string
  q_Status :: status
  q_Retries :: uint64
  q_HookFail :: uint64
  q_Updated :: instant
  q_Started :: instant
  q_Elapsed :: string
  q_Progress :: string
  q_Error :: string
  q_Percent :: f64
  q_Wrote :: uint64
  q_Total :: uint64
  q_Read :: uint64
  q_Compressed :: uint64
  q_Files :: int
  q_Count :: int
  q_Archives :: int
  q_Extracted :: int
  q_Archive :: string
  q_ArchiveFiles :: "string list"
  q_NewFiles :: "string list"
  q_SpeedBps :: uint64
  q_AvgSpeedBps :: uint64
  q_ETA :: instant
  q_Due :: instant
  q_DueKind :: string
  q_Note :: string
  q_Event :: string
  q_Bytes :: uint64
  q_Ratio :: f64
  q_Queue :: int
  q_Output :: string
  q_Kind :: string
  q_IDs :: "(string \<times> idval) list"
  q_OrigFiles :: "string list"
  q_SpeedBytesPerSecond :: uint64
  q_ETASeconds :: int
  q_DeleteAt :: "instant option"

subsection \<open>Code that is not in the repository\<close>

record env =
  isArchive :: "string \<Rightarrow> bool"
  archiveCount :: "archive_list \<Rightarrow> int"
  archiveList :: "archive_list \<Rightarrow> string list"
  durString :: "duration \<Rightarrow> string"
  parseDuration :: "string \<Rightarrow> duration option"
  progText :: "xprogress \<Rightarrow> progress \<Rightarrow> string \<Rightarrow> string"
  progPercent :: "xprogress \<Rightarrow> f64"
  f64_div :: "uint64 \<Rightarrow> uint64 \<Rightarrow> f64"
  bytesRate :: "uint64 \<Rightarrow> duration \<Rightarrow> uint64"
  etaLeft :: "uint64 \<Rightarrow> uint64 \<Rightarrow> duration"
  decIDs :: "(string \<times> idval) list \<Rightarrow> (string \<times> idval) list"

text \<open>
  A line of the history file is the JSON text of a row, represented by that row, or any other
  text. Decoding gives the row back but for the untyped metadata map \<open>IDs\<close>, whose numbers come
  back as floating point: \<open>decIDs\<close> is what the codec makes of it.
\<close>

datatype hline = JRow history_record | JBad string

text \<open>
  The documented behaviour the theorems rely on, as named hypotheses. \<open>dur_ok\<close>:
  \<open>time.ParseDuration\<close> reads back what \<open>Duration.String\<close> wrote, and the text of a duration is not
  empty. \<open>single_list\<close>: an archive list with one key lists the paths of that key.
\<close>

definition dur_ok :: "env \<Rightarrow> bool" where
  "dur_ok E \<longleftrightarrow> (\<forall>d. minDuration \<le> d \<and> d \<le> maxDuration \<longrightarrow>
     parseDuration E (durString E d) = Some d \<and> durString E d \<noteq> '''')"

definition single_list :: "env \<Rightarrow> bool" where
  "single_list E \<longleftrightarrow> (\<forall>k xs. archiveList E [(k, xs)] = xs) \<and> archiveList E [] = []"

end
