(* ===== verification/Files.thy ===== *)
theory Files
  imports Model
begin

text \<open>
  The file system the code reads and changes through the packages \<open>os\<close> and \<open>path/filepath\<close>:
  a map from cleaned paths to files and directories with their inode numbers, and the paths at
  which every call fails with an error that is not "does not exist". There are no symbolic
  links, so \<open>Stat\<close> and \<open>Lstat\<close> agree.
\<close>

datatype fnode = FileN nat | DirN nat

datatype fserr = NotExist | OtherErr

record fsys =
  fs_nodes :: "(string \<times> fnode) list"
  fs_denied :: "string list"

definition is_dir :: "fnode \<Rightarrow> bool" where
  "is_dir n = (case n of DirN _ \<Rightarrow> True | FileN _ \<Rightarrow> False)"

definition inode :: "fnode \<Rightarrow> nat" where
  "inode n = (case n of DirN i \<Rightarrow> i | FileN i \<Rightarrow> i)"

definition os_stat :: "fsys \<Rightarrow> string \<Rightarrow> fserr + fnode" where
  "os_stat F p = (if clean p \<in> set (fs_denied F) then Inl OtherErr
     else case aget (fs_nodes F) (clean p) of None \<Rightarrow> Inl NotExist | Some n \<Rightarrow> Inr n)"

text \<open>The paths at or below a path.\<close>

definition below :: "string \<Rightarrow> string \<Rightarrow> bool" where
  "below p k = (k = clean p \<or> prefix (clean p @ ''/'') k)"

definition children :: "fsys \<Rightarrow> string \<Rightarrow> (string \<times> fnode) list" where
  "children F p = sort_key fst (map (\<lambda>(k, n). (base k, n))
     (filter (\<lambda>(k, n). k \<noteq> clean p \<and> dir k = clean p) (fs_nodes F)))"

text \<open>\<open>os.ReadDir\<close>: the entries in the order of their names.\<close>

definition read_dir :: "fsys \<Rightarrow> string \<Rightarrow> fserr + (string \<times> fnode) list" where
  "read_dir F p = (case os_stat F p of Inl e \<Rightarrow> Inl e
     | Inr n \<Rightarrow> if is_dir n then Inr (children F p) else Inl OtherErr)"

text \<open>
  \<open>os.Remove\<close> fails on a missing path and on a directory that is not empty. \<open>os.RemoveAll\<close>
  removes what it can: every node at or below the path that has no failing node at or below it.
\<close>

definition os_remove :: "fsys \<Rightarrow> string \<Rightarrow> fserr option \<times> fsys" where
  "os_remove F p = (case os_stat F p of Inl e \<Rightarrow> (Some e, F)
     | Inr n \<Rightarrow> if is_dir n \<and> children F p \<noteq> [] then (Some OtherErr, F)
        else (None, F\<lparr>fs_nodes := adel (clean p) (fs_nodes F)\<rparr>))"

definition removable :: "fsys \<Rightarrow> string \<Rightarrow> string \<Rightarrow> bool" where
  "removable F p k = (below p k \<and> \<not> list_ex (below k) (fs_denied F))"

definition os_remove_all :: "fsys \<Rightarrow> string \<Rightarrow> fserr option \<times> fsys" where
  "os_remove_all F p = (if list_ex (below p) (fs_denied F) then Some OtherErr else None,
     F\<lparr>fs_nodes := filter (\<lambda>(k, n). \<not> removable F p k) (fs_nodes F)\<rparr>)"

text \<open>
  \<open>os.Rename\<close> moves a node and everything below it; a file at the target is replaced, a
  directory at the target is an error.
\<close>

definition os_rename :: "fsys \<Rightarrow> string \<Rightarrow> string \<Rightarrow> fserr option \<times> fsys" where
  "os_rename F a b = (case os_stat F a of Inl e \<Rightarrow> (Some e, F)
     | Inr n \<Rightarrow> (case os_stat F b of
          Inl OtherErr \<Rightarrow> (Some OtherErr, F)
        | Inr (DirN i) \<Rightarrow> (Some OtherErr, F)
        | _ \<Rightarrow> (None, F\<lparr>fs_nodes := map (\<lambda>(k, n). (if below a k
              then clean b @ drop (length (clean a)) k else k, n))
            (filter (\<lambda>(k, n). k \<noteq> clean b) (fs_nodes F))\<rparr>)))"

subsection \<open>What the calls leave alone\<close>

lemma os_stat_Inr: "os_stat F p = Inr n \<longleftrightarrow>
    clean p \<notin> set (fs_denied F) \<and> aget (fs_nodes F) (clean p) = Some n"
  by (auto simp: os_stat_def split: option.splits)

lemma aget_filter_keys:
  "aget (filter (\<lambda>(k, v). P k) m) k = (if P k then aget m k else None)"
  by (induction m) auto

lemma os_remove_other:
  assumes "k \<noteq> clean p"
  shows "aget (fs_nodes (snd (os_remove F p))) k = aget (fs_nodes F) k"
  using assms by (auto simp: os_remove_def split: sum.splits)

lemma os_remove_all_other:
  assumes "\<not> below p k"
  shows "aget (fs_nodes (snd (os_remove_all F p))) k = aget (fs_nodes F) k"
  using assms by (simp add: os_remove_all_def aget_filter_keys removable_def)

lemma os_remove_gone: "fst (os_remove F p) = None \<Longrightarrow> aget (fs_nodes (snd (os_remove F p))) (clean p) = None"
  by (auto simp: os_remove_def split: sum.splits if_splits)

lemma os_remove_all_gone:
  "fst (os_remove_all F p) = None \<Longrightarrow> below p k \<Longrightarrow> below k = below p \<or> \<not> list_ex (below k) (fs_denied F)
   \<Longrightarrow> aget (fs_nodes (snd (os_remove_all F p))) k = None"
  by (auto simp: os_remove_all_def aget_filter_keys removable_def split: if_splits)

lemma below_self [simp]: "below p (clean p)"
  by (simp add: below_def)

lemma denied_remove [simp, frame_simps]: "fs_denied (snd (os_remove F p)) = fs_denied F"
  by (auto simp: os_remove_def split: sum.splits)

lemma denied_remove_all [simp, frame_simps]: "fs_denied (snd (os_remove_all F p)) = fs_denied F"
  by (simp add: os_remove_all_def)

lemma denied_rename [simp, frame_simps]: "fs_denied (snd (os_rename F a b)) = fs_denied F"
  by (auto simp: os_rename_def split: sum.splits fserr.splits fnode.splits)

end
