(* ===== verification/Paths.thy ===== *)
theory Paths
  imports Files
begin

text \<open>
  Which path lies in which directory: \<open>pkg/folders/path.go\<close>, \<open>wait.go\<close>, \<open>validate.go\<close>, and the
  containment tests and longest-match loops of \<open>watch.go\<close>, \<open>recovery.go\<close>, \<open>historyrestore.go\<close>,
  \<open>folder.go\<close> and \<open>remnants.go\<close>. The locale \<open>containment\<close> is what the longest-match loops need
  of a containment test; each of the tests of the code provides it.
\<close>

subsection \<open>Containment by string prefix\<close>

definition pathContains :: "string \<Rightarrow> string \<Rightarrow> bool \<Rightarrow> bool" where
  "pathContains watch item foldc = (
     let watch = clean watch;
         item = clean item;
         watch = (if foldc then to_lower watch else watch);
         item = (if foldc then to_lower item else item)
     in if item = watch then True
        else if has_suffix watch ''/'' then has_prefix item watch
        else has_prefix item (watch @ ''/''))"

definition PathContains :: "string \<Rightarrow> string \<Rightarrow> bool" where
  "PathContains watch item = pathContains watch item False"

definition IsExcludedPath :: "folder_config \<Rightarrow> string \<Rightarrow> bool" where
  "IsExcludedPath c path = (if fc_ExcludePaths c = [] \<or> path = '''' then False
     else list_ex (\<lambda>exclude. PathContains exclude path) (fc_ExcludePaths c))"

definition underFinalDests :: "string \<Rightarrow> (string \<times> string) list \<Rightarrow> bool" where
  "underFinalDests path dests = (if path = '''' \<or> dests = [] then False
     else let path = clean path in
       list_ex (\<lambda>(_, dest). dest \<noteq> '''' \<and>
         (let dest = clean dest in path = dest \<or> has_prefix path (dest @ ''/''))) dests)"

subsection \<open>Containment by relative path\<close>

definition pathWithin :: "string \<Rightarrow> string \<Rightarrow> bool" where
  "pathWithin path root = (case rel root path of None \<Rightarrow> False
     | Some r \<Rightarrow> r \<noteq> ''.'' \<and> r \<noteq> ''..'' \<and> \<not> has_prefix r ''../'')"

definition isDescendantPath :: "string \<Rightarrow> string \<Rightarrow> bool" where
  "isDescendantPath root path = (case rel (clean root) (clean path) of None \<Rightarrow> False
     | Some r \<Rightarrow> r \<noteq> ''.'' \<and> r \<noteq> ''..'' \<and> \<not> has_prefix r ''../'')"

definition isWithinPath :: "string \<Rightarrow> string \<Rightarrow> bool" where
  "isWithinPath root path = (case rel (clean root) (clean path) of None \<Rightarrow> False
     | Some r \<Rightarrow> r \<noteq> ''..'' \<and> \<not> has_prefix r ''../'')"

subsection \<open>All tests read the components\<close>

lemma suffix_slash_clean:
  assumes "is_abs w"
  shows "has_suffix (clean w) ''/'' \<longleftrightarrow> path_comps w = []"
proof (cases "path_comps w" rule: rev_cases)
  case Nil
  then show ?thesis using assms by (simp add: clean_abs)
next
  case (snoc cs c)
  have "good_comp c" using path_comps_good [OF assms, of c] snoc by simp
  then have "c \<noteq> []" "last c \<noteq> sl" by (auto simp: good_comp_def) (metis last_in_set)
  moreover have "slashed (path_comps w) = slashed cs @ sl # c"
    using snoc by (simp add: slashed_def)
  ultimately have "last (clean w) \<noteq> sl" "clean w \<noteq> []"
    using assms snoc by (auto simp: clean_abs)
  then have "\<not> has_suffix (clean w) ''/''"
    by (metis last_snoc suffixE)
  with snoc show ?thesis by simp
qed

lemma prefix_slash_clean:
  assumes "is_abs w" "is_abs p" "path_comps w \<noteq> []"
  shows "has_prefix (clean p) (clean w @ ''/'') \<longleftrightarrow> strict_prefix (path_comps w) (path_comps p)"
proof -
  have w: "\<forall>c \<in> set (path_comps w). sl \<notin> set c" using comps_ok [OF assms(1)] by simp
  show ?thesis
  proof (cases "path_comps p = []")
    case True
    then have "clean p = ''/''" using assms(2) by (simp add: clean_abs)
    moreover have "\<exists>a b s. clean w = a # b # s"
      using assms comps_ok [OF assms(1)] by (cases "path_comps w") (auto simp: clean_abs neq_Nil_conv)
    ultimately show ?thesis using True by auto
  next
    case False
    then show ?thesis
      using assms prefix_slashed [OF w comps_ok [OF assms(2)]] by (simp add: clean_abs)
  qed
qed

lemma PathContains_comps:
  assumes "is_abs w" "is_abs p"
  shows "PathContains w p \<longleftrightarrow> prefix (path_comps w) (path_comps p)"
proof (cases "path_comps w = []")
  case True
  moreover have "has_prefix (clean p) ''/''" using is_abs_clean [OF assms(2)] by (simp add: is_abs_def)
  ultimately show ?thesis
    using assms by (simp add: PathContains_def pathContains_def clean_abs Let_def)
next
  case False
  then show ?thesis
    using assms suffix_slash_clean [of w] prefix_slash_clean [of w p]
    by (auto simp: PathContains_def pathContains_def Let_def clean_eq_iff strict_prefix_def)
qed

lemma rel_cases:
  assumes "is_abs b" "is_abs t"
  obtains (same) "path_comps t = path_comps b" "rel b t = Some ''.''"
  | (below) r where "strict_prefix (path_comps b) (path_comps t)" "rel b t = Some r"
      "r \<noteq> ''.''" "r \<noteq> ''..''" "\<not> has_prefix r ''../''"
  | (outside) r where "\<not> prefix (path_comps b) (path_comps t)" "rel b t = Some r"
      "r = ''..'' \<or> has_prefix r ''../''"
proof (cases "prefix (path_comps b) (path_comps t)")
  case True
  then obtain ts where ts: "path_comps t = path_comps b @ ts" by (auto simp: prefix_def)
  have good: "\<forall>c \<in> set ts. good_comp c" using path_comps_good [OF assms(2)] ts by auto
  show thesis
  proof (cases "ts = []")
    case True
    then show thesis using same rel_below [OF assms ts] ts by simp
  next
    case False
    then show thesis
      using below rel_below [OF assms ts] join_good_head [OF False good] ts
      by (simp add: strict_prefix_def)
  qed
next
  case False
  then show thesis using outside rel_not_below [OF assms] by blast
qed

lemma pathWithin_comps:
  assumes "is_abs r" "is_abs p"
  shows "pathWithin p r \<longleftrightarrow> strict_prefix (path_comps r) (path_comps p)"
  by (rule rel_cases [OF assms]) (auto simp: pathWithin_def strict_prefix_def)

lemma isWithinPath_comps:
  assumes "is_abs r" "is_abs p"
  shows "isWithinPath r p \<longleftrightarrow> prefix (path_comps r) (path_comps p)"
  by (rule rel_cases [of "clean r" "clean p"])
     (use assms in \<open>auto simp: isWithinPath_def strict_prefix_def\<close>)

lemma isDescendantPath_comps:
  assumes "is_abs r" "is_abs p"
  shows "isDescendantPath r p \<longleftrightarrow> strict_prefix (path_comps r) (path_comps p)"
  by (rule rel_cases [of "clean r" "clean p"])
     (use assms in \<open>auto simp: isDescendantPath_def strict_prefix_def\<close>)

text \<open>
  The three packages agree on what lies in a directory: on absolute paths the string test
  \<open>PathContains\<close> of the watcher, the \<open>Rel\<close> test \<open>isWithinPath\<close> of the event filter, and the strict
  tests of recovery and of directory removal differ only on the directory itself. No sibling
  that shares a name prefix (\<open>/data/in2\<close> under \<open>/data/in\<close>) passes any of them.
\<close>

theorem containment_tests_agree:
  assumes "is_abs w" "is_abs p"
  shows "isWithinPath w p = PathContains w p
    \<and> pathWithin p w = (PathContains w p \<and> clean w \<noteq> clean p)
    \<and> isDescendantPath w p = pathWithin p w
    \<and> PathContains w p = prefix (path_comps w) (path_comps p)"
  using assms
  by (auto simp: PathContains_comps isWithinPath_comps pathWithin_comps isDescendantPath_comps
      clean_eq_iff strict_prefix_def)

theorem containment_tests_agree_witness:
  "is_abs ''/data/in'' \<and> is_abs ''/data/in2/a.rar'' \<and>
   isWithinPath ''/data/in'' ''/data/in2/a.rar'' = PathContains ''/data/in'' ''/data/in2/a.rar'' \<and>
   \<not> PathContains ''/data/in'' ''/data/in2/a.rar''"
proof -
  have a: "is_abs ''/data/in''" "is_abs ''/data/in2/a.rar''" by (simp_all add: is_abs_def)
  have "path_comps ''/data/in'' = [''data'', ''in'']"
    "path_comps ''/data/in2/a.rar'' = [''data'', ''in2'', ''a.rar'']"
    by (simp_all add: path_comps_def is_abs_def)
  then show ?thesis
    using a containment_tests_agree [OF a] by simp
qed

subsection \<open>The longest match\<close>

text \<open>
  The loop of \<open>watchConfig\<close>, \<open>folderConfigForPath\<close> and \<open>recoveryFolderConfig\<close>: keep the
  candidate, replace it by a later one only if its length is strictly greater; \<open>bestLen\<close>
  starts at -1.
\<close>

fun longest :: "('c \<Rightarrow> bool) \<Rightarrow> ('c \<Rightarrow> nat) \<Rightarrow> 'c option \<Rightarrow> int \<Rightarrow> 'c list \<Rightarrow> 'c option" where
  "longest ok len best bestLen [] = best"
| "longest ok len best bestLen (c # cs) =
     (if ok c \<and> int (len c) > bestLen then longest ok len (Some c) (int (len c)) cs
      else longest ok len best bestLen cs)"

lemma longest_spec:
  "longest ok len best bl cs = r \<Longrightarrow> (case best of None \<Rightarrow> bl = -1 | Some b \<Rightarrow> bl = int (len b)) \<Longrightarrow>
   (case r of None \<Rightarrow> best = None \<and> (\<forall>c \<in> set cs. \<not> ok c)
    | Some b \<Rightarrow> (b \<in> set cs \<and> ok b \<or> best = Some b) \<and> bl \<le> int (len b)
        \<and> (\<forall>c \<in> set cs. ok c \<longrightarrow> len c \<le> len b))"
proof (induction cs arbitrary: best bl)
  case Nil
  then show ?case by (auto split: option.splits)
next
  case (Cons c cs)
  show ?case
  proof (cases "ok c \<and> int (len c) > bl")
    case True
    with Cons.prems Cons.IH [of "Some c" "int (len c)"] show ?thesis
      by (auto split: option.splits)
  next
    case False
    with Cons.prems(1) have "longest ok len best bl cs = r" by simp
    note IH = Cons.IH [OF this Cons.prems(2)]
    from False have c: "ok c \<Longrightarrow> int (len c) \<le> bl" by simp
    show ?thesis
    proof (cases r)
      case None
      with IH Cons.prems(2) c show ?thesis by auto
    next
      case (Some b)
      with IH c show ?thesis by force
    qed
  qed
qed

lemma longest_None: "longest ok len None (-1) cs = None \<longleftrightarrow> (\<forall>c \<in> set cs. \<not> ok c)"
  using longest_spec [of ok len None "-1" cs] by (auto split: option.splits)

lemma longest_Some:
  "longest ok len None (-1) cs = Some b \<Longrightarrow>
     b \<in> set cs \<and> ok b \<and> (\<forall>c \<in> set cs. ok c \<longrightarrow> len c \<le> len b)"
  using longest_spec [of ok len None "-1" cs "Some b"] by simp

text \<open>
  The contract of a containment test: two directories that hold the same path are one inside
  the other or the same, and the inner one has the longer cleaned name. The client's result:
  the longest match lies inside every other match, so the order of the list does not matter.
\<close>

locale containment =
  fixes covers :: "string \<Rightarrow> string \<Rightarrow> bool"
  assumes comparable: "is_abs w \<Longrightarrow> is_abs v \<Longrightarrow> is_abs p \<Longrightarrow> covers w p \<Longrightarrow> covers v p \<Longrightarrow>
      clean w = clean v \<or> covers w v \<or> covers v w"
    and inner_longer: "is_abs w \<Longrightarrow> is_abs v \<Longrightarrow> covers w v \<Longrightarrow>
      clean w = clean v \<or> length (clean w) < length (clean v)"
    and covers_trans: "is_abs w \<Longrightarrow> is_abs v \<Longrightarrow> is_abs p \<Longrightarrow> covers w v \<Longrightarrow> covers v p \<Longrightarrow> covers w p"
begin

lemma deepest:
  assumes best: "longest ok (\<lambda>c. length (clean (path c))) None (-1) cs = Some b"
    and ok: "\<And>c. c \<in> set cs \<Longrightarrow> ok c \<Longrightarrow> is_abs (path c) \<and> covers (path c) p"
    and p: "is_abs p" and c: "c \<in> set cs" "ok c"
  shows "clean (path c) = clean (path b) \<or> covers (path c) (path b)"
proof -
  from longest_Some [OF best] c
  have b: "b \<in> set cs" "ok b" and len: "length (clean (path c)) \<le> length (clean (path b))" by auto
  from ok [OF c] ok [OF b] p comparable [of "path c" "path b" p]
  consider "clean (path c) = clean (path b)" | "covers (path c) (path b)" | "covers (path b) (path c)"
    by blast
  then show ?thesis
  proof cases
    case 3
    with inner_longer [of "path b" "path c"] ok [OF c] ok [OF b] len show ?thesis by auto
  qed auto
qed

lemma order_irrelevant:
  assumes "longest ok (\<lambda>c. length (clean (path c))) None (-1) cs = Some b"
    and "longest ok (\<lambda>c. length (clean (path c))) None (-1) ds = Some d"
    and "set cs = set ds"
    and "\<And>c. c \<in> set cs \<Longrightarrow> ok c \<Longrightarrow> is_abs (path c) \<and> covers (path c) p" and "is_abs p"
  shows "clean (path b) = clean (path d)"
proof -
  have b: "b \<in> set cs" "ok b" using longest_Some [OF assms(1)] by auto
  have d: "d \<in> set cs" "ok d" using longest_Some [OF assms(2)] assms(3) by auto
  have len: "length (clean (path b)) = length (clean (path d))"
    using longest_Some [OF assms(1)] longest_Some [OF assms(2)] assms(3) by (simp add: order_antisym)
  have "clean (path d) = clean (path b) \<or> covers (path d) (path b)"
    by (rule deepest [OF assms(1) _ assms(5) d]) (rule assms(4))
  then show ?thesis using inner_longer [of "path d" "path b"] assms(4) [OF b] assms(4) [OF d] len by auto
qed

end

lemma strict_prefix_shorter:
  assumes "is_abs w" "is_abs v" "strict_prefix (path_comps w) (path_comps v)"
  shows "length (clean w) < length (clean v)"
proof -
  obtain c cs where v: "path_comps v = path_comps w @ c # cs"
    using assms(3) by (auto simp: strict_prefix_def prefix_def neq_Nil_conv)
  have "c \<noteq> []" using comps_ok [OF assms(2)] v by auto
  then have "length (slashed (path_comps w @ c # cs)) > length (slashed (path_comps w))"
    "length (slashed (path_comps w @ c # cs)) > 1"
    by (cases c, auto simp: slashed_def)+
  then show ?thesis using assms v \<open>c \<noteq> []\<close> by (simp add: clean_abs)
qed

interpretation prefixTest: containment PathContains
proof unfold_locales
  fix w v p
  assume abs: "is_abs w" "is_abs v" "is_abs p" and "PathContains w p" "PathContains v p"
  then have "prefix (path_comps w) (path_comps v) \<or> prefix (path_comps v) (path_comps w)"
    by (metis PathContains_comps prefix_same_cases)
  with abs show "clean w = clean v \<or> PathContains w v \<or> PathContains v w"
    by (simp add: PathContains_comps)
next
  fix w v
  assume "is_abs w" "is_abs v" "PathContains w v"
  then show "clean w = clean v \<or> length (clean w) < length (clean v)"
    using strict_prefix_shorter [of w v] by (auto simp: PathContains_comps clean_eq_iff strict_prefix_def)
next
  fix w v p
  assume "is_abs w" "is_abs v" "is_abs p" "PathContains w v" "PathContains v p"
  then show "PathContains w p" by (metis PathContains_comps prefix_order.trans)
qed

interpretation relTest: containment "\<lambda>root path. pathWithin path root"
proof unfold_locales
  fix w v p
  assume abs: "is_abs w" "is_abs v" "is_abs p" and "pathWithin p w" "pathWithin p v"
  then have "prefix (path_comps w) (path_comps v) \<or> prefix (path_comps v) (path_comps w)"
    by (meson pathWithin_comps prefix_same_cases strict_prefixE prefix_order.less_imp_le)
  with abs show "clean w = clean v \<or> pathWithin v w \<or> pathWithin w v"
    by (auto simp: pathWithin_comps clean_eq_iff strict_prefix_def)
next
  fix w v
  assume "is_abs w" "is_abs v" "pathWithin v w"
  then show "clean w = clean v \<or> length (clean w) < length (clean v)"
    by (simp add: pathWithin_comps strict_prefix_shorter)
next
  fix w v p
  assume "is_abs w" "is_abs v" "is_abs p" "pathWithin v w" "pathWithin p v"
  then show "pathWithin p w" by (metis pathWithin_comps prefix_order.less_trans)
qed

end
