(* ===== verification/FolderPaths.thy ===== *)
theory FolderPaths
  imports Paths
begin

text \<open>
  The folder settings that decide about paths: \<open>Check\<close> and \<open>NormalizeExcludePaths\<close> of
  \<open>pkg/folders/path.go\<close>, \<open>wait.go\<close>, \<open>validate.go\<close>, and the three searches for the watch root a
  path belongs to. \<open>he\<close> stands for \<open>homedir.Expand\<close> (\<open>None\<close> is its error) and \<open>cwd\<close> for
  \<open>os.Getwd\<close>; a nil entry of a list of pointers is \<open>None\<close>.
\<close>

definition somes :: "'a option list \<Rightarrow> 'a list" where
  "somes xs = List.map_filter id xs"

lemma set_somes [simp]: "x \<in> set (somes xs) \<longleftrightarrow> Some x \<in> set xs"
  by (induction xs) (auto simp: somes_def List.map_filter_def)

subsection \<open>Paths of the configuration\<close>

definition expandHomedir :: "(string \<Rightarrow> string option) \<Rightarrow> string \<Rightarrow> string" where
  "expandHomedir he p = (case he p of None \<Rightarrow> p | Some q \<Rightarrow> q)"

definition path_abs :: "string option \<Rightarrow> string \<Rightarrow> string option" where
  "path_abs cwd p = (if is_abs p then Some (clean p)
     else map_option (\<lambda>d. path_join [d, p]) cwd)"

fun NormalizeExcludePaths ::
  "(string \<Rightarrow> string option) \<Rightarrow> string option \<Rightarrow> string \<Rightarrow> string list \<Rightarrow> string list" where
  "NormalizeExcludePaths he cwd basePath [] = []"
| "NormalizeExcludePaths he cwd basePath (e # es) = (
     let exclude = trim_space e in
     if exclude = '''' then NormalizeExcludePaths he cwd basePath es
     else let exclude = expandHomedir he exclude;
              exclude = (if \<not> is_abs exclude then path_join [basePath, exclude] else exclude)
       in case path_abs cwd exclude of
            Some a \<Rightarrow> clean a # NormalizeExcludePaths he cwd basePath es
          | None \<Rightarrow> NormalizeExcludePaths he cwd basePath es)"

fun Check :: "(string \<Rightarrow> string option) \<Rightarrow> string option \<Rightarrow> fsys \<Rightarrow> folder_config list \<Rightarrow>
    folder_config list \<times> string list" where
  "Check he cwd F [] = ([], [])"
| "Check he cwd F (f # fs) = (
     let rest = Check he cwd F fs in
     if trim_space (fc_Path f) = '''' then rest
     else case path_abs cwd (expandHomedir he (fc_Path f)) of
       None \<Rightarrow> rest
     | Some p \<Rightarrow>
         (case (if fc_ExtractPath f = '''' then Some ''''
                else path_abs cwd (expandHomedir he (fc_ExtractPath f))) of
            None \<Rightarrow> rest
          | Some ep \<Rightarrow>
              let f = f\<lparr>fc_Path := p, fc_ExtractPath := ep,
                    fc_ExcludePaths := NormalizeExcludePaths he cwd p (fc_ExcludePaths f)\<rparr>
              in case os_stat F p of
                   Inl _ \<Rightarrow> rest
                 | Inr n \<Rightarrow> if \<not> is_dir n then rest else (f # fst rest, p # snd rest)))"

subsection \<open>Wait extensions\<close>

fun nwe_loop :: "string list \<Rightarrow> string list \<Rightarrow> string list" where
  "nwe_loop seen [] = []"
| "nwe_loop seen (e # es) = (
     let ext = trim_space e in
     if ext = '''' \<or> ext = ''.'' then nwe_loop seen es
     else let ext = (if \<not> has_prefix ext ''.'' then ''.'' @ ext else ext);
              key = to_lower ext
       in if key \<in> set seen then nwe_loop seen es else ext # nwe_loop (key # seen) es)"

definition NormalizeWaitExtensions :: "string list \<Rightarrow> string list" where
  "NormalizeWaitExtensions exts = nwe_loop [] exts"

definition hasWaitSuffix :: "string \<Rightarrow> string list \<Rightarrow> bool" where
  "hasWaitSuffix name exts = list_ex (\<lambda>ext. ext \<noteq> '''' \<and> has_suffix (to_lower name) (to_lower ext)) exts"

definition WaitFileInTop :: "fsys \<Rightarrow> string \<Rightarrow> string list \<Rightarrow> string" where
  "WaitFileInTop F path exts = (
     let exts = NormalizeWaitExtensions exts in
     if path = '''' \<or> exts = [] then ''''
     else case read_dir F path of Inl _ \<Rightarrow> ''''
       | Inr entries \<Rightarrow>
           (case find (\<lambda>(name, n). \<not> is_dir n \<and> hasWaitSuffix name exts) entries of
              None \<Rightarrow> '''' | Some (name, _) \<Rightarrow> name))"

subsection \<open>Validation\<close>

datatype folder_error = ErrNilConfig | ErrNoPath | ErrMaxBytes string

abbreviation (input) DefaultDeleteAfter :: duration where "DefaultDeleteAfter \<equiv> 10 * nminute"

text \<open>
  \<open>parseMax\<close> is \<open>parseOptionalMaxBytes\<close>; it rests on \<open>bytefmt.ToBytes\<close>, the argument \<open>tb\<close>.
\<close>

definition parseExtractMaxBytes :: "(string \<Rightarrow> uint64 option) \<Rightarrow> string \<Rightarrow> uint64 option" where
  "parseExtractMaxBytes tb sz = (
     let sz = trim_space sz in
     if sz = '''' then None
     else if sz = ''0'' \<or> equal_fold sz ''0B'' then Some 0
     else tb sz)"

definition parseOptionalMaxBytes :: "(string \<Rightarrow> uint64 option) \<Rightarrow> string \<Rightarrow> (uint64 \<times> bool) option" where
  "parseOptionalMaxBytes tb sz = (if trim_space sz = '''' then Some (0, False)
     else case parseExtractMaxBytes tb sz of None \<Rightarrow> None | Some n \<Rightarrow> Some (n, True))"

fun ValidateList :: "(string \<Rightarrow> (uint64 \<times> bool) option) \<Rightarrow> folder_config option list \<Rightarrow>
    folder_error + folder_config list" where
  "ValidateList parseMax [] = Inr []"
| "ValidateList parseMax (None # cs) = Inl ErrNilConfig"
| "ValidateList parseMax (Some c # cs) = (
     if trim_space (fc_Path c) = '''' then Inl ErrNoPath
     else let c = (if fc_DeleteAfter c = None then c\<lparr>fc_DeleteAfter := Some DefaultDeleteAfter\<rparr> else c)
       in case parseMax (fc_MaxBytes c) of
            None \<Rightarrow> Inl (ErrMaxBytes (fc_Path c))
          | Some (n, _) \<Rightarrow>
              let c = c\<lparr>fc_ResolvedMaxBytes := n,
                    fc_WaitExtensions := NormalizeWaitExtensions (fc_WaitExtensions c)\<rparr>
              in case ValidateList parseMax cs of Inl e \<Rightarrow> Inl e | Inr cs' \<Rightarrow> Inr (c # cs'))"

subsection \<open>The watch root of a path\<close>

definition watchConfig :: "folder_config option list \<Rightarrow> string \<Rightarrow> folder_config option" where
  "watchConfig cfgs name = (
     let name = clean name in
     longest (\<lambda>cfg. fc_Path cfg \<noteq> '''' \<and> PathContains (clean (fc_Path cfg)) name)
       (\<lambda>cfg. length (clean (fc_Path cfg))) None (-1) (somes cfgs))"

definition folderConfigForPath :: "folder_config option list \<Rightarrow> string \<Rightarrow> folder_config option" where
  "folderConfigForPath cfgs itemPath = (
     let itemPath = clean itemPath in
     longest (\<lambda>cfg. fc_Path cfg \<noteq> '''' \<and> \<not> IsExcludedPath cfg itemPath
         \<and> PathContains (clean (fc_Path cfg)) itemPath)
       (\<lambda>cfg. length (clean (fc_Path cfg))) None (-1) (somes cfgs))"

definition recoveryPathsEqual :: "string \<Rightarrow> string \<Rightarrow> bool" where
  "recoveryPathsEqual left right = (left = right)"

text \<open>The list is the order in which \<open>range\<close> visits the folder map.\<close>

definition recoveryFolderConfig ::
  "folder_config option list \<Rightarrow> string \<Rightarrow> string \<Rightarrow> folder_config option" where
  "recoveryFolderConfig cfgs path watchPath = (
     let path = clean path; watchPath = clean watchPath in
     if watchPath \<noteq> ''.'' then
       find (\<lambda>cfg. fc_Path cfg \<noteq> '''' \<and> recoveryPathsEqual (clean (fc_Path cfg)) watchPath
         \<and> pathWithin path (clean (fc_Path cfg)) \<and> \<not> IsExcludedPath cfg path) (somes cfgs)
     else longest (\<lambda>cfg. fc_Path cfg \<noteq> '''' \<and> pathWithin path (clean (fc_Path cfg))
            \<and> \<not> IsExcludedPath cfg path)
         (\<lambda>cfg. length (clean (fc_Path cfg))) None (-1) (somes cfgs))"

definition recoveryPathsWithin :: "string list \<Rightarrow> string \<Rightarrow> string list" where
  "recoveryPathsWithin paths root = (if paths = [] \<or> root = '''' then []
     else let root = clean root in
       dedup_acc [] (filter (\<lambda>path. pathWithin path root) (map clean paths)))"

subsection \<open>Properties\<close>

text \<open>
  The watch root of an event is the deepest one: if every configured root is absolute, the
  root \<open>watchConfig\<close> returns holds the path, and every other configured root that holds the path
  is that root or a directory above it; it finds a root whenever some configured root holds the
  path. So nested watch folders are told apart, whatever the order of the list.
\<close>

theorem watchConfig_deepest:
  assumes "is_abs name" "\<forall>c. Some c \<in> set cfgs \<longrightarrow> fc_Path c \<noteq> '''' \<longrightarrow> is_abs (fc_Path c)"
  shows "case watchConfig cfgs name of
      None \<Rightarrow> \<forall>c. Some c \<in> set cfgs \<and> fc_Path c \<noteq> '''' \<longrightarrow> \<not> PathContains (fc_Path c) name
    | Some b \<Rightarrow> Some b \<in> set cfgs \<and> PathContains (fc_Path b) name \<and>
        (\<forall>c. Some c \<in> set cfgs \<and> fc_Path c \<noteq> '''' \<and> PathContains (fc_Path c) name \<longrightarrow>
          clean (fc_Path c) = clean (fc_Path b) \<or> PathContains (fc_Path c) (fc_Path b))"
proof -
  let ?ok = "\<lambda>cfg. fc_Path cfg \<noteq> '''' \<and> PathContains (clean (fc_Path cfg)) (clean name)"
  have same: "PathContains (clean v) (clean name) = PathContains v name" if "is_abs v" for v
    using assms(1) that by (simp add: PathContains_comps)
  have ok: "is_abs (fc_Path c) \<and> PathContains (fc_Path c) name"
    if "c \<in> set (somes cfgs)" "?ok c" for c
    using that assms same by auto
  show ?thesis
  proof (cases "watchConfig cfgs name")
    case None
    then have "\<forall>c \<in> set (somes cfgs). \<not> ?ok c"
      by (simp add: watchConfig_def Let_def longest_None)
    with None assms same show ?thesis by auto
  next
    case (Some b)
    then have best: "longest ?ok (\<lambda>cfg. length (clean (fc_Path cfg))) None (-1) (somes cfgs) = Some b"
      by (simp add: watchConfig_def)
    have b: "b \<in> set (somes cfgs)" "?ok b" using longest_Some [OF best] by auto
    have "clean (fc_Path c) = clean (fc_Path b) \<or> PathContains (fc_Path c) (fc_Path b)"
      if c: "Some c \<in> set cfgs" "fc_Path c \<noteq> ''''" "PathContains (fc_Path c) name" for c
    proof (rule prefixTest.deepest [OF best ok assms(1)])
      show "c \<in> set (somes cfgs)" using c by simp
      show "?ok c" using c assms same by auto
    qed
    with Some b ok [OF b] show ?thesis by auto
  qed
qed

theorem watchConfig_deepest_witness:
  "let root = zero_folder_config\<lparr>fc_Path := ''/in''\<rparr>; inner = zero_folder_config\<lparr>fc_Path := ''/in/tv''\<rparr>
   in watchConfig [Some inner, Some root] ''/in/tv/a.rar'' = Some inner
     \<and> PathContains (fc_Path root) (fc_Path inner)"
proof -
  let ?root = "zero_folder_config\<lparr>fc_Path := ''/in''\<rparr>"
  let ?inner = "zero_folder_config\<lparr>fc_Path := ''/in/tv''\<rparr>"
  have w: "watchConfig [Some ?inner, Some ?root] ''/in/tv/a.rar'' = Some ?inner"
    by (simp add: watchConfig_def somes_def List.map_filter_def PathContains_def pathContains_def
        clean_def path_comps_def is_abs_def zero_folder_config_def Let_def)
  have r: "PathContains ''/in'' ''/in/tv/a.rar''" "clean ''/in'' \<noteq> clean ''/in/tv''"
    by (simp_all add: PathContains_def pathContains_def clean_def path_comps_def is_abs_def Let_def)
  have abs: "is_abs ''/in/tv/a.rar''"
    "\<forall>c. Some c \<in> set [Some ?inner, Some ?root] \<longrightarrow> fc_Path c \<noteq> '''' \<longrightarrow> is_abs (fc_Path c)"
    by (auto simp: is_abs_def)
  have "clean (fc_Path ?root) = clean (fc_Path ?inner) \<or> PathContains (fc_Path ?root) (fc_Path ?inner)"
    using watchConfig_deepest [OF abs, unfolded w option.case, THEN conjunct2, THEN conjunct2,
        rule_format, of ?root] r by simp
  with r have "PathContains (fc_Path ?root) (fc_Path ?inner)" by simp
  with w show ?thesis by (simp add: Let_def)
qed

text \<open>
  Recovered file lists cannot escape their watch folder: whatever paths the state file
  holds, \<open>recoveryPathsWithin\<close> keeps exactly those that lie strictly below the root, cleaned,
  each once. These lists are what a delete after a restart removes.
\<close>

theorem recoveryPathsWithin_safe:
  assumes "is_abs root" "\<forall>p \<in> set paths. is_abs p"
  shows "distinct (recoveryPathsWithin paths root) \<and>
    set (recoveryPathsWithin paths root) =
      {clean p | p. p \<in> set paths \<and> strict_prefix (path_comps root) (path_comps p)}"
proof -
  have "pathWithin (clean p) (clean root) \<longleftrightarrow> strict_prefix (path_comps root) (path_comps p)"
    if "p \<in> set paths" for p
    using assms that by (simp add: pathWithin_comps)
  moreover have "root \<noteq> ''''" using assms(1) by (auto simp: is_abs_def)
  ultimately show ?thesis
    by (auto simp: recoveryPathsWithin_def Let_def distinct_dedup_acc set_dedup_acc)
qed

theorem recoveryPathsWithin_safe_witness:
  "set (recoveryPathsWithin [''/in/a/x.mkv'', ''/in/../etc/passwd'', ''/in''] ''/in'') \<subseteq> {''/in/a/x.mkv''}"
proof -
  have c: "path_comps ''/in/a/x.mkv'' = [''in'', ''a'', ''x.mkv'']" "path_comps ''/in'' = [''in'']"
    "path_comps ''/in/../etc/passwd'' = [''etc'', ''passwd'']"
    by (simp_all add: path_comps_def is_abs_def)
  have "clean ''/in/a/x.mkv'' = ''/in/a/x.mkv''" by (simp add: clean_abs c is_abs_def)
  then show ?thesis
    using recoveryPathsWithin_safe [of "''/in''" "[''/in/a/x.mkv'', ''/in/../etc/passwd'', ''/in'']"] c
    by (auto simp: is_abs_def)
qed

text \<open>
  Exclusion is inherited: if a path is excluded, so is everything below it, so a scan that
  skips an excluded directory misses no archive that is not itself excluded.
\<close>

theorem excluded_subtree:
  assumes "\<forall>e \<in> set (fc_ExcludePaths c). is_abs e" "is_abs p" "is_abs q"
    and "IsExcludedPath c p" "PathContains p q"
  shows "IsExcludedPath c q"
proof -
  from assms(4) obtain e where e: "e \<in> set (fc_ExcludePaths c)" "PathContains e p"
    by (auto simp: IsExcludedPath_def list_ex_iff split: if_splits)
  then have "PathContains e q" using assms prefixTest.covers_trans by blast
  moreover have "q \<noteq> ''''" using assms(3) by (auto simp: is_abs_def)
  ultimately show ?thesis using e by (auto simp: IsExcludedPath_def list_ex_iff)
qed

theorem excluded_subtree_witness:
  "IsExcludedPath (zero_folder_config\<lparr>fc_ExcludePaths := [''/in/skip'']\<rparr>) ''/in/skip/a/b.rar''"
proof (rule excluded_subtree)
  let ?c = "zero_folder_config\<lparr>fc_ExcludePaths := [''/in/skip'']\<rparr>"
  show "\<forall>e \<in> set (fc_ExcludePaths ?c). is_abs e" "is_abs ''/in/skip/a''" "is_abs ''/in/skip/a/b.rar''"
    by (simp_all add: is_abs_def)
  show "IsExcludedPath ?c ''/in/skip/a''" "PathContains ''/in/skip/a'' ''/in/skip/a/b.rar''"
    by (simp_all add: IsExcludedPath_def PathContains_def pathContains_def clean_def path_comps_def
        is_abs_def zero_folder_config_def Let_def)
qed

text \<open>What normalising wait extensions yields: a leading period and no repeats up to case.\<close>

lemma nwe_loop_spec:
  "e \<in> set (nwe_loop seen es) \<Longrightarrow> has_prefix e ''.'' \<and> to_lower e \<notin> set seen"
  by (induction seen es rule: nwe_loop.induct) (auto simp: Let_def split: if_splits)

lemma nwe_loop_distinct: "distinct (map to_lower (nwe_loop seen es))"
  by (induction seen es rule: nwe_loop.induct)
     (auto simp: Let_def dest: nwe_loop_spec)

lemma ValidateList_ok:
  "ValidateList pm cs = Inr ds \<Longrightarrow> list_all2 (\<lambda>c d. \<exists>c'. c = Some c' \<and> fc_Path d = fc_Path c') cs ds
     \<and> (\<forall>d \<in> set ds. fc_DeleteAfter d \<noteq> None \<and> trim_space (fc_Path d) \<noteq> '''')"
  by (induction pm cs arbitrary: ds rule: ValidateList.induct)
     (fastforce simp: Let_def split: if_splits option.splits sum.splits)+

end
