(* ===== verification/Perms.thy ===== *)
theory Perms
  imports Prelude
begin

text \<open>
  \<open>pkg/unpackerr/permissions.go\<close> and \<open>apikeys.go\<close>: the permission names, API keys, roles, their
  validation, and the permissions a key ends up with. A Go map of roles is an association list
  in the order \<open>range\<close> visits it. An error is a constructor of \<open>auth_error\<close>.
\<close>

subsection \<open>Permission names\<close>

abbreviation (input) PermReadSystemStats :: string where "PermReadSystemStats \<equiv> ''system:stats:read''"
abbreviation (input) PermReadSystemInfo :: string where "PermReadSystemInfo \<equiv> ''system:info:read''"
abbreviation (input) PermReadSystemQueue :: string where "PermReadSystemQueue \<equiv> ''system:queue:read''"
abbreviation (input) PermWriteSystemQueue :: string where "PermWriteSystemQueue \<equiv> ''system:queue:write''"
abbreviation (input) PermReadSystemHistory :: string where "PermReadSystemHistory \<equiv> ''system:history:read''"
abbreviation (input) PermWriteSystemHistory :: string where "PermWriteSystemHistory \<equiv> ''system:history:write''"
abbreviation (input) PermReadSystemMetrics :: string where "PermReadSystemMetrics \<equiv> ''system:metrics:read''"
abbreviation (input) PermReadSystemHeaders :: string where "PermReadSystemHeaders \<equiv> ''system:headers:read''"
abbreviation (input) PermReadSystemBrowse :: string where "PermReadSystemBrowse \<equiv> ''system:browse:read''"
abbreviation (input) PermWriteSystemBrowse :: string where "PermWriteSystemBrowse \<equiv> ''system:browse:write''"
abbreviation (input) PermReadSystemLogs :: string where "PermReadSystemLogs \<equiv> ''system:logs:read''"
abbreviation (input) PermAll :: string where "PermAll \<equiv> ''*''"
abbreviation (input) RoleAdmin :: string where "RoleAdmin \<equiv> ''admin''"

definition ConfigSections :: "string list" where
  "ConfigSections = [''general'', ''webserver'', ''sonarr'', ''radarr'', ''lidarr'', ''readarr'',
     ''folders'', ''hooks'', ''webhooks'', ''cmdhooks'']"

definition PermReadConfig :: "string \<Rightarrow> string" where
  "PermReadConfig section = ''config:'' @ section @ '':read''"

definition PermWriteConfig :: "string \<Rightarrow> string" where
  "PermWriteConfig section = ''config:'' @ section @ '':write''"

definition KnownSection :: "string \<Rightarrow> bool" where
  "KnownSection name = (name \<in> set ConfigSections)"

definition AllPermissions :: "string list" where
  "AllPermissions = [PermReadSystemStats, PermReadSystemInfo, PermReadSystemQueue,
     PermWriteSystemQueue, PermReadSystemHistory, PermWriteSystemHistory, PermReadSystemMetrics,
     PermReadSystemHeaders, PermReadSystemBrowse, PermWriteSystemBrowse, PermReadSystemLogs,
     PermAll] @ concat (map (\<lambda>s. [PermReadConfig s, PermWriteConfig s]) ConfigSections)"

definition KnownPermission :: "string \<Rightarrow> bool" where
  "KnownPermission name = (name \<in> set AllPermissions)"

subsection \<open>Keys and roles\<close>

record api_key =
  k_Name :: string
  k_Key :: string
  k_Roles :: "string list"

type_synonym roles = "(string \<times> string list) list"

datatype auth_error =
    APIKeyName | APIKeyASCII string | APIKeyLength string nat | EmptyKeyRoles string
  | UnknownRole string string | InvalidRoleName string | ReservedRole string | EmptyRole string
  | ReservedPerm string | UnknownPerm string string | APIKeyNameDup string | APIKeyDup string
  | EmptyAuthHeader

definition isASCII :: "string \<Rightarrow> bool" where
  "isASCII value = list_all (\<lambda>c. (of_char c :: nat) \<le> 127) value"

definition role_char :: "char \<Rightarrow> bool" where
  "role_char c = (let n = of_char c :: nat in
     (65 \<le> n \<and> n \<le> 90) \<or> (97 \<le> n \<and> n \<le> 122) \<or> (48 \<le> n \<and> n \<le> 57) \<or> n = 95 \<or> n = 45)"

definition validRoleName :: "string \<Rightarrow> bool" where
  "validRoleName name = (name \<noteq> '''' \<and> list_all role_char name)"

text \<open>\<open>validateInstanceSlug\<close> of \<open>instancemap.go\<close>; the result says whether there is no error.\<close>

definition validateInstanceSlug :: "string \<Rightarrow> bool" where
  "validateInstanceSlug name = validRoleName name"

definition APIKey_validate :: "api_key \<Rightarrow> roles \<Rightarrow> auth_error option" where
  "APIKey_validate k rs = (
     if trim_space (k_Name k) = '''' then Some APIKeyName
     else if \<not> isASCII (k_Key k) then Some (APIKeyASCII (k_Name k))
     else if length (k_Key k) < 60 \<or> length (k_Key k) > 150
       then Some (APIKeyLength (k_Name k) (length (k_Key k)))
     else if k_Roles k = [] then Some (EmptyKeyRoles (k_Name k))
     else case find (\<lambda>role. role \<noteq> RoleAdmin \<and> aget rs role = None) (k_Roles k) of
            Some role \<Rightarrow> Some (UnknownRole role (k_Name k))
          | None \<Rightarrow> None)"

fun role_perms_error :: "string \<Rightarrow> string list \<Rightarrow> auth_error option" where
  "role_perms_error name [] = None"
| "role_perms_error name (p # ps) = (if p = PermAll then Some (ReservedPerm name)
     else if \<not> KnownPermission p then Some (UnknownPerm p name) else role_perms_error name ps)"

definition Role_validate :: "string list \<Rightarrow> string \<Rightarrow> auth_error option" where
  "Role_validate perms name = (
     if \<not> validRoleName name then Some (InvalidRoleName name)
     else if name = RoleAdmin then Some (ReservedRole name)
     else if perms = [] then Some (EmptyRole name)
     else role_perms_error name perms)"

text \<open>
  \<open>permissionsForRoles\<close>: the union of the roles' permissions in order, each once; the built-in
  admin returns all permissions as soon as it is met.
\<close>

fun add_perms :: "string list \<Rightarrow> string list \<Rightarrow> string list" where
  "add_perms out [] = out"
| "add_perms out (p # ps) = add_perms (if p \<in> set out then out else out @ [p]) ps"

fun pfr_loop :: "roles \<Rightarrow> string list \<Rightarrow> string list \<Rightarrow> string list" where
  "pfr_loop rs out [] = out"
| "pfr_loop rs out (role # names) = (if role = RoleAdmin then AllPermissions
     else case aget rs role of Some ps \<Rightarrow> pfr_loop rs (add_perms out ps) names
       | None \<Rightarrow> pfr_loop rs out names)"

definition permissionsForRoles :: "roles \<Rightarrow> string list \<Rightarrow> string list" where
  "permissionsForRoles rs names = pfr_loop rs [] names"

text \<open>
  \<open>parseRoleHeader\<close>: split at comma, semicolon, bar and white space, each name once.
\<close>

definition parseRoleHeader :: "string \<Rightarrow> string list" where
  "parseRoleHeader raw = dedup_acc [] (filter (\<lambda>p. p \<noteq> '''')
     (fields_func (\<lambda>c. c = CHR '','' \<or> c = CHR '';'' \<or> c = CHR ''|'' \<or> is_space c) raw))"

definition matchingProxyRoles :: "string list \<Rightarrow> roles \<Rightarrow> string list" where
  "matchingProxyRoles names rs = filter (\<lambda>n. n = RoleAdmin \<or> aget rs n \<noteq> None) names"

subsection \<open>The union of roles\<close>

lemma set_add_perms: "set (add_perms out ps) = set out \<union> set ps"
  by (induction out ps rule: add_perms.induct) auto

lemma distinct_add_perms: "distinct out \<Longrightarrow> distinct (add_perms out ps)"
  by (induction out ps rule: add_perms.induct) auto

lemma set_pfr_loop:
  "set (pfr_loop rs out names) = (if RoleAdmin \<in> set names then set AllPermissions
     else set out \<union> (\<Union>role \<in> set names. case aget rs role of None \<Rightarrow> {} | Some ps \<Rightarrow> set ps))"
  by (induction rs out names rule: pfr_loop.induct) (auto simp: set_add_perms split: option.splits)

lemma distinct_pfr_loop:
  "distinct out \<Longrightarrow> RoleAdmin \<notin> set names \<Longrightarrow> distinct (pfr_loop rs out names)"
  by (induction rs out names rule: pfr_loop.induct) (auto simp: distinct_add_perms split: option.splits)

lemma set_permissionsForRoles:
  "set (permissionsForRoles rs names) = (if RoleAdmin \<in> set names then set AllPermissions
     else (\<Union>role \<in> set names. case aget rs role of None \<Rightarrow> {} | Some ps \<Rightarrow> set ps))"
  by (simp add: permissionsForRoles_def set_pfr_loop)

lemma role_perms_error_None:
  "role_perms_error name ps = None \<longleftrightarrow> (\<forall>p \<in> set ps. p \<noteq> PermAll \<and> KnownPermission p)"
  by (induction name ps rule: role_perms_error.induct) auto

lemma APIKey_validate_None:
  "APIKey_validate k rs = None \<Longrightarrow> 60 \<le> length (k_Key k) \<and> length (k_Key k) \<le> 150 \<and> isASCII (k_Key k)
     \<and> trim_space (k_Name k) \<noteq> '''' \<and> k_Roles k \<noteq> []
     \<and> (\<forall>role \<in> set (k_Roles k). role = RoleAdmin \<or> aget rs role \<noteq> None)"
  by (auto simp: APIKey_validate_def find_None_iff split: if_splits option.splits)

lemma Role_validate_None:
  "Role_validate ps name = None \<Longrightarrow> name \<noteq> RoleAdmin \<and> ps \<noteq> []
     \<and> (\<forall>p \<in> set ps. p \<noteq> PermAll \<and> KnownPermission p)"
  by (auto simp: Role_validate_def role_perms_error_None split: if_splits)

end
