(* ===== verification/Password.thy ===== *)
theory Password
  imports Prelude
begin

text \<open>
  \<open>pkg/unpackerr/password.go\<close>: the stored web UI password and its four shapes. \<open>bcrypt\<close> and
  PBKDF2 are arguments: \<open>gen\<close> makes a hash of a secret (\<open>None\<close> is its error), \<open>cmp\<close> compares a
  hash with a secret, \<open>kdf\<close> derives the digest of a user name and a password. The prefix
  \<open>filePrefix\<close> is \<open>filepath:\<close>.
\<close>

abbreviation (input) authPassword :: string where "authPassword \<equiv> ''!!cryptd!!''"
abbreviation (input) authHeader :: string where "authHeader \<equiv> ''webauth''"
abbreviation (input) authNone :: string where "authNone \<equiv> ''noauth''"
abbreviation (input) defaultUIUser :: string where "defaultUIUser \<equiv> ''admin''"
abbreviation (input) defaultAuthHeader :: string where "defaultAuthHeader \<equiv> ''X-Webauth-User''"
abbreviation (input) filePrefix :: string where "filePrefix \<equiv> ''filepath:''"

type_synonym crypt_pass = string

datatype auth_type = AuthPassword | AuthHeader | AuthNone

definition AuthType_String :: "auth_type \<Rightarrow> string" where
  "AuthType_String t = (case t of AuthHeader \<Rightarrow> ''header'' | AuthNone \<Rightarrow> ''noauth''
     | AuthPassword \<Rightarrow> ''password'')"

text \<open>\<open>strings.Cut(s, ":")\<close>.\<close>

definition cut_colon :: "string \<Rightarrow> string \<times> string \<times> bool" where
  "cut_colon s = (case dropWhile (\<lambda>c. c \<noteq> CHR '':'') s of
     [] \<Rightarrow> (s, '''', False)
   | _ # after \<Rightarrow> (takeWhile (\<lambda>c. c \<noteq> CHR '':'') s, after, True))"

definition splitUserPass :: "string \<Rightarrow> string \<Rightarrow> string \<times> string" where
  "splitUserPass input fallback = (
     let fallback = (if fallback = '''' then defaultUIUser else fallback);
         (user, pass, found) = cut_colon (trim_space input)
     in if \<not> found then (fallback, user)
        else (if user = '''' then fallback else user, pass))"

definition IsCrypted :: "crypt_pass \<Rightarrow> bool" where
  "IsCrypted p = has_prefix p authPassword"

definition Noauth :: "crypt_pass \<Rightarrow> bool" where
  "Noauth p = (p = authNone \<or> has_prefix p (authNone @ '':''))"

definition Webauth :: "crypt_pass \<Rightarrow> bool" where
  "Webauth p = (p = authHeader \<or> has_prefix p (authHeader @ '':'') \<or> Noauth p)"

definition publicCryptPass :: "crypt_pass \<Rightarrow> crypt_pass" where
  "publicCryptPass raw = (if raw = '''' \<or> IsCrypted raw \<or> Webauth raw \<or> has_prefix raw filePrefix
     then raw else '''')"

definition Type :: "crypt_pass \<Rightarrow> auth_type" where
  "Type p = (if Noauth p then AuthNone else if Webauth p then AuthHeader else AuthPassword)"

definition Header :: "crypt_pass \<Rightarrow> string" where
  "Header p = (case cut_colon p of (kind, rest, found) \<Rightarrow>
     if found \<and> kind = authHeader then rest
     else if found \<and> kind = authNone \<and> rest \<noteq> '''' then rest
     else defaultAuthHeader)"

definition requiredHeader :: "crypt_pass \<Rightarrow> string" where
  "requiredHeader p = (if Type p \<noteq> AuthHeader then '''' else trim_space (Header p))"

definition isBcryptHash :: "string \<Rightarrow> bool" where
  "isBcryptHash v = ((has_prefix v ''$2a$'' \<or> has_prefix v ''$2b$'' \<or> has_prefix v ''$2y$'')
     \<and> length v \<ge> 59)"

definition Username :: "crypt_pass \<Rightarrow> string" where
  "Username p = (if IsCrypted p
     then (case cut_colon (trim_prefix p authPassword) of (user, _, found) \<Rightarrow>
        if found \<and> user \<noteq> '''' \<and> \<not> isBcryptHash user then user else defaultUIUser)
     else if Webauth p \<or> p = '''' then defaultUIUser
     else fst (splitUserPass p defaultUIUser))"

datatype pass_error = ErrEmptyAuthHeader | ErrEncrypt | ErrShortUIPassword | ErrMalformed

definition Set_pass ::
  "(string \<Rightarrow> string option) \<Rightarrow> string \<Rightarrow> string \<Rightarrow> pass_error + crypt_pass" where
  "Set_pass gen username secret = (
     if username = authHeader then
       (if secret = '''' then Inl ErrEmptyAuthHeader else Inr (authHeader @ '':'' @ secret))
     else if username = authNone then
       Inr (if secret \<noteq> '''' then authNone @ '':'' @ secret else authNone)
     else let username = (if username = '''' then defaultUIUser else username) in
       case gen (to_lower secret) of None \<Rightarrow> Inl ErrEncrypt
       | Some hash \<Rightarrow> Inr (authPassword @ username @ '':'' @ hash))"

definition SetPlain :: "(string \<Rightarrow> string option) \<Rightarrow> (string \<Rightarrow> string \<Rightarrow> string) \<Rightarrow>
    string \<Rightarrow> string \<Rightarrow> pass_error + crypt_pass" where
  "SetPlain gen kdf username password = (
     if username = authHeader \<or> username = authNone then Set_pass gen username password
     else if length password < 8 then Inl ErrShortUIPassword
     else let username = (if username = '''' then defaultUIUser else username)
       in Set_pass gen username (kdf username password))"

definition Valid :: "(string \<Rightarrow> string \<Rightarrow> bool) \<Rightarrow> crypt_pass \<Rightarrow> string \<Rightarrow> string \<Rightarrow> bool" where
  "Valid cmp p username kdfHex = (
     if Webauth p \<or> \<not> IsCrypted p then False
     else if Username p \<noteq> username then False
     else case cut_colon (trim_prefix p authPassword) of (_, hash, found) \<Rightarrow>
       found \<and> cmp hash (to_lower kdfHex))"

definition ValidPlain :: "(string \<Rightarrow> string \<Rightarrow> bool) \<Rightarrow> (string \<Rightarrow> string \<Rightarrow> string) \<Rightarrow>
    crypt_pass \<Rightarrow> string \<Rightarrow> string \<Rightarrow> bool" where
  "ValidPlain cmp kdf p username password = Valid cmp p username (kdf username password)"

definition is_hex :: "char \<Rightarrow> bool" where
  "is_hex c = (let n = of_char c :: nat in
     (48 \<le> n \<and> n \<le> 57) \<or> (97 \<le> n \<and> n \<le> 102) \<or> (65 \<le> n \<and> n \<le> 70))"

definition isKDFHex :: "string \<Rightarrow> bool" where
  "isKDFHex secret = (length secret = 64 \<and> list_all is_hex secret)"

definition reservedUIUser :: "string \<Rightarrow> bool" where
  "reservedUIUser user = (to_lower (trim_space user) \<in> {authHeader, authNone, ''filepath''}
     \<or> CHR '':'' \<in> set user)"

definition checkStored :: "crypt_pass \<Rightarrow> pass_error option" where
  "checkStored p = (if \<not> IsCrypted p then None
     else let rest = trim_prefix p authPassword in
       if isBcryptHash rest then None
       else case cut_colon rest of (_, hash, found) \<Rightarrow>
         if \<not> found \<or> \<not> isBcryptHash hash then Some ErrMalformed else None)"

subsection \<open>Properties\<close>

lemma cut_colon_append: "CHR '':'' \<notin> set u \<Longrightarrow> cut_colon (u @ CHR '':'' # r) = (u, r, True)"
  by (induction u) (auto simp: cut_colon_def split: list.splits)

lemma stored_form:
  assumes "p = authPassword @ u @ CHR '':'' # h"
  shows "IsCrypted p" "\<not> Webauth p" "trim_prefix p authPassword = u @ CHR '':'' # h"
  by (simp_all add: assms IsCrypted_def Webauth_def Noauth_def trim_prefix_def)

text \<open>
  A password that was set logs in, and only its own: if bcrypt verifies its own hashes, the
  user name has no colon and does not look like a hash, then after \<open>SetPlain\<close> the login check
  accepts that user with that password, whatever the case of the submitted digest, and for
  every submitted digest answers what bcrypt answers; another user name is refused.
\<close>

theorem set_then_valid:
  assumes set: "SetPlain gen kdf user password = Inr p"
    and user: "user \<noteq> authHeader" "user \<noteq> authNone" "CHR '':'' \<notin> set user"
      "\<not> isBcryptHash user" "user \<noteq> ''''"
    and bcrypt: "\<forall>s h. gen s = Some h \<longrightarrow> cmp h s"
  shows "ValidPlain cmp kdf p user password \<and> Type p = AuthPassword
    \<and> (\<forall>other digest. other \<noteq> user \<longrightarrow> \<not> Valid cmp p other digest)"
proof -
  obtain hash where h: "gen (to_lower (kdf user password)) = Some hash"
    and p: "p = authPassword @ user @ CHR '':'' # hash"
    using set user by (auto simp: SetPlain_def Set_pass_def Let_def split: if_splits option.splits)
  note form = stored_form [OF p]
  have cut: "cut_colon (trim_prefix p authPassword) = (user, hash, True)"
    using form(3) user(3) by (simp add: cut_colon_append)
  have "Username p = user" using form(1) cut user by (simp add: Username_def)
  then show ?thesis
    using form h cut bcrypt by (auto simp: ValidPlain_def Valid_def Type_def Webauth_def)
qed

theorem set_then_valid_witness:
  "ValidPlain (=) (\<lambda>u s. u @ s) ''!!cryptd!!op:opsecret99'' ''op'' ''secret99''"
proof -
  have set: "SetPlain Some (\<lambda>u s. u @ s) ''op'' ''secret99'' = Inr ''!!cryptd!!op:opsecret99''"
    by (simp add: SetPlain_def Set_pass_def to_lower_def lower_char_def)
  show ?thesis
    using set_then_valid [OF set, of "(=)"] by (simp add: isBcryptHash_def)
qed

text \<open>
  The configuration API never shows a plain password: what \<open>publicCryptPass\<close> returns is
  empty, a stored hash, a proxy mode or a file reference; and a value that is none of these, as
  the plain \<open>user:password\<close> form of a configuration file, is blanked.
\<close>

theorem public_pass_no_plaintext:
  "publicCryptPass raw \<in> {'''', raw} \<and>
   (publicCryptPass raw \<noteq> '''' \<longrightarrow>
      has_prefix raw authPassword \<or> Type raw \<noteq> AuthPassword \<or> has_prefix raw filePrefix)"
  by (auto simp: publicCryptPass_def IsCrypted_def Type_def)

theorem public_pass_no_plaintext_witness:
  "publicCryptPass ''admin:hunter22'' = '''' \<and> publicCryptPass ''noauth'' = ''noauth''"
  using public_pass_no_plaintext [of "''admin:hunter22''"]
  by (simp add: publicCryptPass_def IsCrypted_def Webauth_def Noauth_def Type_def)

end
