(* ===== verification/Auth.thy ===== *)
theory Auth
  imports Perms Password
begin

text \<open>
  \<open>pkg/unpackerr/auth.go\<close>, the key handling of \<open>apikeys.go\<close>, and the upstream list and the
  forwarded-for rewrite of \<open>webserver.go\<close>: who a request is, and what it may do. The request is
  its headers, remote address, session cookie and TLS flag. A network of the upstream list is a
  predicate on address texts (\<open>net.IPNet.Contains\<close> of \<open>net.ParseIP\<close>); the cookie codec of
  \<open>gorilla/securecookie\<close> is the decoder in the web server record, \<open>None\<close> when it was never
  initialised. Responses are the status code with the error text.
\<close>

record request =
  rq_Headers :: "(string \<times> string) list"
  rq_RemoteAddr :: string
  rq_Cookie :: "string option"
  rq_TLS :: bool

text \<open>\<open>http.Header.Get\<close>: the first value of the field, names compared without case.\<close>

definition header_get :: "request \<Rightarrow> string \<Rightarrow> string" where
  "header_get r name = (case find (\<lambda>(k, v). equal_fold k name) (rq_Headers r) of
     None \<Rightarrow> '''' | Some (_, v) \<Rightarrow> v)"

record web_server =
  w_URLBase :: string
  w_UIPassword :: crypt_pass
  w_UIRoleHeader :: string
  w_APIKeys :: "api_key list"
  w_Roles :: roles
  w_keyPerms :: "(string \<times> string list) list option"
  w_allow :: "(string \<Rightarrow> bool) list"
  w_cookies :: "(string \<Rightarrow> (string \<times> string) list option) option"
  w_SSLCrtFile :: string
  w_SSLKeyFile :: string

record auth_info =
  ai_Username :: string
  ai_APIKey :: string
  ai_Auth :: string
  ai_Via :: string
  ai_Permissions :: "string list"

subsection \<open>Keys of the web server\<close>

fun first_key :: "(api_key \<Rightarrow> bool) \<Rightarrow> api_key list \<Rightarrow> api_key option" where
  "first_key P [] = None"
| "first_key P (k # ks) = (if P k then Some k else first_key P ks)"

definition PermissionsForKey :: "web_server \<Rightarrow> string \<Rightarrow> string list option" where
  "PermissionsForKey w key = (case w_keyPerms w of
     Some kp \<Rightarrow> (case aget kp key of None \<Rightarrow> None | Some ps \<Rightarrow> if ps = [] then None else Some ps)
   | None \<Rightarrow> (case first_key (\<lambda>k. k_Key k = key) (w_APIKeys w) of
        None \<Rightarrow> None | Some k \<Rightarrow> Some (permissionsForRoles (w_Roles w) (k_Roles k))))"

definition HasPermission :: "web_server \<Rightarrow> string \<Rightarrow> string \<Rightarrow> bool" where
  "HasPermission w key perm = (case PermissionsForKey w key of None \<Rightarrow> False
     | Some ps \<Rightarrow> list_ex (\<lambda>have. have = PermAll \<or> have = perm) ps)"

definition keyName :: "web_server \<Rightarrow> string \<Rightarrow> string" where
  "keyName w key = (case first_key (\<lambda>k. k_Key k = key) (w_APIKeys w) of
     None \<Rightarrow> '''' | Some k \<Rightarrow> k_Name k)"

definition adminAPIKey :: "web_server \<Rightarrow> string" where
  "adminAPIKey w = (case first_key (\<lambda>k. RoleAdmin \<in> set (k_Roles k)) (w_APIKeys w) of
     None \<Rightarrow> '''' | Some k \<Rightarrow> k_Key k)"

definition hasAdminKey :: "web_server \<Rightarrow> bool" where
  "hasAdminKey w = (adminAPIKey w \<noteq> '''')"

text \<open>
  \<open>validateAuth\<close>: the loop over the keys checks each key and both kinds of duplicates and fills
  \<open>keyPerms\<close>. The first error ends it.
\<close>

fun va_keys :: "roles \<Rightarrow> string list \<Rightarrow> string list \<Rightarrow> (string \<times> string list) list \<Rightarrow>
    api_key list \<Rightarrow> auth_error + (string \<times> string list) list" where
  "va_keys rs seenNames seenKeys kp [] = Inr kp"
| "va_keys rs seenNames seenKeys kp (k # ks) = (case APIKey_validate k rs of
     Some e \<Rightarrow> Inl e
   | None \<Rightarrow>
       if k_Name k \<in> set seenNames then Inl (APIKeyNameDup (k_Name k))
       else if k_Key k \<in> set seenKeys then Inl (APIKeyDup (k_Name k))
       else va_keys rs (k_Name k # seenNames) (k_Key k # seenKeys)
              (aput (k_Key k) (permissionsForRoles rs (k_Roles k)) kp) ks)"

fun va_roles :: "roles \<Rightarrow> auth_error option" where
  "va_roles [] = None"
| "va_roles ((name, ps) # rs) = (case Role_validate ps name of Some e \<Rightarrow> Some e | None \<Rightarrow> va_roles rs)"

definition validateAuth :: "web_server \<Rightarrow> auth_error + web_server" where
  "validateAuth w = (
     if Type (w_UIPassword w) = AuthHeader \<and> trim_space (Header (w_UIPassword w)) = ''''
     then Inl EmptyAuthHeader
     else case va_roles (w_Roles w) of Some e \<Rightarrow> Inl e
     | None \<Rightarrow> (case va_keys (w_Roles w) [] [] [] (w_APIKeys w) of
          Inl e \<Rightarrow> Inl e | Inr kp \<Rightarrow> Inr (w\<lparr>w_keyPerms := Some kp\<rparr>)))"

text \<open>
  \<open>unusedKeyName\<close>: the wanted name, \<open>ui\<close>, or the first free \<open>ui-2\<close>, \<open>ui-3\<close>, ... The search has no
  bound in the code, so not returning is \<open>None\<close>.
\<close>

partial_function (option) key_seq :: "string list \<Rightarrow> nat \<Rightarrow> string option" where
  "key_seq used idx = (let name = ''ui-'' @ itoa idx in
     if name \<notin> set used then Some name else key_seq used (Suc idx))"

definition unusedKeyName :: "web_server \<Rightarrow> string \<Rightarrow> api_key list \<Rightarrow> string option" where
  "unusedKeyName w want extra = (let used = map k_Name (w_APIKeys w) @ map k_Name extra in
     if want \<notin> set used then Some want
     else if ''ui'' \<notin> set used then Some ''ui''
     else key_seq used 2)"

definition liveKeyCollision :: "web_server \<Rightarrow> api_key \<Rightarrow> bool" where
  "liveKeyCollision w key = list_ex (\<lambda>live. k_Name live = k_Name key \<or> k_Key live = k_Key key)
     (w_APIKeys w)"

text \<open>
  \<open>installAdminKey\<close> without persistence: the key is appended, and if the permissions were
  already computed they are recomputed; a validation error takes the key back out. The keys
  validated before the error were computed into \<open>keyPerms\<close>, which the code does not restore.
\<close>

fun va_keys_partial :: "roles \<Rightarrow> string list \<Rightarrow> string list \<Rightarrow> (string \<times> string list) list \<Rightarrow>
    api_key list \<Rightarrow> (string \<times> string list) list" where
  "va_keys_partial rs sn sk kp [] = kp"
| "va_keys_partial rs sn sk kp (k # ks) = (
     if APIKey_validate k rs \<noteq> None \<or> k_Name k \<in> set sn \<or> k_Key k \<in> set sk then kp
     else va_keys_partial rs (k_Name k # sn) (k_Key k # sk)
            (aput (k_Key k) (permissionsForRoles rs (k_Roles k)) kp) ks)"

definition installAdminKey :: "web_server \<Rightarrow> api_key \<Rightarrow> auth_error option \<times> web_server" where
  "installAdminKey w key = (
     let w' = w\<lparr>w_APIKeys := w_APIKeys w @ [key]\<rparr> in
     case w_keyPerms w of None \<Rightarrow> (None, w')
     | Some old \<Rightarrow> (case validateAuth w' of
          Inr v \<Rightarrow> (None, v)
        | Inl e \<Rightarrow> (Some e, if (Type (w_UIPassword w) = AuthHeader \<and>
               trim_space (Header (w_UIPassword w)) = '''') \<or> va_roles (w_Roles w) \<noteq> None
             then w
             else w\<lparr>w_keyPerms := Some (va_keys_partial (w_Roles w) [] [] [] (w_APIKeys w'))\<rparr>)))"

fun adoptFileAdminKey :: "web_server \<Rightarrow> api_key list \<Rightarrow> bool \<times> web_server" where
  "adoptFileAdminKey w [] = (False, w)"
| "adoptFileAdminKey w (key # keys) = (
     if RoleAdmin \<notin> set (k_Roles key) \<or> liveKeyCollision w key then adoptFileAdminKey w keys
     else case installAdminKey w key of
            (Some _, w') \<Rightarrow> adoptFileAdminKey w' keys
          | (None, w') \<Rightarrow> (True, w'))"

subsection \<open>Upstreams\<close>

text \<open>
  \<open>AllowedIPs.Contains\<close>: the address without its port. Slicing up to \<open>LastIndex\<close> panics when
  there is no colon; that is \<open>None\<close>.
\<close>

definition host_part :: "string \<Rightarrow> string option" where
  "host_part addr = (case last_index addr '':'' of None \<Rightarrow> None
     | Some i \<Rightarrow> Some (trim_right ''[]'' (trim_left ''[]'' (take i addr))))"

definition Allowed_Contains :: "(string \<Rightarrow> bool) list \<Rightarrow> string \<Rightarrow> bool option" where
  "Allowed_Contains nets addr = map_option (\<lambda>ip. list_ex (\<lambda>net. net ip) nets) (host_part addr)"

definition allow_contains :: "web_server \<Rightarrow> string \<Rightarrow> bool" where
  "allow_contains w addr = (Allowed_Contains (w_allow w) addr = Some True)"

text \<open>
  \<open>fixForwardedFor\<close>: the new value of \<open>X-Forwarded-For\<close>, \<open>None\<close> for the panic. The last element
  of a list is cut out of the value by position.
\<close>

fun last_index_any :: "string \<Rightarrow> char list \<Rightarrow> nat option" where
  "last_index_any [] cs = None"
| "last_index_any (c # s) cs = (case last_index_any s cs of
      Some n \<Rightarrow> Some (Suc n) | None \<Rightarrow> if c \<in> set cs then Some 0 else None)"

definition fixForwardedFor :: "web_server \<Rightarrow> request \<Rightarrow> string option" where
  "fixForwardedFor w r = (let x = header_get r ''X-Forwarded-For'' in
     if x = '''' \<or> \<not> allow_contains w (rq_RemoteAddr r) then host_part (rq_RemoteAddr r)
     else case last_index_any x '', '' of
            Some l \<Rightarrow> Some (trim_right '', '' (trim_left '', '' (drop l (take (length x - 1) x))))
          | None \<Rightarrow> Some x)"

subsection \<open>Who a request is\<close>

definition allows :: "auth_info \<Rightarrow> string \<Rightarrow> bool" where
  "allows info perm = list_ex (\<lambda>have. have = PermAll \<or> have = perm) (ai_Permissions info)"

definition requestBearer :: "request \<Rightarrow> string" where
  "requestBearer r = (let auth = trim_space (header_get r ''Authorization'') in
     if has_prefix (to_lower auth) (to_lower ''Bearer '') then trim_space (drop 7 auth) else '''')"

definition requestAPIKey :: "request \<Rightarrow> string" where
  "requestAPIKey r = (let key = trim_space (header_get r ''X-Api-Key'') in
     if key \<noteq> '''' then key else requestBearer r)"

definition authAPIKey :: "web_server \<Rightarrow> string \<Rightarrow> auth_info option" where
  "authAPIKey w key = (if key = '''' then None
     else case PermissionsForKey w key of None \<Rightarrow> None
     | Some perms \<Rightarrow> Some \<lparr>ai_Username = keyName w key, ai_APIKey = key,
         ai_Auth = AuthType_String (Type (w_UIPassword w)), ai_Via = ''key'',
         ai_Permissions = perms\<rparr>)"

definition proxyUsername :: "crypt_pass \<Rightarrow> request \<Rightarrow> string option" where
  "proxyUsername pass r = (let hdr = requiredHeader pass in
     if hdr \<noteq> '''' then
       (let user = trim_space (header_get r hdr) in if user \<noteq> '''' then Some user else None)
     else if Type pass = AuthHeader then None
     else if \<not> Noauth pass then Some defaultUIUser
     else let hdr = trim_space (Header pass) in
       if hdr = '''' then Some defaultUIUser
       else let got = trim_space (header_get r hdr) in
         if got \<noteq> '''' then Some got else Some defaultUIUser)"

definition proxyRolePerms ::
  "string \<Rightarrow> request \<Rightarrow> roles \<Rightarrow> string \<Rightarrow> (string list \<times> string) option" where
  "proxyRolePerms headerName r rs adminKey = (let headerName = trim_space headerName in
     if headerName = '''' then Some (AllPermissions, adminKey)
     else let matched = matchingProxyRoles (parseRoleHeader (header_get r headerName)) rs in
       if matched = [] then None
       else let perms = permissionsForRoles rs matched in
         if perms = [] then None
         else Some (perms, if RoleAdmin \<in> set matched then adminKey else ''''))"

definition proxyAuth :: "web_server \<Rightarrow> request \<Rightarrow> auth_info option" where
  "proxyAuth w r = (let pass = w_UIPassword w;
       allowed = allow_contains w (rq_RemoteAddr r);
       adminKey = adminAPIKey w
     in if \<not> Webauth pass \<or> \<not> allowed then None
     else case proxyUsername pass r of None \<Rightarrow> None
     | Some user \<Rightarrow>
         (case (if \<not> Noauth pass
                then proxyRolePerms (trim_space (w_UIRoleHeader w)) r (w_Roles w) adminKey
                else Some (AllPermissions, adminKey)) of
            None \<Rightarrow> None
          | Some (perms, apiKey) \<Rightarrow> Some \<lparr>ai_Username = user, ai_APIKey = apiKey,
              ai_Auth = AuthType_String (Type pass), ai_Via = AuthType_String (Type pass),
              ai_Permissions = perms\<rparr>))"

definition sessionAuth :: "web_server \<Rightarrow> string \<Rightarrow> auth_info option" where
  "sessionAuth w user = (if Webauth (w_UIPassword w) then None
     else Some \<lparr>ai_Username = user, ai_APIKey = adminAPIKey w,
       ai_Auth = AuthType_String (Type (w_UIPassword w)), ai_Via = ''session'',
       ai_Permissions = AllPermissions\<rparr>)"

definition sessionUser :: "web_server \<Rightarrow> request \<Rightarrow> string option" where
  "sessionUser w r = (case w_cookies w of None \<Rightarrow> None
     | Some decode \<Rightarrow> (case rq_Cookie r of None \<Rightarrow> None
        | Some cookie \<Rightarrow> (case decode cookie of None \<Rightarrow> None
           | Some values \<Rightarrow> (case aget values ''username'' of None \<Rightarrow> None
              | Some user \<Rightarrow> if user = '''' then None else Some user))))"

definition authenticate :: "web_server \<Rightarrow> request \<Rightarrow> auth_info option" where
  "authenticate w r = (let key = trim_space (header_get r ''X-Api-Key'') in
     if key \<noteq> '''' then authAPIKey w key
     else let bearer = requestBearer r in
       case (if bearer \<noteq> '''' then authAPIKey w bearer else None) of
         Some info \<Rightarrow> Some info
       | None \<Rightarrow> (case proxyAuth w r of
            Some info \<Rightarrow> Some info
          | None \<Rightarrow> (case sessionUser w r of
               Some user \<Rightarrow> sessionAuth w user
             | None \<Rightarrow> None)))"

text \<open>What a guarded handler answers: the code of the refusal, or the identity it runs with.\<close>

datatype guard = Refused nat string | Granted auth_info

definition requireAuth :: "web_server \<Rightarrow> request \<Rightarrow> guard" where
  "requireAuth w r = (case authenticate w r of None \<Rightarrow> Refused 401 ''unauthorized''
     | Some info \<Rightarrow> Granted info)"

definition requirePerm :: "web_server \<Rightarrow> string \<Rightarrow> request \<Rightarrow> guard" where
  "requirePerm w perm r = (case requireAuth w r of Refused c e \<Rightarrow> Refused c e
     | Granted info \<Rightarrow> if \<not> allows info perm then Refused 403 ''forbidden'' else Granted info)"

definition requirePermHTTP :: "web_server \<Rightarrow> string \<Rightarrow> request \<Rightarrow> guard" where
  "requirePermHTTP w perm r = (let key = requestAPIKey r in
     if key = '''' then Refused 401 ''unauthorized''
     else case PermissionsForKey w key of None \<Rightarrow> Refused 401 ''unauthorized''
     | Some perms \<Rightarrow>
         let info = \<lparr>ai_Username = '''', ai_APIKey = '''', ai_Auth = '''', ai_Via = '''',
               ai_Permissions = perms\<rparr>
         in if \<not> allows info perm then Refused 403 ''forbidden'' else Granted info)"

subsection \<open>Cookies and login\<close>

definition forwardedProto :: "request \<Rightarrow> string" where
  "forwardedProto r = (let proto = trim_space (header_get r ''X-Forwarded-Proto'') in
     if proto = '''' then ''''
     else let proto = (case last_index proto '','' of None \<Rightarrow> proto | Some i \<Rightarrow> drop (i + 1) proto)
       in to_lower (trim_space proto))"

definition trustedForwardedHTTPS :: "web_server \<Rightarrow> request \<Rightarrow> bool" where
  "trustedForwardedHTTPS w r = (if last_index (rq_RemoteAddr r) '':'' = None then False
     else if \<not> allow_contains w (rq_RemoteAddr r) then False
     else forwardedProto r = ''https'')"

definition cookieSecure :: "web_server \<Rightarrow> request \<Rightarrow> bool" where
  "cookieSecure w r = (if w_SSLCrtFile w \<noteq> '''' \<and> w_SSLKeyFile w \<noteq> '''' then True
     else if rq_TLS r then True
     else trustedForwardedHTTPS w r)"

text \<open>
  \<open>handleLogin\<close> on a decoded body (\<open>None\<close> when the JSON was refused): the answer and, on success,
  the user whose session cookie is set.
\<close>

definition handleLogin :: "(string \<Rightarrow> string \<Rightarrow> bool) \<Rightarrow> web_server \<Rightarrow> (string \<times> string) option \<Rightarrow>
    nat \<times> string option" where
  "handleLogin cmp w body = (let pass = w_UIPassword w in
     if Webauth pass then (403, None)
     else case body of None \<Rightarrow> (400, None)
     | Some (name, digest) \<Rightarrow>
         let name = trim_space name; name = (if name = '''' then defaultUIUser else name) in
         if \<not> Valid cmp pass name (trim_space digest) then (401, None)
         else if w_cookies w = None then (500, None)
         else (200, Some name))"

end
