(* ===== verification/AuthProps.thy ===== *)
theory AuthProps
  imports Auth
begin

text \<open>
  What the access control of \<open>Auth\<close> guarantees: the permissions of a validated key, the order in
  which credentials are tried, what a trusted proxy can obtain, the search for a free key name,
  and the rewrite of the forwarded address.
\<close>

subsection \<open>Lists of keys\<close>

lemma first_key_Some: "first_key P ks = Some k \<Longrightarrow> k \<in> set ks \<and> P k"
  by (induction ks) (auto split: if_splits)

lemma first_key_None: "first_key P ks = None \<longleftrightarrow> (\<forall>k \<in> set ks. \<not> P k)"
  by (induction ks) auto

lemma va_roles_None: "va_roles rs = None \<Longrightarrow> (name, ps) \<in> set rs \<Longrightarrow> Role_validate ps name = None"
  by (induction rs rule: va_roles.induct) (auto split: option.splits)

lemma va_keys_ok:
  "va_keys rs sn sk kp ks = Inr kp' \<Longrightarrow>
     (\<forall>k \<in> set ks. APIKey_validate k rs = None) \<and> distinct (map k_Name ks) \<and> distinct (map k_Key ks)
     \<and> set (map k_Name ks) \<inter> set sn = {} \<and> set (map k_Key ks) \<inter> set sk = {}
     \<and> (\<forall>x. aget kp' x = (case first_key (\<lambda>k. k_Key k = x) ks of
           Some k \<Rightarrow> Some (permissionsForRoles rs (k_Roles k)) | None \<Rightarrow> aget kp x))"
proof (induction rs sn sk kp ks rule: va_keys.induct)
  case (2 rs sn sk kp k ks)
  from 2(2) have v: "APIKey_validate k rs = None" "k_Name k \<notin> set sn" "k_Key k \<notin> set sk"
    and rec: "va_keys rs (k_Name k # sn) (k_Key k # sk)
        (aput (k_Key k) (permissionsForRoles rs (k_Roles k)) kp) ks = Inr kp'"
    by (auto split: option.splits if_splits)
  note IH = 2(1) [OF v rec]
  have "aget kp' x = (case first_key (\<lambda>k. k_Key k = x) (k # ks) of
      Some k \<Rightarrow> Some (permissionsForRoles rs (k_Roles k)) | None \<Rightarrow> aget kp x)" for x
  proof (cases "k_Key k = x")
    case True
    have "k_Key k \<notin> k_Key ` set ks" using IH by auto
    with True have "\<forall>j \<in> set ks. k_Key j \<noteq> x" by (metis imageI)
    then have "first_key (\<lambda>k. k_Key k = x) ks = None" by (simp add: first_key_None)
    with IH True show ?thesis by (auto simp del: first_key.simps(1))
  next
    case False
    with IH show ?thesis by (auto split: option.splits)
  qed
  with IH v show ?case by (auto simp del: first_key.simps)
qed simp

lemma validateAuth_Inr:
  assumes "validateAuth w = Inr v"
  obtains kp where "v = w\<lparr>w_keyPerms := Some kp\<rparr>" "va_roles (w_Roles w) = None"
    "va_keys (w_Roles w) [] [] [] (w_APIKeys w) = Inr kp"
  using assms by (auto simp: validateAuth_def split: if_splits option.splits sum.splits)

lemma AllPermissions_nonempty: "AllPermissions \<noteq> []"
  by (simp add: AllPermissions_def)

lemma permissions_nonempty:
  assumes "va_roles rs = None" "APIKey_validate k rs = None"
  shows "permissionsForRoles rs (k_Roles k) \<noteq> []"
proof -
  have ok: "k_Roles k \<noteq> []" "\<forall>role \<in> set (k_Roles k). role = RoleAdmin \<or> aget rs role \<noteq> None"
    using APIKey_validate_None [OF assms(2)] by simp_all
  define role where "role = hd (k_Roles k)"
  have role: "role \<in> set (k_Roles k)" unfolding role_def using ok(1) by (rule hd_in_set)
  then have known: "role = RoleAdmin \<or> (\<exists>ps. aget rs role = Some ps)" using ok(2) by blast
  show ?thesis
  proof (cases "RoleAdmin \<in> set (k_Roles k)")
    case True
    then have "set (permissionsForRoles rs (k_Roles k)) = set AllPermissions"
      by (simp add: set_permissionsForRoles)
    moreover have "set AllPermissions \<noteq> {}" by (simp add: AllPermissions_nonempty)
    ultimately show ?thesis by (simp only: set_empty [symmetric]) simp
  next
    case False
    with role known obtain ps where ps: "aget rs role = Some ps" by auto
    from map_of_SomeD [OF ps] va_roles_None [OF assms(1)] have "Role_validate ps role = None"
      by blast
    then have "ps \<noteq> []" using Role_validate_None by blast
    moreover from role ps False have "set ps \<subseteq> set (permissionsForRoles rs (k_Roles k))"
      by (auto simp: set_permissionsForRoles)
    ultimately show ?thesis by auto
  qed
qed

lemma validated_permissions:
  assumes "validateAuth w = Inr v"
  shows "PermissionsForKey v x = (case first_key (\<lambda>k. k_Key k = x) (w_APIKeys w) of
      None \<Rightarrow> None | Some k \<Rightarrow> Some (permissionsForRoles (w_Roles w) (k_Roles k)))"
proof -
  obtain kp where v: "v = w\<lparr>w_keyPerms := Some kp\<rparr>" and rs: "va_roles (w_Roles w) = None"
    and kp: "va_keys (w_Roles w) [] [] [] (w_APIKeys w) = Inr kp"
    by (rule validateAuth_Inr [OF assms])
  from va_keys_ok [OF kp] have get: "aget kp x = (case first_key (\<lambda>k. k_Key k = x) (w_APIKeys w) of
      Some k \<Rightarrow> Some (permissionsForRoles (w_Roles w) (k_Roles k)) | None \<Rightarrow> None)"
    and val: "\<forall>k \<in> set (w_APIKeys w). APIKey_validate k (w_Roles w) = None"
    by (simp_all split: option.splits)
  show ?thesis
  proof (cases "first_key (\<lambda>k. k_Key k = x) (w_APIKeys w)")
    case None
    with get v show ?thesis by (simp add: PermissionsForKey_def)
  next
    case (Some k)
    with first_key_Some [OF Some] val permissions_nonempty [OF rs] get v show ?thesis
      by (simp add: PermissionsForKey_def)
  qed
qed

subsection \<open>Keys and roles\<close>

text \<open>
  After validation the keys are well formed and their permissions are those of their roles:
  names and secrets are unique, every secret has 60 to 150 ASCII characters, each key has the
  permissions of its roles and no other text has any, and the cached table used for requests
  agrees with the roles.
\<close>

theorem validated_keys:
  assumes "validateAuth w = Inr v"
  shows "w_APIKeys v = w_APIKeys w \<and> distinct (map k_Name (w_APIKeys w)) \<and> distinct (map k_Key (w_APIKeys w))
    \<and> (\<forall>k \<in> set (w_APIKeys w). 60 \<le> length (k_Key k) \<and> length (k_Key k) \<le> 150 \<and> isASCII (k_Key k)
         \<and> PermissionsForKey v (k_Key k) = Some (permissionsForRoles (w_Roles w) (k_Roles k)))
    \<and> (\<forall>x. x \<notin> k_Key ` set (w_APIKeys w) \<longrightarrow> PermissionsForKey v x = None)"
proof -
  obtain kp where v: "v = w\<lparr>w_keyPerms := Some kp\<rparr>"
    and kp: "va_keys (w_Roles w) [] [] [] (w_APIKeys w) = Inr kp"
    by (rule validateAuth_Inr [OF assms])
  note ok = va_keys_ok [OF kp]
  have self: "first_key (\<lambda>j. k_Key j = k_Key k) (w_APIKeys w) = Some k" if "k \<in> set (w_APIKeys w)" for k
  proof (cases "first_key (\<lambda>j. k_Key j = k_Key k) (w_APIKeys w)")
    case None
    with that show ?thesis by (auto simp: first_key_None)
  next
    case (Some j)
    with first_key_Some [OF Some] that ok show ?thesis by (auto simp: distinct_map inj_on_def)
  qed
  have none: "first_key (\<lambda>k. k_Key k = x) (w_APIKeys w) = None" if "x \<notin> k_Key ` set (w_APIKeys w)" for x
    using that by (auto simp: first_key_None)
  have perms: "PermissionsForKey v (k_Key k) = Some (permissionsForRoles (w_Roles w) (k_Roles k))"
    if "k \<in> set (w_APIKeys w)" for k
    using self [OF that] by (simp add: validated_permissions [OF assms])
  have others: "PermissionsForKey v x = None" if "x \<notin> k_Key ` set (w_APIKeys w)" for x
    using none [OF that] by (simp add: validated_permissions [OF assms])
  have "w_APIKeys v = w_APIKeys w" using v by simp
  with ok perms others APIKey_validate_None show ?thesis by blast
qed

definition demo_key :: string where
  "demo_key = replicate 60 (CHR ''a'')"

definition demo_server :: web_server where
  "demo_server = \<lparr>w_URLBase = ''/'', w_UIPassword = ''webauth'', w_UIRoleHeader = ''X-Role'',
     w_APIKeys = [\<lparr>k_Name = ''ops'', k_Key = demo_key, k_Roles = [''stats'']\<rparr>],
     w_Roles = [(''stats'', [''system:stats:read''])], w_keyPerms = None,
     w_allow = [\<lambda>ip. ip = ''10.0.0.1''], w_cookies = None, w_SSLCrtFile = '''', w_SSLKeyFile = ''''\<rparr>"

lemma demo_validated:
  "validateAuth demo_server = Inr (demo_server\<lparr>w_keyPerms := Some [(demo_key, [''system:stats:read''])]\<rparr>)"
  by (simp add: validateAuth_def demo_server_def demo_key_def Type_def Noauth_def Webauth_def Header_def
      cut_colon_def Role_validate_def validRoleName_def role_char_def KnownPermission_def
      AllPermissions_def APIKey_validate_def trim_space_def is_space_def isASCII_def list_all_iff
      permissionsForRoles_def)

theorem validated_keys_witness:
  "\<exists>v. validateAuth demo_server = Inr v \<and> PermissionsForKey v demo_key = Some [''system:stats:read'']"
proof -
  have "permissionsForRoles [(''stats'', [''system:stats:read''])] [''stats''] = [''system:stats:read'']"
    by (simp add: permissionsForRoles_def)
  then show ?thesis
    using validated_keys [OF demo_validated] demo_validated by (auto simp: demo_server_def)
qed

text \<open>
  A key can do only what its roles say: if a validated key has a permission, some key has
  that secret, and either it has the built-in admin role or one of its roles lists exactly that
  permission. No custom role is a way to the wildcard.
\<close>

theorem permission_comes_from_role:
  assumes "validateAuth w = Inr v" "HasPermission v key perm"
  shows "\<exists>k \<in> set (w_APIKeys w). k_Key k = key \<and> (RoleAdmin \<in> set (k_Roles k) \<or>
    (\<exists>role \<in> set (k_Roles k). \<exists>ps. aget (w_Roles w) role = Some ps \<and> perm \<in> set ps \<and> PermAll \<notin> set ps))"
proof -
  obtain kp where rs: "va_roles (w_Roles w) = None"
    and kp: "va_keys (w_Roles w) [] [] [] (w_APIKeys w) = Inr kp"
    by (rule validateAuth_Inr [OF assms(1)])
  from assms obtain k where k: "first_key (\<lambda>k. k_Key k = key) (w_APIKeys w) = Some k"
    and has: "\<exists>have \<in> set (permissionsForRoles (w_Roles w) (k_Roles k)). have = PermAll \<or> have = perm"
    by (auto simp: HasPermission_def validated_permissions [OF assms(1)] list_ex_iff split: option.splits)
  have nostar: "PermAll \<notin> set ps" if "aget (w_Roles w) role = Some ps" for role ps
    using va_roles_None [OF rs map_of_SomeD [OF that]] Role_validate_None by blast
  show ?thesis
  proof (cases "RoleAdmin \<in> set (k_Roles k)")
    case True
    with first_key_Some [OF k] show ?thesis by blast
  next
    case False
    with has nostar obtain role ps where "role \<in> set (k_Roles k)" "aget (w_Roles w) role = Some ps" "perm \<in> set ps"
      by (fastforce simp: set_permissionsForRoles split: option.splits)
    with first_key_Some [OF k] nostar show ?thesis by blast
  qed
qed

theorem permission_comes_from_role_witness:
  "\<exists>k \<in> set (w_APIKeys demo_server). k_Key k = demo_key \<and> k_Roles k = [''stats'']"
proof -
  let ?v = "demo_server\<lparr>w_keyPerms := Some [(demo_key, [''system:stats:read''])]\<rparr>"
  have "HasPermission ?v demo_key ''system:stats:read''"
    by (simp add: HasPermission_def PermissionsForKey_def)
  from permission_comes_from_role [OF demo_validated this] show ?thesis
    by (auto simp: demo_server_def)
qed

subsection \<open>Requests\<close>



text \<open>
  Proxy mode trusts only the proxy: when the UI password is \<open>webauth\<close> or \<open>noauth\<close>, an
  identity that does not come from an API key belongs to a request whose peer address is in an
  upstream network; in \<open>webauth\<close> mode it also carried a user name in the required header. A
  session cookie left over from password mode is never accepted.
\<close>

theorem proxy_mode_needs_upstream:
  assumes "Webauth (w_UIPassword w)" "authenticate w r = Some info" "ai_Via info \<noteq> ''key''"
  shows "(\<exists>ip net. host_part (rq_RemoteAddr r) = Some ip \<and> net \<in> set (w_allow w) \<and> net ip)
    \<and> (Type (w_UIPassword w) = AuthHeader \<longrightarrow>
         requiredHeader (w_UIPassword w) \<noteq> '''' \<and>
         ai_Username info = trim_space (header_get r (requiredHeader (w_UIPassword w))) \<and>
         ai_Username info \<noteq> '''')"
proof -
  have key: "authAPIKey w k = Some i \<Longrightarrow> ai_Via i = ''key''" for k i
    by (auto simp: authAPIKey_def split: if_splits option.splits)
  have "sessionAuth w u = None" for u using assms(1) by (simp add: sessionAuth_def)
  then have "proxyAuth w r = Some info"
    using assms(2,3) key by (auto simp: authenticate_def Let_def split: if_splits option.splits)
  then obtain user where allowed: "allow_contains w (rq_RemoteAddr r)"
    and user: "proxyUsername (w_UIPassword w) r = Some user" and name: "ai_Username info = user"
    by (auto simp: proxyAuth_def Let_def split: if_splits option.splits prod.splits)
  from allowed obtain ip where "host_part (rq_RemoteAddr r) = Some ip"
    and "\<exists>net \<in> set (w_allow w). net ip"
    by (auto simp: allow_contains_def Allowed_Contains_def list_ex_iff)
  then have "\<exists>ip net. host_part (rq_RemoteAddr r) = Some ip \<and> net \<in> set (w_allow w) \<and> net ip"
    by blast
  with user name show ?thesis
    by (auto simp: proxyUsername_def Let_def split: if_splits)
qed

definition demo_proxy_request :: request where
  "demo_proxy_request = \<lparr>rq_Headers = [(''X-Webauth-User'', ''bob''), (''X-Role'', ''stats, family'')],
     rq_RemoteAddr = ''10.0.0.1:4711'', rq_Cookie = None, rq_TLS = False\<rparr>"

lemmas auth_eval = header_get_def equal_fold_def to_lower_def lower_char_def trim_space_def is_space_def
  Type_def Noauth_def Webauth_def Header_def cut_colon_def requiredHeader_def host_part_def
  trim_right_def trim_left_def allow_contains_def Allowed_Contains_def char_of_def bit_Suc_0_iff

lemma demo_proxy:
  "authenticate demo_server demo_proxy_request = Some \<lparr>ai_Username = ''bob'', ai_APIKey = '''',
     ai_Auth = ''header'', ai_Via = ''header'', ai_Permissions = [''system:stats:read'']\<rparr>"
  by (simp add: authenticate_def demo_proxy_request_def demo_server_def auth_eval requestBearer_def
      proxyAuth_def proxyUsername_def AuthType_String_def proxyRolePerms_def parseRoleHeader_def
      fields_func_def matchingProxyRoles_def permissionsForRoles_def Let_def)

theorem proxy_mode_needs_upstream_witness:
  "\<exists>ip net. host_part (rq_RemoteAddr demo_proxy_request) = Some ip \<and> net \<in> set (w_allow demo_server) \<and> net ip"
proof -
  have "Webauth (w_UIPassword demo_server)" by (simp add: demo_server_def Webauth_def)
  from proxy_mode_needs_upstream [OF this demo_proxy] show ?thesis by simp
qed

text \<open>
  A role header grants only known roles: in \<open>webauth\<close> mode with a role header configured,
  every permission of a proxied identity other than through the built-in admin name is listed by
  a configured role whose name the header carries, and a header that names no known role is
  refused instead of falling back to admin.
\<close>

theorem role_header_limits:
  assumes "trim_space hdr \<noteq> ''''" "proxyRolePerms hdr r rs adminKey = Some (perms, key)"
    "RoleAdmin \<notin> set (parseRoleHeader (header_get r (trim_space hdr)))"
  shows "key = '''' \<and> perms \<noteq> [] \<and> (\<forall>p \<in> set perms. \<exists>role ps.
    role \<in> set (parseRoleHeader (header_get r (trim_space hdr))) \<and> aget rs role = Some ps \<and> p \<in> set ps)"
proof -
  let ?names = "parseRoleHeader (header_get r (trim_space hdr))"
  let ?m = "matchingProxyRoles ?names rs"
  have sub: "set ?m \<subseteq> set ?names" by (auto simp: matchingProxyRoles_def)
  from assms have p: "perms = permissionsForRoles rs ?m" "perms \<noteq> []"
    and k: "key = (if RoleAdmin \<in> set ?m then adminKey else '''')"
    by (auto simp: proxyRolePerms_def Let_def split: if_splits)
  have "RoleAdmin \<notin> set ?m" using sub assms(3) by auto
  with p k sub show ?thesis
    by (auto simp: set_permissionsForRoles split: option.splits)
qed

theorem role_header_limits_witness:
  "\<exists>role ps. role \<in> set [''stats'', ''family''] \<and> aget (w_Roles demo_server) role = Some ps
     \<and> ''system:stats:read'' \<in> set ps"
proof -
  have names: "parseRoleHeader (header_get demo_proxy_request (trim_space ''X-Role'')) = [''stats'', ''family'']"
    by (simp add: parseRoleHeader_def demo_proxy_request_def auth_eval fields_func_def)
  have perms: "proxyRolePerms ''X-Role'' demo_proxy_request (w_Roles demo_server) ''k''
      = Some ([''system:stats:read''], '''')"
    using names by (simp add: proxyRolePerms_def auth_eval matchingProxyRoles_def demo_server_def
        permissionsForRoles_def Let_def)
  have "trim_space ''X-Role'' \<noteq> ''''" by (simp add: auth_eval)
  from role_header_limits [OF this perms] names show ?thesis by simp
qed

text \<open>
  Metrics need a key: the answer of a handler guarded by \<open>requirePermHTTP\<close> depends only on the
  key in the headers; the session cookie, the peer address and TLS have no influence, and it is
  granted exactly when that key has the permission.
\<close>

theorem metrics_by_key_only:
  "requirePermHTTP w perm (r\<lparr>rq_Cookie := c, rq_RemoteAddr := a, rq_TLS := t\<rparr>) = requirePermHTTP w perm r
   \<and> ((\<exists>info. requirePermHTTP w perm r = Granted info) \<longleftrightarrow>
        requestAPIKey r \<noteq> '''' \<and> HasPermission w (requestAPIKey r) perm)"
  by (auto simp: requirePermHTTP_def requestAPIKey_def requestBearer_def header_get_def Let_def
      HasPermission_def allows_def split: option.splits if_splits)

subsection \<open>The search for a key name\<close>

lemma key_seq_finds:
  assumes "\<exists>n. n \<ge> idx \<and> ''ui-'' @ itoa n \<notin> set used"
  shows "\<exists>name. key_seq used idx = Some name \<and> name \<notin> set used"
proof -
  obtain n where "n \<ge> idx" "''ui-'' @ itoa n \<notin> set used" using assms by blast
  then show ?thesis
  proof (induction "n - idx" arbitrary: idx)
    case 0
    then show ?case by (subst key_seq.simps) (auto simp: Let_def)
  next
    case (Suc d)
    show ?case
    proof (cases "''ui-'' @ itoa idx \<notin> set used")
      case True
      then show ?thesis by (subst key_seq.simps) (auto simp: Let_def)
    next
      case False
      have "\<exists>name. key_seq used (Suc idx) = Some name \<and> name \<notin> set used"
        using Suc by (intro Suc.hyps(1)) auto
      with False show ?thesis by (subst key_seq.simps) (simp add: Let_def)
    qed
  qed
qed

lemma free_seq_exists: "\<exists>n \<ge> idx. ''ui-'' @ itoa n \<notin> set (used :: string list)"
proof (rule ccontr)
  assume "\<not> ?thesis"
  then have "(\<lambda>n. ''ui-'' @ itoa n) ` {idx..} \<subseteq> set used" by auto
  then have "finite ((\<lambda>n. ''ui-'' @ itoa n) ` {idx..})" by (rule finite_subset) simp
  moreover have "inj_on (\<lambda>n. ''ui-'' @ itoa n) {idx..}" by (simp add: inj_on_def)
  ultimately have "finite {idx..}" using finite_imageD by blast
  then show False by (simp add: infinite_Ici)
qed

text \<open>
  C39. The search for a free key name ends and its result is free: although the loop of
  \<open>unusedKeyName\<close> has no bound, it returns, and the name is used by no live key and by no key of
  the file, so the generated admin key passes the duplicate check.
\<close>

theorem unusedKeyName_fresh:
  "\<exists>name. unusedKeyName w want extra = Some name \<and>
     name \<notin> k_Name ` set (w_APIKeys w) \<and> name \<notin> k_Name ` set extra"
proof -
  let ?used = "map k_Name (w_APIKeys w) @ map k_Name extra"
  obtain name where "key_seq ?used 2 = Some name" "name \<notin> set ?used"
    using key_seq_finds [of 2 ?used] free_seq_exists [of 2 ?used] by blast
  then have "\<exists>name. unusedKeyName w want extra = Some name \<and> name \<notin> set ?used"
    by (cases "want \<in> set ?used"; cases "''ui'' \<in> set ?used") (simp_all add: unusedKeyName_def Let_def)
  then show ?thesis by auto
qed

subsection \<open>The forwarded address\<close>

lemma last_index_any_append:
  "\<forall>c \<in> set b. c \<notin> set cs \<Longrightarrow> s \<in> set cs \<Longrightarrow> last_index_any (a @ s # b) cs = Some (length a)"
proof (induction a)
  case Nil
  have "last_index_any b cs = None" if "\<forall>c \<in> set b. c \<notin> set cs" for b using that by (induction b) auto
  with Nil show ?case by simp
qed simp

text \<open>
  C40. The forwarded address of a list loses its last character: for a trusted peer and a header
  that ends in a comma or space followed by an address of at least two characters, the rewrite
  yields that address without its last character, because the slice ends at \<open>len(x)-1\<close>.
\<close>

theorem forwarded_for_truncated:
  assumes "allow_contains w (rq_RemoteAddr r)" "header_get r ''X-Forwarded-For'' = a @ s # b @ [z]"
    "s = CHR '','' \<or> s = CHR '' ''" "b \<noteq> []" "\<forall>c \<in> set (b @ [z]). c \<noteq> CHR '','' \<and> c \<noteq> CHR '' ''"
  shows "fixForwardedFor w r = Some b"
proof -
  have "last_index_any (a @ s # b @ [z]) '', '' = Some (length a)"
    using assms(3,5) by (intro last_index_any_append) auto
  moreover have "drop (length a) (take (length (a @ s # b @ [z]) - 1) (a @ s # b @ [z])) = s # b"
    by simp
  moreover have "trim_left '', '' (s # b) = b"
    using assms(3-5) by (cases b) (auto simp: trim_left_def)
  moreover have "trim_right '', '' b = b"
    using assms(4,5) by (cases b rule: rev_cases) (auto simp: trim_right_def)
  ultimately show ?thesis
    using assms(1,2) by (simp add: fixForwardedFor_def Let_def)
qed

theorem forwarded_for_truncated_witness:
  "fixForwardedFor demo_server (demo_proxy_request\<lparr>rq_Headers := [(''X-Forwarded-For'', ''1.2.3.4, 5.6.7.89'')]\<rparr>)
     = Some ''5.6.7.8''"
proof (rule forwarded_for_truncated)
  let ?r = "demo_proxy_request\<lparr>rq_Headers := [(''X-Forwarded-For'', ''1.2.3.4, 5.6.7.89'')]\<rparr>"
  show "allow_contains demo_server (rq_RemoteAddr ?r)"
    by (simp add: demo_proxy_request_def demo_server_def auth_eval)
  show "header_get ?r ''X-Forwarded-For'' = ''1.2.3.4,'' @ CHR '' '' # ''5.6.7.8'' @ [CHR ''9'']"
    by (simp add: auth_eval)
qed simp_all

end
