(* ===== verification/Hub.thy ===== *)
theory Hub
  imports Model Auth
begin

text \<open>
  \<open>pkg/unpackerr/livehub.go\<close> and the topic handling of \<open>livews.go\<close>: the hub that fans queue,
  progress, history, log and error frames out to the browsers. A buffered Go channel is the list
  of what it holds, oldest first, with its capacity checked by the \<open>select\<close> with a default that
  every producer uses. The client set is an association list from the client's address to the
  client. A message on the wire is kept as the frame it encodes; \<open>json.Marshal\<close> fails on a
  \<open>float64\<close> that is not finite, which \<open>encodable\<close> says. \<open>statsFn\<close> is the statistics it would
  return, an argument of the tick.
\<close>

abbreviation topicQueue :: string where "topicQueue \<equiv> ''queue''"
abbreviation topicProgress :: string where "topicProgress \<equiv> ''progress''"
abbreviation topicHistory :: string where "topicHistory \<equiv> ''history''"
abbreviation topicLogs :: string where "topicLogs \<equiv> ''logs''"
abbreviation topicErrors :: string where "topicErrors \<equiv> ''errors''"
abbreviation liveLogID :: string where "liveLogID \<equiv> ''live''"

definition hubEventBuf :: nat where "hubEventBuf = 64"
definition hubLogBuf :: nat where "hubLogBuf = 512"
definition clientSendBuf :: nat where "clientSendBuf = 32"
definition errorRingMax :: nat where "errorRingMax = 10"

subsection \<open>Frames\<close>

type_synonym buffer_stat = "nat \<times> nat"

record starr_queue_stat =
  sq_App :: string
  sq_Name :: string
  sq_URL :: string
  sq_Queued :: int
  sq_Retrieved :: int
  sq_Complete :: int
  sq_Match :: int
  sq_Issues :: int
  sq_Downloading :: int
  sq_UpdatedAt :: instant
  sq_Error :: string

record stats =
  st_Waiting :: uint64
  st_Queued :: uint64
  st_Extracting :: uint64
  st_Failed :: uint64
  st_Extracted :: uint64
  st_Imported :: uint64
  st_Deleted :: uint64
  st_HookOK :: uint64
  st_HookFail :: uint64
  st_CmdOK :: uint64
  st_CmdFail :: uint64
  st_Retries :: uint64
  st_Finished :: uint64
  st_Starrs :: uint64
  st_Folders :: uint64
  st_Webhooks :: uint64
  st_Cmdhooks :: uint64
  st_StackFS :: buffer_stat
  st_StackXtractr :: buffer_stat
  st_StackFolder :: buffer_stat
  st_StackHook :: buffer_stat
  st_StackDel :: buffer_stat
  st_StackTask :: buffer_stat
  st_StarrQueues :: "starr_queue_stat list"

definition zero_stats :: stats where
  "zero_stats = \<lparr>st_Waiting = 0, st_Queued = 0, st_Extracting = 0, st_Failed = 0,
     st_Extracted = 0, st_Imported = 0, st_Deleted = 0, st_HookOK = 0, st_HookFail = 0,
     st_CmdOK = 0, st_CmdFail = 0, st_Retries = 0, st_Finished = 0, st_Starrs = 0,
     st_Folders = 0, st_Webhooks = 0, st_Cmdhooks = 0, st_StackFS = (0, 0),
     st_StackXtractr = (0, 0), st_StackFolder = (0, 0), st_StackHook = (0, 0),
     st_StackDel = (0, 0), st_StackTask = (0, 0), st_StarrQueues = []\<rparr>"

record queue_frame =
  qf_Stats :: "stats option"
  qf_Items :: "queue_item list"

record history_frame =
  hf_Op :: string
  hf_Row :: "history_record option"
  hf_Rows :: "history_record list"
  hf_ID :: string

record error_frame =
  ef_At :: instant
  ef_Msg :: string

datatype payload = PNone | PQueue "queue_frame option" | PProgress queue_item
  | PHistory history_frame | PError error_frame | PLine string

record ws_frame =
  wf_Type :: string
  wf_Topics :: "string list"
  wf_Payload :: payload
  wf_File :: string
  wf_Line :: string
  wf_Error :: string

definition zero_frame :: ws_frame where
  "zero_frame = \<lparr>wf_Type = '''', wf_Topics = [], wf_Payload = PNone, wf_File = '''',
     wf_Line = '''', wf_Error = ''''\<rparr>"

record hub_event =
  he_kind :: string
  he_file :: string
  he_payload :: payload

definition f64_finite :: "f64 \<Rightarrow> bool" where
  "f64_finite w = (and (drop_bit 52 w) 0x7FF \<noteq> 0x7FF)"

definition encodable_row :: "history_record \<Rightarrow> bool" where
  "encodable_row r = f64_finite (h_Ratio r)"

definition encodable_item :: "queue_item \<Rightarrow> bool" where
  "encodable_item q = (f64_finite (q_Percent q) \<and> f64_finite (q_Ratio q))"

fun encodable :: "payload \<Rightarrow> bool" where
  "encodable PNone = True"
| "encodable (PQueue None) = True"
| "encodable (PQueue (Some f)) = list_all encodable_item (qf_Items f)"
| "encodable (PProgress q) = encodable_item q"
| "encodable (PHistory f) = ((case hf_Row f of None \<Rightarrow> True | Some r \<Rightarrow> encodable_row r)
     \<and> list_all encodable_row (hf_Rows f))"
| "encodable (PError f) = True"
| "encodable (PLine l) = True"

definition frameFor :: "hub_event \<Rightarrow> ws_frame" where
  "frameFor e = (
     if he_kind e = topicLogs then zero_frame\<lparr>wf_Type := ''log'', wf_File := he_file e,
       wf_Line := (case he_payload e of PLine l \<Rightarrow> l | _ \<Rightarrow> '''')\<rparr>
     else if he_kind e = topicErrors then zero_frame\<lparr>wf_Type := ''error'', wf_Payload := he_payload e\<rparr>
     else if he_kind e = topicQueue then zero_frame\<lparr>wf_Type := ''queue'', wf_Payload := he_payload e\<rparr>
     else if he_kind e = topicProgress then zero_frame\<lparr>wf_Type := ''progress'', wf_Payload := he_payload e\<rparr>
     else if he_kind e = topicHistory then zero_frame\<lparr>wf_Type := ''history'', wf_Payload := he_payload e\<rparr>
     else zero_frame\<lparr>wf_Type := he_kind e, wf_Payload := he_payload e\<rparr>)"

subsection \<open>Clients\<close>

record live_client =
  lc_topics :: "string list"
  lc_file :: string
  lc_send :: "ws_frame list"
  lc_info :: auth_info

definition enqueue :: "live_client \<Rightarrow> ws_frame \<Rightarrow> live_client" where
  "enqueue c msg = (if length (lc_send c) < clientSendBuf then c\<lparr>lc_send := lc_send c @ [msg]\<rparr> else c)"

definition wants :: "live_client \<Rightarrow> string \<Rightarrow> string \<Rightarrow> bool" where
  "wants c topic file = (if topic \<notin> set (lc_topics c) then False
     else if topic \<noteq> topicLogs then True else file = '''' \<or> lc_file c = file)"

definition enqueueFrame :: "live_client \<Rightarrow> ws_frame \<Rightarrow> live_client" where
  "enqueueFrame c f = (if \<not> encodable (wf_Payload f) then c else enqueue c f)"

fun drop_topics :: "string list \<Rightarrow> live_client \<Rightarrow> live_client" where
  "drop_topics [] c = c"
| "drop_topics (t # ts) c = drop_topics ts (c\<lparr>lc_topics := filter (\<lambda>x. x \<noteq> t) (lc_topics c),
     lc_file := (if t = topicLogs then '''' else lc_file c)\<rparr>)"

fun add_topics :: "string list \<Rightarrow> string \<Rightarrow> live_client \<Rightarrow> live_client" where
  "add_topics [] file c = c"
| "add_topics (t # ts) file c = add_topics ts file (c\<lparr>lc_topics := List.insert t (lc_topics c),
     lc_file := (if t = topicLogs then file else lc_file c)\<rparr>)"

definition setTopics :: "live_client \<Rightarrow> string list \<Rightarrow> string \<Rightarrow> string list \<Rightarrow> live_client" where
  "setTopics c add file dropped = add_topics add file (drop_topics dropped c)"

definition topicPerm :: "string \<Rightarrow> string" where
  "topicPerm topic = (if topic = topicQueue \<or> topic = topicProgress then PermReadSystemQueue
     else if topic = topicHistory then PermReadSystemHistory
     else if topic = topicLogs then PermReadSystemLogs
     else if topic = topicErrors then '''' else ''unknown'')"

definition allowedTopics :: "auth_info \<Rightarrow> string list" where
  "allowedTopics info = filter (\<lambda>topic. topicPerm topic = '''' \<or> allows info (topicPerm topic))
     [topicQueue, topicProgress, topicHistory, topicLogs, topicErrors]"

subsection \<open>The hub\<close>

record live_hub =
  lh_events :: "hub_event list"
  lh_logs :: "hub_event list"
  lh_clients :: "(nat \<times> live_client) list"
  lh_pending :: "(string \<times> queue_item) list"
  lh_pendingQ :: "queue_frame option"
  lh_lastStats :: stats
  lh_haveStats :: bool
  lh_appLogID :: string
  lh_httpLogID :: string
  lh_errors :: "error_frame list"

definition newLiveHub :: live_hub where
  "newLiveHub = \<lparr>lh_events = [], lh_logs = [], lh_clients = [], lh_pending = [],
     lh_pendingQ = None, lh_lastStats = zero_stats, lh_haveStats = False,
     lh_appLogID = liveLogID, lh_httpLogID = '''', lh_errors = []\<rparr>"

definition broadcast :: "live_hub \<Rightarrow> hub_event \<Rightarrow> live_hub" where
  "broadcast h e = (if \<not> encodable (wf_Payload (frameFor e)) then h
     else h\<lparr>lh_clients := amap (\<lambda>_ c. if wants c (he_kind e) (he_file e)
       then enqueue c (frameFor e) else c) (lh_clients h)\<rparr>)"

definition rememberStats :: "live_hub \<Rightarrow> stats option \<Rightarrow> live_hub" where
  "rememberStats h s = (case s of None \<Rightarrow> h
     | Some st \<Rightarrow> h\<lparr>lh_lastStats := st, lh_haveStats := True\<rparr>)"

definition statsUnchanged :: "stats \<Rightarrow> bool \<Rightarrow> stats option \<Rightarrow> bool" where
  "statsUnchanged prev have next = (have \<and> next = Some prev)"

definition hasTopic :: "live_hub \<Rightarrow> string \<Rightarrow> bool" where
  "hasTopic h topic = list_ex (\<lambda>(_, c). wants c topic '''') (lh_clients h)"

definition progress_event :: "queue_item \<Rightarrow> hub_event" where
  "progress_event item = \<lparr>he_kind = topicProgress, he_file = '''', he_payload = PProgress item\<rparr>"

definition queue_event :: "queue_frame \<Rightarrow> hub_event" where
  "queue_event frame = \<lparr>he_kind = topicQueue, he_file = '''', he_payload = PQueue (Some frame)\<rparr>"

definition flushProgress :: "live_hub \<Rightarrow> live_hub" where
  "flushProgress h = (if lh_pending h = [] then h
     else foldl (\<lambda>h (_, item). broadcast h (progress_event item))
       (h\<lparr>lh_pending := []\<rparr>) (lh_pending h))"

definition flushQueue :: "live_hub \<Rightarrow> live_hub" where
  "flushQueue h = (case lh_pendingQ h of None \<Rightarrow> h
     | Some frame \<Rightarrow> rememberStats (broadcast (h\<lparr>lh_pendingQ := None\<rparr>) (queue_event frame)) (qf_Stats frame))"

definition flushStats :: "live_hub \<Rightarrow> stats option \<Rightarrow> live_hub" where
  "flushStats h st = (if \<not> hasTopic h topicQueue then h
     else case st of None \<Rightarrow> h
       | Some s \<Rightarrow> if statsUnchanged (lh_lastStats h) (lh_haveStats h) st then h
           else broadcast (rememberStats h st) (queue_event \<lparr>qf_Stats = st, qf_Items = []\<rparr>))"

definition notify :: "live_hub \<Rightarrow> string \<Rightarrow> payload \<Rightarrow> live_hub" where
  "notify h kind p = (
     if kind = topicQueue then h\<lparr>lh_pendingQ := (case p of PQueue f \<Rightarrow> f | _ \<Rightarrow> None)\<rparr>
     else if length (lh_events h) < hubEventBuf
       then h\<lparr>lh_events := lh_events h @ [\<lparr>he_kind = kind, he_file = '''', he_payload = p\<rparr>]\<rparr> else h)"

definition notifyLog :: "live_hub \<Rightarrow> string \<Rightarrow> string \<Rightarrow> live_hub" where
  "notifyLog h file line = (if line = '''' then h
     else if length (lh_logs h) < hubLogBuf
       then h\<lparr>lh_logs := lh_logs h @ [\<lparr>he_kind = topicLogs, he_file = file, he_payload = PLine line\<rparr>]\<rparr>
     else h)"

definition notifyProgress :: "live_hub \<Rightarrow> queue_item \<Rightarrow> live_hub" where
  "notifyProgress h item = h\<lparr>lh_pending := aput (q_ID item) item (lh_pending h)\<rparr>"

definition notifyError :: "live_hub \<Rightarrow> instant \<Rightarrow> string \<Rightarrow> live_hub" where
  "notifyError h now msg = (if msg = '''' then h else
     let frame = \<lparr>ef_At = now, ef_Msg = msg\<rparr>;
         errs = lh_errors h @ [frame];
         errs = (if length errs > errorRingMax then drop (length errs - errorRingMax) errs else errs)
     in notify (h\<lparr>lh_errors := errs\<rparr>) topicErrors (PError frame))"

definition errorSnapshot :: "live_hub \<Rightarrow> error_frame list" where
  "errorSnapshot h = lh_errors h"

definition setAppLogID :: "live_hub \<Rightarrow> string \<Rightarrow> live_hub" where
  "setAppLogID h i = (if i = '''' then h else h\<lparr>lh_appLogID := i\<rparr>)"

definition setHTTPLogID :: "live_hub \<Rightarrow> string \<Rightarrow> live_hub" where
  "setHTTPLogID h i = h\<lparr>lh_httpLogID := i\<rparr>"

subsection \<open>What a browser sends\<close>

record client_op =
  co_Op :: string
  co_Topics :: "string list"
  co_File :: string

definition sub_denied :: "auth_info \<Rightarrow> string \<Rightarrow> bool" where
  "sub_denied info topic = (topicPerm topic = ''unknown''
     \<or> topicPerm topic \<noteq> '''' \<and> \<not> allows info (topicPerm topic))"

text \<open>
  The catch-up data of \<open>sendSnapshot\<close>: the statistics, the queue, the history rows and the log
  lines the daemon holds at the time of the call.
\<close>

record catch_up =
  cu_Stats :: "stats option"
  cu_Queue :: "queue_item list"
  cu_History :: "history_record list"
  cu_Log :: "string \<Rightarrow> string list"

definition sendSnapshot :: "catch_up \<Rightarrow> string \<Rightarrow> live_client \<Rightarrow> string \<Rightarrow> live_client" where
  "sendSnapshot cu file c topic = (
     if topic = topicQueue then enqueueFrame c (zero_frame\<lparr>wf_Type := ''queue'',
       wf_Payload := PQueue (Some \<lparr>qf_Stats = cu_Stats cu, qf_Items = cu_Queue cu\<rparr>)\<rparr>)
     else if topic = topicHistory then enqueueFrame c (zero_frame\<lparr>wf_Type := ''history'',
       wf_Payload := PHistory \<lparr>hf_Op = ''snapshot'', hf_Row = None, hf_Rows = cu_History cu, hf_ID = ''''\<rparr>\<rparr>)
     else if topic = topicLogs then foldl (\<lambda>c line. enqueueFrame c
       (zero_frame\<lparr>wf_Type := ''log'', wf_File := file, wf_Line := line\<rparr>)) c (cu_Log cu file)
     else c)"

definition handleSub :: "live_hub \<Rightarrow> catch_up \<Rightarrow> live_client \<Rightarrow> client_op \<Rightarrow> live_client" where
  "handleSub h cu c msg = (
     let allowed = filter (\<lambda>t. \<not> sub_denied (lc_info c) t) (co_Topics msg);
         denied = filter (sub_denied (lc_info c)) (co_Topics msg);
         file = (if co_File msg = '''' then lh_appLogID h else co_File msg);
         c = setTopics c allowed file [];
         c = foldl (\<lambda>c t. enqueueFrame c (zero_frame\<lparr>wf_Type := ''denied'', wf_Error := t\<rparr>)) c denied
     in foldl (sendSnapshot cu file) c allowed)"

text \<open>One message of \<open>liveWSRead\<close>, and the connection set-up of \<open>liveWSHandler\<close>.\<close>

definition client_message :: "live_hub \<Rightarrow> catch_up \<Rightarrow> live_client \<Rightarrow> client_op \<Rightarrow> live_client" where
  "client_message h cu c msg = (
     if co_Op msg = ''sub'' then handleSub h cu c msg
     else if co_Op msg = ''unsub'' then setTopics c [] '''' (co_Topics msg) else c)"

definition new_client :: "auth_info \<Rightarrow> live_client" where
  "new_client info = enqueueFrame \<lparr>lc_topics = [], lc_file = '''', lc_send = [], lc_info = info\<rparr>
     (zero_frame\<lparr>wf_Type := ''hello'', wf_Topics := allowedTopics info\<rparr>)"

subsection \<open>The hub's life\<close>

text \<open>
  The inputs of the hub: the branches of the \<open>select\<close> of \<open>run\<close> (a client registered or
  unregistered, an event or a log line received, the ticker), what producers publish, what a
  browser sends, and the writer goroutine taking a message off a client's buffer.
\<close>

datatype hub_input = Register nat auth_info | Unregister nat | RecvEvent | RecvLog
  | Tick "stats option" | Notify string payload | NotifyLog string string
  | NotifyProgress queue_item | NotifyError instant string | AppLogID string
  | Message nat catch_up client_op | Written nat

fun hub_step :: "live_hub \<Rightarrow> hub_input \<Rightarrow> live_hub" where
  "hub_step h (Register a info) = h\<lparr>lh_clients := aput a (new_client info) (lh_clients h)\<rparr>"
| "hub_step h (Unregister a) = h\<lparr>lh_clients := adel a (lh_clients h)\<rparr>"
| "hub_step h RecvEvent = (case lh_events h of [] \<Rightarrow> h
     | e # es \<Rightarrow> broadcast (h\<lparr>lh_events := es\<rparr>) e)"
| "hub_step h RecvLog = (case lh_logs h of [] \<Rightarrow> h
     | e # es \<Rightarrow> broadcast (h\<lparr>lh_logs := es\<rparr>) e)"
| "hub_step h (Tick st) = flushStats (flushQueue (flushProgress h)) st"
| "hub_step h (Notify k p) = notify h k p"
| "hub_step h (NotifyLog file line) = notifyLog h file line"
| "hub_step h (NotifyProgress item) = notifyProgress h item"
| "hub_step h (NotifyError now msg) = notifyError h now msg"
| "hub_step h (AppLogID i) = setAppLogID h i"
| "hub_step h (Message a cu msg) = (case aget (lh_clients h) a of None \<Rightarrow> h
     | Some c \<Rightarrow> h\<lparr>lh_clients := aput a (client_message h cu c msg) (lh_clients h)\<rparr>)"
| "hub_step h (Written a) = (case aget (lh_clients h) a of None \<Rightarrow> h
     | Some c \<Rightarrow> h\<lparr>lh_clients := aput a (c\<lparr>lc_send := tl (lc_send c)\<rparr>) (lh_clients h)\<rparr>)"

inductive hub_reach :: "live_hub \<Rightarrow> bool" where
  hub_start: "hub_reach newLiveHub"
| hub_next: "hub_reach h \<Longrightarrow> hub_reach (hub_step h i)"

end
