(* ===== verification/HubProps.thy ===== *)
theory HubProps
  imports Hub
begin

text \<open>
  Properties of the hub: its buffers are bounded, a browser receives only frames its permissions
  allow, progress rows coalesce to the latest per item, the queue snapshot of the last
  notification is never lost to a full buffer, and the error ring holds the latest errors.
\<close>

subsection \<open>Clients\<close>

lemma enqueue_keeps [frame_simps]:
  "lc_topics (enqueue c f) = lc_topics c" "lc_file (enqueue c f) = lc_file c" "lc_info (enqueue c f) = lc_info c"
  by (simp_all add: enqueue_def)

lemma enqueueFrame_keeps [frame_simps]:
  "lc_topics (enqueueFrame c f) = lc_topics c" "lc_file (enqueueFrame c f) = lc_file c"
  "lc_info (enqueueFrame c f) = lc_info c"
  by (simp_all add: enqueueFrame_def frame_simps)

lemma enqueue_take:
  "length (lc_send c) \<le> clientSendBuf \<Longrightarrow> lc_send (enqueue c f) = take clientSendBuf (lc_send c @ [f])"
  by (auto simp: enqueue_def)

lemma enqueue_record:
  "length (lc_send c) \<le> clientSendBuf \<Longrightarrow>
     enqueue c f = c\<lparr>lc_send := take clientSendBuf (lc_send c @ [f])\<rparr>"
  by (auto simp: enqueue_def)

lemma foldl_enqueueFrame_keeps [frame_simps]:
  "lc_topics (foldl (\<lambda>c x. enqueueFrame c (g x)) c xs) = lc_topics c"
  "lc_info (foldl (\<lambda>c x. enqueueFrame c (g x)) c xs) = lc_info c"
  by (induction xs arbitrary: c) (auto simp: frame_simps)

lemma sendSnapshot_keeps [frame_simps]:
  "lc_topics (sendSnapshot cu file c t) = lc_topics c" "lc_info (sendSnapshot cu file c t) = lc_info c"
  by (simp_all add: sendSnapshot_def frame_simps)

lemma foldl_sendSnapshot_keeps [frame_simps]:
  "lc_topics (foldl (sendSnapshot cu file) c ts) = lc_topics c"
  "lc_info (foldl (sendSnapshot cu file) c ts) = lc_info c"
  by (induction ts arbitrary: c) (auto simp: frame_simps)

lemma drop_topics_keeps:
  "set (lc_topics (drop_topics ts c)) = set (lc_topics c) - set ts \<and> lc_info (drop_topics ts c) = lc_info c
     \<and> lc_send (drop_topics ts c) = lc_send c"
  by (induction ts c rule: drop_topics.induct) auto

lemma add_topics_keeps:
  "set (lc_topics (add_topics ts file c)) = set (lc_topics c) \<union> set ts \<and>
     lc_info (add_topics ts file c) = lc_info c \<and> lc_send (add_topics ts file c) = lc_send c"
  by (induction ts arbitrary: c) auto

lemma setTopics_keeps:
  "set (lc_topics (setTopics c add file dropped)) = set (lc_topics c) - set dropped \<union> set add"
  "lc_info (setTopics c add file dropped) = lc_info c"
  "lc_send (setTopics c add file dropped) = lc_send c"
  using drop_topics_keeps add_topics_keeps by (simp_all add: setTopics_def)

subsection \<open>What a client may hold\<close>

text \<open>
  The permission a frame type needs, and the well-formedness of a client: a bounded buffer whose
  frames its identity may read, and topics it may subscribe to.
\<close>

definition frame_perm :: "string \<Rightarrow> string option" where
  "frame_perm ty = (if ty = ''queue'' \<or> ty = ''progress'' then Some PermReadSystemQueue
     else if ty = ''history'' then Some PermReadSystemHistory
     else if ty = ''log'' then Some PermReadSystemLogs else None)"

definition frame_permitted :: "auth_info \<Rightarrow> ws_frame \<Rightarrow> bool" where
  "frame_permitted info f = (case frame_perm (wf_Type f) of None \<Rightarrow> True | Some p \<Rightarrow> allows info p)"

definition client_ok :: "live_client \<Rightarrow> bool" where
  "client_ok c \<longleftrightarrow> length (lc_send c) \<le> clientSendBuf
     \<and> (\<forall>f \<in> set (lc_send c). frame_permitted (lc_info c) f)
     \<and> (\<forall>t \<in> set (lc_topics c). \<not> sub_denied (lc_info c) t)"

lemma client_ok_enqueue:
  "client_ok c \<Longrightarrow> frame_permitted (lc_info c) f \<Longrightarrow> client_ok (enqueue c f)"
  by (auto simp: client_ok_def enqueue_def)

lemma client_ok_enqueueFrame:
  "client_ok c \<Longrightarrow> frame_permitted (lc_info c) f \<Longrightarrow> client_ok (enqueueFrame c f)"
  by (auto simp: enqueueFrame_def client_ok_enqueue)

lemma client_ok_foldl:
  "client_ok c \<Longrightarrow> (\<And>x. frame_permitted (lc_info c) (g x)) \<Longrightarrow>
     client_ok (foldl (\<lambda>c x. enqueueFrame c (g x)) c xs)"
  by (induction xs arbitrary: c) (auto simp: client_ok_enqueueFrame frame_simps)

lemma frame_type [simp]:
  "wf_Type (zero_frame\<lparr>wf_Type := t, wf_File := a, wf_Line := b\<rparr>) = t"
  "wf_Type (zero_frame\<lparr>wf_Type := t, wf_Payload := p\<rparr>) = t"
  "wf_Type (zero_frame\<lparr>wf_Type := t, wf_Error := s\<rparr>) = t"
  "wf_Type (zero_frame\<lparr>wf_Type := t, wf_Topics := ts\<rparr>) = t"
  by simp_all

lemma not_denied:
  assumes "\<not> sub_denied info t"
  shows "t = topicQueue \<Longrightarrow> allows info PermReadSystemQueue"
    "t = topicHistory \<Longrightarrow> allows info PermReadSystemHistory"
    "t = topicLogs \<Longrightarrow> allows info PermReadSystemLogs"
  using assms by (simp_all add: sub_denied_def topicPerm_def)

lemma frame_permitted_types:
  "allows info PermReadSystemQueue \<Longrightarrow> wf_Type f = ''queue'' \<Longrightarrow> frame_permitted info f"
  "allows info PermReadSystemHistory \<Longrightarrow> wf_Type f = ''history'' \<Longrightarrow> frame_permitted info f"
  "allows info PermReadSystemLogs \<Longrightarrow> wf_Type f = ''log'' \<Longrightarrow> frame_permitted info f"
  by (simp_all add: frame_permitted_def frame_perm_def)

lemma client_ok_snapshot:
  assumes "client_ok c" "\<not> sub_denied (lc_info c) t"
  shows "client_ok (sendSnapshot cu file c t)"
proof -
  consider "t = topicQueue" | "t = topicHistory" | "t = topicLogs"
    | "t \<noteq> topicQueue" "t \<noteq> topicHistory" "t \<noteq> topicLogs" by blast
  then show ?thesis
  proof cases
    case 1
    from not_denied(1) [OF assms(2) 1] show ?thesis unfolding 1 sendSnapshot_def
      by (simp add: client_ok_enqueueFrame [OF assms(1)] frame_permitted_types(1))
  next
    case 2
    from not_denied(2) [OF assms(2) 2] show ?thesis unfolding 2 sendSnapshot_def
      by (simp add: client_ok_enqueueFrame [OF assms(1)] frame_permitted_types(2))
  next
    case 3
    from not_denied(3) [OF assms(2) 3] have "client_ok (foldl (\<lambda>c line. enqueueFrame c
       (zero_frame\<lparr>wf_Type := ''log'', wf_File := fl, wf_Line := line\<rparr>)) c (cu_Log cu fl))" for fl
      by (intro client_ok_foldl [OF assms(1)] frame_permitted_types(3)) simp_all
    then show ?thesis unfolding 3 sendSnapshot_def by simp
  next
    case 4
    then show ?thesis by (simp add: sendSnapshot_def assms(1))
  qed
qed

lemma client_ok_snapshots:
  "client_ok c \<Longrightarrow> \<forall>t \<in> set ts. \<not> sub_denied (lc_info c) t \<Longrightarrow>
     client_ok (foldl (sendSnapshot cu file) c ts)"
  by (induction ts arbitrary: c) (auto simp: client_ok_snapshot frame_simps)

lemma client_ok_setTopics:
  "client_ok c \<Longrightarrow> \<forall>t \<in> set add. \<not> sub_denied (lc_info c) t \<Longrightarrow> client_ok (setTopics c add file dropped)"
  by (auto simp: client_ok_def setTopics_keeps)

lemma denied_permitted: "frame_permitted info (zero_frame\<lparr>wf_Type := ''denied'', wf_Error := t\<rparr>)"
  by (simp add: frame_permitted_def frame_perm_def)

lemma client_ok_handleSub:
  assumes "client_ok c" shows "client_ok (handleSub h cu c msg)"
proof -
  define allowed where "allowed = filter (\<lambda>t. \<not> sub_denied (lc_info c) t) (co_Topics msg)"
  define fl where "fl = (if co_File msg = '''' then lh_appLogID h else co_File msg)"
  define c1 where "c1 = setTopics c allowed fl []"
  define c2 where "c2 = foldl (\<lambda>c t. enqueueFrame c (zero_frame\<lparr>wf_Type := ''denied'', wf_Error := t\<rparr>)) c1
     (filter (sub_denied (lc_info c)) (co_Topics msg))"
  have "client_ok c1"
    unfolding c1_def by (rule client_ok_setTopics [OF assms]) (simp add: allowed_def)
  then have "client_ok c2" unfolding c2_def by (rule client_ok_foldl) (rule denied_permitted)
  moreover have "lc_info c2 = lc_info c" by (simp add: c2_def c1_def frame_simps setTopics_keeps)
  ultimately have "client_ok (foldl (sendSnapshot cu fl) c2 allowed)"
    by (intro client_ok_snapshots) (auto simp: allowed_def)
  then show ?thesis by (simp add: handleSub_def Let_def c2_def c1_def fl_def allowed_def)
qed

lemma client_ok_message: "client_ok c \<Longrightarrow> client_ok (client_message h cu c msg)"
  by (auto simp: client_message_def client_ok_handleSub intro: client_ok_setTopics)

lemma client_ok_new: "client_ok (new_client info)"
  unfolding new_client_def
  by (rule client_ok_enqueueFrame) (simp_all add: client_ok_def frame_permitted_def frame_perm_def)

subsection \<open>Broadcast\<close>

lemma broadcast_keeps [frame_simps]:
  "lh_events (broadcast h e) = lh_events h" "lh_logs (broadcast h e) = lh_logs h"
  "lh_pending (broadcast h e) = lh_pending h" "lh_pendingQ (broadcast h e) = lh_pendingQ h"
  "lh_errors (broadcast h e) = lh_errors h"
  by (simp_all add: broadcast_def)

lemma aget_broadcast: "aget (lh_clients (broadcast h e)) a = (if \<not> encodable (wf_Payload (frameFor e))
    then aget (lh_clients h) a
    else map_option (\<lambda>c. if wants c (he_kind e) (he_file e) then enqueue c (frameFor e) else c)
      (aget (lh_clients h) a))"
  by (simp add: broadcast_def)

lemma wanted_permitted:
  assumes "client_ok c" "wants c (he_kind e) file"
  shows "frame_permitted (lc_info c) (frameFor e)"
proof -
  have t: "he_kind e \<in> set (lc_topics c)" using assms(2) by (auto simp: wants_def split: if_splits)
  then have "\<not> sub_denied (lc_info c) (he_kind e)" using assms(1) by (auto simp: client_ok_def)
  then show ?thesis
    by (auto simp: frameFor_def sub_denied_def topicPerm_def frame_permitted_def frame_perm_def
         split: if_splits)
qed

definition hub_ok :: "live_hub \<Rightarrow> bool" where
  "hub_ok h \<longleftrightarrow> length (lh_events h) \<le> hubEventBuf \<and> length (lh_logs h) \<le> hubLogBuf
     \<and> length (lh_errors h) \<le> errorRingMax \<and> distinct (akeys (lh_pending h))
     \<and> (\<forall>a c. aget (lh_clients h) a = Some c \<longrightarrow> client_ok c)"

lemma hub_ok_broadcast: "hub_ok h \<Longrightarrow> hub_ok (broadcast h e)"
  unfolding hub_ok_def aget_broadcast frame_simps
  by (auto simp: client_ok_enqueue wanted_permitted split: if_splits)

lemma hub_ok_progress_loop:
  "hub_ok h \<Longrightarrow> hub_ok (foldl (\<lambda>h (_, item). broadcast h (progress_event item)) h items)"
  by (induction items arbitrary: h) (auto simp: hub_ok_broadcast)

lemma hub_ok_cong:
  "hub_ok h \<Longrightarrow> lh_events h' = lh_events h \<Longrightarrow> lh_logs h' = lh_logs h \<Longrightarrow> lh_errors h' = lh_errors h
     \<Longrightarrow> distinct (akeys (lh_pending h')) \<Longrightarrow> lh_clients h' = lh_clients h \<Longrightarrow> hub_ok h'"
  by (simp add: hub_ok_def)

lemma hub_ok_rememberStats: "hub_ok h \<Longrightarrow> hub_ok (rememberStats h s)"
  by (auto simp: rememberStats_def hub_ok_def split: option.splits)

lemma hub_ok_flushProgress: "hub_ok h \<Longrightarrow> hub_ok (flushProgress h)"
  unfolding flushProgress_def
  by (auto intro!: hub_ok_progress_loop elim!: hub_ok_cong simp: akeys_def)

lemma hub_ok_flushQueue:
  assumes "hub_ok h" shows "hub_ok (flushQueue h)"
proof (cases "lh_pendingQ h")
  case (Some frame)
  have "hub_ok (h\<lparr>lh_pendingQ := None\<rparr>)" using assms by (simp add: hub_ok_def)
  then have "hub_ok (rememberStats (broadcast (h\<lparr>lh_pendingQ := None\<rparr>) (queue_event frame)) (qf_Stats frame))"
    by (intro hub_ok_rememberStats hub_ok_broadcast)
  with Some show ?thesis by (simp add: flushQueue_def)
qed (simp add: flushQueue_def assms)

lemma hub_ok_flushStats: "hub_ok h \<Longrightarrow> hub_ok (flushStats h st)"
  unfolding flushStats_def by (auto split: option.splits intro!: hub_ok_broadcast hub_ok_rememberStats)

lemma hub_ok_notify: "hub_ok h \<Longrightarrow> hub_ok (notify h k p)"
  by (auto simp: notify_def hub_ok_def)

lemma set_tl: "x \<in> set (tl xs) \<Longrightarrow> x \<in> set xs"
  by (cases xs) auto

lemma client_ok_tl:
  assumes "client_ok c" shows "client_ok (c\<lparr>lc_send := tl (lc_send c)\<rparr>)"
proof -
  have "length (tl (lc_send c)) \<le> length (lc_send c)" by simp
  also have "\<dots> \<le> clientSendBuf" using assms by (simp add: client_ok_def)
  finally have "length (tl (lc_send c)) \<le> clientSendBuf" .
  with assms show ?thesis by (auto simp: client_ok_def dest: set_tl)
qed

lemma hub_ok_step: "hub_ok h \<Longrightarrow> hub_ok (hub_step h i)"
proof (cases i)
  case (NotifyError now msg)
  assume "hub_ok h"
  then show ?thesis unfolding NotifyError
    by (auto simp: notifyError_def Let_def intro!: hub_ok_notify) (auto simp: hub_ok_def)
next
  case RecvEvent
  assume "hub_ok h"
  then show ?thesis unfolding RecvEvent
    by (auto split: list.splits intro!: hub_ok_broadcast) (auto simp: hub_ok_def)
next
  case RecvLog
  assume "hub_ok h"
  then show ?thesis unfolding RecvLog
    by (auto split: list.splits intro!: hub_ok_broadcast) (auto simp: hub_ok_def)
next
  case (Message a cu msg)
  assume "hub_ok h"
  then show ?thesis unfolding Message by (auto simp: hub_ok_def client_ok_message split: option.splits)
next
  case (Written a)
  assume "hub_ok h"
  then show ?thesis unfolding Written by (auto simp: hub_ok_def client_ok_tl split: option.splits)
next
  case (Tick st)
  assume "hub_ok h"
  then show ?thesis unfolding Tick by (simp add: hub_ok_flushStats hub_ok_flushQueue hub_ok_flushProgress)
qed (auto simp: hub_ok_notify, auto simp: hub_ok_def client_ok_new notifyLog_def notifyProgress_def
    setAppLogID_def split: if_splits)

lemma hub_ok_reach: "hub_reach h \<Longrightarrow> hub_ok h"
  by (induction rule: hub_reach.induct)
    (simp_all add: hub_ok_step, simp add: hub_ok_def newLiveHub_def akeys_def)

subsection \<open>Properties\<close>

text \<open>
  No buffer of the hub outgrows its channel: after any sequence of producer calls, client
  messages and turns of \<open>run\<close>, at most 64 events, 512 log lines and 10 remembered errors are
  held, at most one pending progress row per item, and at most 32 messages per browser, so a
  stuck browser or a burst of log lines cannot grow the daemon's memory or block a producer.
\<close>

theorem hub_buffers_bounded:
  assumes "hub_reach h"
  shows "length (lh_events h) \<le> 64 \<and> length (lh_logs h) \<le> 512 \<and> length (lh_errors h) \<le> 10
    \<and> distinct (map fst (lh_pending h))
    \<and> (\<forall>a c. aget (lh_clients h) a = Some c \<longrightarrow> length (lc_send c) \<le> 32)"
  using hub_ok_reach [OF assms]
  by (auto simp: hub_ok_def client_ok_def hubEventBuf_def hubLogBuf_def errorRingMax_def
      clientSendBuf_def akeys_def)

definition demo_info :: auth_info where
  "demo_info = \<lparr>ai_Username = ''u'', ai_APIKey = '''', ai_Auth = '''', ai_Via = '''',
     ai_Permissions = [PermReadSystemHistory]\<rparr>"

lemma hub_reach_seq: "hub_reach h \<Longrightarrow> hub_reach (foldl hub_step h inputs)"
  by (induction inputs arbitrary: h) (auto intro: hub_next)

theorem hub_buffers_bounded_witness:
  "length (lh_events (foldl hub_step newLiveHub (replicate 70 (Notify topicHistory PNone)))) \<le> 64"
  using hub_buffers_bounded [OF hub_reach_seq [OF hub_start], THEN conjunct1] by simp

text \<open>
  C36. The websocket leaks nothing: whatever browsers send and producers publish, every message
  queued for a browser that carries queue or progress data, history rows or log lines is queued
  for an identity that holds the read permission of that resource, and the topics a browser is
  subscribed to are known topics it may read.
\<close>

theorem frames_need_permission:
  assumes "hub_reach h" "aget (lh_clients h) a = Some c"
  shows "(\<forall>f \<in> set (lc_send c).
        (wf_Type f \<in> {''queue'', ''progress''} \<longrightarrow> allows (lc_info c) PermReadSystemQueue)
      \<and> (wf_Type f = ''history'' \<longrightarrow> allows (lc_info c) PermReadSystemHistory)
      \<and> (wf_Type f = ''log'' \<longrightarrow> allows (lc_info c) PermReadSystemLogs))
    \<and> set (lc_topics c) \<subseteq> set (allowedTopics (lc_info c))"
proof -
  have ok: "client_ok c" using hub_ok_reach [OF assms(1)] assms(2) by (simp add: hub_ok_def)
  then have "\<forall>f \<in> set (lc_send c). frame_permitted (lc_info c) f" by (simp add: client_ok_def)
  moreover have "set (lc_topics c) \<subseteq> set (allowedTopics (lc_info c))"
    using ok by (auto simp: client_ok_def sub_denied_def allowedTopics_def topicPerm_def split: if_splits)
  ultimately show ?thesis
    by (auto simp: frame_permitted_def frame_perm_def split: if_splits)
qed

definition demo_sub :: client_op where
  "demo_sub = \<lparr>co_Op = ''sub'', co_Topics = [topicQueue, topicHistory], co_File = ''''\<rparr>"

definition demo_catch_up :: catch_up where
  "demo_catch_up = \<lparr>cu_Stats = None, cu_Queue = [], cu_History = [], cu_Log = (\<lambda>_. [])\<rparr>"

definition demo_hub :: live_hub where
  "demo_hub = foldl hub_step newLiveHub [Register 1 demo_info, Message 1 demo_catch_up demo_sub]"

lemma demo_client: "aget (lh_clients demo_hub) 1 = Some (client_message
    (newLiveHub\<lparr>lh_clients := [(1, new_client demo_info)]\<rparr>) demo_catch_up (new_client demo_info) demo_sub)"
  by (simp add: demo_hub_def newLiveHub_def)

theorem frames_need_permission_witness:
  "set (lc_topics (client_message (newLiveHub\<lparr>lh_clients := [(1, new_client demo_info)]\<rparr>)
     demo_catch_up (new_client demo_info) demo_sub)) \<subseteq> set (allowedTopics demo_info)
   \<and> \<not> allows demo_info PermReadSystemQueue"
proof -
  have info: "lc_info (client_message (newLiveHub\<lparr>lh_clients := [(1, new_client demo_info)]\<rparr>)
     demo_catch_up (new_client demo_info) demo_sub) = demo_info"
    by (simp add: client_message_def demo_sub_def handleSub_def Let_def frame_simps setTopics_keeps
        new_client_def)
  have "hub_reach demo_hub" unfolding demo_hub_def by (rule hub_reach_seq [OF hub_start])
  from frames_need_permission [OF this demo_client] have
    "set (lc_topics (client_message (newLiveHub\<lparr>lh_clients := [(1, new_client demo_info)]\<rparr>)
     demo_catch_up (new_client demo_info) demo_sub)) \<subseteq> set (allowedTopics demo_info)"
    unfolding info by (rule conjunct2)
  then show ?thesis by (simp add: allows_def demo_info_def)
qed

subsection \<open>Coalescing\<close>

lemma progress_event_simps [simp]:
  "he_kind (progress_event i) = topicProgress" "he_file (progress_event i) = ''''"
  "frameFor (progress_event i) = zero_frame\<lparr>wf_Type := ''progress'', wf_Payload := PProgress i\<rparr>"
  by (simp_all add: progress_event_def frameFor_def)

lemma queue_event_simps [simp]:
  "he_kind (queue_event f) = topicQueue" "he_file (queue_event f) = ''''"
  "frameFor (queue_event f) = zero_frame\<lparr>wf_Type := ''queue'', wf_Payload := PQueue (Some f)\<rparr>"
  by (simp_all add: queue_event_def frameFor_def)

definition progress_frames :: "queue_item list \<Rightarrow> ws_frame list" where
  "progress_frames items = map (\<lambda>i. zero_frame\<lparr>wf_Type := ''progress'', wf_Payload := PProgress i\<rparr>)
     (filter encodable_item items)"

lemma take_append_take: "take n (take n xs @ ys) = take n (xs @ ys)"
  by (cases "length xs \<le> n") (simp_all add: take_append)

lemma broadcast_progress:
  assumes "aget (lh_clients h) a = Some c" "wants c topicProgress ''''" "length (lc_send c) \<le> clientSendBuf"
  shows "aget (lh_clients (foldl (\<lambda>h (_, item). broadcast h (progress_event item)) h items)) a
    = Some (c\<lparr>lc_send := take clientSendBuf (lc_send c @ progress_frames (map snd items))\<rparr>)"
  using assms
proof (induction items arbitrary: h c)
  case (Cons ki items)
  obtain k i where ki: "ki = (k, i)" by (cases ki)
  define c' where "c' = (if encodable_item i then enqueue c
     (zero_frame\<lparr>wf_Type := ''progress'', wf_Payload := PProgress i\<rparr>) else c)"
  have c': "aget (lh_clients (broadcast h (progress_event i))) a = Some c'"
    using Cons.prems by (simp add: aget_broadcast c'_def)
  have "lc_topics c' = lc_topics c" "lc_file c' = lc_file c" by (simp_all add: c'_def frame_simps)
  then have w: "wants c' topicProgress ''''" using Cons.prems(2) by (auto simp: wants_def split: if_splits)
  have l: "length (lc_send c') \<le> clientSendBuf"
    using Cons.prems(3) by (auto simp: c'_def enqueue_def)
  have s: "c'\<lparr>lc_send := take clientSendBuf (lc_send c' @ fs)\<rparr>
      = c\<lparr>lc_send := take clientSendBuf (lc_send c @ progress_frames [i] @ fs)\<rparr>" for fs
    using Cons.prems(3)
    by (cases "length (lc_send c) < clientSendBuf")
      (auto simp: c'_def enqueue_def progress_frames_def take_append_take)
  have p: "progress_frames (map snd (ki # items)) = progress_frames [i] @ progress_frames (map snd items)"
    by (simp add: ki progress_frames_def)
  show ?case unfolding p s [symmetric] using Cons.IH [OF c' w l] by (simp add: ki)
qed (simp add: progress_frames_def)

lemma pending_notify: "lh_pending (foldl notifyProgress h xs) = foldl (\<lambda>m i. aput (q_ID i) i m) (lh_pending h) xs"
  by (induction xs arbitrary: h) (simp_all add: notifyProgress_def)

lemma clients_notify: "lh_clients (foldl notifyProgress h xs) = lh_clients h"
  by (induction xs arbitrary: h) (simp_all add: notifyProgress_def)

text \<open>\<open>latest xs x\<close>: \<open>x\<close> is the last row of its item in the sequence.\<close>

definition latest :: "queue_item list \<Rightarrow> queue_item \<Rightarrow> bool" where
  "latest xs x \<longleftrightarrow> (\<exists>ys zs. xs = ys @ x # zs \<and> q_ID x \<notin> q_ID ` set zs)"

lemma latest_snoc: "latest (xs @ [y]) x \<longleftrightarrow> x = y \<or> latest xs x \<and> q_ID x \<noteq> q_ID y"
proof
  assume "latest (xs @ [y]) x"
  then obtain ys zs where e: "xs @ [y] = ys @ x # zs" "q_ID x \<notin> q_ID ` set zs" by (auto simp: latest_def)
  then show "x = y \<or> latest xs x \<and> q_ID x \<noteq> q_ID y"
    by (cases zs rule: rev_cases) (auto simp: latest_def)
next
  assume "x = y \<or> latest xs x \<and> q_ID x \<noteq> q_ID y"
  then show "latest (xs @ [y]) x"
  proof
    assume "x = y"
    then have "xs @ [y] = xs @ x # [] \<and> q_ID x \<notin> q_ID ` set []" by simp
    then show ?thesis unfolding latest_def by blast
  next
    assume a: "latest xs x \<and> q_ID x \<noteq> q_ID y"
    then obtain ys zs where "xs = ys @ x # zs" "q_ID x \<notin> q_ID ` set zs" by (auto simp: latest_def)
    with a have "xs @ [y] = ys @ x # (zs @ [y]) \<and> q_ID x \<notin> q_ID ` set (zs @ [y])" by auto
    then show ?thesis unfolding latest_def by blast
  qed
qed

lemma pending_latest:
  "distinct (akeys (foldl (\<lambda>m i. aput (q_ID i) i m) [] xs))
   \<and> (\<forall>k i. aget (foldl (\<lambda>m i. aput (q_ID i) i m) [] xs) k = Some i \<longleftrightarrow> latest xs i \<and> k = q_ID i)"
proof (induction xs rule: rev_induct)
  case Nil
  then show ?case by (simp add: latest_def akeys_def)
next
  case (snoc y xs)
  then show ?case by (auto simp: latest_snoc)
qed

lemma alist_items:
  assumes "distinct (akeys m)" "\<forall>k i. aget m k = Some i \<longleftrightarrow> P i \<and> k = f i"
  shows "set (map snd m) = {i. P i} \<and> distinct (map f (map snd m))"
proof -
  have mem: "(k, i) \<in> set m \<longleftrightarrow> P i \<and> k = f i" for k i
    using assms by (metis akeys_def map_of_eq_Some_iff)
  then have keys: "map f (map snd m) = akeys m" by (auto simp: akeys_def)
  have "set (map snd m) = {i. P i}" using mem by force
  with assms(1) show ?thesis unfolding keys by simp
qed

text \<open>
  Progress coalesces per item: whatever rows producers publish between two ticks, a browser
  subscribed to progress gets at most one message per item, the row published last for it, in
  some order of the items, cut only where its own buffer of 32 messages is full; afterwards
  nothing is pending.
\<close>

theorem progress_coalesced:
  assumes "lh_pending h = []" "aget (lh_clients h) a = Some c" "wants c topicProgress ''''"
    "length (lc_send c) \<le> clientSendBuf"
  shows "\<exists>items. set items = {i. latest xs i} \<and> distinct (map q_ID items)
    \<and> aget (lh_clients (flushProgress (foldl notifyProgress h xs))) a
        = Some (c\<lparr>lc_send := take clientSendBuf (lc_send c @ progress_frames items)\<rparr>)
    \<and> lh_pending (flushProgress (foldl notifyProgress h xs)) = []"
proof -
  define h' where "h' = foldl notifyProgress h xs"
  define m where "m = lh_pending h'"
  have m: "m = foldl (\<lambda>m i. aput (q_ID i) i m) [] xs" by (simp add: m_def h'_def pending_notify assms(1))
  have items: "set (map snd m) = {i. latest xs i} \<and> distinct (map q_ID (map snd m))"
    by (rule alist_items) (use pending_latest [of xs] m in auto)
  have c: "aget (lh_clients (h'\<lparr>lh_pending := []\<rparr>)) a = Some c"
    using assms(2) by (simp add: h'_def clients_notify)
  have flush: "flushProgress h' = (if m = [] then h'
     else foldl (\<lambda>h (_, item). broadcast h (progress_event item)) (h'\<lparr>lh_pending := []\<rparr>) m)"
    by (simp add: flushProgress_def m_def)
  have pend: "lh_pending (foldl (\<lambda>h (_, item). broadcast h (progress_event item)) g ys) = lh_pending g" for g ys
    by (induction ys arbitrary: g) (auto simp: frame_simps)
  have "aget (lh_clients (flushProgress h')) a
      = Some (c\<lparr>lc_send := take clientSendBuf (lc_send c @ progress_frames (map snd m))\<rparr>)"
    using broadcast_progress [OF c assms(3,4), of m] c assms(4) by (simp add: flush progress_frames_def)
  moreover have "lh_pending (flushProgress h') = []" by (simp add: flush pend m_def)
  ultimately show ?thesis using items unfolding h'_def by blast
qed

definition demo_item :: queue_item where
  "demo_item = \<lparr>q_ID = ''a'', q_App = '''', q_Title = '''', q_Reason = '''', q_URL = '''',
     q_Path = '''', q_OutputPath = '''', q_Status = WAITING, q_Retries = 0, q_HookFail = 0,
     q_Updated = 0, q_Started = 0, q_Elapsed = '''', q_Progress = '''', q_Error = '''',
     q_Percent = 0, q_Wrote = 0, q_Total = 0, q_Read = 0, q_Compressed = 0, q_Files = 0,
     q_Count = 0, q_Archives = 0, q_Extracted = 0, q_Archive = '''', q_ArchiveFiles = [],
     q_NewFiles = [], q_SpeedBps = 0, q_AvgSpeedBps = 0, q_ETA = 0, q_Due = 0, q_DueKind = '''',
     q_Note = '''', q_Event = '''', q_Bytes = 0, q_Ratio = 0, q_Queue = 0, q_Output = '''',
     q_Kind = '''', q_IDs = [], q_OrigFiles = [], q_SpeedBytesPerSecond = 0, q_ETASeconds = 0,
     q_DeleteAt = None\<rparr>"

theorem progress_coalesced_witness:
  "\<exists>items. set items = {i. latest [demo_item, demo_item\<lparr>q_Wrote := 7\<rparr>] i}
    \<and> lh_pending (flushProgress (foldl notifyProgress
        (newLiveHub\<lparr>lh_clients := [(1, \<lparr>lc_topics = [topicProgress], lc_file = '''', lc_send = [],
          lc_info = demo_info\<rparr>)]\<rparr>) [demo_item, demo_item\<lparr>q_Wrote := 7\<rparr>])) = []"
  using progress_coalesced [of "newLiveHub\<lparr>lh_clients := [(1, \<lparr>lc_topics = [topicProgress],
      lc_file = '''', lc_send = [], lc_info = demo_info\<rparr>)]\<rparr>" 1 "\<lparr>lc_topics = [topicProgress],
      lc_file = '''', lc_send = [], lc_info = demo_info\<rparr>" "[demo_item, demo_item\<lparr>q_Wrote := 7\<rparr>]"]
  by (auto simp: newLiveHub_def wants_def clientSendBuf_def)

subsection \<open>The queue snapshot\<close>

text \<open>What cannot replace the pending snapshot: everything but a tick and another queue notification.\<close>

fun keeps_queue :: "hub_input \<Rightarrow> bool" where
  "keeps_queue (Tick st) = False"
| "keeps_queue (Notify k p) = (k \<noteq> topicQueue)"
| "keeps_queue _ = True"

lemma pendingQ_kept: "keeps_queue i \<Longrightarrow> lh_pendingQ (hub_step h i) = lh_pendingQ h"
  by (cases i) (auto simp: notify_def notifyLog_def notifyProgress_def notifyError_def setAppLogID_def
      frame_simps Let_def split: list.splits option.splits)

lemma pendingQ_kept_all: "list_all keeps_queue inputs \<Longrightarrow> lh_pendingQ (foldl hub_step h inputs) = lh_pendingQ h"
  by (induction inputs arbitrary: h) (auto simp: pendingQ_kept)

text \<open>
  C37. The latest queue snapshot always arrives: after a queue notification, no matter how many
  events, log lines, progress rows and errors follow (so even with the event channel full), the
  next flush puts exactly that snapshot into the buffer of every subscribed browser with room,
  remembers its statistics and leaves no snapshot pending.
\<close>

theorem latest_queue_delivered:
  assumes "list_all keeps_queue inputs" "list_all encodable_item (qf_Items frame)"
    "aget (lh_clients (foldl hub_step (notify h topicQueue (PQueue (Some frame))) inputs)) a = Some c"
    "wants c topicQueue ''''" "length (lc_send c) < clientSendBuf" "qf_Stats frame = Some st"
  shows "(let h' = flushQueue (foldl hub_step (notify h topicQueue (PQueue (Some frame))) inputs) in
     aget (lh_clients h') a = Some (c\<lparr>lc_send := lc_send c @
        [zero_frame\<lparr>wf_Type := ''queue'', wf_Payload := PQueue (Some frame)\<rparr>]\<rparr>)
     \<and> lh_pendingQ h' = None \<and> lh_lastStats h' = st \<and> lh_haveStats h')"
proof -
  define g where "g = foldl hub_step (notify h topicQueue (PQueue (Some frame))) inputs"
  have "lh_pendingQ g = Some frame"
    unfolding g_def by (simp add: pendingQ_kept_all [OF assms(1)] notify_def)
  moreover have "aget (lh_clients g) a = Some c" using assms(3) by (simp add: g_def)
  ultimately show ?thesis using assms(2,4,5,6)
    by (simp add: Let_def flushQueue_def rememberStats_def frame_simps aget_broadcast enqueue_def flip: g_def)
qed

theorem latest_queue_delivered_witness:
  "lh_pendingQ (flushQueue (foldl hub_step (notify (newLiveHub\<lparr>lh_clients := [(1, \<lparr>lc_topics = [topicQueue],
      lc_file = '''', lc_send = [], lc_info = demo_info\<rparr>)]\<rparr>) topicQueue
      (PQueue (Some \<lparr>qf_Stats = Some zero_stats, qf_Items = []\<rparr>)))
     [NotifyError 5 ''x'', NotifyLog ''app'' ''line''])) = None"
  using latest_queue_delivered [of "[NotifyError 5 ''x'', NotifyLog ''app'' ''line'']"
      "\<lparr>qf_Stats = Some zero_stats, qf_Items = []\<rparr>" "newLiveHub\<lparr>lh_clients := [(1, \<lparr>lc_topics = [topicQueue],
      lc_file = '''', lc_send = [], lc_info = demo_info\<rparr>)]\<rparr>" 1 "\<lparr>lc_topics = [topicQueue],
      lc_file = '''', lc_send = [], lc_info = demo_info\<rparr>" zero_stats]
  by (simp add: newLiveHub_def notify_def notifyError_def notifyLog_def wants_def clientSendBuf_def
      Let_def errorRingMax_def hubEventBuf_def hubLogBuf_def)

subsection \<open>The error ring\<close>

definition last_n :: "nat \<Rightarrow> 'a list \<Rightarrow> 'a list" where
  "last_n n xs = drop (length xs - n) xs"

lemma last_n_short [simp]: "length xs \<le> n \<Longrightarrow> last_n n xs = xs"
  by (simp add: last_n_def)

lemma last_n_snoc: "last_n n (last_n n xs @ [y]) = last_n n (xs @ [y])"
  by (cases "length xs \<le> n") (auto simp: last_n_def min_def Suc_diff_le)

lemma errors_notify:
  "lh_errors (notifyError h now msg) = (if msg = '''' then lh_errors h
     else last_n errorRingMax (lh_errors h @ [\<lparr>ef_At = now, ef_Msg = msg\<rparr>]))"
  by (auto simp: notifyError_def Let_def notify_def last_n_def)

text \<open>
  \<open>GET /api/logs/errors\<close> shows the latest errors: after any sequence of \<open>notifyError\<close> calls
  the ring holds exactly the last ten non-empty messages with their times, in order.
\<close>

theorem error_ring_latest:
  "errorSnapshot (foldl (\<lambda>h (t, msg). notifyError h t msg) newLiveHub calls)
     = last_n 10 (map (\<lambda>(t, msg). \<lparr>ef_At = t, ef_Msg = msg\<rparr>) (filter (\<lambda>(t, msg). msg \<noteq> '''') calls))"
proof (induction calls rule: rev_induct)
  case Nil
  then show ?case by (simp add: errorSnapshot_def newLiveHub_def last_n_def)
next
  case (snoc x calls)
  then show ?case
    by (cases x) (simp add: errorSnapshot_def errors_notify errorRingMax_def last_n_snoc)
qed

end
