(* ===== verification/Progress.thy ===== *)
theory Progress
  imports Model
begin

text \<open>
  \<open>pkg/extract/progress.go\<close> and \<open>resetExtractProgress\<close> of \<open>pkg/unpackerr/progress.go\<close>: the
  speed and arrival estimate of a running extraction. Byte counts are \<open>uint64\<close> and wrap; the
  conversions through \<open>float64\<close> are the parameters \<open>bytesRate\<close> and \<open>etaLeft\<close> of \<open>env\<close>.
  \<open>demo_env\<close> is a concrete instance of those parameters, which the witnesses use.
\<close>

abbreviation (input) speedSampleInterval :: duration where "speedSampleInterval \<equiv> 200000000"
abbreviation (input) maxETA :: duration where "maxETA \<equiv> 24 * nhour"

abbreviation noProgressText :: string where "noProgressText \<equiv> ''no progress yet''"

definition prog_String :: "env \<Rightarrow> string \<Rightarrow> progress option \<Rightarrow> string" where
  "prog_String E path p = (case p of None \<Rightarrow> noProgressText
     | Some pg \<Rightarrow> (case pg_Progress pg of None \<Rightarrow> noProgressText | Some x \<Rightarrow> progText E x pg path))"

definition progressBytes :: "xprogress option \<Rightarrow> uint64 \<times> uint64" where
  "progressBytes prog = (case prog of None \<Rightarrow> (0, 0)
     | Some p \<Rightarrow> if xp_Total p > 0 then (xp_Wrote p, xp_Total p)
         else if xp_Compressed p > 0 then (xp_Read p, xp_Compressed p) else (0, 0))"

definition bytesPerSec :: "env \<Rightarrow> uint64 \<Rightarrow> duration \<Rightarrow> uint64" where
  "bytesPerSec E delta elapsed = (if elapsed \<le> 0 then 0 else bytesRate E delta elapsed)"

definition ResetSpeed :: "progress \<Rightarrow> progress" where
  "ResetSpeed p = p\<lparr>pg_SpeedBps := 0, pg_AvgSpeedBps := 0, pg_ETA := zeroTime, pg_startedAt := zeroTime,
     pg_sampleAt := zeroTime, pg_sampleBytes := 0, pg_doneBytes := 0\<rparr>"

definition NoteArchiveDone :: "progress \<Rightarrow> progress" where
  "NoteArchiveDone p = p\<lparr>pg_doneBytes := pg_doneBytes p + fst (progressBytes (pg_Progress p)),
     pg_SpeedBps := 0, pg_sampleAt := zeroTime, pg_sampleBytes := 0\<rparr>"

definition updateSpeeds :: "env \<Rightarrow> instant \<Rightarrow> uint64 \<Rightarrow> progress \<Rightarrow> progress" where
  "updateSpeeds E now have p = (
     let p = (if have < pg_sampleBytes p
           then p\<lparr>pg_SpeedBps := 0, pg_sampleAt := now, pg_sampleBytes := have\<rparr> else p);
         p = (if pg_startedAt p = zeroTime then p\<lparr>pg_startedAt := now\<rparr> else p);
         p = (if pg_sampleAt p = zeroTime then p\<lparr>pg_sampleAt := now, pg_sampleBytes := have\<rparr> else p);
         elapsed = time_sub now (pg_startedAt p);
         p = (if elapsed \<ge> speedSampleInterval
           then p\<lparr>pg_AvgSpeedBps := bytesPerSec E (pg_doneBytes p + have) elapsed\<rparr> else p);
         dt = time_sub now (pg_sampleAt p)
     in if dt \<ge> speedSampleInterval
        then p\<lparr>pg_SpeedBps := (if have > pg_sampleBytes p
              then bytesPerSec E (have - pg_sampleBytes p) dt else 0),
            pg_sampleAt := now, pg_sampleBytes := have\<rparr>
        else p)"

definition updateETA :: "env \<Rightarrow> instant \<Rightarrow> uint64 \<Rightarrow> uint64 \<Rightarrow> progress \<Rightarrow> progress" where
  "updateETA E now have want p = (
     if pg_AvgSpeedBps p = 0 \<or> want = 0 \<or> have \<ge> want then p\<lparr>pg_ETA := zeroTime\<rparr>
     else let left = etaLeft E (want - have) (pg_AvgSpeedBps p)
       in if left > maxETA then p\<lparr>pg_ETA := zeroTime\<rparr>
          else p\<lparr>pg_ETA := now + dur_round left nsecond\<rparr>)"

definition NoteSpeed :: "env \<Rightarrow> instant \<Rightarrow> progress \<Rightarrow> progress" where
  "NoteSpeed E now p = (if pg_Progress p = None then p
     else let (have, want) = progressBytes (pg_Progress p)
       in updateETA E now have want (updateSpeeds E now have p))"

definition resetExtractProgress :: "extract_item \<Rightarrow> int \<Rightarrow> extract_item" where
  "resetExtractProgress item archives = (
     let p = (case e_XProg item of None \<Rightarrow> new_progress | Some p \<Rightarrow> p)
     in item\<lparr>e_XProg := Some ((ResetSpeed p)\<lparr>pg_Extracted := 0, pg_Progress := None, pg_Archives := archives\<rparr>)\<rparr>)"

subsection \<open>A concrete environment\<close>

definition int_text :: "int \<Rightarrow> string" where
  "int_text n = (if n < 0 then CHR ''-'' # itoa (nat (- n)) else itoa (nat n))"

definition int_of_text :: "string \<Rightarrow> int option" where
  "int_of_text s = (case s of [] \<Rightarrow> None
     | c # cs \<Rightarrow> if c = CHR ''-'' then Some (- int (digits_value cs)) else Some (int (digits_value s)))"

definition demo_env :: env where
  "demo_env = \<lparr>isArchive = (\<lambda>s. has_suffix s ''.rar''),
     archiveCount = (\<lambda>a. int (length (concat (map snd a)))), archiveList = (\<lambda>a. concat (map snd a)),
     durString = int_text, parseDuration = int_of_text, progText = (\<lambda>x p s. ''on archive''),
     progPercent = (\<lambda>x. 0), f64_div = (\<lambda>a b. 0), bytesRate = (\<lambda>d t. 1000),
     etaLeft = (\<lambda>l r. int (unat l div unat r) * nsecond), decIDs = (\<lambda>m. m)\<rparr>"

lemma itoa_digits: "c \<in> set (itoa n) \<Longrightarrow> is_digit c"
proof (induction n rule: itoa.induct)
  case (1 n)
  show ?case
  proof (cases "n < 10")
    case True
    with 1(2) have "c = digit_char n" by (subst (asm) itoa.simps) simp
    with True show ?thesis by (simp add: is_digit_def of_char_digit)
  next
    case False
    with 1(2) have "c \<in> set (itoa (n div 10)) \<or> c = digit_char (n mod 10)"
      by (subst (asm) itoa.simps) auto
    with 1(1) [OF False] show ?thesis by (auto simp: is_digit_def of_char_digit)
  qed
qed

lemma int_text_parse: "int_of_text (int_text n) = Some n \<and> int_text n \<noteq> []"
proof (cases "n < 0")
  case True
  then show ?thesis by (simp add: int_text_def int_of_text_def digits_value_itoa)
next
  case False
  obtain c cs where c: "itoa (nat n) = c # cs" using itoa_nonempty by (metis list.exhaust)
  then have "is_digit c" using itoa_digits by (metis list.set_intros(1))
  then have "c \<noteq> CHR ''-''" by (auto simp: is_digit_def)
  with c False digits_value_itoa [of "nat n"] show ?thesis
    by (simp add: int_text_def int_of_text_def)
qed

lemma demo_dur_ok: "dur_ok demo_env"
  by (simp add: dur_ok_def demo_env_def int_text_parse)

lemma demo_single_list: "single_list demo_env"
  by (simp add: single_list_def demo_env_def)

subsection \<open>Properties\<close>

lemma dur_round_bounds:
  assumes "0 \<le> d" "d \<le> k * m" "0 < m" "k * m \<le> maxDuration"
  shows "0 \<le> dur_round d m \<and> dur_round d m \<le> k * m"
proof -
  define q r where "q = d div m" and "r = d mod m"
  have d: "d = q * m + r" and r: "0 \<le> r" "r < m" using assms(3) by (simp_all add: q_def r_def)
  have q: "0 \<le> q" using assms(1,3) by (simp add: q_def pos_imp_zdiv_nonneg_iff)
  have "q * m \<le> k * m" using d r assms(2) by linarith
  then have le: "q \<le> k" using assms(3) by simp
  have low: "0 \<le> q * m \<and> q * m \<le> k * m" using q le assms(3) by (simp add: mult_right_mono)
  show ?thesis
  proof (cases "q = k")
    case True
    with d assms(2) r have "r = 0" by simp
    with True d r low assms show ?thesis by (simp add: dur_round_def Let_def flip: r_def)
  next
    case False
    with le have "(q + 1) * m \<le> k * m" using assms(3) by (intro mult_right_mono) auto
    then have "d + m - r \<le> k * m" using d by (simp add: algebra_simps)
    with d r low assms show ?thesis by (auto simp: dur_round_def Let_def simp flip: r_def)
  qed
qed

text \<open>
  The arrival estimate stays in its window: when the remaining time the float arithmetic
  gives is not negative, noting the speed leaves an ETA that is either unset or between now and
  24 hours from now, it is unset exactly when nothing is known (no average, no size, or nothing
  left) or the estimate is beyond 24 hours, and the current-speed sample never claims more bytes
  than the archive has.
\<close>

theorem eta_within_a_day:
  assumes "pg_Progress p = Some x" "\<forall>l r. 0 \<le> etaLeft E l r" "0 < now"
  shows "(let q = NoteSpeed E now p; have = fst (progressBytes (Some x)); want = snd (progressBytes (Some x))
    in (pg_ETA q = zeroTime \<or> now \<le> pg_ETA q \<and> pg_ETA q \<le> now + 24 * nhour)
     \<and> (pg_ETA q = zeroTime \<longleftrightarrow> pg_AvgSpeedBps q = 0 \<or> want = 0 \<or> have \<ge> want
          \<or> etaLeft E (want - have) (pg_AvgSpeedBps q) > 24 * nhour)
     \<and> pg_sampleBytes q \<le> have)"
proof -
  obtain have' want where hw: "progressBytes (Some x) = (have', want)" by force
  define s where "s = updateSpeeds E now have' p"
  have q: "NoteSpeed E now p = updateETA E now have' want s"
    by (simp add: NoteSpeed_def assms(1) hw s_def)
  have bytes: "pg_sampleBytes s \<le> have'" by (auto simp: s_def updateSpeeds_def Let_def)
  have rnd: "0 \<le> dur_round l nsecond \<and> dur_round l nsecond \<le> 86400 * nsecond"
    if "0 \<le> l" "l \<le> 86400 * nsecond" for l
    by (rule dur_round_bounds) (use that in \<open>simp_all add: maxDuration_def\<close>)
  have eta: "pg_ETA (updateETA E now have' want s) = (if pg_AvgSpeedBps s = 0 \<or> want = 0 \<or> have' \<ge> want
      \<or> etaLeft E (want - have') (pg_AvgSpeedBps s) > 24 * nhour then 0
      else now + dur_round (etaLeft E (want - have') (pg_AvgSpeedBps s)) nsecond)"
    by (simp add: updateETA_def Let_def)
  have keep: "pg_AvgSpeedBps (updateETA E now have' want s) = pg_AvgSpeedBps s"
    "pg_sampleBytes (updateETA E now have' want s) = pg_sampleBytes s"
    by (simp_all add: updateETA_def Let_def)
  have pos: "0 \<le> etaLeft E (want - have') (pg_AvgSpeedBps s)" using assms(2) by blast
  show ?thesis
    unfolding Let_def q hw fst_conv snd_conv keep eta
    using rnd [OF pos] bytes assms(3) by auto
qed

definition demo_progress :: progress where
  "demo_progress = new_progress\<lparr>pg_Progress := Some \<lparr>xp_Wrote = 5000, xp_Total = 9000, xp_Read = 0,
     xp_Compressed = 0, xp_Files = 1, xp_Count = 1, xp_XFile = None\<rparr>, pg_startedAt := 1,
     pg_sampleAt := 1\<rparr>"

theorem eta_within_a_day_witness:
  "pg_sampleBytes (NoteSpeed demo_env (5 * nsecond) demo_progress) \<le> 5000"
  using eta_within_a_day [of demo_progress "\<lparr>xp_Wrote = 5000, xp_Total = 9000, xp_Read = 0,
     xp_Compressed = 0, xp_Files = 1, xp_Count = 1, xp_XFile = None\<rparr>" demo_env "5 * nsecond"]
  by (simp add: demo_progress_def progressBytes_def demo_env_def Let_def)

end
