(* ===== verification/History.thy ===== *)
theory History
  imports Hub Progress
begin

text \<open>
  \<open>pkg/unpackerr/historyfile.go\<close>: the rows the daemon keeps in memory and in its JSONL file, and
  the queue rows the API shows. The record \<open>hist\<close> holds the fields of \<open>Unpackerr\<close> these functions
  touch; the daemon's state extends it, so the functions here act on both. The file is the list
  of its lines, \<open>None\<close> when it does not exist; \<open>d_histIO\<close> says whether opening and writing it
  succeeds. An error is only distinguished as the HTTP handlers do.
\<close>

record hist =
  d_KeepHistory :: uint64
  d_LogFile :: string
  d_ConfigFile :: string
  d_rotatorr :: bool
  d_histPath :: string
  d_histFile :: "hline list option"
  d_histIO :: bool
  d_histLines :: int
  d_records :: "history_record list"
  d_hub :: "live_hub option"

datatype herror = errHistoryNotFound | errHistoryInFlight | errHistoryIO

abbreviation historyFileName :: string where "historyFileName \<equiv> ''unpackerr.history.jsonl''"

text \<open>\<open>int(u.KeepHistory)\<close>, and its product with \<open>historyCompactFactor\<close>, which wraps.\<close>

definition keep_limit :: "uint64 \<Rightarrow> int" where
  "keep_limit k = sint k"

definition compact_limit :: "uint64 \<Rightarrow> int" where
  "compact_limit k = sint (k * 2)"

fun isDurableHistory :: "status \<Rightarrow> bool" where
  "isDurableHistory EXTRACTFAILED = True"
| "isDurableHistory EXTRACTEDNOTHING = True"
| "isDurableHistory IMPORTED = True"
| "isDurableHistory DELETED = True"
| "isDurableHistory DELETEFAILED = True"
| "isDurableHistory _ = False"

definition isPersistedHistory :: "extract_item option \<Rightarrow> bool" where
  "isPersistedHistory item = (case item of None \<Rightarrow> False
     | Some e \<Rightarrow> if e_Status e = WAITING \<and> e_App e = FolderString then True
         else e_Status e \<in> {QUEUED, EXTRACTING, EXTRACTFAILED, EXTRACTED, IMPORTED, DELETING,
           DELETEFAILED, DELETED, EXTRACTEDNOTHING})"

definition historyFilePath :: "'a hist_scheme \<Rightarrow> string" where
  "historyFilePath u = (
     if d_LogFile u \<noteq> '''' \<and> d_rotatorr u then path_join [dir (d_LogFile u), historyFileName]
     else if d_ConfigFile u \<noteq> '''' then path_join [dir (d_ConfigFile u), historyFileName]
     else '''')"

subsection \<open>Rows\<close>

abbreviation rec_durable :: "history_record \<Rightarrow> bool" where
  "rec_durable r \<equiv> isDurableHistory (h_Status r)"

definition merge_one :: "history_record list \<Rightarrow> history_record \<Rightarrow> history_record list" where
  "merge_one list rec = (
     let rec = (if h_ID rec = '''' then rec\<lparr>h_ID := h_Path rec\<rparr> else rec)
     in case index_func (\<lambda>r. h_ID r = h_ID rec) list of
          Some idx \<Rightarrow> delete_at idx list @
            [if h_Started rec = zeroTime then rec\<lparr>h_Started := h_Started (list ! idx)\<rparr> else rec]
        | None \<Rightarrow> list @ [rec])"

definition mergeHistory :: "history_record list \<Rightarrow> history_record list \<Rightarrow> history_record list" where
  "mergeHistory list recs = foldl merge_one list recs"

fun drop_durable :: "nat \<Rightarrow> history_record list \<Rightarrow> history_record list" where
  "drop_durable n [] = []"
| "drop_durable n (r # rs) = (if 0 < n \<and> rec_durable r then drop_durable (n - 1) rs
     else r # drop_durable n rs)"

definition capHistoryLocked :: "uint64 \<Rightarrow> history_record list \<Rightarrow> history_record list" where
  "capHistoryLocked keep list = (
     let limit = keep_limit keep; durable = int (length (filter rec_durable list))
     in if limit \<le> 0 then list else if durable \<le> limit then list
        else drop_durable (nat (durable - limit)) list)"

subsection \<open>The file\<close>

definition decode_row :: "env \<Rightarrow> history_record \<Rightarrow> history_record" where
  "decode_row E r = r\<lparr>h_IDs := decIDs E (h_IDs r)\<rparr>"

fun blank_line :: "hline \<Rightarrow> bool" where
  "blank_line (JRow r) = False"
| "blank_line (JBad s) = (trim_space s = '''')"

fun parsed_rows :: "env \<Rightarrow> hline list \<Rightarrow> history_record list" where
  "parsed_rows E [] = []"
| "parsed_rows E (JRow r # ls) = decode_row E r # parsed_rows E ls"
| "parsed_rows E (JBad s # ls) = parsed_rows E ls"

definition readHistoryRecords :: "env \<Rightarrow> 'a hist_scheme \<Rightarrow> int \<times> history_record list" where
  "readHistoryRecords E u = (case d_histFile u of None \<Rightarrow> (0, [])
     | Some ls \<Rightarrow> if \<not> d_histIO u then (0, [])
         else (int (length (filter (\<lambda>l. \<not> blank_line l) ls)), parsed_rows E ls))"

definition compactHistoryLocked :: "'a hist_scheme \<Rightarrow> herror option \<times> 'a hist_scheme" where
  "compactHistoryLocked u = (if d_histPath u = '''' then (None, u)
     else if \<not> d_histIO u then (Some errHistoryIO, u)
     else (None, u\<lparr>d_histFile := Some (map JRow (filter encodable_row (d_records u))),
       d_histLines := int (length (d_records u))\<rparr>))"

definition loadHistory :: "env \<Rightarrow> 'a hist_scheme \<Rightarrow> 'a hist_scheme" where
  "loadHistory E u = (if d_KeepHistory u = 0 then u
     else let u = (if d_histPath u = '''' then u\<lparr>d_histPath := historyFilePath u\<rparr> else u)
       in if d_histPath u = '''' then u
          else let (lines, recs) = readHistoryRecords E u;
                   u = u\<lparr>d_records := capHistoryLocked (d_KeepHistory u) (mergeHistory [] recs),
                     d_histLines := lines\<rparr>
            in if lines \<noteq> int (length (d_records u)) then snd (compactHistoryLocked u) else u)"

definition notify_hub :: "(live_hub \<Rightarrow> live_hub) \<Rightarrow> 'a hist_scheme \<Rightarrow> 'a hist_scheme" where
  "notify_hub f u = u\<lparr>d_hub := map_option f (d_hub u)\<rparr>"

definition history_delete :: "string \<Rightarrow> payload" where
  "history_delete i = PHistory \<lparr>hf_Op = ''delete'', hf_Row = None, hf_Rows = [], hf_ID = i\<rparr>"

definition notifyHistoryLocked :: "'a hist_scheme \<Rightarrow> history_record \<Rightarrow> 'a hist_scheme" where
  "notifyHistoryLocked u rec = (
     if rec_durable rec then notify_hub (\<lambda>h. notify h topicHistory
       (PHistory \<lparr>hf_Op = ''upsert'', hf_Row = Some rec, hf_Rows = [], hf_ID = ''''\<rparr>)) u
     else if h_ID rec \<noteq> '''' then notify_hub (\<lambda>h. notify h topicHistory (history_delete (h_ID rec))) u
     else u)"

definition upsertHistoryLocked :: "'a hist_scheme \<Rightarrow> history_record \<Rightarrow> 'a hist_scheme" where
  "upsertHistoryLocked u rec = (
     let u = u\<lparr>d_records := capHistoryLocked (d_KeepHistory u) (mergeHistory (d_records u) [rec])\<rparr>
     in if d_records u = [] then u
        else let saved = last (d_records u); u = notifyHistoryLocked u saved
          in if d_histPath u = '''' then u
             else if keep_limit (d_KeepHistory u) > 0 \<and> d_histLines u \<ge> compact_limit (d_KeepHistory u)
               then snd (compactHistoryLocked u)
             else if \<not> encodable_row saved then u
             else if \<not> d_histIO u then u
             else u\<lparr>d_histFile := Some ((case d_histFile u of None \<Rightarrow> [] | Some ls \<Rightarrow> ls) @ [JRow saved]),
               d_histLines := d_histLines u + 1\<rparr>)"

definition upsertHistory :: "'a hist_scheme \<Rightarrow> history_record \<Rightarrow> 'a hist_scheme" where
  "upsertHistory u rec = upsertHistoryLocked u rec"

definition historySnapshot :: "'a hist_scheme \<Rightarrow> history_record list" where
  "historySnapshot u = filter rec_durable (rev (d_records u))"

definition deleteHistoryID :: "'a hist_scheme \<Rightarrow> string \<Rightarrow> herror option \<times> 'a hist_scheme" where
  "deleteHistoryID u itemID = (case index_func (\<lambda>r. h_ID r = itemID) (d_records u) of
       None \<Rightarrow> (Some errHistoryNotFound, u)
     | Some idx \<Rightarrow> if \<not> rec_durable (d_records u ! idx) then (Some errHistoryInFlight, u)
         else compactHistoryLocked (notify_hub (\<lambda>h. notify h topicHistory (history_delete itemID))
           (u\<lparr>d_records := delete_at idx (d_records u)\<rparr>)))"

definition markHistoryForgotten :: "'a hist_scheme \<Rightarrow> string \<Rightarrow> 'a hist_scheme" where
  "markHistoryForgotten u itemID = (if d_KeepHistory u = 0 \<or> itemID = '''' then u
     else case index_func (\<lambda>r. h_ID r = itemID) (d_records u) of None \<Rightarrow> u
       | Some idx \<Rightarrow> upsertHistory u ((d_records u ! idx)\<lparr>h_Forgotten := True\<rparr>))"

definition clearHistory :: "'a hist_scheme \<Rightarrow> herror option \<times> 'a hist_scheme" where
  "clearHistory u = compactHistoryLocked (notify_hub (\<lambda>h. notify h topicHistory
     (PHistory \<lparr>hf_Op = ''clear'', hf_Row = None, hf_Rows = [], hf_ID = ''''\<rparr>))
     (u\<lparr>d_records := filter (\<lambda>r. \<not> rec_durable r) (d_records u)\<rparr>))"

definition bumpHistoryHookFail :: "'a hist_scheme \<Rightarrow> string \<Rightarrow> 'a hist_scheme" where
  "bumpHistoryHookFail u itemID = (if d_KeepHistory u = 0 then u
     else case index_func (\<lambda>r. h_ID r = itemID) (d_records u) of None \<Rightarrow> u
       | Some idx \<Rightarrow> let rec = d_records u ! idx
           in upsertHistoryLocked u (rec\<lparr>h_HookFail := h_HookFail rec + 1\<rparr>))"

definition bumpHistoryHookMessage :: "'a hist_scheme \<Rightarrow> string \<Rightarrow> string \<Rightarrow> string \<Rightarrow> 'a hist_scheme" where
  "bumpHistoryHookMessage u itemID key msgID = (if d_KeepHistory u = 0 then u
     else case index_func (\<lambda>r. h_ID r = itemID) (d_records u) of None \<Rightarrow> u
       | Some idx \<Rightarrow> let rec = d_records u ! idx
           in upsertHistoryLocked u (rec\<lparr>h_HookMessages := aput key msgID (h_HookMessages rec)\<rparr>))"

fun historyHookMessage_loop :: "string \<Rightarrow> string \<Rightarrow> history_record list \<Rightarrow> string" where
  "historyHookMessage_loop itemID key [] = ''''"
| "historyHookMessage_loop itemID key (row # rows) =
     (if h_ID row \<noteq> itemID \<or> h_HookMessages row = [] then historyHookMessage_loop itemID key rows
      else case aget (h_HookMessages row) key of Some m \<Rightarrow> m | None \<Rightarrow> '''')"

definition historyHookMessage :: "'a hist_scheme \<Rightarrow> string \<Rightarrow> string \<Rightarrow> string" where
  "historyHookMessage u itemID key = historyHookMessage_loop itemID key (d_records u)"

subsection \<open>From an extract to its rows\<close>

fun id_text :: "idval \<Rightarrow> string" where
  "id_text (IdStr s) = s"
| "id_text (IdInt n) = int_text n"

definition extractIDString :: "extract_item \<Rightarrow> string \<Rightarrow> string" where
  "extractIDString item key = (case aget (e_IDs item) key of None \<Rightarrow> ''''
     | Some v \<Rightarrow> trim_space (id_text v))"

definition preFileKeys :: "prefiles option \<Rightarrow> string list" where
  "preFileKeys files = (case files of None \<Rightarrow> [] | Some m \<Rightarrow> sort_strings (map fst m))"

definition preFilesFromKeys :: "string list \<Rightarrow> prefiles option" where
  "preFilesFromKeys keys = (if keys = [] then None else Some (map (\<lambda>k. (k, None)) (dedup_acc [] keys)))"

definition cloneIDs :: "(string \<times> idval) list \<Rightarrow> (string \<times> idval) list" where
  "cloneIDs ids = ids"

definition compressed_of :: "extract_item \<Rightarrow> uint64 option" where
  "compressed_of item = (case e_XProg item of None \<Rightarrow> None
     | Some pg \<Rightarrow> map_option xp_Compressed (pg_Progress pg))"

definition fill_ratio :: "env \<Rightarrow> extract_item \<Rightarrow> f64 \<Rightarrow> f64" where
  "fill_ratio E item old = (case (compressed_of item, e_Resp item) of
       (Some c, Some r) \<Rightarrow> if c > 0 \<and> rs_Size r > 0 then f64_div E (rs_Size r) c else old
     | _ \<Rightarrow> old)"

definition fillHistoryStats :: "env \<Rightarrow> extract_item \<Rightarrow> history_record \<Rightarrow> history_record" where
  "fillHistoryStats E item rec = (
     let rec = (case e_XProg item of None \<Rightarrow> rec
           | Some pg \<Rightarrow> (let prog = prog_String E (e_Path item) (Some pg);
                 rec = (if prog \<noteq> noProgressText then rec\<lparr>h_Progress := prog\<rparr> else rec)
               in rec\<lparr>h_Ratio := fill_ratio E item (h_Ratio rec)\<rparr>))
     in case e_Resp item of None \<Rightarrow> rec
        | Some resp \<Rightarrow> rec\<lparr>
            h_Started := (if rs_Started resp \<noteq> zeroTime then rs_Started resp else h_Started rec),
            h_Archives := archiveCount E (rs_Archives resp) + archiveCount E (rs_Extras resp),
            h_Files := int (length (rs_NewFiles resp)),
            h_Bytes := rs_Size resp,
            h_Queue := rs_Queued resp,
            h_Output := rs_Output resp,
            h_NewFiles := rs_NewFiles resp,
            h_OrigFiles := archiveList E (rs_Archives resp),
            h_ExtraFiles := archiveList E (rs_Extras resp),
            h_Elapsed := (if rs_Elapsed resp > 0 then durString E (dur_round (rs_Elapsed resp) nsecond)
              else h_Elapsed rec),
            h_Error := (case rs_Error resp of None \<Rightarrow> h_Error rec | Some er \<Rightarrow> err_text er)\<rparr>)"

definition historyFromExtract :: "env \<Rightarrow> string \<Rightarrow> extract_item \<Rightarrow> history_record" where
  "historyFromExtract E itemID item = (
     let now = e_Updated item;
         rec = \<lparr>h_ID = (if itemID = '''' then e_Path item else itemID), h_App = Label item,
           h_Kind = e_App item, h_Title = extractIDString item ''title'',
           h_Reason = extractIDString item ''reason'', h_URL = e_URL item, h_Path = e_Path item,
           h_OutputPath = e_OutputPath item, h_Status = e_Status item, h_Retries = e_Retries item,
           h_HookFail = e_HookFail item, h_HookMessages = e_HookMessages item, h_Started = now,
           h_Updated = now, h_Finished = zeroTime, h_Archives = 0, h_Files = 0, h_Bytes = 0,
           h_Ratio = 0, h_Elapsed = '''', h_Error = '''', h_Progress = '''',
           h_DeleteOrig = e_DeleteOrig item, h_DeleteDelay = '''', h_DeleteAt = None,
           h_Syncthing = e_Syncthing item, h_SplitFlac = e_SplitFlac item,
           h_APEFormat = e_APEFormat item, h_APECompression = e_APECompression item,
           h_MaxBytes = e_MaxBytes item, h_NoRetry = e_NoRetry item, h_NewFiles = [],
           h_OrigFiles = [], h_ExtraFiles = [], h_PreFiles = preFileKeys (e_PreFiles item),
           h_Forgotten = False, h_IDs = cloneIDs (e_IDs item), h_Event = e_Event item,
           h_Queue = 0, h_Output = ''''\<rparr>;
         rec = (if e_DeleteDelay item \<noteq> 0 then rec\<lparr>h_DeleteDelay := durString E (e_DeleteDelay item),
             h_DeleteAt := (if e_Status item = IMPORTED then Some (e_Updated item + e_DeleteDelay item)
               else None)\<rparr> else rec);
         rec = (if isDurableHistory (e_Status item) then rec\<lparr>h_Finished := now\<rparr> else rec)
     in fillHistoryStats E item rec)"

definition maybeRecordHistory :: "env \<Rightarrow> 'a hist_scheme \<Rightarrow> string \<Rightarrow> extract_item \<Rightarrow> 'a hist_scheme" where
  "maybeRecordHistory E u itemID item = (
     if d_KeepHistory u = 0 \<or> \<not> isPersistedHistory (Some item) then u
     else upsertHistory u (historyFromExtract E itemID item))"

subsection \<open>Queue rows\<close>

definition respArchivePaths :: "env \<Rightarrow> extract_item \<Rightarrow> string list" where
  "respArchivePaths E item = (case e_Resp item of None \<Rightarrow> []
     | Some r \<Rightarrow> archiveList E (rs_Archives r) @ archiveList E (rs_Extras r))"

definition fillQueueProgress :: "env \<Rightarrow> instant \<Rightarrow> extract_item \<Rightarrow> queue_item \<Rightarrow> queue_item" where
  "fillQueueProgress E now item queue = (case e_XProg item of None \<Rightarrow> queue
     | Some pg \<Rightarrow> let text = prog_String E (e_Path item) (Some pg);
           queue = (if text \<noteq> noProgressText then queue\<lparr>q_Progress := text\<rparr> else queue)
         in (case pg_Progress pg of None \<Rightarrow> queue
            | Some prog \<Rightarrow> queue\<lparr>q_Percent := progPercent E prog, q_Wrote := xp_Wrote prog,
                q_Total := xp_Total prog, q_Read := xp_Read prog, q_Compressed := xp_Compressed prog,
                q_Files := xp_Files prog, q_Count := xp_Count prog, q_Archives := pg_Archives pg,
                q_Extracted := pg_Extracted pg, q_SpeedBps := pg_SpeedBps pg,
                q_AvgSpeedBps := pg_AvgSpeedBps pg, q_ETA := pg_ETA pg,
                q_SpeedBytesPerSecond := pg_SpeedBps pg,
                q_ETASeconds := (if pg_ETA pg \<noteq> zeroTime \<and> pg_ETA pg > now
                  then time_sub (pg_ETA pg) now div nsecond else q_ETASeconds queue),
                q_Archive := (case xp_XFile prog of None \<Rightarrow> q_Archive queue
                  | Some f \<Rightarrow> trim_left [CHR ''/'', CHR 0x5C] (trim_prefix (xf_FilePath f) (e_Path item)))\<rparr>))"

definition fillQueueMeta :: "env \<Rightarrow> instant \<Rightarrow> extract_item \<Rightarrow> queue_item \<Rightarrow> queue_item" where
  "fillQueueMeta E now item queue = (
     let queue = queue\<lparr>q_Ratio := fill_ratio E item (q_Ratio queue)\<rparr>
     in case e_Resp item of None \<Rightarrow> queue
        | Some r \<Rightarrow> let queue = (if rs_Started r \<noteq> zeroTime then queue\<lparr>q_Started := rs_Started r,
              q_Elapsed := (if rs_Elapsed r > 0 then durString E (dur_round (rs_Elapsed r) nsecond)
                else if e_Status item = EXTRACTING
                  then durString E (dur_round (time_sub now (rs_Started r)) nsecond)
                else q_Elapsed queue)\<rparr> else queue)
            in queue\<lparr>q_Bytes := rs_Size r, q_Queue := rs_Queued r, q_Output := rs_Output r\<rparr>)"

definition fillQueueFiles :: "env \<Rightarrow> extract_item \<Rightarrow> queue_item \<Rightarrow> queue_item" where
  "fillQueueFiles E item queue = (case e_Resp item of None \<Rightarrow> queue
     | Some r \<Rightarrow> let queue = (if rs_NewFiles r \<noteq> [] then queue\<lparr>q_NewFiles := rs_NewFiles r\<rparr> else queue);
           archives = respArchivePaths E item
         in if archives \<noteq> [] then queue\<lparr>q_OrigFiles := archives, q_ArchiveFiles := archives\<rparr> else queue)"

abbreviation dueStart :: string where "dueStart \<equiv> ''start''"
abbreviation dueRetry :: string where "dueRetry \<equiv> ''retry''"
abbreviation dueCleanup :: string where "dueCleanup \<equiv> ''cleanup''"
abbreviation dueHistory :: string where "dueHistory \<equiv> ''history''"

definition queueFromExtract :: "env \<Rightarrow> instant \<Rightarrow> string \<Rightarrow> extract_item \<Rightarrow> queue_item" where
  "queueFromExtract E now itemID item = (
     let queue = \<lparr>q_ID = itemID, q_App = Label item, q_Title = extractIDString item ''title'',
           q_Reason = extractIDString item ''reason'', q_URL = e_URL item, q_Path = e_Path item,
           q_OutputPath = e_OutputPath item, q_Status = e_Status item, q_Retries = e_Retries item,
           q_HookFail = e_HookFail item, q_Updated = e_Updated item, q_Started = zeroTime,
           q_Elapsed = '''', q_Progress = '''', q_Error = '''', q_Percent = 0, q_Wrote = 0,
           q_Total = 0, q_Read = 0, q_Compressed = 0, q_Files = 0, q_Count = 0, q_Archives = 0,
           q_Extracted = 0, q_Archive = '''', q_ArchiveFiles = [], q_NewFiles = [], q_SpeedBps = 0,
           q_AvgSpeedBps = 0, q_ETA = zeroTime, q_Due = e_Due item, q_DueKind = e_DueKind item,
           q_Note = e_Note item, q_Event = e_Event item, q_Bytes = 0, q_Ratio = 0, q_Queue = 0,
           q_Output = '''', q_Kind = e_App item, q_IDs = cloneIDs (e_IDs item), q_OrigFiles = [],
           q_SpeedBytesPerSecond = 0, q_ETASeconds = 0, q_DeleteAt = None\<rparr>;
         queue = (if e_Status item = WAITING \<and> e_App item = FolderString
           then queue\<lparr>q_Progress := ''last write''\<rparr> else queue);
         queue = (if e_Note item \<noteq> '''' \<and> q_Progress queue = ''''
           then queue\<lparr>q_Progress := e_Note item\<rparr> else queue);
         queue = fillQueueMeta E now item (fillQueueProgress E now item queue);
         queue = (case e_Resp item of None \<Rightarrow> queue
           | Some r \<Rightarrow> queue\<lparr>q_Started := (if rs_Started r \<noteq> zeroTime then rs_Started r else q_Started queue),
               q_Elapsed := (if rs_Elapsed r > 0 then durString E (dur_round (rs_Elapsed r) nsecond)
                 else q_Elapsed queue),
               q_Error := (case rs_Error r of None \<Rightarrow> q_Error queue | Some er \<Rightarrow> err_text er)\<rparr>)
     in if e_DueKind item = dueCleanup \<and> e_Due item \<noteq> zeroTime then queue\<lparr>q_DeleteAt := Some (e_Due item)\<rparr>
        else if e_Status item = IMPORTED \<and> e_DeleteDelay item > 0
          then queue\<lparr>q_DeleteAt := Some (e_Updated item + e_DeleteDelay item)\<rparr>
        else queue)"

end
