(* ===== verification/HistoryLog.thy ===== *)
theory HistoryLog
  imports History
begin

text \<open>
  The algebra of the history store: replaying a log of keyed rows (a locale, interpreted on
  \<open>mergeHistory\<close>), dropping the oldest finished rows (\<open>capHistoryLocked\<close>), and the invariant that
  relates the rows in memory to the lines of the file.
\<close>

subsection \<open>Logs of keyed rows\<close>

text \<open>
  The contract of an upsert into a list of rows with distinct keys: the row with the key goes
  away and the new row comes last. Replaying a log with such an upsert keeps, in log order of
  their last mention, the last row of every key.
\<close>

lemma filter_other_keys: "k \<notin> key ` set l \<Longrightarrow> filter (\<lambda>x. key x \<noteq> k) l = l"
  by (induction l) auto

locale replay_log =
  fixes key :: "'r \<Rightarrow> 'k" and merge :: "'r list \<Rightarrow> 'r \<Rightarrow> 'r list" and ok :: "'r \<Rightarrow> bool"
  assumes merge_eq: "ok r \<Longrightarrow> distinct (map key l) \<Longrightarrow> merge l r = filter (\<lambda>x. key x \<noteq> key r) l @ [r]"
begin

lemma merge_distinct: "ok r \<Longrightarrow> distinct (map key l) \<Longrightarrow> distinct (map key (merge l r))"
  by (auto simp: merge_eq distinct_map_filter)

lemma replay_distinct:
  "list_all ok rs \<Longrightarrow> distinct (map key l) \<Longrightarrow> distinct (map key (foldl merge l rs))"
  by (induction rs arbitrary: l) (simp_all add: merge_distinct)

lemma replay_snoc: "foldl merge l (rs @ [r]) = merge (foldl merge l rs) r"
  by simp

lemma replay_append:
  "list_all ok rs \<Longrightarrow> distinct (map key (l @ rs)) \<Longrightarrow> foldl merge l rs = l @ rs"
proof (induction rs arbitrary: l)
  case (Cons r rs)
  have "filter (\<lambda>x. key x \<noteq> key r) l = l" using Cons.prems(2) by (simp add: filter_other_keys)
  with Cons.prems have "merge l r = l @ [r]" by (simp add: merge_eq)
  with Cons.IH [of "l @ [r]"] Cons.prems show ?case by simp
qed simp

lemma replay_self: "list_all ok rs \<Longrightarrow> distinct (map key rs) \<Longrightarrow> foldl merge [] rs = rs"
  using replay_append [of rs "[]"] by simp

lemma replay_member:
  "list_all ok rs \<Longrightarrow> r \<in> set (foldl merge [] rs) \<longleftrightarrow> (\<exists>ys zs. rs = ys @ r # zs \<and> key r \<notin> key ` set zs)"
proof (induction rs rule: rev_induct)
  case (snoc s rs)
  have d: "distinct (map key (foldl merge [] rs))" using snoc.prems by (intro replay_distinct) simp_all
  have "r \<in> set (foldl merge [] (rs @ [s])) \<longleftrightarrow>
      r = s \<or> (\<exists>ys zs. rs = ys @ r # zs \<and> key r \<notin> key ` set zs) \<and> key r \<noteq> key s"
    using snoc d by (auto simp: merge_eq)
  also have "\<dots> \<longleftrightarrow> (\<exists>ys zs. rs @ [s] = ys @ r # zs \<and> key r \<notin> key ` set zs)" (is "?l \<longleftrightarrow> ?r")
  proof
    assume ?l
    then show ?r
    proof (elim disjE conjE exE)
      assume "r = s"
      then have "rs @ [s] = rs @ r # [] \<and> key r \<notin> key ` set []" by simp
      then show ?r by blast
    next
      fix ys zs assume "key r \<noteq> key s" "rs = ys @ r # zs" "key r \<notin> key ` set zs"
      then have "rs @ [s] = ys @ r # (zs @ [s]) \<and> key r \<notin> key ` set (zs @ [s])" by auto
      then show ?r by blast
    qed
  next
    assume ?r
    then obtain ys zs where "rs @ [s] = ys @ r # zs" "key r \<notin> key ` set zs" by blast
    then show ?l by (cases zs rule: rev_cases) auto
  qed
  finally show ?case .
qed simp

end

context replay_log begin

lemma replay_subset: "list_all ok rs \<Longrightarrow> set (foldl merge [] rs) \<subseteq> set rs"
  by (auto simp: replay_member)

end

subsection \<open>mergeHistory is such an upsert\<close>

text \<open>
  A row as the store holds it: its ID is filled in (\<open>ID\<close> defaults to \<open>Path\<close>), it has a start
  time and its JSON form exists.
\<close>

definition row_ok :: "history_record \<Rightarrow> bool" where
  "row_ok r \<longleftrightarrow> (h_ID r = '''' \<longrightarrow> h_Path r = '''') \<and> h_Started r \<noteq> zeroTime \<and> encodable_row r"

definition norm_row :: "history_record \<Rightarrow> history_record" where
  "norm_row r = (if h_ID r = '''' then r\<lparr>h_ID := h_Path r\<rparr> else r)"

lemma filter_key_split:
  assumes "distinct (map key (ys @ x # zs))" "key x = k"
  shows "filter (\<lambda>r. key r \<noteq> k) (ys @ x # zs) = ys @ zs"
proof -
  have "filter (\<lambda>r. key r \<noteq> k) ys = ys" "filter (\<lambda>r. key r \<noteq> k) zs = zs"
    using assms by (simp_all add: filter_other_keys)
  with assms(2) show ?thesis by simp
qed

lemma merge_one_eq:
  assumes "h_Started r \<noteq> zeroTime" "distinct (map h_ID l)"
  shows "merge_one l r = filter (\<lambda>x. h_ID x \<noteq> h_ID (norm_row r)) l @ [norm_row r]"
proof (cases "index_func (\<lambda>x. h_ID x = h_ID (norm_row r)) l")
  case None
  then have "filter (\<lambda>x. h_ID x \<noteq> h_ID (norm_row r)) l = l"
    by (auto simp: index_func_None intro!: filter_True)
  with None show ?thesis by (simp add: merge_one_def Let_def flip: norm_row_def)
next
  case (Some i)
  then obtain ys x zs where l: "l = ys @ x # zs" "h_ID x = h_ID (norm_row r)" "delete_at i l = ys @ zs"
    by (rule index_func_split)
  have "filter (\<lambda>x. h_ID x \<noteq> h_ID (norm_row r)) l = ys @ zs"
    unfolding l(1) by (rule filter_key_split) (use assms(2) l in simp_all)
  moreover have "h_Started (norm_row r) \<noteq> zeroTime" using assms(1) by (simp add: norm_row_def)
  ultimately show ?thesis using Some l(3) by (simp add: merge_one_def Let_def flip: norm_row_def)
qed

lemma row_ok_norm: "row_ok r \<Longrightarrow> norm_row r = r"
  by (auto simp: row_ok_def norm_row_def)

interpretation hist_log: replay_log h_ID merge_one row_ok
proof unfold_locales
  fix r :: history_record and l :: "history_record list"
  assume ok: "row_ok r" and d: "distinct (map h_ID l)"
  from ok have "h_Started r \<noteq> zeroTime" by (simp add: row_ok_def)
  from merge_one_eq [OF this d] show "merge_one l r = filter (\<lambda>x. h_ID x \<noteq> h_ID r) l @ [r]"
    by (simp add: row_ok_norm [OF ok])
qed

subsection \<open>Dropping the oldest finished rows\<close>

abbreviation durables :: "history_record list \<Rightarrow> history_record list" where
  "durables \<equiv> filter rec_durable"

abbreviation in_flight :: "history_record list \<Rightarrow> history_record list" where
  "in_flight \<equiv> filter (\<lambda>r. \<not> rec_durable r)"

lemma drop_durable_0 [simp]: "drop_durable 0 l = l"
  by (induction l) auto

lemma drop_durable_add: "drop_durable m (drop_durable n l) = drop_durable (m + n) l"
proof (induction l arbitrary: m n)
  case (Cons r l)
  then show ?case by (cases n; cases m) auto
qed simp

lemma in_flight_drop [simp]: "in_flight (drop_durable n l) = in_flight l"
  by (induction n l rule: drop_durable.induct) auto

lemma durables_drop [simp]: "durables (drop_durable n l) = drop n (durables l)"
proof (induction n l rule: drop_durable.induct)
  case (2 n r rs)
  then show ?case by (cases n) auto
qed simp

lemma drop_durable_append:
  "drop_durable n (xs @ ys) = drop_durable n xs @ drop_durable (n - length (durables xs)) ys"
  by (induction n xs rule: drop_durable.induct) auto

lemma drop_durable_all: "length (durables l) \<le> n \<Longrightarrow> drop_durable n l = drop_durable (length (durables l)) l"
  by (induction n l rule: drop_durable.induct) auto

lemma drop_durable_subseq: "subseq (drop_durable n l) l"
  by (induction n l rule: drop_durable.induct) auto

lemma drop_durable_set: "set (drop_durable n l) \<subseteq> set l"
  by (induction n l rule: drop_durable.induct) auto

lemma drop_durable_distinct: "distinct (map f l) \<Longrightarrow> distinct (map f (drop_durable n l))"
proof (induction n l rule: drop_durable.induct)
  case (2 n r rs)
  then show ?case using drop_durable_set [of n rs] by auto
qed simp

lemma drop_durable_map:
  "(\<And>r. h_Status (f r) = h_Status r) \<Longrightarrow> drop_durable n (map f l) = map f (drop_durable n l)"
  by (induction n l rule: drop_durable.induct) auto

lemma drop_durable_filter: "\<exists>m. filter P (drop_durable n l) = drop_durable m (filter P l)"
proof (induction n l rule: drop_durable.induct)
  case (2 n r rs)
  show ?case
  proof (cases "0 < n \<and> rec_durable r")
    case True
    with 2(1) obtain m where "filter P (drop_durable (n - 1) rs) = drop_durable m (filter P rs)" by blast
    then have "filter P (drop_durable n (r # rs)) = drop_durable (if P r then Suc m else m) (filter P (r # rs))"
      using True by simp
    then show ?thesis by blast
  next
    case False
    with 2(2) obtain m where m: "filter P (drop_durable n rs) = drop_durable m (filter P rs)" by blast
    show ?thesis
    proof (cases "P r \<and> rec_durable r")
      case True
      with False have "n = 0" by simp
      then have "filter P (drop_durable n (r # rs)) = drop_durable 0 (filter P (r # rs))" by simp
      then show ?thesis by blast
    next
      case Pr: False
      then have "filter P (drop_durable n (r # rs)) = drop_durable m (filter P (r # rs))"
        using False m by auto
      then show ?thesis by blast
    qed
  qed
qed simp

lemma drop_durable_snoc: "\<exists>m. drop_durable n xs @ [y] = drop_durable m (xs @ [y])"
proof (cases "length (durables xs) \<le> n")
  case True
  have "drop_durable n xs @ [y] = drop_durable (length (durables xs)) (xs @ [y])"
    by (simp add: drop_durable_append drop_durable_all [OF True])
  then show ?thesis by blast
next
  case False
  then have "drop_durable n xs @ [y] = drop_durable n (xs @ [y])" by (simp add: drop_durable_append)
  then show ?thesis by blast
qed

lemma capHistoryLocked_drop:
  "capHistoryLocked k l = drop_durable (if keep_limit k \<le> 0 then 0
     else nat (int (length (durables l)) - keep_limit k)) l"
  by (simp add: capHistoryLocked_def Let_def)

lemma cap_durables: "0 < keep_limit k \<Longrightarrow> int (length (durables (capHistoryLocked k l))) \<le> keep_limit k"
  by (simp add: capHistoryLocked_drop)

lemma cap_snoc: "\<exists>zs. capHistoryLocked k (xs @ [y]) = zs @ [y]"
proof -
  define n where "n = (if keep_limit k \<le> 0 then 0
     else nat (int (length (durables (xs @ [y]))) - keep_limit k))"
  have n: "n \<le> length (durables xs)" by (auto simp: n_def)
  have "capHistoryLocked k (xs @ [y]) = drop_durable n (xs @ [y])"
    unfolding capHistoryLocked_drop n_def by simp
  also have "\<dots> = drop_durable n xs @ [y]" using n by (simp add: drop_durable_append)
  finally show ?thesis by blast
qed

lemma cap_in_flight [simp]: "in_flight (capHistoryLocked k l) = in_flight l"
  by (simp add: capHistoryLocked_drop)

lemma cap_set: "set (capHistoryLocked k l) \<subseteq> set l"
  by (simp add: capHistoryLocked_drop drop_durable_set)

lemma cap_distinct: "distinct (map h_ID l) \<Longrightarrow> distinct (map h_ID (capHistoryLocked k l))"
  unfolding capHistoryLocked_drop by (rule drop_durable_distinct)

end
