(* ===== verification/HistoryProps.thy ===== *)
theory HistoryProps
  imports HistoryLog
begin

text \<open>
  Properties of the history store: what a restart reads back, the bounds on memory and file, the
  order and uniqueness of the rows the API shows, and deletion. \<open>hist_exec\<close> runs one operation
  of the store; \<open>Restart\<close> is \<open>loadHistory\<close> in a fresh process on the file left behind.
\<close>

lemma notify_hub_keeps [frame_simps]:
  "d_KeepHistory (notify_hub f u) = d_KeepHistory u" "d_histFile (notify_hub f u) = d_histFile u"
  "d_histIO (notify_hub f u) = d_histIO u" "d_histLines (notify_hub f u) = d_histLines u"
  "d_records (notify_hub f u) = d_records u" "d_histPath (notify_hub f u) = d_histPath u"
  by (simp_all add: notify_hub_def)

lemma notifyHistory_keeps [frame_simps]:
  "d_KeepHistory (notifyHistoryLocked u r) = d_KeepHistory u"
  "d_histFile (notifyHistoryLocked u r) = d_histFile u" "d_histIO (notifyHistoryLocked u r) = d_histIO u"
  "d_histLines (notifyHistoryLocked u r) = d_histLines u" "d_records (notifyHistoryLocked u r) = d_records u"
  "d_histPath (notifyHistoryLocked u r) = d_histPath u"
  by (simp_all add: notifyHistoryLocked_def frame_simps)

subsection \<open>The invariant of the store\<close>

fun raw_rows :: "hline list \<Rightarrow> history_record list" where
  "raw_rows [] = []"
| "raw_rows (JRow r # ls) = r # raw_rows ls"
| "raw_rows (JBad s # ls) = raw_rows ls"

definition file_lines :: "'a hist_scheme \<Rightarrow> hline list" where
  "file_lines u = (case d_histFile u of None \<Rightarrow> [] | Some ls \<Rightarrow> ls)"

definition replayed :: "env \<Rightarrow> 'a hist_scheme \<Rightarrow> history_record list" where
  "replayed E u = mergeHistory [] (map (decode_row E) (raw_rows (file_lines u)))"

definition dec_ok :: "env \<Rightarrow> bool" where
  "dec_ok E \<longleftrightarrow> (\<forall>m. decIDs E (decIDs E m) = decIDs E m)"

definition store_ok :: "env \<Rightarrow> 'a hist_scheme \<Rightarrow> bool" where
  "store_ok E u \<longleftrightarrow> 0 < keep_limit (d_KeepHistory u)
     \<and> compact_limit (d_KeepHistory u) = 2 * keep_limit (d_KeepHistory u)
     \<and> d_histIO u \<and> d_histPath u \<noteq> ''''
     \<and> distinct (map h_ID (d_records u)) \<and> list_all row_ok (d_records u)
     \<and> list_all row_ok (raw_rows (file_lines u))
     \<and> int (length (durables (d_records u))) \<le> keep_limit (d_KeepHistory u)
     \<and> d_histLines u = int (length (filter (\<lambda>l. \<not> blank_line l) (file_lines u)))
     \<and> d_histLines u \<le> max (2 * keep_limit (d_KeepHistory u)) (int (length (d_records u)))
     \<and> (\<exists>n. map (decode_row E) (d_records u) = drop_durable n (replayed E u))"

lemma parsed_raw: "parsed_rows E ls = map (decode_row E) (raw_rows ls)"
  by (induction E ls rule: parsed_rows.induct) auto

lemma raw_append: "raw_rows (xs @ ys) = raw_rows xs @ raw_rows ys"
  by (induction xs rule: raw_rows.induct) auto

lemma raw_JRow [simp]: "raw_rows (map JRow rs) = rs"
  by (induction rs) auto

lemma blank_JRow [simp]: "filter (\<lambda>l. \<not> blank_line l) (map JRow rs) = map JRow rs"
  by (induction rs) auto

lemma decode_simps [simp]:
  "h_ID (decode_row E r) = h_ID r" "h_Status (decode_row E r) = h_Status r"
  "h_Started (decode_row E r) = h_Started r" "row_ok (decode_row E r) = row_ok r"
  by (simp_all add: decode_row_def row_ok_def encodable_row_def)

lemma decode_idem: "dec_ok E \<Longrightarrow> decode_row E (decode_row E r) = decode_row E r"
  by (simp add: dec_ok_def decode_row_def)

lemma map_decode_facts [simp]:
  "map h_ID (map (decode_row E) rs) = map h_ID rs"
  "list_all row_ok (map (decode_row E) rs) = list_all row_ok rs"
  "in_flight (map (decode_row E) rs) = map (decode_row E) (in_flight rs)"
  "length (durables (map (decode_row E) rs)) = length (durables rs)"
  by (simp_all add: list.pred_map filter_map o_def comp_def list_all_iff)

lemma replayed_distinct: "list_all row_ok (raw_rows (file_lines u)) \<Longrightarrow> distinct (map h_ID (replayed E u))"
  unfolding replayed_def mergeHistory_def
  by (rule hist_log.replay_distinct) (simp_all add: list_all_iff)

lemma norm_simps [simp]:
  "h_Started (norm_row r) = h_Started r" "h_Status (norm_row r) = h_Status r"
  "encodable_row (norm_row r) = encodable_row r"
  by (simp_all add: norm_row_def encodable_row_def)

lemma row_ok_norm_row: "h_Started r \<noteq> zeroTime \<Longrightarrow> encodable_row r \<Longrightarrow> row_ok (norm_row r)"
  by (auto simp: row_ok_def norm_row_def encodable_row_def)

subsection \<open>Upsert\<close>

definition others :: "history_record \<Rightarrow> history_record list \<Rightarrow> history_record list" where
  "others r l = filter (\<lambda>x. h_ID x \<noteq> h_ID r) l"

lemma upsert_records:
  assumes "h_Started rec \<noteq> zeroTime" "distinct (map h_ID (d_records u))"
  shows "mergeHistory (d_records u) [rec] = others (norm_row rec) (d_records u) @ [norm_row rec]"
  using assms by (simp add: mergeHistory_def merge_one_eq others_def)

lemma upsert_cases:
  fixes u :: "'a hist_scheme"
  assumes "h_Started rec \<noteq> zeroTime" "encodable_row rec" "distinct (map h_ID (d_records u))"
    "d_histIO u" "d_histPath u \<noteq> ''''"
  defines "M \<equiv> capHistoryLocked (d_KeepHistory u) (others (norm_row rec) (d_records u) @ [norm_row rec])"
  shows "upsertHistoryLocked u rec = (let v = notifyHistoryLocked (u\<lparr>d_records := M\<rparr>) (norm_row rec) in
     if keep_limit (d_KeepHistory u) > 0 \<and> d_histLines u \<ge> compact_limit (d_KeepHistory u)
     then v\<lparr>d_histFile := Some (map JRow (filter encodable_row M)), d_histLines := int (length M)\<rparr>
     else v\<lparr>d_histFile := Some (file_lines u @ [JRow (norm_row rec)]), d_histLines := d_histLines u + 1\<rparr>)"
proof -
  obtain zs where M: "M = zs @ [norm_row rec]" unfolding M_def using cap_snoc by blast
  have r: "capHistoryLocked (d_KeepHistory u) (mergeHistory (d_records u) [rec]) = M"
    unfolding M_def by (simp add: upsert_records [OF assms(1,3)])
  have last: "last M = norm_row rec" "M \<noteq> []" unfolding M by simp_all
  show ?thesis using assms(2,4,5)
    by (simp add: upsertHistoryLocked_def Let_def r last frame_simps compactHistoryLocked_def file_lines_def)
qed

lemma decode_others: "map (decode_row E) (others r l) = others r (map (decode_row E) l)"
  by (induction l) (auto simp: others_def)

lemma drop_upsert:
  assumes "map (decode_row E) M = drop_durable n R"
  shows "\<exists>m. map (decode_row E) (capHistoryLocked k (others r M @ [r])) = drop_durable m (others r R @ [decode_row E r])"
proof -
  obtain a where a: "others r (drop_durable n R) = drop_durable a (others r R)"
    using drop_durable_filter unfolding others_def by blast
  obtain b where b: "drop_durable a (others r R) @ [decode_row E r] = drop_durable b (others r R @ [decode_row E r])"
    using drop_durable_snoc by blast
  have "map (decode_row E) (others r M @ [r]) = drop_durable b (others r R @ [decode_row E r])"
    using assms by (simp add: decode_others a b)
  then have "map (decode_row E) (capHistoryLocked k (others r M @ [r])) = drop_durable (if keep_limit k \<le> 0 then 0
     else nat (int (length (durables (others r M @ [r]))) - keep_limit k)) (drop_durable b (others r R @ [decode_row E r]))"
    unfolding capHistoryLocked_drop by (simp only: drop_durable_map [symmetric] decode_simps)
  then show ?thesis unfolding drop_durable_add by blast
qed

lemma replayed_append:
  assumes "list_all row_ok (raw_rows ls)" "row_ok r"
  shows "mergeHistory [] (map (decode_row E) (raw_rows (ls @ [JRow r])))
    = others r (mergeHistory [] (map (decode_row E) (raw_rows ls))) @ [decode_row E r]"
proof -
  have d: "distinct (map h_ID (mergeHistory [] (map (decode_row E) (raw_rows ls))))"
    unfolding mergeHistory_def by (rule hist_log.replay_distinct) (use assms in \<open>simp_all add: list_all_iff\<close>)
  then show ?thesis using hist_log.merge_eq [of "decode_row E r", OF _ d] assms
    by (simp add: raw_append mergeHistory_def others_def)
qed

lemma replay_written:
  assumes "distinct (map h_ID M)" "list_all row_ok M"
  shows "mergeHistory [] (map (decode_row E) M) = map (decode_row E) M"
  unfolding mergeHistory_def by (rule hist_log.replay_self) (use assms in \<open>simp_all add: list_all_iff o_def\<close>)

lemma row_ok_filter: "list_all row_ok M \<Longrightarrow> filter encodable_row M = M"
  by (induction M) (auto simp: row_ok_def)

lemma compact_ok:
  assumes "store_ok E u" "distinct (map h_ID M)" "list_all row_ok M"
    "int (length (durables M)) \<le> keep_limit (d_KeepHistory u)"
    "d_KeepHistory v = d_KeepHistory u" "d_histIO v" "d_histPath v = d_histPath u" "d_records v = M"
    "d_histFile v = Some (map JRow (filter encodable_row M))" "d_histLines v = int (length M)"
  shows "store_ok E v"
proof -
  have "replayed E v = map (decode_row E) M"
    using assms by (simp add: replayed_def file_lines_def row_ok_filter replay_written)
  then have "map (decode_row E) M = drop_durable 0 (replayed E v)" by simp
  then have ex: "\<exists>n. map (decode_row E) (d_records v) = drop_durable n (replayed E v)"
    unfolding assms(8) by blast
  have "0 < keep_limit (d_KeepHistory u)" "d_histPath u \<noteq> ''''"
    "compact_limit (d_KeepHistory u) = 2 * keep_limit (d_KeepHistory u)"
    using assms(1) by (simp_all add: store_ok_def)
  with ex assms(2-) show ?thesis unfolding store_ok_def
    by (simp add: file_lines_def row_ok_filter)
qed

lemma cap_upsert_facts:
  assumes "list_all row_ok M" "row_ok r" "distinct (map h_ID M)"
  shows "distinct (map h_ID (capHistoryLocked k (others r M @ [r])))"
    "list_all row_ok (capHistoryLocked k (others r M @ [r]))"
proof -
  have "distinct (map h_ID (others r M @ [r]))" using assms(3) by (auto simp: others_def distinct_map_filter)
  then show "distinct (map h_ID (capHistoryLocked k (others r M @ [r])))" by (rule cap_distinct)
  have "list_all row_ok (others r M @ [r])" using assms by (auto simp: others_def list_all_iff)
  then show "list_all row_ok (capHistoryLocked k (others r M @ [r]))"
    using cap_set [of k "others r M @ [r]"] by (auto simp: list_all_iff)
qed

lemma upsert_ok:
  assumes ok: "store_ok E u" and st: "h_Started rec \<noteq> zeroTime" and enc: "encodable_row rec"
  shows "store_ok E (upsertHistoryLocked u rec)"
proof -
  define r where "r = norm_row rec"
  define M where "M = capHistoryLocked (d_KeepHistory u) (others r (d_records u) @ [r])"
  have rok: "row_ok r" using st enc by (simp add: r_def row_ok_norm_row)
  have u: "distinct (map h_ID (d_records u))" "list_all row_ok (d_records u)" "d_histIO u" "d_histPath u \<noteq> ''''"
    "list_all row_ok (raw_rows (file_lines u))" "0 < keep_limit (d_KeepHistory u)"
    "compact_limit (d_KeepHistory u) = 2 * keep_limit (d_KeepHistory u)"
    "d_histLines u = int (length (filter (\<lambda>l. \<not> blank_line l) (file_lines u)))"
    using ok by (auto simp: store_ok_def)
  obtain n where n: "map (decode_row E) (d_records u) = drop_durable n (replayed E u)"
    using ok by (auto simp: store_ok_def)
  note facts = cap_upsert_facts [OF u(2) rok u(1), of "d_KeepHistory u", folded M_def]
  have dur: "int (length (durables M)) \<le> keep_limit (d_KeepHistory u)"
    unfolding M_def by (rule cap_durables [OF u(6)])
  note up = upsert_cases [OF st enc u(1,3,4), folded r_def, folded M_def, unfolded Let_def]
  show ?thesis
  proof (cases "d_histLines u \<ge> compact_limit (d_KeepHistory u)")
    case True
    with up u(6) show ?thesis
      by (intro compact_ok [OF ok facts dur]) (simp_all add: frame_simps u(3))
  next
    case False
    then have v: "upsertHistoryLocked u rec = notifyHistoryLocked (u\<lparr>d_records := M\<rparr>) r
        \<lparr>d_histFile := Some (file_lines u @ [JRow r]), d_histLines := d_histLines u + 1\<rparr>" (is "_ = ?v")
      using up by simp
    have rep: "replayed E ?v = others r (replayed E u) @ [decode_row E r]"
      unfolding replayed_def using replayed_append [OF u(5) rok] by (simp add: file_lines_def)
    have "\<exists>m. map (decode_row E) M = drop_durable m (replayed E ?v)"
      using drop_upsert [OF n, of "d_KeepHistory u" r, folded M_def] by (simp only: rep)
    moreover have "d_histLines u + 1 \<le> 2 * keep_limit (d_KeepHistory u)" using False u(7) by simp
    ultimately show ?thesis unfolding v store_ok_def
      using u facts dur rok by (simp add: frame_simps file_lines_def raw_append)
  qed
qed

subsection \<open>The other operations\<close>

lemma store_ok_cong:
  assumes "store_ok E u" "d_KeepHistory v = d_KeepHistory u" "d_histFile v = d_histFile u"
    "d_histIO v = d_histIO u" "d_histLines v = d_histLines u" "d_records v = d_records u"
    "d_histPath v = d_histPath u"
  shows "store_ok E v"
  using assms by (simp add: store_ok_def file_lines_def replayed_def)

lemma store_row:
  assumes "store_ok E u" "index_func P (d_records u) = Some i"
  shows "h_Started (d_records u ! i) \<noteq> zeroTime" "encodable_row (d_records u ! i)"
  using assms index_func_Some [OF assms(2)] nth_mem [of i "d_records u"]
  by (auto simp: store_ok_def list_all_iff row_ok_def)

lemma bump_ok: "store_ok E u \<Longrightarrow> store_ok E (bumpHistoryHookFail u i)"
  by (auto simp: bumpHistoryHookFail_def Let_def encodable_row_def split: option.splits
      intro!: upsert_ok dest: store_row)

lemma bump_message_ok: "store_ok E u \<Longrightarrow> store_ok E (bumpHistoryHookMessage u i k m)"
  by (auto simp: bumpHistoryHookMessage_def Let_def encodable_row_def split: option.splits
      intro!: upsert_ok dest: store_row)

lemma forget_ok: "store_ok E u \<Longrightarrow> store_ok E (markHistoryForgotten u i)"
  by (auto simp: markHistoryForgotten_def upsertHistory_def encodable_row_def split: option.splits
      intro!: upsert_ok dest: store_row)

lemma filter_store_ok:
  assumes "store_ok E u"
  shows "store_ok E (snd (compactHistoryLocked (notify_hub f (u\<lparr>d_records := filter P (d_records u)\<rparr>))))"
proof -
  let ?M = "filter P (d_records u)"
  have "distinct (map h_ID ?M)" "list_all row_ok ?M"
    "int (length (durables ?M)) \<le> keep_limit (d_KeepHistory u)"
    using assms length_filter_le [of P "durables (d_records u)"]
    by (auto simp: store_ok_def distinct_map_filter list_all_iff filter_filter conj_commute
        intro: order_trans)
  moreover have "d_histIO u" "d_histPath u \<noteq> ''''" using assms by (simp_all add: store_ok_def)
  ultimately show ?thesis
    by (intro compact_ok [OF assms]) (simp_all add: compactHistoryLocked_def frame_simps)
qed

lemma delete_at_filter:
  assumes "distinct (map h_ID l)" "index_func (\<lambda>r. h_ID r = k) l = Some i"
  shows "delete_at i l = filter (\<lambda>r. h_ID r \<noteq> k) l"
proof -
  obtain ys x zs where l: "l = ys @ x # zs" "h_ID x = k" "delete_at i l = ys @ zs"
    by (rule index_func_split [OF assms(2)])
  from filter_key_split [of h_ID ys x zs k] assms(1) l show ?thesis by simp
qed

lemma store_distinct: "store_ok E u \<Longrightarrow> distinct (map h_ID (d_records u))"
  by (simp add: store_ok_def)

lemma delete_ok: "store_ok E u \<Longrightarrow> store_ok E (snd (deleteHistoryID u k))"
  by (auto simp: deleteHistoryID_def delete_at_filter [OF store_distinct] filter_store_ok split: option.splits)

lemma clear_ok: "store_ok E u \<Longrightarrow> store_ok E (snd (clearHistory u))"
  using filter_store_ok [of E u _ "\<lambda>r. \<not> rec_durable r"] by (simp add: clearHistory_def)

subsection \<open>Loading\<close>

lemma load_ok:
  assumes E: "dec_ok E" and io: "d_histIO u" "d_histPath u \<noteq> ''''"
    and keep: "0 < keep_limit (d_KeepHistory u)"
      "compact_limit (d_KeepHistory u) = 2 * keep_limit (d_KeepHistory u)"
    and rows: "list_all row_ok (raw_rows (file_lines u))"
  shows "store_ok E (loadHistory E u)"
    "d_records (loadHistory E u) = capHistoryLocked (d_KeepHistory u) (replayed E u)"
proof -
  define M where "M = capHistoryLocked (d_KeepHistory u) (replayed E u)"
  define n where "n = int (length (filter (\<lambda>l. \<not> blank_line l) (file_lines u)))"
  define v where "v = u\<lparr>d_records := M, d_histLines := n\<rparr>"
  have k0: "d_KeepHistory u \<noteq> 0" using keep(1) by (auto simp: keep_limit_def)
  have read: "readHistoryRecords E u = (n, map (decode_row E) (raw_rows (file_lines u)))"
    using io by (auto simp: readHistoryRecords_def n_def file_lines_def parsed_raw split: option.splits)
  have load: "loadHistory E u = (if n \<noteq> int (length M) then snd (compactHistoryLocked v) else v)"
    using k0 io(2) by (simp add: loadHistory_def read v_def M_def replayed_def)
  then show "d_records (loadHistory E u) = M"
    using io by (simp add: v_def compactHistoryLocked_def)
  have dec: "\<forall>r \<in> set (replayed E u). decode_row E r = r \<and> row_ok r"
  proof
    fix r assume "r \<in> set (replayed E u)"
    then have "r \<in> set (map (decode_row E) (raw_rows (file_lines u)))"
      unfolding replayed_def mergeHistory_def
      using hist_log.replay_subset [of "map (decode_row E) (raw_rows (file_lines u))"] rows by auto
    then show "decode_row E r = r \<and> row_ok r" using rows by (auto simp: decode_idem [OF E] list_all_iff)
  qed
  have M: "distinct (map h_ID M)" "list_all row_ok M" "map (decode_row E) M = M"
    "int (length (durables M)) \<le> keep_limit (d_KeepHistory u)"
    using cap_distinct [OF replayed_distinct [OF rows]] dec cap_set cap_durables [OF keep(1)]
    by (auto simp: M_def list_all_iff subset_iff intro!: map_idI)
  show "store_ok E (loadHistory E u)"
  proof (cases "n = int (length M)")
    case True
    have "map (decode_row E) M = drop_durable (if keep_limit (d_KeepHistory u) \<le> 0 then 0
       else nat (int (length (durables (replayed E u))) - keep_limit (d_KeepHistory u))) (replayed E u)"
      unfolding M(3) unfolding M_def capHistoryLocked_drop ..
    then have "\<exists>m. map (decode_row E) M = drop_durable m (replayed E u)" by blast
    with True io keep rows M(1,2,4) show ?thesis unfolding load store_ok_def
      by (auto simp: v_def n_def file_lines_def replayed_def)
  next
    case False
    have w: "replayed E (snd (compactHistoryLocked v)) = M"
      using io M replay_written [OF M(1,2), of E]
      by (simp add: v_def compactHistoryLocked_def replayed_def file_lines_def row_ok_filter)
    then have "map (decode_row E) M = drop_durable 0 (replayed E (snd (compactHistoryLocked v)))"
      by (simp add: M(3))
    then have "\<exists>m. map (decode_row E) M = drop_durable m (replayed E (snd (compactHistoryLocked v)))"
      by blast
    with False io keep M(1,2,4) show ?thesis unfolding load store_ok_def
      by (simp add: v_def compactHistoryLocked_def file_lines_def row_ok_filter)
  qed
qed

subsection \<open>Properties\<close>

datatype hist_op = Upsert history_record | DeleteID string | ClearAll | Forget string
  | HookFailed string | HookSent string string string | Restart

fun hist_exec :: "env \<Rightarrow> 'a hist_scheme \<Rightarrow> hist_op \<Rightarrow> 'a hist_scheme" where
  "hist_exec E u (Upsert r) = upsertHistory u r"
| "hist_exec E u (DeleteID i) = snd (deleteHistoryID u i)"
| "hist_exec E u ClearAll = snd (clearHistory u)"
| "hist_exec E u (Forget i) = markHistoryForgotten u i"
| "hist_exec E u (HookFailed i) = bumpHistoryHookFail u i"
| "hist_exec E u (HookSent i k m) = bumpHistoryHookMessage u i k m"
| "hist_exec E u Restart = loadHistory E (u\<lparr>d_records := [], d_histLines := 0\<rparr>)"

text \<open>
  The rows the daemon upserts have a start time (\<open>historyFromExtract\<close> takes it from \<open>Updated\<close>)
  and finite numbers; the file a store starts from holds rows written that way, or other text.
\<close>

fun op_ok :: "hist_op \<Rightarrow> bool" where
  "op_ok (Upsert r) = (h_Started r \<noteq> zeroTime \<and> encodable_row r)"
| "op_ok _ = True"

definition keep_ok :: "uint64 \<Rightarrow> bool" where
  "keep_ok k \<longleftrightarrow> 0 < keep_limit k \<and> compact_limit k = 2 * keep_limit k"

definition store_start :: "'a hist_scheme \<Rightarrow> bool" where
  "store_start u \<longleftrightarrow> d_histIO u \<and> d_histPath u \<noteq> '''' \<and> keep_ok (d_KeepHistory u)
     \<and> list_all row_ok (raw_rows (file_lines u))"

lemma exec_ok:
  assumes "dec_ok E" "store_ok E u" "op_ok a" shows "store_ok E (hist_exec E u a)"
proof (cases a)
  case Restart
  let ?u = "u\<lparr>d_records := [], d_histLines := 0\<rparr>"
  have "store_ok E (loadHistory E ?u)"
    by (rule load_ok(1) [OF assms(1)]) (use assms(2) in \<open>simp_all add: store_ok_def file_lines_def\<close>)
  then show ?thesis by (simp add: Restart)
qed (use assms in \<open>simp_all add: upsertHistory_def upsert_ok delete_ok clear_ok forget_ok bump_ok bump_message_ok\<close>)

lemma run_ok:
  assumes "dec_ok E" "store_start u" "list_all op_ok ops"
  shows "store_ok E (foldl (hist_exec E) (loadHistory E u) ops)"
proof -
  have start: "store_ok E (loadHistory E u)"
    by (rule load_ok(1) [OF assms(1)]) (use assms(2) in \<open>simp_all add: store_start_def keep_ok_def\<close>)
  have "store_ok E v \<Longrightarrow> list_all op_ok as \<Longrightarrow> store_ok E (foldl (hist_exec E) v as)" for v :: "'a hist_scheme" and as
    by (induction as arbitrary: v) (auto simp: exec_ok [OF assms(1)])
  from this [OF start assms(3)] show ?thesis .
qed

text \<open>
  C34. A restart loses no work in flight: after any sequence of upserts, deletions, clears, hook
  updates and restarts, a fresh process that loads the file finds, up to the JSON form of the
  metadata, exactly the in-flight rows the old process held, and its finished rows are the old
  ones in the same order, preceded at most by finished rows the old process had already dropped
  at the cap. So a small \<open>keep_history\<close> cannot drop an item that a restart would resume.
\<close>

theorem history_survives_restart:
  assumes "dec_ok E" "store_start u" "list_all op_ok ops"
  shows "(let before = d_records (foldl (hist_exec E) (loadHistory E u) ops);
       after = d_records (hist_exec E (foldl (hist_exec E) (loadHistory E u) ops) Restart) in
     in_flight after = map (decode_row E) (in_flight before)
     \<and> (\<exists>n. map (decode_row E) before = drop_durable n after))"
proof -
  define v where "v = foldl (hist_exec E) (loadHistory E u) ops"
  define w where "w = v\<lparr>d_records := [], d_histLines := 0\<rparr>"
  have ok: "store_ok E v" unfolding v_def by (rule run_ok [OF assms])
  then obtain n where n: "map (decode_row E) (d_records v) = drop_durable n (replayed E v)"
    by (auto simp: store_ok_def)
  have rep: "replayed E w = replayed E v" by (simp add: w_def replayed_def file_lines_def)
  have "d_records (loadHistory E w) = capHistoryLocked (d_KeepHistory w) (replayed E w)"
    by (rule load_ok(2) [OF assms(1)]) (use ok in \<open>simp_all add: w_def store_ok_def file_lines_def\<close>)
  then have after: "d_records (hist_exec E v Restart) = capHistoryLocked (d_KeepHistory v) (replayed E v)"
    by (simp add: rep) (simp add: w_def)
  have fl: "in_flight (replayed E v) = map (decode_row E) (in_flight (d_records v))"
    using arg_cong [OF n, of in_flight] by simp
  have dur: "int (length (durables (replayed E v)) - n) \<le> keep_limit (d_KeepHistory v)"
  proof -
    have "length (durables (d_records v)) = length (durables (replayed E v)) - n"
      using arg_cong [OF n, of "\<lambda>l. length (durables l)"]
      by (simp only: map_decode_facts durables_drop length_drop)
    then show ?thesis using ok by (simp add: store_ok_def)
  qed
  define m where "m = nat (int (length (durables (replayed E v))) - keep_limit (d_KeepHistory v))"
  have pos: "0 < keep_limit (d_KeepHistory v)" using ok by (simp add: store_ok_def)
  have "\<exists>k. drop_durable n (replayed E v) = drop_durable k (drop_durable m (replayed E v))"
  proof (cases "length (durables (replayed E v)) \<le> n")
    case True
    have "drop_durable n (replayed E v)
        = drop_durable (length (durables (replayed E v)) - m + m) (replayed E v)"
      using drop_durable_all [OF True] pos by (simp add: m_def)
    then show ?thesis unfolding drop_durable_add by blast
  next
    case False
    with dur have "m \<le> n" by (simp add: m_def)
    then have "drop_durable n (replayed E v) = drop_durable (n - m) (drop_durable m (replayed E v))"
      by (simp add: drop_durable_add)
    then show ?thesis by blast
  qed
  then have "\<exists>k. map (decode_row E) (d_records v) = drop_durable k (d_records (hist_exec E v Restart))"
    unfolding n after capHistoryLocked_drop using pos by (simp add: m_def)
  moreover have "in_flight (d_records (hist_exec E v Restart)) = map (decode_row E) (in_flight (d_records v))"
    unfolding after cap_in_flight fl ..
  ultimately show ?thesis by (simp add: Let_def flip: v_def)
qed

text \<open>The witnesses run the store on a concrete configuration: two finished rows and one in flight.\<close>

definition demo_row :: "string \<Rightarrow> status \<Rightarrow> history_record" where
  "demo_row i s = (historyFromExtract demo_env i (zero_extract\<lparr>e_Status := s, e_Updated := 7\<rparr>))"

definition demo_store :: hist where
  "demo_store = \<lparr>d_KeepHistory = 1, d_LogFile = '''', d_ConfigFile = ''/c/u.conf'', d_rotatorr = False,
     d_histPath = ''/c/h'', d_histFile = None, d_histIO = True, d_histLines = 0, d_records = [],
     d_hub = None\<rparr>"

definition demo_ops :: "hist_op list" where
  "demo_ops = [Upsert (demo_row ''a'' EXTRACTED), Upsert (demo_row ''b'' IMPORTED),
     Upsert (demo_row ''c'' DELETED)]"

lemma demo_dec_ok: "dec_ok demo_env"
  by (simp add: dec_ok_def demo_env_def)

lemma demo_row_simps [simp]:
  "h_Started (demo_row i s) = 7" "h_Status (demo_row i s) = s" "h_Ratio (demo_row i s) = 0"
  "h_ID (demo_row i s) = i" "h_IDs (demo_row i s) = []"
  by (simp_all add: demo_row_def historyFromExtract_def fillHistoryStats_def zero_extract_def Let_def cloneIDs_def)

lemma demo_row_encodable [simp]: "encodable_row (demo_row i s)"
  by (simp add: encodable_row_def f64_finite_def)

lemma demo_start: "store_start demo_store"
  by (simp add: store_start_def keep_ok_def keep_limit_def compact_limit_def demo_store_def file_lines_def)

lemma demo_ops_ok: "list_all op_ok demo_ops"
  by (simp add: demo_ops_def)

theorem history_survives_restart_witness:
  "in_flight (d_records (hist_exec demo_env
      (foldl (hist_exec demo_env) (loadHistory demo_env demo_store) demo_ops) Restart))
   = map (decode_row demo_env) (in_flight (d_records
      (foldl (hist_exec demo_env) (loadHistory demo_env demo_store) demo_ops)))"
  using history_survives_restart [OF demo_dec_ok demo_start demo_ops_ok] by (simp add: Let_def)

text \<open>
  C35. The store stays bounded: after any operations at most \<open>keep_history\<close> finished rows are in
  memory, no item has two rows, every row has an ID unless its path is empty as well, and the
  file never has more lines than twice \<open>keep_history\<close> or the number of rows in memory.
\<close>

theorem history_bounded:
  assumes "dec_ok E" "store_start u" "list_all op_ok ops"
  shows "(let v = foldl (hist_exec E) (loadHistory E u) ops in
     int (length (historySnapshot v)) \<le> keep_limit (d_KeepHistory v)
     \<and> distinct (map h_ID (d_records v))
     \<and> (\<forall>r \<in> set (d_records v). h_ID r = '''' \<longrightarrow> h_Path r = '''')
     \<and> int (length (filter (\<lambda>l. \<not> blank_line l) (file_lines v)))
         \<le> max (2 * keep_limit (d_KeepHistory v)) (int (length (d_records v))))"
proof -
  have "length (historySnapshot v) = length (durables (d_records v))" for v :: "'a hist_scheme"
    by (simp add: historySnapshot_def rev_filter [symmetric])
  with run_ok [OF assms] show ?thesis
    by (auto simp: Let_def store_ok_def list_all_iff row_ok_def)
qed

theorem history_bounded_witness:
  "int (length (historySnapshot (foldl (hist_exec demo_env) (loadHistory demo_env demo_store) demo_ops)))
     \<le> keep_limit (d_KeepHistory (foldl (hist_exec demo_env) (loadHistory demo_env demo_store) demo_ops))"
  using history_bounded [OF demo_dec_ok demo_start demo_ops_ok] by (simp add: Let_def)

lemma upsert_d_records:
  assumes "h_Started rec \<noteq> zeroTime" "distinct (map h_ID (d_records u))"
  shows "d_records (upsertHistory u rec)
    = capHistoryLocked (d_KeepHistory u) (others (norm_row rec) (d_records u) @ [norm_row rec])"
proof -
  have "d_records (upsertHistory u rec) = capHistoryLocked (d_KeepHistory u) (mergeHistory (d_records u) [rec])"
    by (auto simp: upsertHistory_def upsertHistoryLocked_def Let_def compactHistoryLocked_def frame_simps)
  then show ?thesis by (simp only: upsert_records [OF assms])
qed

lemma rev_drop_take: "rev (drop (length xs - k) xs) = take k (rev xs)"
  by (simp add: take_rev)

lemma snapshot_cap:
  assumes "0 < keep_limit k"
  shows "rev (durables (capHistoryLocked k l)) = take (nat (keep_limit k)) (rev (durables l))"
proof -
  have "nat (int (length (durables l)) - keep_limit k) = length (durables l) - nat (keep_limit k)"
    using assms by simp
  with assms show ?thesis by (simp add: capHistoryLocked_drop rev_drop_take)
qed

text \<open>
  The history page is the latest rows, newest first: after a row is recorded, the snapshot
  is the new row (when its status is a finished one) followed by the old snapshot without that
  item, cut to \<open>keep_history\<close>; and the in-flight rows are the old ones without that item, with
  the new row last when it is in flight.
\<close>

theorem upsert_newest_first:
  assumes "h_Started rec \<noteq> zeroTime" "distinct (map h_ID (d_records u))" "0 < keep_limit (d_KeepHistory u)"
  shows "historySnapshot (upsertHistory u rec) = take (nat (keep_limit (d_KeepHistory u)))
      ((if rec_durable rec then [norm_row rec] else [])
        @ filter (\<lambda>r. h_ID r \<noteq> h_ID (norm_row rec)) (historySnapshot u))
    \<and> in_flight (d_records (upsertHistory u rec))
      = filter (\<lambda>r. h_ID r \<noteq> h_ID (norm_row rec)) (in_flight (d_records u))
        @ (if rec_durable rec then [] else [norm_row rec])"
proof -
  have snap: "historySnapshot v = rev (durables (d_records v))" for v :: "'a hist_scheme"
    by (simp add: historySnapshot_def rev_filter)
  have dur: "rev (durables (others (norm_row rec) (d_records u) @ [norm_row rec]))
    = (if rec_durable rec then [norm_row rec] else []) @ filter (\<lambda>r. h_ID r \<noteq> h_ID (norm_row rec)) (historySnapshot u)"
    by (simp add: snap others_def rev_filter conj_commute)
  show ?thesis
    unfolding snap [of "upsertHistory u rec"] upsert_d_records [OF assms(1,2)] snapshot_cap [OF assms(3)] dur
    by (simp add: others_def conj_commute)
qed

theorem upsert_newest_first_witness:
  "historySnapshot (upsertHistory (demo_store\<lparr>d_records := [demo_row ''b'' IMPORTED]\<rparr>) (demo_row ''c'' DELETED))
     = [norm_row (demo_row ''c'' DELETED)]"
  using upsert_newest_first [of "demo_row ''c'' DELETED" "demo_store\<lparr>d_records := [demo_row ''b'' IMPORTED]\<rparr>"]
  by (simp add: demo_store_def keep_limit_def)

text \<open>
  Deleting a history row tells apart its three cases: an unknown ID is reported as not found
  and a row still in progress as in flight, and then nothing changes, in memory or on disk;
  otherwise exactly that row is gone, the others keep their order, and the rewritten file holds
  exactly the remaining rows. Clearing removes exactly the finished rows.
\<close>

theorem delete_history_cases:
  assumes "distinct (map h_ID (d_records u))" "d_histIO u" "d_histPath u \<noteq> ''''" "list_all encodable_row (d_records u)"
  shows "(case deleteHistoryID u i of (err, v) \<Rightarrow>
       (err = Some errHistoryNotFound \<longleftrightarrow> i \<notin> h_ID ` set (d_records u))
     \<and> (err = Some errHistoryInFlight \<longleftrightarrow> i \<in> h_ID ` set (in_flight (d_records u)))
     \<and> (err \<noteq> None \<longrightarrow> v = u)
     \<and> (err = None \<longrightarrow> d_records v = filter (\<lambda>r. h_ID r \<noteq> i) (d_records u)
          \<and> d_histFile v = Some (map JRow (d_records v))
          \<and> in_flight (d_records v) = in_flight (d_records u)))
    \<and> d_records (snd (clearHistory u)) = in_flight (d_records u)
    \<and> d_histFile (snd (clearHistory u)) = Some (map JRow (in_flight (d_records u)))"
proof -
  have enc: "filter encodable_row (filter P (d_records u)) = filter P (d_records u)" for P
    using assms(4) by (auto simp: list_all_iff intro!: filter_cong)
  have clear: "d_records (snd (clearHistory u)) = in_flight (d_records u)"
    "d_histFile (snd (clearHistory u)) = Some (map JRow (in_flight (d_records u)))"
    using assms(2,3) enc [of "\<lambda>r. \<not> rec_durable r"]
    by (simp_all add: clearHistory_def compactHistoryLocked_def frame_simps)
  show ?thesis
  proof (cases "index_func (\<lambda>r. h_ID r = i) (d_records u)")
    case None
    then have "deleteHistoryID u i = (Some errHistoryNotFound, u)" by (simp add: deleteHistoryID_def)
    moreover have "i \<notin> h_ID ` set (d_records u)" using None by (auto simp: index_func_None)
    ultimately show ?thesis using clear by auto
  next
    case (Some k)
    note at = index_func_Some [OF Some]
    have mem: "d_records u ! k \<in> set (d_records u)" using at by simp
    have uniq: "r = d_records u ! k" if "r \<in> set (d_records u)" "h_ID r = i" for r
      using assms(1) that mem at by (auto simp: distinct_map dest: inj_onD)
    have rest: "in_flight (filter (\<lambda>r. h_ID r \<noteq> i) (d_records u)) = in_flight (d_records u)"
      if "rec_durable (d_records u ! k)" using uniq that by (auto intro!: filter_cong)
    show ?thesis
    proof (cases "rec_durable (d_records u ! k)")
      case True
      then have "i \<notin> h_ID ` set (in_flight (d_records u))" using uniq by auto
      moreover have "deleteHistoryID u i = compactHistoryLocked (notify_hub (\<lambda>h. notify h topicHistory (history_delete i))
          (u\<lparr>d_records := filter (\<lambda>r. h_ID r \<noteq> i) (d_records u)\<rparr>))"
        using Some True by (simp add: deleteHistoryID_def delete_at_filter [OF assms(1)])
      moreover have "i \<in> h_ID ` set (d_records u)" using mem at by auto
      ultimately show ?thesis using assms(2,3) clear rest [OF True] enc [of "\<lambda>r. h_ID r \<noteq> i"]
        by (auto simp: compactHistoryLocked_def frame_simps)
    next
      case False
      with Some have "deleteHistoryID u i = (Some errHistoryInFlight, u)" by (simp add: deleteHistoryID_def)
      moreover have "i \<in> h_ID ` set (in_flight (d_records u))" using False mem at by force
      moreover have "i \<in> h_ID ` set (d_records u)" using mem at by auto
      ultimately show ?thesis using clear by simp
    qed
  qed
qed

theorem delete_history_cases_witness:
  "fst (deleteHistoryID (demo_store\<lparr>d_records := [demo_row ''b'' IMPORTED, demo_row ''c'' EXTRACTED]\<rparr>) ''c'')
     = Some errHistoryInFlight"
proof -
  have "(case deleteHistoryID (demo_store\<lparr>d_records := [demo_row ''b'' IMPORTED, demo_row ''c'' EXTRACTED]\<rparr>) ''c''
      of (err, v) \<Rightarrow> err = Some errHistoryInFlight)"
    using delete_history_cases [of "demo_store\<lparr>d_records := [demo_row ''b'' IMPORTED, demo_row ''c'' EXTRACTED]\<rparr>" "''c''"]
    by (auto simp: demo_store_def split: prod.splits)
  then show ?thesis by (simp add: case_prod_beta)
qed

end
