(* ===== verification/Daemon.thy ===== *)
theory Daemon
  imports FolderPaths History
begin

text \<open>
  The state of the daemon (\<open>Unpackerr\<close> in \<open>pkg/unpackerr/start.go\<close>, \<open>History\<close> in
  \<open>history.go\<close>, \<open>StarrConfig\<close> in \<open>handlers.go\<close>, \<open>Folders\<close> in \<open>pkg/folders/config.go\<close>) as far as
  the queue, the watched folders, the hooks and the recovery file use it, and the operations all
  of them share: due times, the queue notification, the hook queue and \<open>updateQueueStatus\<close>. The
  record extends \<open>hist\<close>.

  A Go map is an association list; a loop over a map visits the keys in the order of the list.
  \<open>d_hookQueue\<close> holds the deliveries handed to the hook worker, \<open>d_delQueue\<close> the requests handed to
  the delete worker, oldest first; the workers are not part of the state. \<open>d_watched\<close> holds the
  nested paths the file watchers watch. \<open>d_meter\<close> holds the counters other goroutines own (hook
  posts and failures, channel occupancy). \<open>New\<close> always sets \<open>u.folders\<close>, so the tracker is part of
  the state and not optional. \<open>e_addr\<close> of an extract is the address of the Go pointer;
  \<open>d_nextAddr\<close> is the next unused one. \<open>clk\<close> is \<open>time.Now()\<close>.
\<close>

subsection \<open>Starr instances\<close>

record queue_view =
  qv_Title :: string
  qv_Status :: string
  qv_OutputPath :: string
  qv_TrackedStatus :: string
  qv_TrackedState :: string
  qv_Protocol :: string
  qv_IDs :: "(string \<times> idval) list"

record starr =
  sr_URL :: string
  sr_APIKey :: string
  sr_Name :: string
  sr_Paths :: "string list"
  sr_Protocols :: string
  sr_DeleteOrig :: bool
  sr_DeleteDelay :: duration
  sr_Syncthing :: bool
  sr_maxBytes :: uint64
  sr_lastQueued :: int
  sr_lastRetrieved :: int
  sr_lastPolled :: instant
  sr_lastPollErr :: string
  sr_polled :: bool
  sr_Queue :: "queue_view list option"
  sr_SplitFlac :: bool
  sr_APEFormat :: string
  sr_APECompression :: int

type_synonym 'a instances = "(string \<times> 'a option) list"

text \<open>\<open>instanceKeys\<close>, \<open>instanceEntries\<close> and \<open>instanceValues\<close> of \<open>instancemap.go\<close>.\<close>

definition instanceKeys :: "'a instances \<Rightarrow> string list" where
  "instanceKeys m = sort_strings (akeys m)"

definition instanceEntries :: "'a instances \<Rightarrow> (string \<times> 'a) list" where
  "instanceEntries m = List.map_filter (\<lambda>k. case aget m k of Some (Some v) \<Rightarrow> Some (k, v) | _ \<Rightarrow> None)
     (instanceKeys m)"

definition instanceValues :: "'a instances \<Rightarrow> 'a list" where
  "instanceValues m = map snd (instanceEntries m)"

subsection \<open>Hooks\<close>

record hook_config =
  hk_Events :: "status list"
  hk_Exclude :: "string list"

definition HasEvent :: "hook_config \<Rightarrow> status \<Rightarrow> bool" where
  "HasEvent w e = list_ex (\<lambda>s. (s = WAITING \<and> length (hk_Events w) = 1) \<or> s = e) (hk_Events w)"

definition Excluded :: "hook_config \<Rightarrow> string \<Rightarrow> string \<Rightarrow> bool" where
  "Excluded w app name = list_ex (\<lambda>x. equal_fold x app \<or> name \<noteq> '''' \<and> equal_fold x name) (hk_Exclude w)"

record pending_hook =
  ph_itemID :: string
  ph_item :: extract_item
  ph_live :: nat

record queued_hook =
  qh_itemID :: string
  qh_slug :: string
  qh_live :: nat
  qh_item :: extract_item

record hook_cache =
  hc_live :: "nat option"
  hc_msgs :: "(string \<times> string) list"

record hook_save =
  hs_itemID :: string
  hs_key :: string
  hs_msgID :: string
  hs_live :: "nat option"

subsection \<open>The daemon\<close>

record delete_req =
  dr_Paths :: "string list"
  dr_PurgeEmptyParent :: bool
  dr_PurgeEmptyRoot :: string

record recovery_folder =
  rf_Path :: string
  rf_WatchPath :: string
  rf_Status :: string
  rf_Updated :: instant
  rf_Files :: "string list"
  rf_Archives :: "string list"

record daemon = hist +
  d_StartDelay :: duration
  d_RetryDelay :: duration
  d_DeleteDelay :: duration
  d_MaxRetries :: uint64
  d_RemnantAction :: string
  d_Lidarr :: "starr instances"
  d_Radarr :: "starr instances"
  d_Readarr :: "starr instances"
  d_Sonarr :: "starr instances"
  d_FolderCfg :: "folder_config instances"
  d_Webhook :: "hook_config instances"
  d_Cmdhook :: "hook_config instances"
  d_Map :: "(string \<times> extract_item) list"
  d_Finished :: uint64
  d_Retries :: uint64
  d_forgotten :: "string list"
  d_pendingHooks :: "pending_hook list"
  d_hookQueue :: "queued_hook list"
  d_hookMsgs :: "(string \<times> hook_cache) list"
  d_hookMsgSaves :: "hook_save list"
  d_hookFails :: "string list"
  d_inFlight :: int
  d_delQueue :: "delete_req list"
  d_Tracked :: "(string \<times> folder) list"
  d_WatchCfg :: "folder_config list"
  d_watched :: "string list"
  d_WatchDirs :: "string list"
  d_WebLogFile :: string
  d_StateFile :: string
  d_recovery :: "(string \<times> recovery_folder option) list"
  d_stateDisk :: "(string \<times> recovery_folder option) list option"
  d_nextAddr :: nat
  d_meter :: stats

abbreviation (input) defaultMaxRetries :: uint64 where "defaultMaxRetries \<equiv> 2"
abbreviation (input) cleanerInterval :: duration where "cleanerInterval \<equiv> 5 * nsecond"
abbreviation (input) staleItemTimeout :: duration where "staleItemTimeout \<equiv> 24 * nhour"

definition maxRetries :: "'a daemon_scheme \<Rightarrow> uint64" where
  "maxRetries u = (if d_MaxRetries u = 0 then defaultMaxRetries else d_MaxRetries u)"

subsection \<open>Due times\<close>

definition folderDeleteAfter :: "'a daemon_scheme \<Rightarrow> string \<Rightarrow> extract_item \<Rightarrow> duration" where
  "folderDeleteAfter u itemID item = (if e_App item \<noteq> FolderString then 0
     else case aget (d_Tracked u) itemID of None \<Rightarrow> e_DeleteDelay item
       | Some f \<Rightarrow> (case fo_Config f of None \<Rightarrow> e_DeleteDelay item
           | Some c \<Rightarrow> (case fc_DeleteAfter c of None \<Rightarrow> e_DeleteDelay item | Some d \<Rightarrow> d)))"

fun queueDue :: "'a daemon_scheme \<Rightarrow> string \<Rightarrow> extract_item \<Rightarrow> instant \<times> string" where
  "queueDue u itemID item = (case e_Status item of
     WAITING \<Rightarrow> if d_StartDelay u \<le> 0 then (zeroTime, '''')
       else if e_App item \<noteq> FolderString \<and> e_Note item \<noteq> '''' then (zeroTime, '''')
       else (e_Updated item + d_StartDelay u, dueStart)
   | EXTRACTFAILED \<Rightarrow> if e_NoRetry item \<or> e_Retries item \<ge> maxRetries u then (zeroTime, '''')
       else (e_Updated item + d_RetryDelay u, dueRetry)
   | EXTRACTED \<Rightarrow> (let delay = folderDeleteAfter u itemID item in
       if delay \<le> 0 then (zeroTime, '''') else (e_Updated item + delay, dueCleanup))
   | IMPORTED \<Rightarrow> if e_DeleteDelay item < 0 then (zeroTime, '''')
       else (e_Updated item + e_DeleteDelay item, dueCleanup)
   | DELETED \<Rightarrow> (e_Updated item + e_DeleteDelay item, dueHistory)
   | EXTRACTEDNOTHING \<Rightarrow> if e_App item \<noteq> FolderString \<or> d_StartDelay u \<le> 0 then (zeroTime, '''')
       else (e_Updated item + d_StartDelay u, dueHistory)
   | _ \<Rightarrow> (zeroTime, ''''))"

definition stampQueueDue :: "'a daemon_scheme \<Rightarrow> string \<Rightarrow> extract_item \<Rightarrow> extract_item" where
  "stampQueueDue u itemID item = (case queueDue u itemID item of
     (due, kind) \<Rightarrow> item\<lparr>e_Due := due, e_DueKind := kind\<rparr>)"

subsection \<open>Statistics\<close>

text \<open>\<open>isComplete\<close>: the protocol is listed, and the record is completed.\<close>

definition isComplete :: "string \<Rightarrow> string \<Rightarrow> string \<Rightarrow> bool" where
  "isComplete st protocol protos = (equal_fold st ''completed''
     \<and> list_ex (equal_fold protocol) (fields_func is_space (replace_char (CHR '','') (CHR '' '') protos)))"

definition queueViews :: "starr \<Rightarrow> queue_view list" where
  "queueViews s = (case sr_Queue s of None \<Rightarrow> [] | Some vs \<Rightarrow> vs)"

definition hasQueueTitle :: "starr \<Rightarrow> string \<Rightarrow> bool" where
  "hasQueueTitle s name = list_ex (\<lambda>v. qv_Title v = name) (queueViews s)"

definition count_if :: "('a \<Rightarrow> bool) \<Rightarrow> 'a list \<Rightarrow> int" where
  "count_if P xs = int (length (filter P xs))"

definition starr_label :: "starr \<Rightarrow> string \<Rightarrow> string" where
  "starr_label c app = (let name = trim_space (sr_Name c) in if name \<noteq> '''' then name else app)"

definition view_issue :: "queue_view \<Rightarrow> bool" where
  "view_issue r = (let st = to_lower (qv_Status r); tracked = to_lower (qv_TrackedStatus r);
       state = to_lower (qv_TrackedState r)
     in st = ''failed'' \<or> st = ''warning'' \<or> tracked = ''error'' \<or> tracked = ''warning''
        \<or> contains_sub state ''fail'')"

definition starrQueueRows :: "starr instances \<Rightarrow> string \<Rightarrow> starr_queue_stat list" where
  "starrQueueRows l app = map (\<lambda>c. \<lparr>sq_App = app, sq_Name = starr_label c app, sq_URL = sr_URL c,
     sq_Queued = sr_lastQueued c, sq_Retrieved = sr_lastRetrieved c,
     sq_Complete = count_if (\<lambda>r. to_lower (qv_Status r) = ''completed'') (queueViews c),
     sq_Match = count_if (\<lambda>r. isComplete (qv_Status r) (qv_Protocol r) (sr_Protocols c)) (queueViews c),
     sq_Issues = count_if view_issue (queueViews c),
     sq_Downloading = count_if (\<lambda>r. to_lower (qv_Status r) = ''downloading'') (queueViews c),
     sq_UpdatedAt = sr_lastPolled c, sq_Error = sr_lastPollErr c\<rparr>) (instanceValues l)"

definition starrAppCount :: "'a daemon_scheme \<Rightarrow> nat" where
  "starrAppCount u = length (d_Lidarr u) + length (d_Radarr u) + length (d_Readarr u) + length (d_Sonarr u)"

definition starrQueueStats :: "'a daemon_scheme \<Rightarrow> starr_queue_stat list" where
  "starrQueueStats u = (if starrAppCount u = 0 then [] else
     starrQueueRows (d_Lidarr u) Lidarr @ starrQueueRows (d_Radarr u) Radarr
     @ starrQueueRows (d_Readarr u) Readarr @ starrQueueRows (d_Sonarr u) Sonarr)"

fun tally :: "status \<Rightarrow> stats \<Rightarrow> stats" where
  "tally WAITING s = s\<lparr>st_Waiting := st_Waiting s + 1\<rparr>"
| "tally QUEUED s = s\<lparr>st_Queued := st_Queued s + 1\<rparr>"
| "tally EXTRACTING s = s\<lparr>st_Extracting := st_Extracting s + 1\<rparr>"
| "tally DELETEFAILED s = s\<lparr>st_Failed := st_Failed s + 1\<rparr>"
| "tally EXTRACTFAILED s = s\<lparr>st_Failed := st_Failed s + 1\<rparr>"
| "tally EXTRACTED s = s\<lparr>st_Extracted := st_Extracted s + 1\<rparr>"
| "tally DELETED s = s\<lparr>st_Deleted := st_Deleted s + 1\<rparr>"
| "tally DELETING s = s\<lparr>st_Deleted := st_Deleted s + 1\<rparr>"
| "tally IMPORTED s = s\<lparr>st_Imported := st_Imported s + 1\<rparr>"
| "tally EXTRACTEDNOTHING s = s"

text \<open>\<open>fillQueueStats\<close> on a fresh \<open>Stats\<close>; the hook counters and channel depths come from the meter.\<close>

definition fillQueueStats :: "'a daemon_scheme \<Rightarrow> stats" where
  "fillQueueStats u = foldl (\<lambda>s (_, e). tally (e_Status e) s)
     (zero_stats\<lparr>st_Retries := d_Retries u, st_Finished := d_Finished u,
       st_Starrs := of_nat (starrAppCount u), st_Folders := of_nat (length (d_FolderCfg u)),
       st_StarrQueues := starrQueueStats u,
       st_Webhooks := of_nat (length (instanceValues (d_Webhook u))),
       st_Cmdhooks := of_nat (length (instanceValues (d_Cmdhook u))),
       st_HookOK := st_HookOK (d_meter u), st_HookFail := st_HookFail (d_meter u),
       st_CmdOK := st_CmdOK (d_meter u), st_CmdFail := st_CmdFail (d_meter u),
       st_StackFS := st_StackFS (d_meter u), st_StackXtractr := st_StackXtractr (d_meter u),
       st_StackFolder := st_StackFolder (d_meter u), st_StackHook := st_StackHook (d_meter u),
       st_StackDel := st_StackDel (d_meter u), st_StackTask := st_StackTask (d_meter u)\<rparr>) (d_Map u)"

definition queueSnapshotLocked :: "env \<Rightarrow> instant \<Rightarrow> 'a daemon_scheme \<Rightarrow> queue_item list" where
  "queueSnapshotLocked E clk u = map (\<lambda>(name, item). queueFromExtract E clk name item) (d_Map u)"

definition notifyQueueLocked :: "env \<Rightarrow> instant \<Rightarrow> 'a daemon_scheme \<Rightarrow> 'a daemon_scheme" where
  "notifyQueueLocked E clk u = (let u = u\<lparr>d_Map := amap (stampQueueDue u) (d_Map u)\<rparr> in
     case d_hub u of None \<Rightarrow> u
     | Some h \<Rightarrow> u\<lparr>d_hub := Some (notify h topicQueue (PQueue (Some
         \<lparr>qf_Stats = Some (fillQueueStats u), qf_Items = queueSnapshotLocked E clk u\<rparr>)))\<rparr>)"

definition notifyItem :: "env \<Rightarrow> instant \<Rightarrow> string \<Rightarrow> extract_item \<Rightarrow> 'a daemon_scheme \<Rightarrow> 'a daemon_scheme" where
  "notifyItem E clk name item u = notify_hub (\<lambda>h. notifyProgress h (queueFromExtract E clk name item)) u"

subsection \<open>Hook messages and the hook queue\<close>

definition ownedBy :: "hook_cache option \<Rightarrow> nat option \<Rightarrow> bool" where
  "ownedBy c live = (case c of None \<Rightarrow> False
     | Some cache \<Rightarrow> live = None \<or> hc_live cache = None \<or> hc_live cache = live)"

fun seed_msgs :: "(string \<times> string) list \<Rightarrow> (string \<times> string) list \<Rightarrow> (string \<times> string) list" where
  "seed_msgs [] m = m"
| "seed_msgs ((k, v) # kvs) m = seed_msgs kvs (if v = '''' then m
     else if aget m k = None then aput k v m else m)"

definition seedHookMessages :: "'a daemon_scheme \<Rightarrow> string \<Rightarrow> (string \<times> string) list \<Rightarrow> nat option \<Rightarrow> 'a daemon_scheme" where
  "seedHookMessages u itemID msgs live = (if itemID = '''' then u
     else let cache = aget (d_hookMsgs u) itemID in
       if \<not> ownedBy cache live then u\<lparr>d_hookMsgs := aput itemID \<lparr>hc_live = live, hc_msgs = msgs\<rparr> (d_hookMsgs u)\<rparr>
       else case cache of None \<Rightarrow> u
         | Some c \<Rightarrow> u\<lparr>d_hookMsgs := aput itemID
             \<lparr>hc_live = (if hc_live c = None then live else hc_live c), hc_msgs = seed_msgs msgs (hc_msgs c)\<rparr>
             (d_hookMsgs u)\<rparr>)"

definition lookupHookMessage :: "'a daemon_scheme \<Rightarrow> string \<Rightarrow> string \<Rightarrow> nat option \<Rightarrow> string" where
  "lookupHookMessage u itemID key live = (if itemID = '''' \<or> key = '''' then ''''
     else let cache = aget (d_hookMsgs u) itemID in
       if \<not> ownedBy cache live then ''''
       else case cache of None \<Rightarrow> ''''
         | Some c \<Rightarrow> (case aget (hc_msgs c) key of None \<Rightarrow> '''' | Some m \<Rightarrow> m))"

definition storeHookMessage :: "'a daemon_scheme \<Rightarrow> string \<Rightarrow> string \<Rightarrow> string \<Rightarrow> nat option \<Rightarrow> 'a daemon_scheme" where
  "storeHookMessage u itemID key msgID live = (if itemID = '''' \<or> key = '''' \<or> msgID = '''' then u
     else let cache = aget (d_hookMsgs u) itemID in
       if cache \<noteq> None \<and> \<not> ownedBy cache live then u
       else let c = (case cache of None \<Rightarrow> \<lparr>hc_live = live, hc_msgs = []\<rparr>
             | Some c \<Rightarrow> if hc_live c = None then c\<lparr>hc_live := live\<rparr> else c)
         in u\<lparr>d_hookMsgs := aput itemID (c\<lparr>hc_msgs := aput key msgID (hc_msgs c)\<rparr>) (d_hookMsgs u),
              d_hookMsgSaves := d_hookMsgSaves u @
                [\<lparr>hs_itemID = itemID, hs_key = key, hs_msgID = msgID, hs_live = live\<rparr>]\<rparr>)"

definition dropHookMessages :: "'a daemon_scheme \<Rightarrow> string \<Rightarrow> nat option \<Rightarrow> 'a daemon_scheme" where
  "dropHookMessages u itemID live = (if itemID = '''' then u
     else if ownedBy (aget (d_hookMsgs u) itemID) live
       then u\<lparr>d_hookMsgs := adel itemID (d_hookMsgs u)\<rparr> else u)"

definition queueHook :: "string \<Rightarrow> nat \<Rightarrow> extract_item \<Rightarrow> 'a daemon_scheme \<Rightarrow> string \<Rightarrow> 'a daemon_scheme" where
  "queueHook itemID live item u slug = u\<lparr>d_inFlight := d_inFlight u + 1,
     d_hookQueue := d_hookQueue u @ [\<lparr>qh_itemID = itemID, qh_slug = slug, qh_live = live, qh_item = item\<rparr>]\<rparr>"

definition hook_slugs :: "hook_config instances \<Rightarrow> extract_item \<Rightarrow> string list" where
  "hook_slugs hs item = map fst (filter (\<lambda>(k, w). HasEvent w (e_Status item)
     \<and> \<not> Excluded w (e_App item) (e_Name item)) (instanceEntries hs))"

definition runAllHooks :: "'a daemon_scheme \<Rightarrow> pending_hook \<Rightarrow> 'a daemon_scheme" where
  "runAllHooks u p = (let item = ph_item p in
     if e_Status item = IMPORTED \<and> e_App item = FolderString then u
     else let u = seedHookMessages u (ph_itemID p) (e_HookMessages item) (Some (ph_live p));
              u = foldl (queueHook (ph_itemID p) (ph_live p) item) u (hook_slugs (d_Webhook u) item)
       in foldl (queueHook (ph_itemID p) (ph_live p) item) u (hook_slugs (d_Cmdhook u) item))"

definition queuePendingHook :: "'a daemon_scheme \<Rightarrow> string \<Rightarrow> extract_item \<Rightarrow> 'a daemon_scheme" where
  "queuePendingHook u itemID item = u\<lparr>d_pendingHooks := d_pendingHooks u @
     [\<lparr>ph_itemID = itemID, ph_item = item, ph_live = e_addr item\<rparr>]\<rparr>"

definition unlockHistory :: "'a daemon_scheme \<Rightarrow> 'a daemon_scheme" where
  "unlockHistory u = foldl runAllHooks (u\<lparr>d_pendingHooks := []\<rparr>) (d_pendingHooks u)"

definition deleteExtract :: "'a daemon_scheme \<Rightarrow> string \<Rightarrow> 'a daemon_scheme" where
  "deleteExtract u itemID = (let live = aget (d_Map u) itemID
     in dropHookMessages (u\<lparr>d_Map := adel itemID (d_Map u)\<rparr>) itemID (map_option e_addr live))"

subsection \<open>updateQueueStatus\<close>

definition copyFolderExtractLocked :: "'a daemon_scheme \<Rightarrow> string \<Rightarrow> extract_item \<Rightarrow> extract_item" where
  "copyFolderExtractLocked u name item = (if e_App item \<noteq> FolderString then item
     else case aget (d_Tracked u) name of None \<Rightarrow> item
       | Some f \<Rightarrow> item\<lparr>e_Retries := fo_Retries f, e_NoRetry := fo_NoRetry f,
           e_PreFiles := (case fo_PreFiles f of None \<Rightarrow> e_PreFiles item | Some p \<Rightarrow> Some p),
           e_DeleteDelay := (case fo_Config f of None \<Rightarrow> e_DeleteDelay item
             | Some c \<Rightarrow> (case fc_DeleteAfter c of None \<Rightarrow> e_DeleteDelay item | Some d \<Rightarrow> d))\<rparr>)"

record new_status =
  ns_Name :: string
  ns_Status :: status
  ns_Resp :: "response option"
  ns_Event :: string
  ns_Note :: string

definition status_of :: "string \<Rightarrow> status \<Rightarrow> response option \<Rightarrow> new_status" where
  "status_of name st resp = \<lparr>ns_Name = name, ns_Status = st, ns_Resp = resp, ns_Event = '''', ns_Note = ''''\<rparr>"

definition new_folder_extract :: "nat \<Rightarrow> new_status \<Rightarrow> instant \<Rightarrow> extract_item" where
  "new_folder_extract addr data now = zero_extract\<lparr>e_addr := addr, e_Path := ns_Name data,
     e_App := FolderString, e_Status := ns_Status data, e_Updated := now, e_Event := ns_Event data,
     e_Note := ns_Note data, e_IDs := [(''title'', IdStr (ns_Name data))], e_Resp := ns_Resp data,
     e_XProg := Some new_progress\<rparr>"

definition updateQueueStatus ::
    "env \<Rightarrow> instant \<Rightarrow> 'a daemon_scheme \<Rightarrow> new_status \<Rightarrow> instant \<Rightarrow> bool \<Rightarrow> 'a daemon_scheme" where
  "updateQueueStatus E clk u data now sendHook = (case aget (d_Map u) (ns_Name data) of
     None \<Rightarrow>
       let item = copyFolderExtractLocked u (ns_Name data) (new_folder_extract (d_nextAddr u) data now);
           u = u\<lparr>d_Map := aput (ns_Name data) item (d_Map u), d_nextAddr := d_nextAddr u + 1\<rparr>;
           u = (if sendHook then queuePendingHook u (ns_Name data) item else u)
       in notifyQueueLocked E clk u
   | Some item \<Rightarrow>
       let item = (case ns_Resp data of None \<Rightarrow> item | Some r \<Rightarrow> item\<lparr>e_Resp := Some r\<rparr>);
           item = item\<lparr>e_Status := ns_Status data, e_Updated := now,
             e_Note := (if ns_Status data \<noteq> WAITING then '''' else e_Note item)\<rparr>;
           item = copyFolderExtractLocked u (ns_Name data) item;
           u = u\<lparr>d_Map := aput (ns_Name data) item (d_Map u)\<rparr>;
           u = (if sendHook then queuePendingHook u (ns_Name data) item else u)
       in notifyQueueLocked E clk (maybeRecordHistory E u (ns_Name data) item))"

end
