(* ===== verification/DaemonProps.thy ===== *)
theory DaemonProps
  imports Daemon HistoryProps
begin

text \<open>
  Properties of the operations every part of the daemon shares: hook message IDs belong to one
  extract, a status change is recorded and announced, and the statistics count every item once.
  \<open>demo_daemon\<close> is the concrete state the witnesses start from.
\<close>

definition demo_daemon :: daemon where
  "demo_daemon = \<lparr>d_KeepHistory = 5, d_LogFile = '''', d_ConfigFile = ''/c/u.conf'', d_rotatorr = False,
     d_histPath = ''/c/h'', d_histFile = None, d_histIO = True, d_histLines = 0, d_records = [],
     d_hub = None, d_StartDelay = nsecond, d_RetryDelay = nsecond, d_DeleteDelay = nsecond,
     d_MaxRetries = 2, d_RemnantAction = ''rename'', d_Lidarr = [], d_Radarr = [], d_Readarr = [],
     d_Sonarr = [], d_FolderCfg = [], d_Webhook = [], d_Cmdhook = [], d_Map = [], d_Finished = 0,
     d_Retries = 0, d_forgotten = [], d_pendingHooks = [], d_hookQueue = [], d_hookMsgs = [],
     d_hookMsgSaves = [], d_hookFails = [], d_inFlight = 0, d_delQueue = [], d_Tracked = [],
     d_WatchCfg = [], d_watched = [], d_WatchDirs = [], d_WebLogFile = [], d_StateFile = '''', d_recovery = [], d_stateDisk = None,
     d_nextAddr = 1, d_meter = zero_stats\<rparr>"

subsection \<open>Hook messages\<close>

datatype msg_op =
    Seed string "(string \<times> string) list" "nat option"
  | Store string string string "nat option"
  | Drop string "nat option"

fun msg_exec :: "'a daemon_scheme \<Rightarrow> msg_op \<Rightarrow> 'a daemon_scheme" where
  "msg_exec u (Seed i msgs live) = seedHookMessages u i msgs live"
| "msg_exec u (Store i k m live) = storeHookMessage u i k m live"
| "msg_exec u (Drop i live) = dropHookMessages u i live"

text \<open>The messages an operation brings for an item: whose they are, under which key, and the ID.\<close>

fun brought :: "msg_op \<Rightarrow> (string \<times> nat option \<times> string \<times> string) set" where
  "brought (Seed i msgs live) = (\<lambda>(k, m). (i, live, k, m)) ` set msgs"
| "brought (Store i k m live) = {(i, live, k, m)}"
| "brought (Drop i live) = {}"

definition msgs_owned :: "(string \<times> nat option \<times> string \<times> string) set \<Rightarrow> 'a daemon_scheme \<Rightarrow> bool" where
  "msgs_owned S u \<longleftrightarrow> (\<forall>i c k m. aget (d_hookMsgs u) i = Some c \<and> aget (hc_msgs c) k = Some m \<longrightarrow>
     (i, None, k, m) \<in> S \<or> (\<exists>a. hc_live c = Some a \<and> (i, Some a, k, m) \<in> S))"

lemma seed_msgs_from: "aget (seed_msgs kvs m) k = Some v \<Longrightarrow> aget m k = Some v \<or> (k, v) \<in> set kvs"
  by (induction kvs m rule: seed_msgs.induct) (auto split: if_splits)

lemma msgs_owned_mono: "msgs_owned S u \<Longrightarrow> S \<subseteq> T \<Longrightarrow> msgs_owned T u"
  unfolding msgs_owned_def by blast

lemma msgs_owned_put:
  assumes "msgs_owned S u"
    "\<And>k m. aget (hc_msgs c) k = Some m \<Longrightarrow> (i, None, k, m) \<in> T \<or> (\<exists>a. hc_live c = Some a \<and> (i, Some a, k, m) \<in> T)"
    "S \<subseteq> T" "d_hookMsgs v = aput i c (d_hookMsgs u)"
  shows "msgs_owned T v"
  using assms unfolding msgs_owned_def by (auto split: if_splits) blast+

lemma ownedBy_cases:
  "ownedBy (Some c) live \<longleftrightarrow> live = None \<or> hc_live c = None \<or> hc_live c = live"
  by (simp add: ownedBy_def)

lemma msg_exec_owned:
  assumes "msgs_owned S u"
  shows "msgs_owned (S \<union> brought p) (msg_exec u p)"
proof (cases p)
  case (Seed i msgs live)
  have own: "(i, live, k, m) \<in> brought p" if "aget msgs k = Some m" for k m
    using that by (force simp: Seed dest: map_of_SomeD)
  have own': "(i, live, k, m) \<in> brought p" if "(k, m) \<in> set msgs" for k m
    using that by (force simp: Seed)
  show ?thesis
  proof (cases "ownedBy (aget (d_hookMsgs u) i) live")
    case False
    show ?thesis
    proof (cases "i = ''''")
      case False
      let ?c = "\<lparr>hc_live = live, hc_msgs = msgs\<rparr>"
      have "(i, None, k, m) \<in> S \<union> brought p \<or> (\<exists>a. hc_live ?c = Some a \<and> (i, Some a, k, m) \<in> S \<union> brought p)"
        if "aget (hc_msgs ?c) k = Some m" for k m
        using own [of k m] that by (cases live) auto
      then show ?thesis using \<open>\<not> ownedBy _ _\<close> False
        by (intro msgs_owned_put [OF assms, of ?c i]) (auto simp: Seed seedHookMessages_def Let_def)
    qed (simp add: Seed seedHookMessages_def msgs_owned_mono [OF assms])
  next
    case True
    then obtain c where c: "aget (d_hookMsgs u) i = Some c" by (auto simp: ownedBy_def split: option.splits)
    show ?thesis
    proof (cases "i = ''''")
      case False
      let ?c = "\<lparr>hc_live = (if hc_live c = None then live else hc_live c), hc_msgs = seed_msgs msgs (hc_msgs c)\<rparr>"
      have "(i, None, k, m) \<in> S \<union> brought p \<or> (\<exists>a. hc_live ?c = Some a \<and> (i, Some a, k, m) \<in> S \<union> brought p)"
        if k: "aget (hc_msgs ?c) k = Some m" for k m
      proof -
        consider "aget (hc_msgs c) k = Some m" | "(k, m) \<in> set msgs" using k seed_msgs_from by fastforce
        then show ?thesis
        proof cases
          case 1
          then show ?thesis using assms c unfolding msgs_owned_def by fastforce
        next
          case 2
          then show ?thesis using own' True unfolding c ownedBy_cases by (cases live) auto
        qed
      qed
      then show ?thesis using True False c
        by (intro msgs_owned_put [OF assms, of ?c i]) (auto simp: Seed seedHookMessages_def)
    qed (simp add: Seed seedHookMessages_def msgs_owned_mono [OF assms])
  qed
next
  case (Store i k m live)
  show ?thesis
  proof (cases "i = '''' \<or> k = '''' \<or> m = '''' \<or> (aget (d_hookMsgs u) i \<noteq> None \<and> \<not> ownedBy (aget (d_hookMsgs u) i) live)")
    case True
    then show ?thesis using msgs_owned_mono [OF assms] by (auto simp: Store storeHookMessage_def Let_def)
  next
    case False
    let ?c = "case aget (d_hookMsgs u) i of None \<Rightarrow> \<lparr>hc_live = live, hc_msgs = []\<rparr>
       | Some c \<Rightarrow> if hc_live c = None then c\<lparr>hc_live := live\<rparr> else c"
    have "(i, None, k', m') \<in> S \<union> brought p \<or> (\<exists>a. hc_live ?c = Some a \<and> (i, Some a, k', m') \<in> S \<union> brought p)"
      if k: "aget (aput k m (hc_msgs ?c)) k' = Some m'" for k' m'
    proof (cases "aget (d_hookMsgs u) i")
      case None
      then show ?thesis using k by (cases live) (auto simp: Store split: if_splits)
    next
      case (Some c)
      have "live = None \<or> hc_live c = None \<or> hc_live c = live" using False Some by (auto simp: ownedBy_cases)
      moreover have "k' = k \<and> m' = m \<or> aget (hc_msgs c) k' = Some m'" using k Some by (auto split: if_splits)
      ultimately show ?thesis using assms Some unfolding msgs_owned_def
        by (cases live; cases "hc_live c") (force simp: Store)+
    qed
    then show ?thesis using False
      by (intro msgs_owned_put [OF assms, of "?c\<lparr>hc_msgs := aput k m (hc_msgs ?c)\<rparr>" i])
        (auto simp: Store storeHookMessage_def Let_def)
  qed
next
  case (Drop i live)
  then show ?thesis using assms
    by (auto simp: dropHookMessages_def msgs_owned_def split: if_splits)
qed

lemma msg_run_owned:
  "msgs_owned S u \<Longrightarrow> msgs_owned (S \<union> (\<Union>p \<in> set ops. brought p)) (foldl msg_exec u ops)"
proof (induction ops arbitrary: S u)
  case (Cons p ops)
  from Cons.IH [OF msg_exec_owned [OF Cons.prems]] show ?case by (simp add: Un_assoc)
qed simp

text \<open>
  C30. A post never edits the message of another extract: whatever seeds, posts and drops came
  before, in any order, a message ID found for an extract and a webhook was brought for this
  item and this webhook, by this very extract or by an operation bound to no extract.
\<close>

theorem hook_messages_isolated:
  assumes "d_hookMsgs u = []" "lookupHookMessage (foldl msg_exec u ops) i k (Some a) = m" "m \<noteq> ''''"
  shows "\<exists>p \<in> set ops. (i, Some a, k, m) \<in> brought p \<or> (i, None, k, m) \<in> brought p"
proof -
  let ?v = "foldl msg_exec u ops"
  have "msgs_owned {} u" using assms(1) by (simp add: msgs_owned_def)
  from msg_run_owned [OF this, of ops] have own: "msgs_owned (\<Union>p \<in> set ops. brought p) ?v" by simp
  obtain c where c: "aget (d_hookMsgs ?v) i = Some c" "aget (hc_msgs c) k = Some m"
      "hc_live c = None \<or> hc_live c = Some a"
    using assms(2,3) by (auto simp: lookupHookMessage_def Let_def ownedBy_def split: if_splits option.splits)
  then have "(i, None, k, m) \<in> (\<Union>p \<in> set ops. brought p) \<or> (i, Some a, k, m) \<in> (\<Union>p \<in> set ops. brought p)"
    using own unfolding msgs_owned_def by (metis option.distinct(1) option.inject)
  then show ?thesis by blast
qed

theorem hook_messages_isolated_witness:
  "\<exists>p \<in> set [Store ''i'' ''k'' ''x'' (Some 1), Drop ''i'' (Some 1), Store ''i'' ''k'' ''y'' (Some 2)].
     (''i'', Some 2, ''k'', ''y'') \<in> brought p \<or> (''i'', None, ''k'', ''y'') \<in> brought p"
  by (rule hook_messages_isolated [of demo_daemon])
    (simp_all add: demo_daemon_def dropHookMessages_def storeHookMessage_def lookupHookMessage_def ownedBy_def)

subsection \<open>Statistics\<close>

definition status_count :: "'a daemon_scheme \<Rightarrow> status list \<Rightarrow> uint64" where
  "status_count u ss = of_nat (length (filter (\<lambda>(k, e). e_Status e \<in> set ss) (d_Map u)))"

definition tallied :: "stats \<Rightarrow> uint64 list" where
  "tallied s = [st_Waiting s, st_Queued s, st_Extracting s, st_Failed s, st_Extracted s, st_Deleted s, st_Imported s]"

abbreviation tally_groups :: "status list list" where
  "tally_groups \<equiv> [[WAITING], [QUEUED], [EXTRACTING], [DELETEFAILED, EXTRACTFAILED], [EXTRACTED],
     [DELETED, DELETING], [IMPORTED]]"

lemma tallied_foldl:
  "tallied (foldl (\<lambda>s (_, e). tally (e_Status e) s) s m)
   = map2 (+) (tallied s) (map (\<lambda>ss. of_nat (length (filter (\<lambda>(k, e). e_Status e \<in> set ss) m))) tally_groups)"
proof (induction m arbitrary: s)
  case (Cons kv m)
  obtain k e where "kv = (k, e)" by (cases kv)
  with Cons show ?case by (cases "e_Status e") (auto simp: tallied_def)
qed (simp add: tallied_def)

text \<open>
  The statistics of the API count every item of the queue once, under its status: failed
  extractions with failed deletes, and items being deleted with deleted ones. An item that held
  no archive is in no counter.
\<close>

theorem queue_stats_count_items:
  "tallied (fillQueueStats u) = map (status_count u) tally_groups
   \<and> sum_list (tallied (fillQueueStats u)) + status_count u [EXTRACTEDNOTHING] = of_nat (length (d_Map u))"
proof
  show *: "tallied (fillQueueStats u) = map (status_count u) tally_groups"
    unfolding fillQueueStats_def tallied_foldl
    by (simp add: tallied_def zero_stats_def status_count_def)
  have "sum_list (map (\<lambda>ss. length (filter (\<lambda>(k, e). e_Status e \<in> set ss) m)) tally_groups)
      + length (filter (\<lambda>(k, e). e_Status e \<in> set [EXTRACTEDNOTHING]) m) = length m"
    for m :: "(string \<times> extract_item) list"
  proof (induction m)
    case (Cons kv m)
    obtain k e where "kv = (k, e)" by (cases kv)
    with Cons show ?case by (cases "e_Status e") simp_all
  qed simp
  from arg_cong [where f = "of_nat :: nat \<Rightarrow> uint64", OF this [of "d_Map u"]]
  show "sum_list (tallied (fillQueueStats u)) + status_count u [EXTRACTEDNOTHING] = of_nat (length (d_Map u))"
    unfolding * by (simp add: status_count_def add.assoc)
qed


subsection \<open>Status changes\<close>

lemma durable_snoc_last:
  "n \<le> length (filter rec_durable xs) \<Longrightarrow> drop_durable n (xs @ [r]) = drop_durable n xs @ [r]"
proof (induction n xs rule: drop_durable.induct)
  case (2 n r rs)
  then show ?case by (auto split: if_splits)
qed simp

lemma cap_last: "\<exists>ys. capHistoryLocked k (xs @ [r]) = ys @ [r]"
proof (cases "keep_limit k \<le> 0 \<or> int (length (filter rec_durable (xs @ [r]))) \<le> keep_limit k")
  case True
  then show ?thesis by (auto simp: capHistoryLocked_def Let_def)
next
  case False
  then have "nat (int (length (filter rec_durable (xs @ [r]))) - keep_limit k) \<le> length (filter rec_durable xs)" by auto
  from durable_snoc_last [OF this] show ?thesis using False by (simp add: capHistoryLocked_def Let_def)
qed

lemma merge_one_last: "\<exists>ys s. merge_one list rec = ys @ [rec\<lparr>h_ID := (if h_ID rec = '''' then h_Path rec else h_ID rec), h_Started := s\<rparr>]"
proof -
  define r where "r = (if h_ID rec = '''' then rec\<lparr>h_ID := h_Path rec\<rparr> else rec)"
  have r: "r\<lparr>h_Started := s\<rparr> = rec\<lparr>h_ID := (if h_ID rec = '''' then h_Path rec else h_ID rec), h_Started := s\<rparr>" for s
    by (simp add: r_def)
  have r': "r = rec\<lparr>h_ID := (if h_ID rec = '''' then h_Path rec else h_ID rec), h_Started := h_Started r\<rparr>"
    by (simp add: r_def)
  have m: "merge_one list rec = (case index_func (\<lambda>x. h_ID x = h_ID r) list of
      Some idx \<Rightarrow> delete_at idx list @ [if h_Started r = zeroTime then r\<lparr>h_Started := h_Started (list ! idx)\<rparr> else r]
    | None \<Rightarrow> list @ [r])" by (simp only: merge_one_def Let_def r_def)
  show ?thesis
  proof (cases "index_func (\<lambda>x. h_ID x = h_ID r) list")
    case None
    then show ?thesis unfolding m using r' by auto
  next
    case (Some idx)
    show ?thesis
    proof (cases "h_Started r = zeroTime")
      case True
      then show ?thesis unfolding m Some r [symmetric] by auto
    next
      case False
      then show ?thesis unfolding m Some using r' by auto
    qed
  qed
qed

lemma upsert_last:
  "\<exists>ys s. d_records (upsertHistoryLocked u rec)
     = ys @ [rec\<lparr>h_ID := (if h_ID rec = '''' then h_Path rec else h_ID rec), h_Started := s\<rparr>]"
proof -
  obtain ys s where m: "mergeHistory (d_records u) [rec]
      = ys @ [rec\<lparr>h_ID := (if h_ID rec = '''' then h_Path rec else h_ID rec), h_Started := s\<rparr>]"
    using merge_one_last [of "d_records u" rec] by (auto simp: mergeHistory_def)
  have "d_records (upsertHistoryLocked u rec) = capHistoryLocked (d_KeepHistory u) (mergeHistory (d_records u) [rec])"
    by (simp add: upsertHistoryLocked_def Let_def compactHistoryLocked_def frame_simps)
  then show ?thesis unfolding m using cap_last by metis
qed


text \<open>The history functions leave the rest of the daemon alone.\<close>

lemma upsert_more: "hist.more (upsertHistoryLocked u rec) = hist.more u"
  by (simp add: upsertHistoryLocked_def Let_def compactHistoryLocked_def notifyHistoryLocked_def notify_hub_def)

lemma record_more: "hist.more (maybeRecordHistory E u i item) = hist.more u"
  by (simp add: maybeRecordHistory_def upsertHistory_def upsert_more)

lemma forget_more: "hist.more (markHistoryForgotten u i) = hist.more u"
  by (auto simp: markHistoryForgotten_def upsertHistory_def upsert_more split: option.splits)

lemma daemon_more:
  assumes "hist.more u = hist.more (v :: 'a daemon_scheme)"
  shows "d_Map u = d_Map v" "d_pendingHooks u = d_pendingHooks v" "d_hookMsgs u = d_hookMsgs v"
    "d_forgotten u = d_forgotten v" "d_delQueue u = d_delQueue v" "d_Finished u = d_Finished v"
    "d_Retries u = d_Retries v" "d_Tracked u = d_Tracked v" "d_MaxRetries u = d_MaxRetries v"
    "d_hookFails u = d_hookFails v" "d_hookMsgSaves u = d_hookMsgSaves v" "d_inFlight u = d_inFlight v"
    "d_hookQueue u = d_hookQueue v" "d_nextAddr u = d_nextAddr v" "d_DeleteDelay u = d_DeleteDelay v"
    "d_Lidarr u = d_Lidarr v" "d_Radarr u = d_Radarr v" "d_Readarr u = d_Readarr v" "d_Sonarr u = d_Sonarr v"
    "d_StartDelay u = d_StartDelay v" "d_RetryDelay u = d_RetryDelay v"
  by (cases u; cases v; use assms in simp)+

lemmas record_frame = daemon_more [OF record_more]
lemmas upsert_frame = daemon_more [OF upsert_more]
lemmas forget_frame = daemon_more [OF forget_more]

lemma stamp_keeps [simp]:
  "e_Status (stampQueueDue u i e) = e_Status e" "e_Updated (stampQueueDue u i e) = e_Updated e"
  "e_addr (stampQueueDue u i e) = e_addr e" "e_Path (stampQueueDue u i e) = e_Path e"
  "e_App (stampQueueDue u i e) = e_App e" "e_Retries (stampQueueDue u i e) = e_Retries e"
  "e_Resp (stampQueueDue u i e) = e_Resp e" "e_NoRetry (stampQueueDue u i e) = e_NoRetry e"
  "e_Note (stampQueueDue u i e) = e_Note e" "e_OutputPath (stampQueueDue u i e) = e_OutputPath e"
  "e_DeleteDelay (stampQueueDue u i e) = e_DeleteDelay e" "e_DeleteOrig (stampQueueDue u i e) = e_DeleteOrig e"
  "e_URL (stampQueueDue u i e) = e_URL e" "e_Syncthing (stampQueueDue u i e) = e_Syncthing e"
  by (simp_all add: stampQueueDue_def del: queueDue.simps split: prod.splits)

lemma notifyQueue_map [simp]: "d_Map (notifyQueueLocked E clk u) = amap (stampQueueDue u) (d_Map u)"
  by (simp add: notifyQueueLocked_def Let_def split: option.splits)

lemma notifyQueue_keeps [simp]:
  "d_pendingHooks (notifyQueueLocked E clk u) = d_pendingHooks u" "d_records (notifyQueueLocked E clk u) = d_records u"
  "d_hookMsgs (notifyQueueLocked E clk u) = d_hookMsgs u" "d_forgotten (notifyQueueLocked E clk u) = d_forgotten u"
  "d_delQueue (notifyQueueLocked E clk u) = d_delQueue u" "d_Finished (notifyQueueLocked E clk u) = d_Finished u"
  "d_Retries (notifyQueueLocked E clk u) = d_Retries u" "d_Tracked (notifyQueueLocked E clk u) = d_Tracked u"
  "d_MaxRetries (notifyQueueLocked E clk u) = d_MaxRetries u" "d_nextAddr (notifyQueueLocked E clk u) = d_nextAddr u"
  "d_KeepHistory (notifyQueueLocked E clk u) = d_KeepHistory u" "d_Lidarr (notifyQueueLocked E clk u) = d_Lidarr u"
  "d_Radarr (notifyQueueLocked E clk u) = d_Radarr u" "d_Readarr (notifyQueueLocked E clk u) = d_Readarr u"
  "d_Sonarr (notifyQueueLocked E clk u) = d_Sonarr u" "d_StartDelay (notifyQueueLocked E clk u) = d_StartDelay u"
  "d_RetryDelay (notifyQueueLocked E clk u) = d_RetryDelay u" "d_DeleteDelay (notifyQueueLocked E clk u) = d_DeleteDelay u"
  by (simp_all add: notifyQueueLocked_def Let_def split: option.splits)

lemma historyFromExtract_simps:
  "h_ID (historyFromExtract E i e) = (if i = '''' then e_Path e else i)"
  "h_Status (historyFromExtract E i e) = e_Status e" "h_Updated (historyFromExtract E i e) = e_Updated e"
  "h_Path (historyFromExtract E i e) = e_Path e" "h_Retries (historyFromExtract E i e) = e_Retries e"
  by (auto simp: historyFromExtract_def fillHistoryStats_def Let_def split: option.splits)

lemma copyFolder_keeps [simp]:
  "e_Status (copyFolderExtractLocked u n e) = e_Status e" "e_Updated (copyFolderExtractLocked u n e) = e_Updated e"
  "e_addr (copyFolderExtractLocked u n e) = e_addr e" "e_Path (copyFolderExtractLocked u n e) = e_Path e"
  "e_App (copyFolderExtractLocked u n e) = e_App e" "e_Resp (copyFolderExtractLocked u n e) = e_Resp e"
  by (auto simp: copyFolderExtractLocked_def split: option.splits)

lemma record_last:
  assumes "d_KeepHistory u \<noteq> 0" "isPersistedHistory (Some e)" "i \<noteq> ''''"
  shows "h_ID (last (d_records (maybeRecordHistory E u i e))) = i
    \<and> h_Status (last (d_records (maybeRecordHistory E u i e))) = e_Status e
    \<and> h_Updated (last (d_records (maybeRecordHistory E u i e))) = e_Updated e"
  using assms upsert_last [of u "historyFromExtract E i e"]
  by (auto simp: maybeRecordHistory_def upsertHistory_def historyFromExtract_simps)

text \<open>
  C33. A status change of an item in the queue reaches every consumer: the item carries the new
  status and time, the newest row of the history is the item's with that status and time, a hook
  with the new status waits for delivery bound to this extract, and every other item keeps its
  status.
\<close>

theorem status_change_recorded:
  assumes "aget (d_Map u) (ns_Name data) = Some item" "ns_Name data \<noteq> ''''" "d_KeepHistory u \<noteq> 0"
    "ns_Status data \<noteq> WAITING \<or> e_App item = FolderString"
  shows "(let v = updateQueueStatus E clk u data now True; r = last (d_records v) in
     (\<exists>item'. aget (d_Map v) (ns_Name data) = Some item' \<and> e_Status item' = ns_Status data
        \<and> e_Updated item' = now \<and> e_addr item' = e_addr item)
     \<and> h_ID r = ns_Name data \<and> h_Status r = ns_Status data \<and> h_Updated r = now
     \<and> (\<exists>p. d_pendingHooks v = d_pendingHooks u @ [p] \<and> ph_itemID p = ns_Name data
        \<and> ph_live p = e_addr item \<and> e_Status (ph_item p) = ns_Status data)
     \<and> (\<forall>k. k \<noteq> ns_Name data \<longrightarrow> map_option e_Status (aget (d_Map v) k) = map_option e_Status (aget (d_Map u) k)))"
proof -
  define it where "it = copyFolderExtractLocked u (ns_Name data)
    ((case ns_Resp data of None \<Rightarrow> item | Some r \<Rightarrow> item\<lparr>e_Resp := Some r\<rparr>)
      \<lparr>e_Status := ns_Status data, e_Updated := now, e_Note := (if ns_Status data \<noteq> WAITING then ''''
        else e_Note (case ns_Resp data of None \<Rightarrow> item | Some r \<Rightarrow> item\<lparr>e_Resp := Some r\<rparr>))\<rparr>)"
  define w where "w = queuePendingHook (u\<lparr>d_Map := aput (ns_Name data) it (d_Map u)\<rparr>) (ns_Name data) it"
  have v: "updateQueueStatus E clk u data now True = notifyQueueLocked E clk (maybeRecordHistory E w (ns_Name data) it)"
    using assms(1) by (simp add: updateQueueStatus_def Let_def it_def w_def)
  have it: "e_Status it = ns_Status data" "e_Updated it = now" "e_addr it = e_addr item" "e_App it = e_App item"
    by (simp_all add: it_def split: option.splits)
  have "isPersistedHistory (Some it)" using it assms(4)
    by (cases "ns_Status data") (auto simp: isPersistedHistory_def)
  from record_last [OF _ this assms(2), of w E] have r:
    "h_ID (last (d_records (maybeRecordHistory E w (ns_Name data) it))) = ns_Name data
      \<and> h_Status (last (d_records (maybeRecordHistory E w (ns_Name data) it))) = ns_Status data
      \<and> h_Updated (last (d_records (maybeRecordHistory E w (ns_Name data) it))) = now"
    using assms(3) it by (simp add: w_def queuePendingHook_def)
  show ?thesis unfolding v using r it
    by (auto simp: Let_def record_frame w_def queuePendingHook_def o_def option.map_comp)
qed


theorem status_change_recorded_witness:
  "h_Status (last (d_records (updateQueueStatus demo_env 9
     (demo_daemon\<lparr>d_Map := [(''i'', zero_extract)]\<rparr>) (status_of ''i'' QUEUED None) 9 True))) = QUEUED"
  using status_change_recorded [of "demo_daemon\<lparr>d_Map := [(''i'', zero_extract)]\<rparr>" "status_of ''i'' QUEUED None" zero_extract demo_env 9 9]
  by (simp add: demo_daemon_def status_of_def Let_def)

end
