(* ===== verification/Remnants.thy ===== *)
theory Remnants
  imports Daemon
begin

text \<open>
  \<open>pkg/unpackerr/remnants.go\<close>: files an interrupted extraction left where a new extraction wants
  to write. The pre-extraction snapshot decides what belongs to the download; the rest is
  renamed, deleted or left, as \<open>remnant_action\<close> says. Functions that change files return the new
  file system with their result. A refused path is represented by its \<open>Dest\<close>; a snapshot entry
  carries the inode of its \<open>FileInfo\<close>, and \<open>os.SameFile\<close> compares inodes.
\<close>

datatype remnant_error = errNotDirectory string | StatError fserr | ReadDirError fserr | errNoRemnantName string

definition remnantAction :: "string \<Rightarrow> string" where
  "remnantAction s = (let t = to_lower (trim_space s) in
     if t = ''delete'' then ''delete'' else if t = ''off'' then ''off'' else ''rename'')"

definition remnantActionError :: "string \<Rightarrow> bool" where
  "remnantActionError s = (let trimmed = trim_space s in
     trimmed \<noteq> '''' \<and> remnantAction trimmed \<noteq> to_lower trimmed)"

definition validateRemnantAction :: "'a daemon_scheme \<Rightarrow> bool \<times> 'a daemon_scheme" where
  "validateRemnantAction u = (if remnantActionError (d_RemnantAction u) then (False, u)
     else (True, u\<lparr>d_RemnantAction := remnantAction (d_RemnantAction u)\<rparr>))"

subsection \<open>The snapshot\<close>

definition archiveFileDest :: "env \<Rightarrow> string \<Rightarrow> string" where
  "archiveFileDest E path = (if \<not> isArchive E path then ''''
     else let dest = trim_suffix path (ext path) in if dest = '''' \<or> dest = path then '''' else dest)"

definition archiveSnapshotPaths :: "env \<Rightarrow> string \<Rightarrow> archive_list \<Rightarrow> string list" where
  "archiveSnapshotPaths E root archives = (if root \<noteq> '''' then [root] else [])
     @ concat (map (\<lambda>(d, _). (if d \<noteq> '''' then [d] else [])
         @ (let dest = archiveFileDest E d in if dest \<noteq> '''' then [dest] else [])) archives)"

definition snapshotDir :: "fsys \<Rightarrow> string \<Rightarrow> string" where
  "snapshotDir F path = (let path = clean path in
     if path = '''' \<or> path = ''.'' then ''''
     else case os_stat F path of Inl e \<Rightarrow> dir path | Inr n \<Rightarrow> if is_dir n then path else dir path)"

definition keepDirChildren :: "fsys \<Rightarrow> prefiles \<Rightarrow> string \<Rightarrow> remnant_error + prefiles" where
  "keepDirChildren F out root = (case os_stat F root of
     Inl NotExist \<Rightarrow> Inr out
   | Inl e \<Rightarrow> Inl (StatError e)
   | Inr n \<Rightarrow> if \<not> is_dir n then Inl (errNotDirectory root)
       else (case read_dir F root of Inl e \<Rightarrow> Inl (ReadDirError e)
         | Inr entries \<Rightarrow> Inr (foldl (\<lambda>out (name, _). let full = clean (path_join [root, name]) in
             aput full (case os_stat F full of Inl e \<Rightarrow> None | Inr i \<Rightarrow> Some (inode i)) out) out entries)))"

fun keepDir_loop :: "fsys \<Rightarrow> string list \<Rightarrow> prefiles \<Rightarrow> string list \<Rightarrow> remnant_error + prefiles" where
  "keepDir_loop F seen out [] = Inr out"
| "keepDir_loop F seen out (path # paths) = (let root = snapshotDir F path in
     if root = '''' \<or> root = ''.'' then keepDir_loop F seen out paths
     else if root \<in> set seen then keepDir_loop F seen out paths
     else case keepDirChildren F out root of Inl e \<Rightarrow> Inl e
       | Inr out \<Rightarrow> keepDir_loop F (root # seen) out paths)"

definition keepDirSnapshot :: "fsys \<Rightarrow> prefiles option \<Rightarrow> string list \<Rightarrow> remnant_error + prefiles" where
  "keepDirSnapshot F existing paths = (case existing of Some m \<Rightarrow> Inr m
     | None \<Rightarrow> keepDir_loop F [] [] paths)"

definition isDownloadContent :: "fsys \<Rightarrow> prefiles \<Rightarrow> string \<Rightarrow> bool" where
  "isDownloadContent F preFiles dest = (if aget preFiles (clean dest) \<noteq> None then True
     else case os_stat F dest of Inl e \<Rightarrow> False
       | Inr i \<Rightarrow> list_ex (\<lambda>(_, info). info = Some (inode i)) preFiles)"

subsection \<open>Clearing\<close>

fun classify_loop :: "fsys \<Rightarrow> (string \<times> string) list \<Rightarrow> prefiles \<Rightarrow> string list \<Rightarrow> string list \<Rightarrow> string list" where
  "classify_loop F dests snap seen [] = []"
| "classify_loop F dests snap seen (d # ds) = (
     if d \<in> set seen then classify_loop F dests snap seen ds
     else if \<not> underFinalDests d dests then classify_loop F dests snap (d # seen) ds
     else if isDownloadContent F snap d then classify_loop F dests snap (d # seen) ds
     else d # classify_loop F dests snap (d # seen) ds)"

definition classifyRemnants :: "fsys \<Rightarrow> response \<Rightarrow> prefiles \<Rightarrow> string list" where
  "classifyRemnants F resp snap = classify_loop F (rs_FinalDests resp) snap [] (rs_Refused resp)"

definition remnantSuffix :: "nat \<Rightarrow> string" where
  "remnantSuffix n = (if n = 0 then ''.remnant'' else ''.remnant.'' @ itoa n)"

abbreviation (input) maxRemnantCopies :: nat where "maxRemnantCopies \<equiv> 999"

fun unused_loop :: "fsys \<Rightarrow> string \<Rightarrow> nat list \<Rightarrow> remnant_error + string" where
  "unused_loop F path [] = Inl (errNoRemnantName path)"
| "unused_loop F path (n # ns) = (let candidate = path @ remnantSuffix n in
     case os_stat F candidate of
       Inl NotExist \<Rightarrow> Inr candidate
     | Inl e \<Rightarrow> Inl (StatError e)
     | Inr _ \<Rightarrow> unused_loop F path ns)"

definition unusedRemnantPath :: "fsys \<Rightarrow> string \<Rightarrow> remnant_error + string" where
  "unusedRemnantPath F path = unused_loop F path [0..<maxRemnantCopies]"

definition clearRemnant :: "string \<Rightarrow> fsys \<Rightarrow> string \<Rightarrow> bool \<times> fsys" where
  "clearRemnant action F dest = (case os_stat F dest of
     Inl NotExist \<Rightarrow> (True, F)
   | Inl _ \<Rightarrow> (False, F)
   | Inr n \<Rightarrow>
       if remnantAction action = ''delete'' then
         (case (if is_dir n then os_remove_all F dest else os_remove F dest) of (err, F) \<Rightarrow> (err = None, F))
       else (case unusedRemnantPath F dest of Inl e \<Rightarrow> (False, F)
         | Inr target \<Rightarrow> (case os_rename F dest target of (err, F) \<Rightarrow> (err = None, F))))"

fun clearRemnants :: "string \<Rightarrow> fsys \<Rightarrow> string list \<Rightarrow> nat \<times> fsys" where
  "clearRemnants action F [] = (0, F)"
| "clearRemnants action F (d # ds) = (case clearRemnant action F d of (ok, F) \<Rightarrow>
     (case clearRemnants action F ds of (n, F) \<Rightarrow> ((if ok then Suc n else n), F)))"

fun remove_outputs :: "fsys \<Rightarrow> response \<Rightarrow> prefiles \<Rightarrow> string list \<Rightarrow> fsys" where
  "remove_outputs F resp snap [] = F"
| "remove_outputs F resp snap (f # fs) =
     (if \<not> underFinalDests f (rs_FinalDests resp) \<or> isDownloadContent F snap f
      then remove_outputs F resp snap fs
      else remove_outputs (snd (os_remove_all F f)) resp snap fs)"

definition handleRemnants ::
    "'a daemon_scheme \<Rightarrow> fsys \<Rightarrow> response \<Rightarrow> prefiles option \<Rightarrow> uint64 \<Rightarrow> status option \<times> fsys" where
  "handleRemnants u F resp snapshot retries = (case snapshot of None \<Rightarrow> (None, F)
   | Some snap \<Rightarrow>
       if rs_Refused resp = [] \<or> rs_FinalDests resp = [] then (None, F)
       else let remnants = classifyRemnants F resp snap in
         if remnants = [] then (None, F)
         else if remnantAction (d_RemnantAction u) = ''off'' then (Some EXTRACTFAILED, F)
         else if retries \<ge> maxRetries u then (Some EXTRACTFAILED, F)
         else case clearRemnants (d_RemnantAction u) F remnants of (n, F') \<Rightarrow>
           if n \<noteq> length remnants then (Some EXTRACTFAILED, F')
           else (Some WAITING, remove_outputs F' resp snap (rs_NewFiles resp)))"

end
