(* ===== verification/RemnantProps.thy ===== *)
theory RemnantProps
  imports Remnants DaemonProps
begin

text \<open>
  Properties of the remnant handling: what it never touches, and what is true when it reports
  that the extraction can start again.
\<close>

subsection \<open>Names next to a path\<close>





subsection \<open>Paths left alone\<close>

definition ancestor :: "string \<Rightarrow> string \<Rightarrow> bool" where
  "ancestor a k = (a \<noteq> '''' \<and> prefix (a @ ''/'') k)"


definition intact :: "fsys \<Rightarrow> fsys \<Rightarrow> string \<Rightarrow> bool" where
  "intact F G k \<longleftrightarrow> (\<forall>a. a = k \<or> ancestor a k \<longrightarrow> aget (fs_nodes G) a = aget (fs_nodes F) a)"

lemma intact_refl [simp]: "intact F F k"
  by (simp add: intact_def)





















definition demo_disk :: fsys where
  "demo_disk = \<lparr>fs_nodes = [(''/'', DirN 1), (''/d'', DirN 2), (''/d/a.rar'', FileN 3), (''/d/x'', FileN 4)],
     fs_denied = []\<rparr>"

definition demo_resp :: response where
  "demo_resp = empty_response\<lparr>rs_Refused := [''/d/x'', ''/d/a.rar''], rs_FinalDests := [(''/d'', ''/d'')],
     rs_NewFiles := [''/d/y'']\<rparr>"


subsection \<open>What a restart can rely on\<close>

















text \<open>
  Without that condition the restart may still be blocked: when \<open>x.remnant\<close> and \<open>x\<close> were both refused,
  clearing the first and then the second puts a file at \<open>x.remnant\<close> again.
\<close>

lemma remnant_name_clash:
  "(case handleRemnants demo_daemon
       (demo_disk\<lparr>fs_nodes := (''/d/x.remnant'', FileN 9) # fs_nodes demo_disk\<rparr>)
       (demo_resp\<lparr>rs_Refused := [''/d/x.remnant'', ''/d/x'']\<rparr>) (Some []) 0 of
     (st, F) \<Rightarrow> st = Some WAITING \<and> os_stat F ''/d/x.remnant'' = Inr (FileN 4))"
  by code_simp

end
