(* ===== verification/Recovery.thy ===== *)
theory Recovery
  imports Daemon
begin

text \<open>
  \<open>pkg/unpackerr/recovery.go\<close>: the file that names the watched items being worked on, and what a
  start makes of it. \<open>d_recovery\<close> is the map in memory (a value may be null in the file),
  \<open>d_stateDisk\<close> the content of the state file, \<open>None\<close> when there is none; writing it succeeds.

  \<open>xlib\<close> holds the functions of \<open>golift.io/xtractr\<close> that look at files: \<open>FindCompressedFiles\<close> (path,
  excluded suffixes, symlinks allowed), \<open>GetFileList\<close>, \<open>AllExcept\<close>, \<open>CheckR00ForRarFile\<close> and
  \<open>SupportedExtensions\<close>; and \<open>timeStamp\<close>, the text of a UTC time in the layout of the quarantine names. \<open>canWatch\<close> says whether
  the file watchers (fsnotify or the poller) accept to watch a path.
\<close>

record xlib =
  findCompressed :: "fsys \<Rightarrow> string \<Rightarrow> string list \<Rightarrow> bool \<Rightarrow> archive_list"
  xGetFileList :: "fsys \<Rightarrow> string \<Rightarrow> string list"
  allExcept :: "string list \<Rightarrow> string list"
  checkR00 :: "string list \<Rightarrow> string \<Rightarrow> bool"
  supportedExts :: "string list"
  timeStamp :: "instant \<Rightarrow> string"
  canWatch :: "fsys \<Rightarrow> string \<Rightarrow> bool"

abbreviation (input) tmp_suffix :: string where "tmp_suffix \<equiv> ''_unpackerred''"

subsection \<open>Keeping the file\<close>

definition saveRecoveryState :: "'a daemon_scheme \<Rightarrow> 'a daemon_scheme" where
  "saveRecoveryState u = (if d_StateFile u = '''' then u
     else u\<lparr>d_stateDisk := (if d_recovery u = [] then None else Some (d_recovery u))\<rparr>)"

definition readRecoveryState :: "'a daemon_scheme \<Rightarrow> 'a daemon_scheme" where
  "readRecoveryState u = u\<lparr>d_recovery := (if d_StateFile u = '''' then [] else case d_stateDisk u of None \<Rightarrow> [] | Some m \<Rightarrow> m)\<rparr>"

definition recoveryClearFolder :: "string \<Rightarrow> 'a daemon_scheme \<Rightarrow> 'a daemon_scheme" where
  "recoveryClearFolder path u = (if d_StateFile u = '''' \<or> path = '''' then u
     else saveRecoveryState (u\<lparr>d_recovery := adel (clean path) (d_recovery u)\<rparr>))"

definition recovery_row :: "env \<Rightarrow> 'a daemon_scheme \<Rightarrow> string \<Rightarrow> string \<Rightarrow> status \<Rightarrow> instant \<Rightarrow> recovery_folder" where
  "recovery_row E u path watchPath st updated = (let (files, archives) =
     (if st = EXTRACTED then case aget (d_Tracked u) path of None \<Rightarrow> ([], [])
        | Some f \<Rightarrow> (sort_strings (fo_Files f), sort_strings (archiveList E (fo_Archives f)))
      else ([], []))
   in \<lparr>rf_Path = path, rf_WatchPath = watchPath, rf_Status = status_word st, rf_Updated = updated,
        rf_Files = files, rf_Archives = archives\<rparr>)"

definition recoveryTrackFolder :: "env \<Rightarrow> string \<Rightarrow> folder_config option \<Rightarrow> status \<Rightarrow> instant
    \<Rightarrow> 'a daemon_scheme \<Rightarrow> 'a daemon_scheme" where
  "recoveryTrackFolder E path cfg st updated u = (case cfg of None \<Rightarrow> u
   | Some c \<Rightarrow>
       if d_StateFile u = '''' \<or> path = '''' then u
       else if st > EXTRACTING \<and> st \<noteq> EXTRACTED then recoveryClearFolder path u
       else let path = clean path; watchPath = clean (fc_Path c) in
         if (case aget (d_recovery u) path of Some (Some r) \<Rightarrow> rf_WatchPath r = watchPath
               \<and> rf_Status r = status_word st \<and> rf_Updated r = updated | _ \<Rightarrow> False) then u
         else saveRecoveryState (u\<lparr>d_recovery :=
           aput path (Some (recovery_row E u path watchPath st updated)) (d_recovery u)\<rparr>))"

subsection \<open>Partial output of an interrupted extraction\<close>

definition folderDerivedOutputPath :: "env \<Rightarrow> xlib \<Rightarrow> string \<Rightarrow> string" where
  "folderDerivedOutputPath E X path = (if path = '''' \<or> \<not> isArchive E path then ''''
     else case find (\<lambda>x. has_suffix (to_lower path) (to_lower x))
         (rev (sort_key length (rev (supportedExts X)))) of
       None \<Rightarrow> '''' | Some x \<Rightarrow> clean (take (length path - length x) path))"

definition folderTempOutputPath :: "string \<Rightarrow> folder_config \<Rightarrow> string" where
  "folderTempOutputPath path cfg = (let output = trim_right [CHR ''/'', CHR 0x5C] path @ tmp_suffix in
     if fc_ExtractPath cfg \<noteq> '''' then path_join [fc_ExtractPath cfg, base output] else output)"

definition folderFinalOutputPath :: "env \<Rightarrow> xlib \<Rightarrow> string \<Rightarrow> folder_config \<Rightarrow> string" where
  "folderFinalOutputPath E X path cfg = (let output = folderDerivedOutputPath E X path in
     if output = '''' then ''''
     else if fc_ExtractPath cfg \<noteq> '''' then path_join [fc_ExtractPath cfg, base output] else output)"

definition interruptedFolderOutputPaths :: "env \<Rightarrow> xlib \<Rightarrow> string \<Rightarrow> folder_config \<Rightarrow> string list" where
  "interruptedFolderOutputPaths E X path cfg = (if path = '''' then []
     else let outputs = [folderTempOutputPath path cfg]
         @ (if \<not> fc_MoveBack cfg then [folderFinalOutputPath E X path cfg] else [])
       in dedup_acc [] (filter (\<lambda>p. p \<noteq> clean path) (map clean (filter (\<lambda>p. p \<noteq> '''') outputs))))"

definition interruptedOutputQuarantinePath :: "xlib \<Rightarrow> string \<Rightarrow> instant \<Rightarrow> string" where
  "interruptedOutputQuarantinePath X path now = path @ ''.partial-'' @ timeStamp X now"

definition cleanupInterruptedOutputPath :: "xlib \<Rightarrow> string \<Rightarrow> instant \<Rightarrow> fsys \<Rightarrow> fsys" where
  "cleanupInterruptedOutputPath X path now F = (case os_stat F path of
     Inl e \<Rightarrow> F
   | Inr n \<Rightarrow> if \<not> is_dir n then F
       else let q = interruptedOutputQuarantinePath X path now in
         case os_rename F path q of
           (None, F) \<Rightarrow> snd (os_remove_all F q)
         | (Some e, F) \<Rightarrow> snd (os_remove_all F path))"

definition cleanupInterruptedFolderOutput ::
    "env \<Rightarrow> xlib \<Rightarrow> string \<Rightarrow> folder_config \<Rightarrow> instant \<Rightarrow> fsys \<Rightarrow> fsys" where
  "cleanupInterruptedFolderOutput E X path cfg now F =
     foldl (\<lambda>F p. cleanupInterruptedOutputPath X p now F) F (interruptedFolderOutputPaths E X path cfg)"

subsection \<open>Starting again\<close>

definition put_recovery :: "string \<Rightarrow> recovery_folder \<Rightarrow> 'a daemon_scheme \<Rightarrow> 'a daemon_scheme" where
  "put_recovery path r u = u\<lparr>d_recovery := aput path (Some r) (d_recovery u)\<rparr>"

definition drop_recovery :: "string \<Rightarrow> 'a daemon_scheme \<Rightarrow> 'a daemon_scheme" where
  "drop_recovery path u = u\<lparr>d_recovery := adel path (d_recovery u)\<rparr>"

definition track_folder :: "string \<Rightarrow> folder \<Rightarrow> 'a daemon_scheme \<Rightarrow> 'a daemon_scheme" where
  "track_folder path f u = u\<lparr>d_Tracked := aput path f (d_Tracked u)\<rparr>"

definition recoverNormalizeFolder :: "string \<Rightarrow> recovery_folder \<Rightarrow> 'a daemon_scheme \<Rightarrow> 'a daemon_scheme" where
  "recoverNormalizeFolder path item u = (let item = item\<lparr>rf_Path := clean (rf_Path item)\<rparr> in
     if rf_Path item = path then put_recovery path item u
     else put_recovery (rf_Path item) item (drop_recovery path u))"

definition restoreExtractedFolder ::
    "instant \<Rightarrow> folder_config \<Rightarrow> recovery_folder \<Rightarrow> 'a daemon_scheme \<Rightarrow> 'a daemon_scheme" where
  "restoreExtractedFolder now cfg item u = (
     let updated = (if rf_Updated item = zeroTime then now else rf_Updated item);
         archives = recoveryPathsWithin (rf_Archives item) (fc_Path cfg)
     in put_recovery (rf_Path item) (item\<lparr>rf_WatchPath := clean (fc_Path cfg), rf_Updated := updated\<rparr>)
          (track_folder (rf_Path item) (zero_folder\<lparr>fo_Updated := updated, fo_Status := EXTRACTED,
             fo_Config := Some cfg, fo_Files := recoveryPathsWithin (rf_Files item) (fc_Path cfg),
             fo_Archives := (if archives = [] then [] else [('''', archives)])\<rparr>) u))"

definition interrupted_status :: "string \<Rightarrow> bool" where
  "interrupted_status s = (s = status_word QUEUED \<or> s = status_word EXTRACTING)"

text \<open>The result: recovered, skipped, the state and the files.\<close>

definition recoverInterruptedFolderItem :: "env \<Rightarrow> xlib \<Rightarrow> instant \<Rightarrow> string \<Rightarrow> recovery_folder option
    \<Rightarrow> 'a daemon_scheme \<Rightarrow> fsys \<Rightarrow> bool \<times> bool \<times> 'a daemon_scheme \<times> fsys" where
  "recoverInterruptedFolderItem E X now path item u F = (case item of
     None \<Rightarrow> (False, False, drop_recovery path u, F)
   | Some item \<Rightarrow> let u = recoverNormalizeFolder path item u; item = item\<lparr>rf_Path := clean (rf_Path item)\<rparr>;
         here = rf_Path item in
       case recoveryFolderConfig (map snd (d_FolderCfg u)) here (rf_WatchPath item) of
         None \<Rightarrow> (False, True, drop_recovery here u, F)
       | Some cfg \<Rightarrow> (case os_stat F here of
           Inl e \<Rightarrow> (False, True, drop_recovery here u, F)
         | Inr n \<Rightarrow>
             if is_dir n then (False, True, drop_recovery here u,
               (if interrupted_status (rf_Status item) then cleanupInterruptedFolderOutput E X here cfg now F else F))
             else if aget (d_Tracked u) here \<noteq> None then (False, False, u, F)
             else if rf_Status item = status_word EXTRACTED then
               (True, False, restoreExtractedFolder now cfg item u, F)
             else let interrupted = interrupted_status (rf_Status item);
                 F = (if interrupted then cleanupInterruptedFolderOutput E X here cfg now F else F);
                 updated = (if rf_Updated item = zeroTime \<or> interrupted then now - d_StartDelay u
                   else rf_Updated item)
               in (True, False, put_recovery here (item\<lparr>rf_Status := status_word WAITING, rf_Updated := now,
                     rf_WatchPath := clean (fc_Path cfg)\<rparr>)
                   (track_folder here (zero_folder\<lparr>fo_Updated := updated, fo_Status := WAITING,
                     fo_Config := Some cfg\<rparr>) u), F)))"

fun recover_loop :: "env \<Rightarrow> xlib \<Rightarrow> instant \<Rightarrow> string list \<Rightarrow> bool \<Rightarrow> 'a daemon_scheme \<Rightarrow> fsys
    \<Rightarrow> bool \<times> 'a daemon_scheme \<times> fsys" where
  "recover_loop E X now [] any u F = (any, u, F)"
| "recover_loop E X now (path # paths) any u F = (case aget (d_recovery u) path of
     None \<Rightarrow> recover_loop E X now paths any u F
   | Some item \<Rightarrow> (case recoverInterruptedFolderItem E X now path item u F of (r, s, u, F) \<Rightarrow>
       recover_loop E X now paths (any \<or> r \<or> s) u F))"

definition recoverInterruptedFolders ::
    "env \<Rightarrow> xlib \<Rightarrow> instant \<Rightarrow> 'a daemon_scheme \<Rightarrow> fsys \<Rightarrow> 'a daemon_scheme \<times> fsys" where
  "recoverInterruptedFolders E X now u F = (
     case recover_loop E X now (akeys (d_recovery u)) False u F of (any, u, F) \<Rightarrow>
       (if any then saveRecoveryState u else u, F))"

end
