(* ===== verification/Queue.thy ===== *)
theory Queue
  imports Remnants Recovery DaemonProps
begin

text \<open>
  The queue of Starr downloads: \<open>pkg/unpackerr/handlers.go\<close>, \<open>starrpoll.go\<close>, \<open>queue_actions.go\<close>,
  \<open>restart.go\<close>, the hook counters of \<open>webhook.go\<close> and \<open>handleProgress\<close> of \<open>progress.go\<close>. Every handler
  runs on the main loop, from taking the history lock to \<open>unlockHistory\<close>. \<open>now\<close> is the tick that
  called it, \<open>clk\<close> the clock read inside it.

  A request handed to the archive library is an \<open>xtract\<close> in the result of the handler.
\<close>

text \<open>The largest ratio of a Starr extraction, 7.5, as the bits of its \<open>float64\<close>.\<close>

abbreviation (input) defaultMaxRatio :: f64 where "defaultMaxRatio \<equiv> 0x401E000000000000"

record xtract =
  x_Password :: string
  x_Name :: string
  x_Path :: string
  x_ExcludeSuffix :: "string list"
  x_AllowSymlinks :: bool
  x_PreserveExec :: bool
  x_APEFormat :: string
  x_APECompression :: int
  x_MaxBytes :: uint64
  x_MaxFiles :: int
  x_MaxRatio :: f64
  x_MaxNested :: int
  x_ExtrasMaxDepth :: int
  x_TempFolder :: bool
  x_ExtractTo :: string
  x_DeleteOrig :: bool
  x_LogFile :: bool
  x_DisableRecursion :: bool
  x_live :: nat

subsection \<open>Is an item still in its application's queue?\<close>

definition starr_list :: "'a daemon_scheme \<Rightarrow> string \<Rightarrow> starr instances" where
  "starr_list u app = (if app = Lidarr then d_Lidarr u else if app = Radarr then d_Radarr u
     else if app = Readarr then d_Readarr u else if app = Sonarr then d_Sonarr u else [])"

definition haveStarrQitem :: "starr instances \<Rightarrow> string \<Rightarrow> bool" where
  "haveStarrQitem l name = list_ex (\<lambda>(_, item). case item of None \<Rightarrow> False | Some s \<Rightarrow> hasQueueTitle s name) l"

definition haveQitem :: "'a daemon_scheme \<Rightarrow> string \<Rightarrow> string \<Rightarrow> bool" where
  "haveQitem u name app = haveStarrQitem (starr_list u app) name"

definition starrSnapshotReady :: "starr instances \<Rightarrow> string \<Rightarrow> bool" where
  "starrSnapshotReady l url = (if url \<noteq> ''''
     then (case find (\<lambda>s. sr_URL s = url) (instanceValues l) of Some s \<Rightarrow> sr_polled s | None \<Rightarrow> True)
     else list_all sr_polled (instanceValues l))"

definition queueSnapshotReady :: "'a daemon_scheme \<Rightarrow> extract_item \<Rightarrow> bool" where
  "queueSnapshotReady u item = (if e_App item \<in> {Lidarr, Radarr, Readarr, Sonarr}
     then starrSnapshotReady (starr_list u (e_App item)) (e_URL item) else True)"

definition allStarrSnapshotsReady :: "'a daemon_scheme \<Rightarrow> bool" where
  "allStarrSnapshotsReady u = (starrSnapshotReady (d_Lidarr u) '''' \<and> starrSnapshotReady (d_Radarr u) ''''
     \<and> starrSnapshotReady (d_Readarr u) '''' \<and> starrSnapshotReady (d_Sonarr u) '''')"

subsection \<open>checkQueueChanges\<close>

definition set_item :: "string \<Rightarrow> extract_item \<Rightarrow> 'a daemon_scheme \<Rightarrow> 'a daemon_scheme" where
  "set_item name item u = u\<lparr>d_Map := aput name item (d_Map u)\<rparr>"

definition check_queue_item :: "env \<Rightarrow> instant \<Rightarrow> instant \<Rightarrow> 'a daemon_scheme \<Rightarrow> string \<Rightarrow> 'a daemon_scheme" where
  "check_queue_item E clk now u name = (case aget (d_Map u) name of None \<Rightarrow> u
   | Some data \<Rightarrow>
       if e_App data = FolderString then u
       else if \<not> haveQitem u name (e_App data) \<and> \<not> queueSnapshotReady u data then u
       else if \<not> haveQitem u name (e_App data) then
         (if e_Status data = WAITING then notifyQueueLocked E clk (deleteExtract u name)
          else if e_Status data > IMPORTED then u
          else if e_Status data = IMPORTED then u
          else updateQueueStatus E clk u (status_of name IMPORTED (e_Resp data)) now True)
       else if e_Status data = IMPORTED then
         notifyQueueLocked E clk (set_item name (data\<lparr>e_Status := EXTRACTED\<rparr>) u)
       else if e_Status data > IMPORTED then
         notifyQueueLocked E clk (set_item name (data\<lparr>e_Status := WAITING, e_Updated := now\<rparr>) u)
       else u)"

definition checkQueueChanges :: "env \<Rightarrow> instant \<Rightarrow> instant \<Rightarrow> 'a daemon_scheme \<Rightarrow> 'a daemon_scheme" where
  "checkQueueChanges E clk now u = unlockHistory (foldl (check_queue_item E clk now) u (akeys (d_Map u)))"

subsection \<open>extractCompletedDownloads\<close>

definition setItemNote :: "env \<Rightarrow> instant \<Rightarrow> 'a daemon_scheme \<Rightarrow> string \<Rightarrow> extract_item \<Rightarrow> string \<Rightarrow> 'a daemon_scheme" where
  "setItemNote E clk u name item note = unlockHistory (if e_Note item = note then u
     else let item = stampQueueDue u name (item\<lparr>e_Note := note\<rparr>)
       in notifyItem E clk name item (set_item name item u))"

definition getPasswordFromPath :: "string \<Rightarrow> string" where
  "getPasswordFromPath path = (case (index_of path ''{{'', index_of path ''}}'') of
       (Some s, Some e) \<Rightarrow> if s > e then '''' else take (e - (s + 2)) (drop (s + 2) path)
     | _ \<Rightarrow> '''')"

definition starrArchiveTypes :: "extract_item \<Rightarrow> string list" where
  "starrArchiveTypes item = [''.rar'', ''.r00'', ''.zip'', ''.7z'', ''.7z.001'', ''.gz'', ''.tgz'',
     ''.tar'', ''.tar.gz'', ''.bz2'', ''.tbz2''] @ (if e_SplitFlac item then [''.cue''] else [])"

definition hasSyncThingFile :: "xlib \<Rightarrow> fsys \<Rightarrow> string \<Rightarrow> string" where
  "hasSyncThingFile X F dirPath = (case find (\<lambda>f. has_suffix f ''.tmp'') (xGetFileList X F dirPath) of
     None \<Rightarrow> '''' | Some f \<Rightarrow> f)"

definition markItemQueued :: "env \<Rightarrow> instant \<Rightarrow> 'a daemon_scheme \<Rightarrow> string \<Rightarrow> extract_item
    \<Rightarrow> remnant_error + prefiles \<Rightarrow> instant \<Rightarrow> 'a daemon_scheme" where
  "markItemQueued E clk u name item snap now = (
     let item = (case snap of Inl e \<Rightarrow> item | Inr m \<Rightarrow> item\<lparr>e_PreFiles := Some m\<rparr>);
         item = item\<lparr>e_Status := QUEUED, e_Updated := now, e_Note := ''''\<rparr>
     in unlockHistory (notifyQueueLocked E clk (maybeRecordHistory E (set_item name item u) name item)))"

abbreviation (input) noteNoExtractable :: string where "noteNoExtractable \<equiv> ''no extractable files''"
abbreviation (input) noteWaitingSyncthing :: string where "noteWaitingSyncthing \<equiv> ''waiting for syncthing''"

definition extractCompletedDownload :: "env \<Rightarrow> xlib \<Rightarrow> fsys \<Rightarrow> instant \<Rightarrow> instant
    \<Rightarrow> 'a daemon_scheme \<Rightarrow> string \<Rightarrow> 'a daemon_scheme \<times> xtract option" where
  "extractCompletedDownload E X F clk now u name = (case aget (d_Map u) name of None \<Rightarrow> (u, None)
   | Some item \<Rightarrow>
       if dur_minus (d_StartDelay u) (time_sub now (e_Updated item)) > nsecond then (u, None)
       else let files = findCompressed X F (e_Path item) [] False in
         if files = [] then (setItemNote E clk u name item noteNoExtractable, None)
         else if e_Syncthing item \<and> hasSyncThingFile X F (e_Path item) \<noteq> '''' then
           (setItemNote E clk u name item noteWaitingSyncthing, None)
         else let snap = keepDirSnapshot F (e_PreFiles item) (archiveSnapshotPaths E (e_Path item) files) in
           (markItemQueued E clk u name item snap now,
            Some \<lparr>x_Password = getPasswordFromPath (e_Path item), x_Name = name, x_Path = e_Path item,
              x_ExcludeSuffix = allExcept X (starrArchiveTypes item), x_AllowSymlinks = False,
              x_PreserveExec = False, x_APEFormat = e_APEFormat item, x_APECompression = e_APECompression item,
              x_MaxBytes = e_MaxBytes item, x_MaxFiles = 1000, x_MaxRatio = defaultMaxRatio,
              x_MaxNested = 8, x_ExtrasMaxDepth = 3, x_TempFolder = False, x_ExtractTo = '''',
              x_DeleteOrig = False, x_LogFile = False, x_DisableRecursion = False,
              x_live = e_addr item\<rparr>))"

definition download_jobs :: "'a daemon_scheme \<Rightarrow> string list" where
  "download_jobs u = map fst (filter (\<lambda>(name, item). e_App item \<noteq> FolderString \<and> e_Status item < QUEUED
     \<and> queueSnapshotReady u item) (d_Map u))"

fun run_downloads :: "env \<Rightarrow> xlib \<Rightarrow> fsys \<Rightarrow> instant \<Rightarrow> instant
    \<Rightarrow> 'a daemon_scheme \<Rightarrow> string list \<Rightarrow> 'a daemon_scheme \<times> xtract list" where
  "run_downloads E X F clk now u [] = (u, [])"
| "run_downloads E X F clk now u (name # names) =
     (case extractCompletedDownload E X F clk now u name of (u, x) \<Rightarrow>
       (case run_downloads E X F clk now u names of (u, xs) \<Rightarrow>
         (u, (case x of None \<Rightarrow> xs | Some x \<Rightarrow> x # xs))))"

definition extractCompletedDownloads :: "env \<Rightarrow> xlib \<Rightarrow> fsys \<Rightarrow> instant \<Rightarrow> instant
    \<Rightarrow> 'a daemon_scheme \<Rightarrow> 'a daemon_scheme \<times> xtract list" where
  "extractCompletedDownloads E X F clk now u = run_downloads E X F clk now (unlockHistory u) (download_jobs u)"


subsection \<open>checkExtractDone\<close>

definition queueDelete :: "delete_req \<Rightarrow> 'a daemon_scheme \<Rightarrow> 'a daemon_scheme" where
  "queueDelete req u = u\<lparr>d_inFlight := d_inFlight u + 1, d_delQueue := d_delQueue u @ [req]\<rparr>"

definition delete_imported :: "extract_item \<Rightarrow> delete_req option" where
  "delete_imported item = (if e_DeleteOrig item
       then Some \<lparr>dr_Paths = [e_Path item], dr_PurgeEmptyParent = False, dr_PurgeEmptyRoot = ''''\<rparr>
     else case e_Resp item of None \<Rightarrow> None
       | Some r \<Rightarrow> if rs_NewFiles r \<noteq> [] \<and> e_DeleteDelay item \<ge> 0
           then Some \<lparr>dr_Paths = rs_NewFiles r, dr_PurgeEmptyParent = True, dr_PurgeEmptyRoot = e_Path item\<rparr>
           else None)"

definition check_done_item :: "env \<Rightarrow> instant \<Rightarrow> instant \<Rightarrow> 'a daemon_scheme \<Rightarrow> string \<Rightarrow> 'a daemon_scheme" where
  "check_done_item E clk now u name = (case aget (d_Map u) name of None \<Rightarrow> u
   | Some item \<Rightarrow> let elapsed = time_sub now (e_Updated item) in
       if e_Status item = DELETED \<and> elapsed \<ge> e_DeleteDelay item then
         notifyQueueLocked E clk (deleteExtract (u\<lparr>d_Finished := d_Finished u + 1\<rparr>) name)
       else if e_App item = FolderString then u
       else if e_Status item = EXTRACTFAILED \<and> e_NoRetry item then u
       else if e_Status item = EXTRACTFAILED \<and> elapsed \<ge> d_RetryDelay u \<and> e_Retries item < maxRetries u then
         notifyQueueLocked E clk (set_item name
           (item\<lparr>e_Retries := e_Retries item + 1, e_Status := WAITING, e_Updated := now\<rparr>)
           (u\<lparr>d_Retries := d_Retries u + 1\<rparr>))
       else if e_Status item = EXTRACTFAILED \<and> e_Retries item \<ge> maxRetries u then
         updateQueueStatus E clk (set_item name (item\<lparr>e_NoRetry := True\<rparr>) u)
           (status_of name EXTRACTFAILED (e_Resp item)) now True
       else if e_Status item \<in> {EXTRACTED, EXTRACTING, QUEUED} \<and> elapsed \<ge> staleItemTimeout then
         updateQueueStatus E clk u (status_of name DELETED (e_Resp item)) now True
       else if e_Status item = IMPORTED \<and> elapsed \<ge> e_DeleteDelay item
           \<and> (\<not> queueSnapshotReady u item \<or> haveQitem u name (e_App item)) then u
       else if e_Status item = IMPORTED \<and> elapsed \<ge> e_DeleteDelay item then
         (let req = delete_imported item;
              u = (case req of None \<Rightarrow> u | Some r \<Rightarrow> queueDelete r u)
          in updateQueueStatus E clk u (status_of name DELETED (e_Resp item)) now (req \<noteq> None))
       else u)"

definition checkExtractDone :: "env \<Rightarrow> instant \<Rightarrow> instant \<Rightarrow> 'a daemon_scheme \<Rightarrow> 'a daemon_scheme" where
  "checkExtractDone E clk now u = unlockHistory (foldl (check_done_item E clk now) u (akeys (d_Map u)))"

subsection \<open>handleXtractrCallback\<close>

text \<open>
  The regular files below a directory, as \<open>filepath.WalkDir\<close> with a callback that skips what
  cannot be read finds them, sorted.
\<close>

definition walk_files :: "fsys \<Rightarrow> string \<Rightarrow> string list" where
  "walk_files F p = sort_strings (map fst (filter (\<lambda>(k, n). \<not> is_dir n \<and> below p k \<and> k \<noteq> clean p
     \<and> \<not> list_ex (\<lambda>d. below p d \<and> k \<noteq> d \<and> below d k) (fs_denied F)) (fs_nodes F)))"

definition expandExtractedFiles :: "fsys \<Rightarrow> string list \<Rightarrow> string list" where
  "expandExtractedFiles F paths = dedup_acc [] (concat (map (\<lambda>p. case os_stat F p of
       Inl e \<Rightarrow> [p]
     | Inr n \<Rightarrow> if \<not> is_dir n then [p]
         else if walk_files F p = [] then [p] else walk_files F p) paths))"

definition expand_response :: "fsys \<Rightarrow> response \<Rightarrow> response" where
  "expand_response F resp = (if rs_Error resp = None \<and> rs_NewFiles resp \<noteq> []
     then resp\<lparr>rs_NewFiles := expandExtractedFiles F (rs_NewFiles resp)\<rparr> else resp)"

fun is_limit :: "rerror option \<Rightarrow> bool" where
  "is_limit (Some (LimitError m)) = True"
| "is_limit _ = False"

text \<open>The second locked part: what the result of the extraction makes of the item.\<close>

definition starr_outcome :: "env \<Rightarrow> instant \<Rightarrow> instant \<Rightarrow> 'a daemon_scheme \<Rightarrow> response \<Rightarrow> status option
    \<Rightarrow> 'a daemon_scheme" where
  "starr_outcome E clk now u resp remnant = (let name = rs_Name resp in
     case aget (d_Map u) name of None \<Rightarrow> u
   | Some item \<Rightarrow>
       if remnant = Some WAITING then
         notifyQueueLocked E clk (set_item name (item\<lparr>e_Retries := e_Retries item + 1,
           e_Status := WAITING, e_Updated := now, e_Resp := Some resp\<rparr>) (u\<lparr>d_Retries := d_Retries u + 1\<rparr>))
       else if remnant \<noteq> None then
         (let u = (if remnantAction (d_RemnantAction u) = ''off''
             then set_item name (item\<lparr>e_NoRetry := True\<rparr>) u else u)
          in updateQueueStatus E clk u (status_of name EXTRACTFAILED (Some resp)) now True)
       else if rs_Error resp \<noteq> None then
         (let u = (if is_limit (rs_Error resp) then set_item name (item\<lparr>e_NoRetry := True\<rparr>) u else u)
          in updateQueueStatus E clk u (status_of name EXTRACTFAILED (Some resp)) now True)
       else updateQueueStatus E clk u (status_of name EXTRACTED (Some resp)) now True)"

definition starts_import :: "'a daemon_scheme \<Rightarrow> response \<Rightarrow> status option \<Rightarrow> bool" where
  "starts_import u resp remnant = (case aget (d_Map u) (rs_Name resp) of None \<Rightarrow> False
     | Some item \<Rightarrow> remnant = None \<and> rs_Error resp = None \<and> e_App item = Lidarr \<and> e_SplitFlac item
         \<and> rs_Size resp > 0)"

text \<open>The last component says whether the import of split tracks was started.\<close>

definition handleXtractrCallback :: "env \<Rightarrow> fsys \<Rightarrow> instant \<Rightarrow> 'a daemon_scheme \<Rightarrow> response
    \<Rightarrow> 'a daemon_scheme \<times> fsys \<times> bool" where
  "handleXtractrCallback E F clk u resp = (let now = rs_Started resp + rs_Elapsed resp in
     case aget (d_Map u) (rs_Name resp) of None \<Rightarrow> (unlockHistory u, F, False)
   | Some item \<Rightarrow>
       if \<not> rs_Done resp then
         (unlockHistory (updateQueueStatus E clk (set_item (rs_Name resp) (resetExtractProgress item
             (archiveCount E (rs_Archives resp) + archiveCount E (rs_Extras resp))) u)
           (status_of (rs_Name resp) EXTRACTING (Some resp)) now True), F, False)
       else let u = unlockHistory u; resp = expand_response F resp in
         (case handleRemnants u F resp (e_PreFiles item) (e_Retries item) of (remnant, F) \<Rightarrow>
           (unlockHistory (starr_outcome E clk now u resp remnant), F, starts_import u resp remnant)))"


subsection \<open>Progress and hook results\<close>

text \<open>
  \<open>handleProgress\<close>: \<open>exp\<close> is the extract the callback was made for. When it is in the queue, found by
  its address, the queue has its current value; when it is not, it only shows in the notification.
\<close>

definition note_progress :: "env \<Rightarrow> instant \<Rightarrow> xprogress \<Rightarrow> progress \<Rightarrow> progress" where
  "note_progress E clk prog p = (
     let p = (case pg_Progress p of None \<Rightarrow> p
         | Some old \<Rightarrow> if map_option xf_addr (xp_XFile old) \<noteq> map_option xf_addr (xp_XFile prog)
             then NoteArchiveDone (p\<lparr>pg_Extracted := pg_Extracted p + 1\<rparr>) else p)
     in NoteSpeed E clk (p\<lparr>pg_Progress := Some prog\<rparr>))"

definition handleProgress :: "env \<Rightarrow> instant \<Rightarrow> 'a daemon_scheme \<Rightarrow> extract_item \<Rightarrow> xprogress \<Rightarrow> 'a daemon_scheme" where
  "handleProgress E clk u exp prog = (case find (\<lambda>(n, e). e_addr e = e_addr exp) (d_Map u) of
     None \<Rightarrow> (case e_XProg exp of None \<Rightarrow> u
       | Some p \<Rightarrow> unlockHistory (notifyItem E clk (e_Path exp)
           (exp\<lparr>e_XProg := Some (note_progress E clk prog p)\<rparr>) u))
   | Some (name, item) \<Rightarrow> (case e_XProg item of None \<Rightarrow> u
     | Some p \<Rightarrow> let item = item\<lparr>e_XProg := Some (note_progress E clk prog p)\<rparr>
         in unlockHistory (notifyItem E clk name item (set_item name item u))))"

definition reportHookFail :: "string \<Rightarrow> 'a daemon_scheme \<Rightarrow> 'a daemon_scheme" where
  "reportHookFail itemID u = (if itemID = '''' then u else u\<lparr>d_hookFails := d_hookFails u @ [itemID]\<rparr>)"

definition recordHookFail :: "env \<Rightarrow> instant \<Rightarrow> 'a daemon_scheme \<Rightarrow> string \<Rightarrow> 'a daemon_scheme" where
  "recordHookFail E clk u itemID = (if itemID = '''' then u
     else case aget (d_Map u) itemID of
       Some item \<Rightarrow> let item = item\<lparr>e_HookFail := e_HookFail item + 1\<rparr>;
           u = notifyItem E clk itemID item (maybeRecordHistory E (set_item itemID item u) itemID item)
         in if \<not> isPersistedHistory (Some item) then bumpHistoryHookFail u itemID else u
     | None \<Rightarrow> bumpHistoryHookFail u itemID)"

definition drainHookFails :: "env \<Rightarrow> instant \<Rightarrow> 'a daemon_scheme \<Rightarrow> 'a daemon_scheme" where
  "drainHookFails E clk u = foldl (recordHookFail E clk) (u\<lparr>d_hookFails := []\<rparr>) (d_hookFails u)"

definition saveHookMessage :: "env \<Rightarrow> 'a daemon_scheme \<Rightarrow> hook_save \<Rightarrow> 'a daemon_scheme" where
  "saveHookMessage E u s = (if hs_itemID s = '''' \<or> hs_key s = '''' \<or> hs_msgID s = '''' then u
     else let item = aget (d_Map u) (hs_itemID s) in
       case item of
         Some e \<Rightarrow> if hs_live s = None \<or> hs_live s = Some (e_addr e) then
             (let e = e\<lparr>e_HookMessages := aput (hs_key s) (hs_msgID s) (e_HookMessages e)\<rparr>
              in maybeRecordHistory E (set_item (hs_itemID s) e u) (hs_itemID s) e)
           else u
       | None \<Rightarrow> bumpHistoryHookMessage u (hs_itemID s) (hs_key s) (hs_msgID s))"

definition drainHookMessages :: "env \<Rightarrow> 'a daemon_scheme \<Rightarrow> 'a daemon_scheme" where
  "drainHookMessages E u = foldl (saveHookMessage E) (u\<lparr>d_hookMsgSaves := []\<rparr>) (d_hookMsgSaves u)"

definition hookMessage :: "'a daemon_scheme \<Rightarrow> string \<Rightarrow> string \<Rightarrow> string" where
  "hookMessage u itemID key = (if itemID = '''' \<or> key = '''' then ''''
     else case aget (d_Map u) itemID of
       Some e \<Rightarrow> if e_HookMessages e \<noteq> []
         then (case aget (e_HookMessages e) key of None \<Rightarrow> '''' | Some m \<Rightarrow> m)
         else historyHookMessage u itemID key
     | None \<Rightarrow> historyHookMessage u itemID key)"

subsection \<open>Actions of the user\<close>

datatype queue_error = errQueueNotFound | errQueueNotFailed | errQueueNotForgettable

definition retryFolderLocked :: "env \<Rightarrow> instant \<Rightarrow> string \<Rightarrow> extract_item \<Rightarrow> 'a daemon_scheme
    \<Rightarrow> queue_error option \<times> 'a daemon_scheme" where
  "retryFolderLocked E now itemID item u = (case aget (d_Tracked u) itemID of
     None \<Rightarrow> (Some errQueueNotFound, u)
   | Some folder \<Rightarrow>
       let folder = folder\<lparr>fo_Status := WAITING, fo_NoRetry := False, fo_Retries := 0, fo_Updated := now\<rparr>;
           item = item\<lparr>e_NoRetry := False, e_Retries := 0, e_Status := WAITING, e_Updated := now\<rparr>;
           u = set_item itemID item (track_folder itemID folder u);
           u = recoveryTrackFolder E itemID (fo_Config folder) (fo_Status folder) (fo_Updated folder) u
       in (None, notifyQueueLocked E now (maybeRecordHistory E u itemID item)))"

definition retryQueueID :: "env \<Rightarrow> instant \<Rightarrow> 'a daemon_scheme \<Rightarrow> string \<Rightarrow> queue_error option \<times> 'a daemon_scheme" where
  "retryQueueID E now u itemID = (let r = (case aget (d_Map u) itemID of
       None \<Rightarrow> (Some errQueueNotFound, u)
     | Some item \<Rightarrow>
         if e_Status item \<noteq> EXTRACTFAILED then (Some errQueueNotFailed, u)
         else if e_App item = FolderString then retryFolderLocked E now itemID item u
         else (None, notifyQueueLocked E now (set_item itemID (item\<lparr>e_Retries := e_Retries item + 1,
             e_NoRetry := False, e_Status := WAITING, e_Updated := now\<rparr>)
           (u\<lparr>d_Retries := d_Retries u + 1\<rparr>))))
     in (fst r, unlockHistory (snd r)))"

definition forget_folder :: "string \<Rightarrow> 'a daemon_scheme \<Rightarrow> 'a daemon_scheme" where
  "forget_folder itemID u = (if aget (d_Tracked u) itemID = None then u
     else u\<lparr>d_watched := filter (\<lambda>p. p \<noteq> itemID) (d_watched u), d_Tracked := adel itemID (d_Tracked u)\<rparr>)"

definition forgetQueueID :: "env \<Rightarrow> instant \<Rightarrow> 'a daemon_scheme \<Rightarrow> string \<Rightarrow> queue_error option \<times> 'a daemon_scheme" where
  "forgetQueueID E clk u itemID = (let r = (case aget (d_Map u) itemID of
       None \<Rightarrow> (Some errQueueNotFound, u)
     | Some item \<Rightarrow>
         if \<not> isDurableHistory (e_Status item) then (Some errQueueNotForgettable, u)
         else let u = (if e_Status item = DELETED then u\<lparr>d_Finished := d_Finished u + 1\<rparr> else u);
                  u = deleteExtract u itemID;
                  u = (if e_App item \<noteq> FolderString then u\<lparr>d_forgotten := List.insert itemID (d_forgotten u)\<rparr> else u);
                  u = forget_folder itemID u
           in (None, notifyQueueLocked E clk (markHistoryForgotten u itemID)))
     in (fst r, unlockHistory (snd r)))"

definition isForgotten :: "'a daemon_scheme \<Rightarrow> string \<Rightarrow> bool" where
  "isForgotten u i = (i \<in> set (d_forgotten u))"

definition sweepForgotten :: "'a daemon_scheme \<Rightarrow> 'a daemon_scheme" where
  "sweepForgotten u = unlockHistory (if \<not> allStarrSnapshotsReady u then u
     else u\<lparr>d_forgotten := filter (\<lambda>i. haveStarrQitem (d_Lidarr u) i \<or> haveStarrQitem (d_Radarr u) i
       \<or> haveStarrQitem (d_Readarr u) i \<or> haveStarrQitem (d_Sonarr u) i) (d_forgotten u)\<rparr>)"


subsection \<open>Polling\<close>

definition crossPlatformBase :: "string \<Rightarrow> string" where
  "crossPlatformBase path = base (replace_char (CHR 0x5C) (CHR ''/'') path)"

text \<open>\<open>None\<close> is the panic of \<open>paths[0]\<close>; \<open>validateApp\<close> leaves no instance without a path.\<close>

definition getDownloadPath :: "fsys \<Rightarrow> string \<Rightarrow> string \<Rightarrow> string list \<Rightarrow> string option" where
  "getDownloadPath F outputPath title paths = (
     let exists = (\<lambda>p. case os_stat F p of Inl e \<Rightarrow> False | Inr n \<Rightarrow> True) in
     case find exists (map (\<lambda>p. path_join [p, title]) paths) of
       Some p \<Rightarrow> Some p
     | None \<Rightarrow>
         if outputPath \<noteq> '''' then
           (let outputFolder = crossPlatformBase outputPath in
            if outputFolder \<noteq> '''' \<and> outputFolder \<noteq> ''.'' \<and> outputFolder \<noteq> title then
              (case find exists (map (\<lambda>p. path_join [p, outputFolder]) paths) of
                 Some p \<Rightarrow> Some p | None \<Rightarrow> Some outputPath)
            else Some outputPath)
         else (case paths of [] \<Rightarrow> None | p # _ \<Rightarrow> Some (path_join [p, title])))"

text \<open>\<open>publishStarrPoll\<close>: an error leaves the last snapshot, with the time it was taken.\<close>

definition publishStarrPoll :: "starr \<Rightarrow> string + queue_view list \<times> int \<times> int \<Rightarrow> instant \<Rightarrow> starr" where
  "publishStarrPoll cfg r polled = (case r of
     Inl err \<Rightarrow> cfg\<lparr>sr_lastPollErr := err\<rparr>
   | Inr (views, tot, retrieved) \<Rightarrow> cfg\<lparr>sr_Queue := Some views, sr_lastQueued := tot,
       sr_lastRetrieved := retrieved, sr_lastPolled := polled, sr_lastPollErr := '''', sr_polled := True\<rparr>)"

definition getStarrQueue :: "starr \<Rightarrow> string + queue_view list \<times> int \<times> int \<Rightarrow> instant \<Rightarrow> starr" where
  "getStarrQueue cfg r polled = (if sr_APIKey cfg = '''' then cfg else publishStarrPoll cfg r polled)"

text \<open>\<open>tweakExtract\<close>: only Lidarr changes the new extract.\<close>

definition tweakExtract :: "string \<Rightarrow> starr \<Rightarrow> queue_view \<Rightarrow> extract_item \<Rightarrow> extract_item" where
  "tweakExtract app cfg rec item = (if app = Lidarr then item\<lparr>e_SplitFlac := sr_SplitFlac cfg,
       e_APEFormat := sr_APEFormat cfg, e_APECompression := sr_APECompression cfg,
       e_OutputPath := qv_OutputPath rec\<rparr> else item)"

definition new_download :: "string \<Rightarrow> starr \<Rightarrow> queue_view \<Rightarrow> string \<Rightarrow> instant \<Rightarrow> nat \<Rightarrow> extract_item" where
  "new_download app cfg rec path now addr = tweakExtract app cfg rec (zero_extract\<lparr>e_addr := addr,
     e_App := app, e_Name := sr_Name cfg, e_URL := sr_URL cfg, e_Updated := now, e_Status := WAITING,
     e_DeleteOrig := sr_DeleteOrig cfg, e_DeleteDelay := sr_DeleteDelay cfg,
     e_Syncthing := sr_Syncthing cfg, e_MaxBytes := sr_maxBytes cfg, e_Path := path,
     e_IDs := qv_IDs rec, e_XProg := Some new_progress\<rparr>)"

text \<open>One record of one instance; the second component says whether the queue grew.\<close>

definition check_record :: "fsys \<Rightarrow> instant \<Rightarrow> string \<Rightarrow> starr \<Rightarrow> 'a daemon_scheme \<times> bool \<Rightarrow> queue_view
    \<Rightarrow> 'a daemon_scheme \<times> bool" where
  "check_record F now app cfg s rec = (case s of (u, changed) \<Rightarrow> (case aget (d_Map u) (qv_Title rec) of
       Some item \<Rightarrow> (if e_App item = app \<and> e_URL item = sr_URL cfg
         then set_item (qv_Title rec) (item\<lparr>e_Name := sr_Name cfg\<rparr>) u else u, changed)
     | None \<Rightarrow>
         if isComplete (qv_Status rec) (qv_Protocol rec) (sr_Protocols cfg) \<and> \<not> isForgotten u (qv_Title rec)
         then (case getDownloadPath F (qv_OutputPath rec) (qv_Title rec) (sr_Paths cfg) of
             None \<Rightarrow> s
           | Some path \<Rightarrow> (set_item (qv_Title rec) (new_download app cfg rec path now (d_nextAddr u))
               (u\<lparr>d_nextAddr := d_nextAddr u + 1\<rparr>), True))
         else s))"

definition checkStarrQueue :: "env \<Rightarrow> fsys \<Rightarrow> instant \<Rightarrow> instant \<Rightarrow> string \<Rightarrow> 'a daemon_scheme \<Rightarrow> 'a daemon_scheme" where
  "checkStarrQueue E F clk now app u = (case foldl (\<lambda>s cfg. foldl (check_record F now app cfg) s (queueViews cfg))
       (u, False) (instanceValues (starr_list u app)) of
     (u, changed) \<Rightarrow> unlockHistory (if changed then notifyQueueLocked E clk u else u))"

text \<open>\<open>retrieveAppQueues\<close>: \<open>resp app slug\<close> is the answer of the instance, \<open>at\<close> the time of the answers.\<close>

definition poll_all :: "(string \<Rightarrow> string + queue_view list \<times> int \<times> int) \<Rightarrow> instant \<Rightarrow> starr instances \<Rightarrow> starr instances" where
  "poll_all resp at l = amap (\<lambda>slug item. map_option (\<lambda>cfg. getStarrQueue cfg (resp slug) at) item) l"

definition retrieveAppQueues :: "env \<Rightarrow> fsys \<Rightarrow> instant \<Rightarrow> instant
    \<Rightarrow> (string \<Rightarrow> string \<Rightarrow> string + queue_view list \<times> int \<times> int) \<Rightarrow> 'a daemon_scheme \<Rightarrow> 'a daemon_scheme" where
  "retrieveAppQueues E F clk now resp u = (
     let u = u\<lparr>d_Lidarr := poll_all (resp Lidarr) clk (d_Lidarr u), d_Radarr := poll_all (resp Radarr) clk (d_Radarr u),
           d_Readarr := poll_all (resp Readarr) clk (d_Readarr u), d_Sonarr := poll_all (resp Sonarr) clk (d_Sonarr u)\<rparr>
     in sweepForgotten (foldl (\<lambda>u app. checkStarrQueue E F clk now app u) u [Lidarr, Radarr, Readarr, Sonarr]))"

subsection \<open>Restart\<close>

text \<open>
  \<open>chans\<close> is the number of callbacks and events that wait in the channels of the main loop.
\<close>

fun busy :: "status \<Rightarrow> bool" where
  "busy s = (s \<in> {QUEUED, EXTRACTING, EXTRACTED, IMPORTED, DELETING})"

definition idle :: "nat \<Rightarrow> 'a daemon_scheme \<Rightarrow> bool" where
  "idle chans u = (if d_inFlight u > 0 then False
     else if d_hookFails u \<noteq> [] \<or> d_hookMsgSaves u \<noteq> [] then False
     else if chans > 0 then False
     else if list_ex (\<lambda>(_, f). fo_Status f = QUEUED \<or> fo_Status f = EXTRACTING) (d_Tracked u) then False
     else list_all (\<lambda>(_, e). \<not> busy (e_Status e)) (d_Map u))"

text \<open>\<open>maybeRestart\<close>: whether the process starts again, once a restart is pending.\<close>

definition maybeRestart :: "env \<Rightarrow> instant \<Rightarrow> nat \<Rightarrow> bool \<Rightarrow> 'a daemon_scheme \<Rightarrow> bool \<times> 'a daemon_scheme" where
  "maybeRestart E clk chans pending u = (if \<not> pending then (False, u)
     else let u = drainHookMessages E (drainHookFails E clk u) in (idle chans u, u))"

end
