(* ===== verification/Sweep.thy ===== *)
theory Sweep
  imports Queue
begin

text \<open>
  The loops over the queue. In Go a \<open>range\<close> over a map visits the keys in any order; the locale says
  when such a loop has one meaning all the same: every visit changes only its own item, as a
  function of that item and of a part of the state that no visit changes, and appends to a log.
  Both sweeps of the Starr queue, \<open>checkQueueChanges\<close> and \<open>checkExtractDone\<close>, are interpretations.
\<close>

locale item_sweep =
  fixes step :: "'s \<Rightarrow> 'k \<Rightarrow> 's"
    and look :: "'s \<Rightarrow> 'k \<Rightarrow> 'v option"
    and out :: "'s \<Rightarrow> 'l list"
    and same :: "'s \<Rightarrow> 's \<Rightarrow> bool"
    and act :: "'s \<Rightarrow> 'k \<Rightarrow> 'v option \<Rightarrow> 'v option"
    and emit :: "'s \<Rightarrow> 'k \<Rightarrow> 'v option \<Rightarrow> 'l list"
  assumes own: "look (step s k) k = act s k (look s k)"
    and other: "j \<noteq> k \<Longrightarrow> look (step s k) j = look s j"
    and emits: "out (step s k) = out s @ emit s k (look s k)"
    and same_step: "same s (step s k)"
    and same_self: "same s s"
    and same_then: "same s t \<Longrightarrow> same t v \<Longrightarrow> same s v"
    and act_same: "same s t \<Longrightarrow> act s k x = act t k x"
    and emit_same: "same s t \<Longrightarrow> emit s k x = emit t k x"
begin

lemma same_sweep: "same s (foldl step s ks)"
proof (induction ks arbitrary: s)
  case (Cons k ks)
  show ?case using same_then [OF same_step Cons.IH] by simp
qed (simp add: same_self)

lemma look_sweep:
  "distinct ks \<Longrightarrow> look (foldl step s ks) k = (if k \<in> set ks then act s k (look s k) else look s k)"
proof (induction ks arbitrary: s)
  case (Cons j ks)
  have "act (step s j) k x = act s k x" for x using act_same [OF same_step] by simp
  then show ?case using Cons own [of s j] other [of k j s] by (cases "k = j") auto
qed simp

lemma out_sweep:
  "distinct ks \<Longrightarrow> out (foldl step s ks) = out s @ concat (map (\<lambda>k. emit s k (look s k)) ks)"
proof (induction ks arbitrary: s)
  case (Cons j ks)
  have "emit (step s j) k (look (step s j) k) = emit s k (look s k)" if "k \<in> set ks" for k
    using that Cons.prems other [of k j s] emit_same [OF same_step, of s k "look s k" j] by (cases "k = j") auto
  then have *: "map (\<lambda>k. emit (step s j) k (look (step s j) k)) ks = map (\<lambda>k. emit s k (look s k)) ks" by simp
  show ?case using Cons.prems by (simp add: Cons.IH emits *)
qed simp

text \<open>The order of the keys does not matter for the items, and not for what was emitted either.\<close>

lemma sweep_order:
  assumes "distinct ks" "distinct js" "set ks = set js"
  shows "look (foldl step s ks) = look (foldl step s js)"
    "set (out (foldl step s ks)) = set (out (foldl step s js))"
  using assms by (auto simp: fun_eq_iff look_sweep out_sweep)

end

subsection \<open>What an item is, but for its due stamp\<close>

definition core :: "extract_item \<Rightarrow> extract_item" where
  "core e = e\<lparr>e_Due := zeroTime, e_DueKind := ''''\<rparr>"

definition look :: "'a daemon_scheme \<Rightarrow> string \<Rightarrow> extract_item option" where
  "look u k = map_option core (aget (d_Map u) k)"

definition same_cfg :: "'a daemon_scheme \<Rightarrow> 'a daemon_scheme \<Rightarrow> bool" where
  "same_cfg u v \<longleftrightarrow> d_Lidarr u = d_Lidarr v \<and> d_Radarr u = d_Radarr v \<and> d_Readarr u = d_Readarr v
     \<and> d_Sonarr u = d_Sonarr v \<and> d_MaxRetries u = d_MaxRetries v \<and> d_RetryDelay u = d_RetryDelay v
     \<and> d_RemnantAction u = d_RemnantAction v \<and> d_forgotten u = d_forgotten v
     \<and> d_StartDelay u = d_StartDelay v"

lemma core_stamp [simp]: "core (stampQueueDue u k e) = core e"
  by (simp add: core_def stampQueueDue_def del: queueDue.simps split: prod.splits)

lemma core_simps [simp]:
  "e_Status (core e) = e_Status e" "e_App (core e) = e_App e" "e_Updated (core e) = e_Updated e"
  "e_Retries (core e) = e_Retries e" "e_NoRetry (core e) = e_NoRetry e" "e_URL (core e) = e_URL e"
  "e_DeleteDelay (core e) = e_DeleteDelay e" "e_DeleteOrig (core e) = e_DeleteOrig e"
  "e_Resp (core e) = e_Resp e" "e_Path (core e) = e_Path e" "e_Note (core e) = e_Note e" "e_addr (core e) = e_addr e"
  by (simp_all add: core_def)

lemma core_update:
  "core (e\<lparr>e_Status := s\<rparr>) = (core e)\<lparr>e_Status := s\<rparr>" "core (e\<lparr>e_Updated := t\<rparr>) = (core e)\<lparr>e_Updated := t\<rparr>"
  "core (e\<lparr>e_Retries := n\<rparr>) = (core e)\<lparr>e_Retries := n\<rparr>" "core (e\<lparr>e_NoRetry := b\<rparr>) = (core e)\<lparr>e_NoRetry := b\<rparr>"
  "core (e\<lparr>e_Note := x\<rparr>) = (core e)\<lparr>e_Note := x\<rparr>" "core (e\<lparr>e_Resp := r\<rparr>) = (core e)\<lparr>e_Resp := r\<rparr>"
  "core (e\<lparr>e_Name := x\<rparr>) = (core e)\<lparr>e_Name := x\<rparr>" "core (e\<lparr>e_XProg := p\<rparr>) = (core e)\<lparr>e_XProg := p\<rparr>"
  "core (e\<lparr>e_PreFiles := m\<rparr>) = (core e)\<lparr>e_PreFiles := m\<rparr>"
  by (simp_all add: core_def)

lemma core_core [simp]: "core (core e) = core e"
  by (simp add: core_def)

lemma look_notify [simp]: "look (notifyQueueLocked E clk u) = look u"
  by (simp add: look_def fun_eq_iff option.map_comp o_def)

lemma look_set [simp]: "look (set_item n e u) k = (if k = n then Some (core e) else look u k)"
  by (simp add: look_def set_item_def)

lemma look_more: "hist.more u = hist.more v \<Longrightarrow> look u = look v"
  by (simp add: look_def fun_eq_iff daemon_more(1) [of u v])

lemma look_record [simp]: "look (maybeRecordHistory E u i e) = look u"
  by (rule look_more) (rule record_more)

lemma look_delete [simp]: "look (deleteExtract u n) k = (if k = n then None else look u k)"
  by (auto simp: look_def deleteExtract_def dropHookMessages_def Let_def)

lemma look_None: "look u k = None \<longleftrightarrow> aget (d_Map u) k = None"
  by (simp add: look_def)

lemma look_Some: "aget (d_Map u) k = Some e \<Longrightarrow> look u k = Some (core e)"
  by (simp add: look_def)

subsection \<open>The hook queue changes nothing else\<close>

lemma queueHooks_keep:
  "d_Map (foldl (queueHook i a e) u ss) = d_Map u" "same_cfg u (foldl (queueHook i a e) u ss)"
  "d_delQueue (foldl (queueHook i a e) u ss) = d_delQueue u" "d_records (foldl (queueHook i a e) u ss) = d_records u"
  by (induction ss arbitrary: u) (simp_all add: queueHook_def same_cfg_def)

lemma same_refl [simp]: "same_cfg u u"
  by (simp add: same_cfg_def)

lemma same_trans [trans]: "same_cfg u v \<Longrightarrow> same_cfg v w \<Longrightarrow> same_cfg u w"
  by (simp add: same_cfg_def)

lemma seed_keep:
  "d_Map (seedHookMessages u i m a) = d_Map u" "same_cfg u (seedHookMessages u i m a)"
  "d_delQueue (seedHookMessages u i m a) = d_delQueue u" "d_records (seedHookMessages u i m a) = d_records u"
  by (simp_all add: seedHookMessages_def same_cfg_def Let_def split: option.splits)

lemma runHooks_keep:
  "d_Map (runAllHooks u p) = d_Map u" "same_cfg u (runAllHooks u p)" "d_delQueue (runAllHooks u p) = d_delQueue u"
  "d_records (runAllHooks u p) = d_records u"
proof -
  show "same_cfg u (runAllHooks u p)" unfolding runAllHooks_def Let_def
    by (auto intro: same_trans [OF same_trans [OF seed_keep(2) queueHooks_keep(2)] queueHooks_keep(2)])
qed (simp_all add: runAllHooks_def Let_def queueHooks_keep seed_keep)

lemma unlock_keep:
  "d_Map (unlockHistory u) = d_Map u" "same_cfg u (unlockHistory u)" "d_delQueue (unlockHistory u) = d_delQueue u"
  "d_records (unlockHistory u) = d_records u"
proof -
  have "d_Map (foldl runAllHooks v ps) = d_Map v \<and> same_cfg v (foldl runAllHooks v ps)
      \<and> d_delQueue (foldl runAllHooks v ps) = d_delQueue v \<and> d_records (foldl runAllHooks v ps) = d_records v"
    for v :: "'a daemon_scheme" and ps
    by (induction ps arbitrary: v) (simp_all add: runHooks_keep, meson runHooks_keep(2) same_trans)
  note this [of "u\<lparr>d_pendingHooks := []\<rparr>" "d_pendingHooks u"]
  then show "d_Map (unlockHistory u) = d_Map u" "same_cfg u (unlockHistory u)"
      "d_delQueue (unlockHistory u) = d_delQueue u" "d_records (unlockHistory u) = d_records u"
    by (simp_all add: unlockHistory_def same_cfg_def)
qed

lemma same_unlock [simp]: "same_cfg u (unlockHistory v) \<longleftrightarrow> same_cfg u v"
  using unlock_keep(2) [of v] by (simp add: same_cfg_def)

lemma look_unlock [simp]: "look (unlockHistory u) = look u"
  by (simp add: look_def unlock_keep fun_eq_iff)

subsection \<open>The operations keep the configuration\<close>

lemma same_notify [simp]: "same_cfg u (notifyQueueLocked E clk v) \<longleftrightarrow> same_cfg u v"
  by (simp add: same_cfg_def notifyQueueLocked_def Let_def split: option.splits)

lemma same_set [simp]: "same_cfg u (set_item n e v) \<longleftrightarrow> same_cfg u v"
  by (simp add: same_cfg_def set_item_def)

lemma same_more:
  assumes "hist.more v = hist.more (w :: 'a daemon_scheme)" shows "same_cfg u v \<longleftrightarrow> same_cfg u w"
  using assms by (cases u; cases v; cases w) (simp add: same_cfg_def)

lemma same_record [simp]: "same_cfg u (maybeRecordHistory E v i e) \<longleftrightarrow> same_cfg u v"
  by (rule same_more) (rule record_more)

lemma same_delete [simp]: "same_cfg u (deleteExtract v n) \<longleftrightarrow> same_cfg u v"
  by (auto simp: same_cfg_def deleteExtract_def dropHookMessages_def Let_def)

lemma same_fields [simp]:
  "same_cfg u (v\<lparr>d_Retries := x\<rparr>) \<longleftrightarrow> same_cfg u v" "same_cfg u (v\<lparr>d_Finished := x\<rparr>) \<longleftrightarrow> same_cfg u v"
  "same_cfg u (queueDelete r v) \<longleftrightarrow> same_cfg u v" "same_cfg u (queuePendingHook v n e) \<longleftrightarrow> same_cfg u v"
  "same_cfg u (v\<lparr>d_nextAddr := a\<rparr>) \<longleftrightarrow> same_cfg u v"
  by (simp_all add: same_cfg_def queueDelete_def queuePendingHook_def)

lemma look_fields [simp]:
  "look (v\<lparr>d_Retries := x\<rparr>) = look v" "look (v\<lparr>d_Finished := x\<rparr>) = look v" "look (queueDelete r v) = look v"
  "look (queuePendingHook v n e) = look v" "look (v\<lparr>d_nextAddr := a\<rparr>) = look v"
  by (simp_all add: look_def queueDelete_def queuePendingHook_def fun_eq_iff)

lemma delq_simps [simp]:
  "d_delQueue (set_item n e v) = d_delQueue v" "d_delQueue (deleteExtract v n) = d_delQueue v"
  "d_delQueue (queueDelete r v) = d_delQueue v @ [r]" "d_delQueue (queuePendingHook v n e) = d_delQueue v"
  by (auto simp: set_item_def deleteExtract_def dropHookMessages_def queueDelete_def queuePendingHook_def Let_def)

subsection \<open>Status updates of Starr items\<close>

definition with_status :: "status \<Rightarrow> instant \<Rightarrow> response option \<Rightarrow> extract_item \<Rightarrow> extract_item" where
  "with_status st now r e = e\<lparr>e_Resp := (case r of None \<Rightarrow> e_Resp e | Some x \<Rightarrow> Some x), e_Status := st,
     e_Updated := now, e_Note := (if st \<noteq> WAITING then '''' else e_Note e)\<rparr>"

lemma core_with_status: "core (with_status st now r e) = with_status st now r (core e)"
  by (cases r) (simp_all add: with_status_def core_def)

lemma update_starr:
  assumes "aget (d_Map u) n = Some e" "e_App e \<noteq> FolderString"
  shows "look (updateQueueStatus E clk u (status_of n st r) now h) k
      = (if k = n then Some (core (with_status st now r e)) else look u k)"
    "same_cfg v (updateQueueStatus E clk u (status_of n st r) now h) \<longleftrightarrow> same_cfg v u"
    "d_delQueue (updateQueueStatus E clk u (status_of n st r) now h) = d_delQueue u"
proof -
  let ?e = "with_status st now r e"
  have *: "updateQueueStatus E clk u (status_of n st r) now h
     = notifyQueueLocked E clk (maybeRecordHistory E (if h then queuePendingHook (set_item n ?e u) n ?e
         else set_item n ?e u) n ?e)"
    using assms by (simp add: updateQueueStatus_def status_of_def Let_def copyFolderExtractLocked_def
      with_status_def set_item_def split: option.splits)
  show "look (updateQueueStatus E clk u (status_of n st r) now h) k
      = (if k = n then Some (core ?e) else look u k)" unfolding * by simp
  show "same_cfg v (updateQueueStatus E clk u (status_of n st r) now h) \<longleftrightarrow> same_cfg v u" unfolding * by simp
  show "d_delQueue (updateQueueStatus E clk u (status_of n st r) now h) = d_delQueue u"
    unfolding * by (simp add: record_frame)
qed

end
