(* ===== verification/QueueSweeps.thy ===== *)
theory QueueSweeps
  imports Sweep
begin

text \<open>
  The two loops over the Starr queue as item sweeps: what a visit does to its item, as a function
  of the item and the configuration, and the delete requests it makes. The properties state what
  each loop does to every item at once, whatever the order of the visits.
\<close>

subsection \<open>The configuration decides the same for equal configurations\<close>

lemma same_have: "same_cfg u v \<Longrightarrow> haveQitem u n a = haveQitem v n a"
  by (simp add: same_cfg_def haveQitem_def starr_list_def)

lemma same_ready: "same_cfg u v \<Longrightarrow> queueSnapshotReady u e = queueSnapshotReady v e"
  by (simp add: same_cfg_def queueSnapshotReady_def starr_list_def)

lemma same_maxRetries: "same_cfg u v \<Longrightarrow> maxRetries u = maxRetries v"
  by (simp add: same_cfg_def maxRetries_def)

lemma ready_core [simp]: "queueSnapshotReady u (core e) = queueSnapshotReady u e"
  by (simp add: queueSnapshotReady_def)

lemma delete_imported_core [simp]: "delete_imported (core e) = delete_imported e"
  by (cases "e_Resp e") (simp_all add: delete_imported_def)

subsection \<open>checkExtractDone\<close>

text \<open>An imported item whose files may go: its delay is over and Starr was asked and does not list it.\<close>

definition deletable :: "instant \<Rightarrow> 'a daemon_scheme \<Rightarrow> string \<Rightarrow> extract_item \<Rightarrow> bool" where
  "deletable now u k e \<longleftrightarrow> e_App e \<noteq> FolderString \<and> e_Status e = IMPORTED
     \<and> time_sub now (e_Updated e) \<ge> e_DeleteDelay e \<and> queueSnapshotReady u e \<and> \<not> haveQitem u k (e_App e)"

definition done_act :: "instant \<Rightarrow> 'a daemon_scheme \<Rightarrow> string \<Rightarrow> extract_item option \<Rightarrow> extract_item option" where
  "done_act now u k x = (case x of None \<Rightarrow> None
   | Some e \<Rightarrow> let elapsed = time_sub now (e_Updated e) in
       if e_Status e = DELETED \<and> elapsed \<ge> e_DeleteDelay e then None
       else if e_App e = FolderString then Some e
       else if e_Status e = EXTRACTFAILED \<and> \<not> e_NoRetry e \<and> e_Retries e \<ge> maxRetries u
         then Some ((with_status EXTRACTFAILED now None e)\<lparr>e_NoRetry := True\<rparr>)
       else if e_Status e = EXTRACTFAILED \<and> \<not> e_NoRetry e \<and> elapsed \<ge> d_RetryDelay u
         then Some (e\<lparr>e_Retries := e_Retries e + 1, e_Status := WAITING, e_Updated := now\<rparr>)
       else if e_Status e \<in> {QUEUED, EXTRACTING, EXTRACTED} \<and> elapsed \<ge> staleItemTimeout \<or> deletable now u k e
         then Some (with_status DELETED now None e)
       else Some e)"

definition done_emit :: "instant \<Rightarrow> 'a daemon_scheme \<Rightarrow> string \<Rightarrow> extract_item option \<Rightarrow> delete_req list" where
  "done_emit now u k x = (case x of None \<Rightarrow> []
     | Some e \<Rightarrow> if deletable now u k e then (case delete_imported e of None \<Rightarrow> [] | Some r \<Rightarrow> [r]) else [])"

lemma with_own_resp: "with_status st now (e_Resp e) e = with_status st now None e"
  by (cases "e_Resp e") (simp_all add: with_status_def)

text \<open>Every branch of a visit, with what it does to the other items, the requests and the configuration.\<close>

definition visit :: "'a daemon_scheme \<Rightarrow> 'a daemon_scheme \<Rightarrow> string \<Rightarrow> extract_item option \<Rightarrow> delete_req list \<Rightarrow> bool" where
  "visit u v n x rs \<longleftrightarrow> (\<forall>k. look v k = (if k = n then x else look u k)) \<and> same_cfg u v
     \<and> d_delQueue v = d_delQueue u @ rs"

lemma visit_self: "look u n = x \<Longrightarrow> visit u u n x []"
  by (auto simp: visit_def)

lemma delq_frames [simp]:
  "d_delQueue (u\<lparr>d_Finished := x\<rparr>) = d_delQueue u" "d_delQueue (u\<lparr>d_Retries := y\<rparr>) = d_delQueue u"
  by simp_all

lemma visit_update:
  assumes "aget (d_Map u) n = Some e" "e_App e \<noteq> FolderString"
  shows "visit u (updateQueueStatus E clk u (status_of n st (e_Resp e)) now h) n
     (Some (core (with_status st now None e))) []"
  using update_starr [OF assms] by (simp add: visit_def with_own_resp)

lemma visit_trans: "visit u v n x rs \<Longrightarrow> visit v w n y ss \<Longrightarrow> visit u w n y (rs @ ss)"
  unfolding visit_def using same_trans by auto

lemma visit_set: "visit u (set_item n e u) n (Some (core e)) []"
  by (simp add: visit_def)

lemma visit_request: "look u n = x \<Longrightarrow> visit u (queueDelete r u) n x [r]"
  by (auto simp: visit_def)

lemma aget_queueDelete [simp]: "d_Map (queueDelete r u) = d_Map u" "d_Map (set_item n e u) = aput n e (d_Map u)"
  by (simp_all add: queueDelete_def set_item_def)

lemma done_visit: "visit u (check_done_item E clk now u n) n (done_act now u n (look u n)) (done_emit now u n (look u n))"
proof (cases "aget (d_Map u) n")
  case None
  then have "look u n = None" by (simp add: look_def)
  with None show ?thesis by (simp add: check_done_item_def done_act_def done_emit_def visit_self)
next
  case (Some e)
  note look = look_Some [OF Some]
  let ?t = "time_sub now (e_Updated e)"
  have imp: "visit u (let u' = (case delete_imported e of None \<Rightarrow> u | Some r \<Rightarrow> queueDelete r u)
        in updateQueueStatus E clk u' (status_of n DELETED (e_Resp e)) now h) n
      (Some (core (with_status DELETED now None e))) (case delete_imported e of None \<Rightarrow> [] | Some r \<Rightarrow> [r])"
    if "e_App e \<noteq> FolderString" for h
  proof (cases "delete_imported e")
    case None
    then show ?thesis using visit_update [OF Some that] by simp
  next
    case (Some r)
    have "aget (d_Map (queueDelete r u)) n = Some e" using \<open>aget (d_Map u) n = Some e\<close> by simp
    from visit_trans [OF visit_request [OF look] visit_update [OF this that]] show ?thesis
      using Some by simp
  qed
  show ?thesis
  proof (cases "e_Status e = DELETED \<and> ?t \<ge> e_DeleteDelay e")
    case True
    then show ?thesis using Some
      by (simp add: check_done_item_def look done_act_def done_emit_def deletable_def Let_def visit_def)
  next
    case live: False
    show ?thesis
    proof (cases "e_App e = FolderString \<or> e_Status e = EXTRACTFAILED \<and> e_NoRetry e")
      case True
      then show ?thesis using Some live
        by (auto simp: check_done_item_def look done_act_def done_emit_def deletable_def Let_def visit_self)
    next
      case starr: False
      then have app: "e_App e \<noteq> FolderString" by simp
      show ?thesis
      proof (cases "e_Status e = EXTRACTFAILED")
        case True
        then have nr: "\<not> e_NoRetry e" using starr by simp
        have up: "visit u (updateQueueStatus E clk (set_item n (e\<lparr>e_NoRetry := True\<rparr>) u)
            (status_of n EXTRACTFAILED (e_Resp e)) now h) n
            (Some (core (with_status EXTRACTFAILED now None (e\<lparr>e_NoRetry := True\<rparr>)))) []" for h
          using visit_trans [OF visit_set visit_update [of "set_item n (e\<lparr>e_NoRetry := True\<rparr>) u" n
            "e\<lparr>e_NoRetry := True\<rparr>" E clk EXTRACTFAILED now h]] app by simp
        have ws: "core (with_status EXTRACTFAILED now None (e\<lparr>e_NoRetry := True\<rparr>))
            = (with_status EXTRACTFAILED now None (core e))\<lparr>e_NoRetry := True\<rparr>"
          by (simp add: with_status_def core_def)
        show ?thesis using Some True nr app up unfolding ws
          by (auto simp: check_done_item_def look done_act_def done_emit_def deletable_def Let_def visit_def
            not_less core_update)
      next
        case False
        then show ?thesis using Some live app imp visit_update [OF Some app] visit_self [OF look]
          by (auto simp: check_done_item_def look done_act_def done_emit_def deletable_def Let_def core_with_status
            simp del: split_paired_All)
      qed
    qed
  qed
qed

lemma same_done:
  assumes "same_cfg u v"
  shows "deletable now u = deletable now v" "done_act now u = done_act now v" "done_emit now u = done_emit now v"
proof -
  have r: "d_RetryDelay u = d_RetryDelay v" using assms by (simp add: same_cfg_def)
  show d: "deletable now u = deletable now v"
    using same_have [OF assms] same_ready [OF assms] by (simp add: deletable_def fun_eq_iff)
  show "done_act now u = done_act now v" unfolding done_act_def d same_maxRetries [OF assms] r by (rule refl)
  show "done_emit now u = done_emit now v" unfolding done_emit_def d by (rule refl)
qed

interpretation done_sweep: item_sweep "check_done_item E clk now" look d_delQueue same_cfg "done_act now" "done_emit now"
  for E clk now
proof unfold_locales
  fix u v w :: "'a daemon_scheme" and k j :: string and x :: "extract_item option"
  note v = done_visit [of u E clk now k, unfolded visit_def]
  show "look (check_done_item E clk now u k) k = done_act now u k (look u k)" using v by simp
  show "j \<noteq> k \<Longrightarrow> look (check_done_item E clk now u k) j = look u j" using v by simp
  show "d_delQueue (check_done_item E clk now u k) = d_delQueue u @ done_emit now u k (look u k)" using v by simp
  show "same_cfg u (check_done_item E clk now u k)" using v by simp
  show "same_cfg u u" by simp
  show "same_cfg u v \<Longrightarrow> same_cfg v w \<Longrightarrow> same_cfg u w" by (rule same_trans)
  show "same_cfg u v \<Longrightarrow> done_act now u k x = done_act now v k x" by (simp add: same_done(2))
  show "same_cfg u v \<Longrightarrow> done_emit now u k x = done_emit now v k x" by (simp add: same_done(3))
qed

subsection \<open>checkQueueChanges\<close>

definition change_act :: "instant \<Rightarrow> 'a daemon_scheme \<Rightarrow> string \<Rightarrow> extract_item option \<Rightarrow> extract_item option" where
  "change_act now u k x = (case x of None \<Rightarrow> None
   | Some e \<Rightarrow>
       if e_App e = FolderString then Some e
       else if haveQitem u k (e_App e) then
         (if e_Status e = IMPORTED then Some (e\<lparr>e_Status := EXTRACTED\<rparr>)
          else if e_Status e > IMPORTED then Some (e\<lparr>e_Status := WAITING, e_Updated := now\<rparr>)
          else Some e)
       else if \<not> queueSnapshotReady u e then Some e
       else if e_Status e = WAITING then None
       else if e_Status e \<ge> IMPORTED then Some e
       else Some (with_status IMPORTED now None e))"

lemma change_visit: "visit u (check_queue_item E clk now u n) n (change_act now u n (look u n)) []"
proof (cases "aget (d_Map u) n")
  case None
  then have "look u n = None" by (simp add: look_def)
  with None show ?thesis by (simp add: check_queue_item_def change_act_def visit_self)
next
  case (Some e)
  note look = look_Some [OF Some]
  show ?thesis
  proof (cases "e_App e = FolderString")
    case True
    then show ?thesis using Some by (simp add: check_queue_item_def look change_act_def visit_self)
  next
    case False
    show ?thesis using Some False visit_update [OF Some False] visit_self [OF look] visit_set [of u n]
      by (auto simp: check_queue_item_def look change_act_def core_with_status visit_def core_update
        not_le le_less)
  qed
qed

lemma same_change:
  assumes "same_cfg u v" shows "change_act now u = change_act now v"
  unfolding change_act_def using same_have [OF assms] same_ready [OF assms]
  by (simp add: fun_eq_iff split: option.splits)

interpretation change_sweep: item_sweep "check_queue_item E clk now" look d_delQueue same_cfg "change_act now"
    "\<lambda>u k x. []"
  for E clk now
proof unfold_locales
  fix u v w :: "'a daemon_scheme" and k j :: string and x :: "extract_item option"
  note v = change_visit [of u E clk now k, unfolded visit_def]
  show "look (check_queue_item E clk now u k) k = change_act now u k (look u k)" using v by simp
  show "j \<noteq> k \<Longrightarrow> look (check_queue_item E clk now u k) j = look u j" using v by simp
  show "d_delQueue (check_queue_item E clk now u k) = d_delQueue u @ []" using v by simp
  show "same_cfg u (check_queue_item E clk now u k)" using v by simp
  show "same_cfg u u" by simp
  show "same_cfg u v \<Longrightarrow> same_cfg v w \<Longrightarrow> same_cfg u w" by (rule same_trans)
  show "same_cfg u v \<Longrightarrow> change_act now u k x = change_act now v k x" by (simp add: same_change)
  show "same_cfg u v \<Longrightarrow> ([] :: delete_req list) = []" by simp
qed

subsection \<open>The loops\<close>

lemma act_None [simp]: "done_act now u k None = None" "done_emit now u k None = []" "change_act now u k None = None"
  by (simp_all add: done_act_def done_emit_def change_act_def)

lemma aget_akeys: "aget m k \<noteq> None \<longleftrightarrow> k \<in> set (akeys m)"
  by (induction m) (auto simp: akeys_def)

lemma look_akeys: "k \<notin> set (akeys (d_Map u)) \<Longrightarrow> look u k = None"
  using aget_akeys [of "d_Map u" k] by (simp add: look_def)

text \<open>
  C9. One pass of \<open>checkExtractDone\<close> does to every item, at once and whatever the order in which Go
  visits the map, what its own state says: a deleted item leaves after its delay, a failed one
  is restarted or given up, a stale one and an imported one become deleted; and the delete
  requests it makes are exactly those of the imported items that may go.
\<close>

theorem done_pass_pointwise:
  assumes "distinct (akeys (d_Map u))"
  shows "look (checkExtractDone E clk now u) k = done_act now u k (look u k)
    \<and> d_delQueue (checkExtractDone E clk now u)
       = d_delQueue u @ concat (map (\<lambda>k. done_emit now u k (look u k)) (akeys (d_Map u)))"
  using done_sweep.look_sweep [OF assms, where s = u and E = E and clk = clk and now = now and k = k] done_sweep.out_sweep [OF assms, where s = u and E = E and clk = clk and now = now]
  by (auto simp: checkExtractDone_def unlock_keep look_akeys)

text \<open>
  C10. The same for \<open>checkQueueChanges\<close>: every item follows its own state and whether Starr lists it,
  and the pass asks for no file to be deleted.
\<close>

theorem change_pass_pointwise:
  assumes "distinct (akeys (d_Map u))"
  shows "look (checkQueueChanges E clk now u) k = change_act now u k (look u k)
    \<and> d_delQueue (checkQueueChanges E clk now u) = d_delQueue u"
  using change_sweep.look_sweep [OF assms, where s = u and E = E and clk = clk and now = now and k = k] change_sweep.out_sweep [OF assms, where s = u and E = E and clk = clk and now = now]
  by (auto simp: checkQueueChanges_def unlock_keep look_akeys)

end
