(* ===== verification/QueueLoop.thy ===== *)
theory QueueLoop
  imports QueueSweeps
begin

text \<open>
  The main loop as far as it works on Starr downloads: one operation per branch of the \<open>select\<close> in
  \<open>Run\<close> (\<open>pkg/unpackerr/start.go\<close>) that touches them, and \<open>Disk\<close>, the file system changing under the
  daemon. Every operation moves every download by one step of \<open>Lifecycle\<close>.
\<close>

datatype queue_op =
    Poll instant instant "string \<Rightarrow> string \<Rightarrow> string + queue_view list \<times> int \<times> int"
  | Changes instant instant
  | Downloads instant instant
  | DonePass instant instant
  | Callback instant response
  | ProgressMsg instant extract_item xprogress
  | HookFails instant
  | HookMsgs
  | RetryID instant string
  | ForgetID instant string
  | Disk fsys

fun queue_step :: "env \<Rightarrow> xlib \<Rightarrow> 'a daemon_scheme \<times> fsys \<Rightarrow> queue_op \<Rightarrow> 'a daemon_scheme \<times> fsys" where
  "queue_step E X (u, F) (Poll clk now resp) = (retrieveAppQueues E F clk now resp u, F)"
| "queue_step E X (u, F) (Changes clk now) = (checkQueueChanges E clk now u, F)"
| "queue_step E X (u, F) (Downloads clk now) = (fst (extractCompletedDownloads E X F clk now u), F)"
| "queue_step E X (u, F) (DonePass clk now) = (checkExtractDone E clk now u, F)"
| "queue_step E X (u, F) (Callback clk resp) = (case handleXtractrCallback E F clk u resp of (u, F, i) \<Rightarrow> (u, F))"
| "queue_step E X (u, F) (ProgressMsg clk e p) = (handleProgress E clk u e p, F)"
| "queue_step E X (u, F) (HookFails clk) = (drainHookFails E clk u, F)"
| "queue_step E X (u, F) HookMsgs = (drainHookMessages E u, F)"
| "queue_step E X (u, F) (RetryID clk i) = (snd (retryQueueID E clk u i), F)"
| "queue_step E X (u, F) (ForgetID clk i) = (snd (forgetQueueID E clk u i), F)"
| "queue_step E X (u, F) (Disk G) = (u, G)"

lemma foldl_inv:
  assumes "\<And>s x. x \<in> set xs \<Longrightarrow> R s (f s x)" "\<And>s. R s s" "\<And>s t v. R s t \<Longrightarrow> R t v \<Longrightarrow> R s v"
  shows "R s (foldl f s xs)"
  using assms(1)
proof (induction xs arbitrary: s)
  case (Cons x xs)
  have "R s (f s x)" using Cons.prems by simp
  moreover have "R (f s x) (foldl f (f s x) xs)" using Cons by simp
  ultimately show ?case using assms(3) by simp
qed (simp add: assms(2))

lemma run_downloads_fst:
  "fst (run_downloads E X F clk now u ns) = foldl (\<lambda>u n. fst (extractCompletedDownload E X F clk now u n)) u ns"
  by (induction ns arbitrary: u) (simp_all add: case_prod_beta)

subsection \<open>Relations every operation of the loop keeps\<close>

text \<open>
  A relation between two states of the daemon that is reflexive and transitive and that the small
  updates keep is kept by every operation of the loop; \<open>more\<close> covers whatever changes the history only.
\<close>

locale loop_relation =
  fixes R :: "'a daemon_scheme \<Rightarrow> 'a daemon_scheme \<Rightarrow> bool"
  assumes refl: "R u u"
    and trans: "R u v \<Longrightarrow> R v w \<Longrightarrow> R u w"
    and more: "hist.more v = hist.more u \<Longrightarrow> R u v"
    and ops: "R u (set_item n e u)" "R u (deleteExtract u n)" "R u (notifyQueueLocked E clk u)"
      "R u (unlockHistory u)" "R u (notifyItem E clk n e u)" "R u (queuePendingHook u n e)"
      "R u (queueDelete r u)" "R u (forget_folder n u)"
    and fields: "R u (u\<lparr>d_Retries := x\<rparr>)" "R u (u\<lparr>d_Finished := x\<rparr>)" "R u (u\<lparr>d_nextAddr := a\<rparr>)"
      "R u (u\<lparr>d_forgotten := xs\<rparr>)" "R u (u\<lparr>d_hookFails := xs\<rparr>)" "R u (u\<lparr>d_hookMsgSaves := ss\<rparr>)"
    and polled: "R u (u\<lparr>d_Lidarr := l, d_Radarr := rd, d_Readarr := re, d_Sonarr := so\<rparr>)"
    and recovery: "R u (recoveryTrackFolder E n c st now u)"
    and restarted: "aget (d_Tracked u) n = Some f \<Longrightarrow>
      R u (track_folder n (f\<lparr>fo_Status := WAITING, fo_NoRetry := False, fo_Retries := 0, fo_Updated := now\<rparr>) u)"
begin

lemma from_ops:
  "R u (maybeRecordHistory E u n e)" "R u (markHistoryForgotten u n)" "R u (bumpHistoryHookFail u n)"
  "R u (bumpHistoryHookMessage u n k m)" "R u (sweepForgotten u)"
proof -
  show "R u (maybeRecordHistory E u n e)" by (rule more [OF record_more])
  show "R u (markHistoryForgotten u n)" by (rule more [OF forget_more])
  show "R u (bumpHistoryHookFail u n)" "R u (bumpHistoryHookMessage u n k m)"
    by (auto simp: bumpHistoryHookFail_def bumpHistoryHookMessage_def Let_def refl more [OF upsert_more] split: option.splits)
  show "R u (sweepForgotten u)"
    by (auto simp: sweepForgotten_def intro: ops(4) fields(4) trans)
qed

lemma retry_folder: "R u (snd (retryFolderLocked E clk n e u))"
  by (auto simp: retryFolderLocked_def Let_def refl restarted split: option.splits
      intro!: ops(1,3) [THEN trans [rotated]] from_ops(1) [THEN trans [rotated]] recovery [THEN trans [rotated]])

lemma fold: "(\<And>s x. R s (f s x)) \<Longrightarrow> R s (foldl f s xs)"
  by (rule foldl_inv [where R = R]) (auto intro: refl trans)

lemmas then_ops = refl ops [THEN trans [rotated]] from_ops [THEN trans [rotated]] fields [THEN trans [rotated]]

lemma update: "R u v \<Longrightarrow> R u (updateQueueStatus E clk v d now h)"
proof -
  have "R v (updateQueueStatus E clk v d now h)"
    by (auto simp: updateQueueStatus_def Let_def set_item_def [symmetric] split: option.splits intro!: then_ops)
  then show "R u v \<Longrightarrow> R u (updateQueueStatus E clk v d now h)" using trans by blast
qed

lemma handlers:
  "R u (check_queue_item E clk now u n)" "R u (check_done_item E clk now u n)"
  "R u (fst (extractCompletedDownload E X F clk now u n))" "R u (recordHookFail E clk u n)"
  "R u (saveHookMessage E u s)" "R u (handleProgress E clk u exp p)" "R u (starr_outcome E clk now u r st)"
  "R u (fst (check_record F now app cfg (u, c) rec))"
  by (auto simp: check_queue_item_def check_done_item_def extractCompletedDownload_def setItemNote_def
      markItemQueued_def recordHookFail_def saveHookMessage_def handleProgress_def starr_outcome_def
      check_record_def Let_def split: option.splits sum.splits intro!: then_ops update)

lemma callback: "R u (fst (handleXtractrCallback E F clk u resp))"
  by (auto simp: handleXtractrCallback_def Let_def split: option.splits prod.splits
      intro!: then_ops update handlers(7) [THEN trans [rotated]])

lemma check: "R u (checkStarrQueue E F clk now app u)"
proof -
  have r: "R (fst s) (fst (check_record F now app cfg s rec))" for s :: "'a daemon_scheme \<times> bool" and cfg rec
    using handlers(8) [of "fst s" F now app cfg "snd s" rec] by simp
  have t: "R (fst s) (fst v)" if "R (fst s) (fst t)" "R (fst t) (fst v)"
    for s t v :: "'a daemon_scheme \<times> bool" using that by (rule trans)
  note pair_fold = foldl_inv [where R = "\<lambda>s t. R (fst s) (fst t)", OF _ _ t]
  have inner: "R (fst s) (fst (foldl (check_record F now app cfg) s vs))"
    for s :: "'a daemon_scheme \<times> bool" and cfg vs
    by (rule pair_fold) (simp_all add: r refl)
  have "R (fst s) (fst (foldl (\<lambda>s cfg. foldl (check_record F now app cfg) s (queueViews cfg)) s cs))"
    for s :: "'a daemon_scheme \<times> bool" and cs
    by (rule pair_fold) (simp_all add: inner refl)
  note all = this [of "(u, False)" "instanceValues (starr_list u app)"]
  obtain v c where vc: "foldl (\<lambda>s cfg. foldl (check_record F now app cfg) s (queueViews cfg)) (u, False)
      (instanceValues (starr_list u app)) = (v, c)" by (rule prod.exhaust)
  then have "R u v" using all by simp
  then show ?thesis unfolding checkStarrQueue_def by (simp add: vc then_ops)
qed

lemma step: "R u (fst (queue_step E X (u, F) p))"
proof (cases p)
  case (Poll clk now resp)
  let ?v = "u\<lparr>d_Lidarr := poll_all (resp Lidarr) clk (d_Lidarr u), d_Radarr := poll_all (resp Radarr) clk (d_Radarr u),
     d_Readarr := poll_all (resp Readarr) clk (d_Readarr u), d_Sonarr := poll_all (resp Sonarr) clk (d_Sonarr u)\<rparr>"
  have "R ?v (sweepForgotten (foldl (\<lambda>u app. checkStarrQueue E F clk now app u) ?v [Lidarr, Radarr, Readarr, Sonarr]))"
    by (rule trans [OF fold from_ops(5)]) (rule check)
  then show ?thesis using trans [OF polled] by (simp add: Poll retrieveAppQueues_def Let_def)
next
  case (Downloads clk now)
  have "R v (fst (run_downloads E X F clk now v ns))" for v :: "'a daemon_scheme" and ns
    unfolding run_downloads_fst by (rule fold) (rule handlers)
  then show ?thesis by (auto simp: Downloads extractCompletedDownloads_def intro: trans [OF ops(4)])
next
  case (Callback clk resp)
  then show ?thesis using callback [of u E F clk resp]
    by (cases "handleXtractrCallback E F clk u resp") simp
next
  case (RetryID clk i)
  then show ?thesis
    by (auto simp: RetryID retryQueueID_def Let_def split: option.splits intro!: then_ops retry_folder)
next
  case (ForgetID clk i)
  then show ?thesis
    by (auto simp: forgetQueueID_def Let_def split: option.splits intro!: then_ops)
qed (auto simp: checkQueueChanges_def checkExtractDone_def drainHookFails_def drainHookMessages_def
  intro!: then_ops handlers fold [THEN trans [rotated]])

lemma steps:
  fixes s :: "'a daemon_scheme \<times> fsys"
  shows "R (fst s) (fst (queue_step E X s p))"
  using step [of "fst s" E X "snd s" p] by simp

lemma run:
  fixes s :: "'a daemon_scheme \<times> fsys"
  shows "R (fst s) (fst (foldl (queue_step E X) s ps))"
  by (rule foldl_inv [where R = "\<lambda>s t. R (fst s) (fst t)"]) (auto intro: steps refl trans)

end

end
