(* ===== verification/Lifecycle.thy ===== *)
theory Lifecycle
  imports Status
begin

text \<open>
  The life of a Starr download as the daemon promises it, without queues, clocks, files and hooks:
  which status may follow which, who may cause it, and what happens to the retry count. The
  refinement theorem of \<open>QueueRefines\<close> shows that every handler of the main loop moves every
  download by one of these steps. The properties of whole runs are proved here, on the steps.
\<close>

record life =
  lf_Status :: status
  lf_Retries :: "64 word"
  lf_NoRetry :: bool

text \<open>Who causes a step: the timers, a callback of the archive library, or the user.\<close>

datatype cause = Timer | Library | User

text \<open>\<open>m\<close> is the number of retries allowed; \<open>listed\<close> says that Starr lists the download.\<close>

inductive life_step :: "64 word \<Rightarrow> cause \<Rightarrow> bool \<Rightarrow> life option \<Rightarrow> life option \<Rightarrow> bool" for m where
  stay: "life_step m c l x x"
| found: "life_step m Timer l None (Some \<lparr>lf_Status = WAITING, lf_Retries = 0, lf_NoRetry = False\<rparr>)"
| left_queue: "lf_Status x = WAITING \<Longrightarrow> life_step m Timer False (Some x) None"
| start: "lf_Status x = WAITING \<Longrightarrow> life_step m Timer l (Some x) (Some (x\<lparr>lf_Status := QUEUED\<rparr>))"
| extracting: "life_step m Library l (Some x) (Some (x\<lparr>lf_Status := EXTRACTING\<rparr>))"
| extracted: "life_step m Library l (Some x) (Some (x\<lparr>lf_Status := EXTRACTED\<rparr>))"
| failed: "(lf_NoRetry x \<longrightarrow> b) \<Longrightarrow> life_step m Library l (Some x) (Some (x\<lparr>lf_Status := EXTRACTFAILED, lf_NoRetry := b\<rparr>))"
| again: "lf_Retries x < m \<Longrightarrow>
    life_step m Library l (Some x) (Some (x\<lparr>lf_Status := WAITING, lf_Retries := lf_Retries x + 1\<rparr>))"
| retry: "lf_Status x = EXTRACTFAILED \<Longrightarrow> \<not> lf_NoRetry x \<Longrightarrow> lf_Retries x < m \<Longrightarrow>
    life_step m Timer l (Some x) (Some (x\<lparr>lf_Status := WAITING, lf_Retries := lf_Retries x + 1\<rparr>))"
| give_up: "lf_Status x = EXTRACTFAILED \<Longrightarrow> m \<le> lf_Retries x \<Longrightarrow>
    life_step m Timer l (Some x) (Some (x\<lparr>lf_NoRetry := True\<rparr>))"
| imported: "WAITING < lf_Status x \<Longrightarrow> lf_Status x < IMPORTED \<Longrightarrow>
    life_step m Timer False (Some x) (Some (x\<lparr>lf_Status := IMPORTED\<rparr>))"
| returned: "lf_Status x = IMPORTED \<Longrightarrow> life_step m Timer True (Some x) (Some (x\<lparr>lf_Status := EXTRACTED\<rparr>))"
| restarted: "IMPORTED < lf_Status x \<Longrightarrow> life_step m Timer True (Some x) (Some (x\<lparr>lf_Status := WAITING\<rparr>))"
| stale: "lf_Status x \<in> {QUEUED, EXTRACTING, EXTRACTED} \<Longrightarrow>
    life_step m Timer l (Some x) (Some (x\<lparr>lf_Status := DELETED\<rparr>))"
| deleted: "lf_Status x = IMPORTED \<Longrightarrow> life_step m Timer False (Some x) (Some (x\<lparr>lf_Status := DELETED\<rparr>))"
| finished: "lf_Status x = DELETED \<Longrightarrow> life_step m Timer l (Some x) None"
| user_retry: "lf_Status x = EXTRACTFAILED \<Longrightarrow>
    life_step m User l (Some x) (Some (x\<lparr>lf_Status := WAITING, lf_Retries := lf_Retries x + 1, lf_NoRetry := False\<rparr>))"
| user_forget: "lf_Status x \<in> {EXTRACTFAILED, EXTRACTEDNOTHING, IMPORTED, DELETED, DELETEFAILED} \<Longrightarrow>
    life_step m User l (Some x) None"

inductive_cases life_stepE: "life_step m c l x y"
inductive_simps life_step_None: "life_step m c l None y"

subsection \<open>Whole lives\<close>

text \<open>A run of steps, each with its cause and whether the download was listed at the time.\<close>

inductive life_run :: "64 word \<Rightarrow> (cause \<times> bool) list \<Rightarrow> life option \<Rightarrow> life option \<Rightarrow> bool" for m where
  run_nil: "life_run m [] x x"
| run_cons: "life_step m c l x y \<Longrightarrow> life_run m cs y z \<Longrightarrow> life_run m ((c, l) # cs) x z"

definition bounded :: "64 word \<Rightarrow> life option \<Rightarrow> bool" where
  "bounded m x \<longleftrightarrow> (\<forall>y. x = Some y \<longrightarrow> lf_Retries y \<le> m)"

lemma less_plus_one: "(a :: 64 word) < m \<Longrightarrow> a + 1 \<le> m"
  by (simp add: inc_le)

lemma step_bounded:
  assumes "life_step m c l x y" "c \<noteq> User" "bounded m x" shows "bounded m y"
  using assms by (cases rule: life_step.cases) (auto simp: bounded_def less_plus_one)

lemma run_bounded:
  "life_run m cs x y \<Longrightarrow> User \<notin> fst ` set cs \<Longrightarrow> bounded m x \<Longrightarrow> bounded m y"
  by (induction rule: life_run.induct) (auto dest: step_bounded)

text \<open>A download that was given up.\<close>

definition given_up :: "life option \<Rightarrow> bool" where
  "given_up x \<longleftrightarrow> (\<exists>y. x = Some y \<and> lf_Status y = EXTRACTFAILED \<and> lf_NoRetry y)"

lemma step_given_up:
  assumes "life_step m Timer True x y" "given_up x" shows "given_up y"
  using assms by (cases rule: life_step.cases) (auto simp: given_up_def less_status_def)

lemma run_given_up:
  "life_run m cs x y \<Longrightarrow> set cs \<subseteq> {(Timer, True)} \<Longrightarrow> given_up x \<Longrightarrow> given_up y"
  by (induction rule: life_run.induct) (auto dest: step_given_up)

end
