(* ===== verification/QueueRefines.thy ===== *)
theory QueueRefines
  imports QueueLoop Lifecycle
begin

text \<open>
  Every operation of the main loop moves every Starr download by one step of \<open>Lifecycle\<close>.
\<close>

fun op_cause :: "string \<Rightarrow> queue_op \<Rightarrow> cause" where
  "op_cause k (Callback clk resp) = (if rs_Name resp = k then Library else Timer)"
| "op_cause k (RetryID clk i) = (if i = k then User else Timer)"
| "op_cause k (ForgetID clk i) = (if i = k then User else Timer)"
| "op_cause k p = Timer"

subsection \<open>The life of an item\<close>

definition life_of :: "extract_item \<Rightarrow> life" where
  "life_of e = \<lparr>lf_Status = e_Status e, lf_Retries = e_Retries e, lf_NoRetry = e_NoRetry e\<rparr>"

definition starr_life :: "extract_item option \<Rightarrow> life option" where
  "starr_life x = (case x of None \<Rightarrow> None | Some e \<Rightarrow> if e_App e = FolderString then None else Some (life_of e))"

definition listed :: "'a daemon_scheme \<Rightarrow> string \<Rightarrow> extract_item option \<Rightarrow> bool" where
  "listed u k x = (case x of None \<Rightarrow> False | Some e \<Rightarrow> haveQitem u k (e_App e))"

definition lives :: "'a daemon_scheme \<Rightarrow> string \<Rightarrow> life option" where
  "lives u k = starr_life (look u k)"

lemma starr_life_simps [simp]:
  "starr_life None = None" "e_App e = FolderString \<Longrightarrow> starr_life (Some e) = None"
  "e_App e \<noteq> FolderString \<Longrightarrow> starr_life (Some e) = Some (life_of e)"
  by (simp_all add: starr_life_def)

lemma life_core [simp]: "life_of (core e) = life_of e" "starr_life (Some (core e)) = starr_life (Some e)"
  by (simp_all add: life_of_def starr_life_def)

lemma life_with_status [simp]: "life_of (with_status st now r e) = (life_of e)\<lparr>lf_Status := st\<rparr>"
  "e_App (with_status st now r e) = e_App e"
  by (simp_all add: life_of_def with_status_def)

lemma life_sel [simp]: "lf_Status (life_of e) = e_Status e" "lf_Retries (life_of e) = e_Retries e"
  "lf_NoRetry (life_of e) = e_NoRetry e"
  by (simp_all add: life_of_def)

text \<open>The steps, on the life of an item.\<close>

lemmas item_steps =
  found [of m l] left_queue [of "life_of e" m] start [of "life_of e" m l]
  retry [of "life_of e" m l] give_up [of "life_of e" m l] imported [of "life_of e" m]
  returned [of "life_of e" m] restarted [of "life_of e" m] stale [of "life_of e" m l]
  deleted [of "life_of e" m] finished [of "life_of e" m l] for m l e

lemmas item_step_intros = item_steps [unfolded life_sel]

subsection \<open>The sweeps\<close>

lemma done_life:
  "life_step (maxRetries u) Timer (listed u k x) (starr_life x) (starr_life (done_act now u k x))"
proof (cases x)
  case None
  then show ?thesis by (simp add: stay)
next
  case (Some e)
  show ?thesis
  proof (cases "e_App e = FolderString")
    case True
    then show ?thesis using Some by (auto simp: done_act_def Let_def stay deletable_def)
  next
    case app: False
    have gu: "life_of ((with_status EXTRACTFAILED now None e)\<lparr>e_NoRetry := True\<rparr>)
        = (life_of e)\<lparr>lf_NoRetry := True\<rparr>" if "e_Status e = EXTRACTFAILED"
      using that by (simp add: life_of_def with_status_def)
    have rt: "starr_life (Some (e\<lparr>e_Retries := r, e_Status := WAITING, e_Updated := now\<rparr>))
        = Some ((life_of e)\<lparr>lf_Status := WAITING, lf_Retries := r\<rparr>)" for r
      using app by (simp add: starr_life_def life_of_def)
    have ls: "listed u k (Some e) = haveQitem u k (e_App e)" by (simp add: listed_def)
    show ?thesis unfolding Some done_act_def Let_def option.case
      by (auto simp: app gu rt ls not_le deletable_def intro: stay item_step_intros)
  qed
qed

lemma change_life:
  "life_step m Timer (listed u k x) (starr_life x) (starr_life (change_act now u k x))"
proof (cases x)
  case None
  then show ?thesis by (simp add: stay)
next
  case (Some e)
  show ?thesis
  proof (cases "e_App e = FolderString")
    case True
    then show ?thesis using Some by (simp add: change_act_def stay)
  next
    case app: False
    have st: "starr_life (Some (e\<lparr>e_Status := s\<rparr>)) = Some ((life_of e)\<lparr>lf_Status := s\<rparr>)"
      "starr_life (Some (e\<lparr>e_Status := s, e_Updated := now\<rparr>)) = Some ((life_of e)\<lparr>lf_Status := s\<rparr>)" for s
      using app by (simp_all add: starr_life_def life_of_def)
    have ls: "listed u k (Some e) = haveQitem u k (e_App e)" by (simp add: listed_def)
    have wait: "WAITING < e_Status e" if "e_Status e \<noteq> WAITING"
      using that by (cases "e_Status e") (simp_all add: less_status_def)
    show ?thesis unfolding Some change_act_def option.case
      using wait by (auto simp: app st ls not_le intro: stay item_step_intros)
  qed
qed

subsection \<open>Starting downloads\<close>

definition download_act :: "env \<Rightarrow> xlib \<Rightarrow> fsys \<Rightarrow> instant \<Rightarrow> 'a daemon_scheme \<Rightarrow> string
    \<Rightarrow> extract_item option \<Rightarrow> extract_item option" where
  "download_act E X F now u k x = (case x of None \<Rightarrow> None
   | Some e \<Rightarrow>
       if dur_minus (d_StartDelay u) (time_sub now (e_Updated e)) > nsecond then Some e
       else if findCompressed X F (e_Path e) [] False = [] then Some (e\<lparr>e_Note := noteNoExtractable\<rparr>)
       else if e_Syncthing e \<and> hasSyncThingFile X F (e_Path e) \<noteq> '''' then Some (e\<lparr>e_Note := noteWaitingSyncthing\<rparr>)
       else Some ((case keepDirSnapshot F (e_PreFiles e) (archiveSnapshotPaths E (e_Path e)
           (findCompressed X F (e_Path e) [] False)) of Inl err \<Rightarrow> e | Inr m \<Rightarrow> e\<lparr>e_PreFiles := Some m\<rparr>)
         \<lparr>e_Status := QUEUED, e_Updated := now, e_Note := ''''\<rparr>))"

definition download_request :: "xlib \<Rightarrow> fsys \<Rightarrow> instant \<Rightarrow> 'a daemon_scheme \<Rightarrow> extract_item \<Rightarrow> bool" where
  "download_request X F now u e \<longleftrightarrow> dur_minus (d_StartDelay u) (time_sub now (e_Updated e)) \<le> nsecond
     \<and> findCompressed X F (e_Path e) [] False \<noteq> []
     \<and> \<not> (e_Syncthing e \<and> hasSyncThingFile X F (e_Path e) \<noteq> '''')"

lemma core_simps2 [simp]: "e_Syncthing (core e) = e_Syncthing e" "e_PreFiles (core e) = e_PreFiles e"
  by (simp_all add: core_def)

lemma same_notifyItem [simp]: "same_cfg u (notifyItem E clk n e v) \<longleftrightarrow> same_cfg u v"
  "look (notifyItem E clk n e v) = look v" "d_delQueue (notifyItem E clk n e v) = d_delQueue v"
  by (simp_all add: notifyItem_def notify_hub_def same_cfg_def look_def fun_eq_iff)

lemma visit_unlock [simp]: "visit u (unlockHistory v) n x rs \<longleftrightarrow> visit u v n x rs"
  by (simp add: visit_def unlock_keep)

lemma visit_note:
  assumes "aget (d_Map u) n = Some e"
  shows "visit u (setItemNote E clk u n e note) n (Some ((core e)\<lparr>e_Note := note\<rparr>)) []"
proof (cases "e_Note e = note")
  case True
  then have "(core e)\<lparr>e_Note := note\<rparr> = core e" by (simp add: core_def)
  with True look_Some [OF assms] show ?thesis by (simp add: setItemNote_def visit_self)
next
  case False
  then show ?thesis by (simp add: setItemNote_def visit_def core_update Let_def unlock_keep)
qed

lemma visit_queued:
  "visit u (markItemQueued E clk u n e snap now) n (Some (core ((case snap of Inl err \<Rightarrow> e
     | Inr m \<Rightarrow> e\<lparr>e_PreFiles := Some m\<rparr>)\<lparr>e_Status := QUEUED, e_Updated := now, e_Note := ''''\<rparr>))) []"
  by (simp add: markItemQueued_def Let_def visit_def record_frame unlock_keep)

lemma download_visit:
  "visit u (fst (extractCompletedDownload E X F clk now u n)) n (download_act E X F now u n (look u n)) []"
proof (cases "aget (d_Map u) n")
  case None
  then have "look u n = None" by (simp add: look_def)
  with None show ?thesis by (simp add: extractCompletedDownload_def download_act_def visit_self)
next
  case (Some e)
  note look = look_Some [OF Some]
  let ?snap = "keepDirSnapshot F (e_PreFiles e) (archiveSnapshotPaths E (e_Path e) (findCompressed X F (e_Path e) [] False))"
  have q: "core ((case ?snap of Inl err \<Rightarrow> e | Inr m \<Rightarrow> e\<lparr>e_PreFiles := Some m\<rparr>)
      \<lparr>e_Status := QUEUED, e_Updated := now, e_Note := ''''\<rparr>)
    = (case ?snap of Inl err \<Rightarrow> core e | Inr m \<Rightarrow> (core e)\<lparr>e_PreFiles := Some m\<rparr>)
      \<lparr>e_Status := QUEUED, e_Updated := now, e_Note := ''''\<rparr>"
    by (cases ?snap) (simp_all add: core_def)
  show ?thesis using visit_self [OF look] visit_note [OF Some, of E clk]
      visit_queued [of u E clk n e ?snap now, unfolded q]
    by (auto simp: extractCompletedDownload_def Some look download_act_def Let_def)
qed

interpretation download_sweep: item_sweep "\<lambda>u n. fst (extractCompletedDownload E X F clk now u n)" look d_delQueue
    same_cfg "download_act E X F now" "\<lambda>u k x. []"
  for E X F clk now
proof unfold_locales
  fix u v w :: "'a daemon_scheme" and k j :: string and x :: "extract_item option"
  note v = download_visit [of u E X F clk now k, unfolded visit_def]
  let ?v = "fst (extractCompletedDownload E X F clk now u k)"
  show "look ?v k = download_act E X F now u k (look u k)" using v by simp
  show "j \<noteq> k \<Longrightarrow> look ?v j = look u j" using v by simp
  show "d_delQueue ?v = d_delQueue u @ []" using v by simp
  show "same_cfg u ?v" using v by simp
  show "same_cfg u u" by simp
  show "same_cfg u v \<Longrightarrow> same_cfg v w \<Longrightarrow> same_cfg u w" by (rule same_trans)
  show "download_act E X F now u k x = download_act E X F now v k x" if "same_cfg u v"
  proof -
    have "d_StartDelay u = d_StartDelay v" using that by (simp add: same_cfg_def)
    then show ?thesis unfolding download_act_def by (rule arg_cong)
  qed
  show "same_cfg u v \<Longrightarrow> ([] :: delete_req list) = []" by simp
qed

lemma jobs_distinct: "distinct (akeys (d_Map u)) \<Longrightarrow> distinct (download_jobs u)"
  by (simp add: download_jobs_def akeys_def distinct_map_filter)

subsection \<open>The callback of the archive library\<close>

lemma update_any:
  assumes "aget (d_Map u) n = Some e"
  shows "look (updateQueueStatus E clk u (status_of n st r) now h) k
      = (if k = n then Some (core (copyFolderExtractLocked u n (with_status st now r e))) else look u k)"
    "same_cfg v (updateQueueStatus E clk u (status_of n st r) now h) \<longleftrightarrow> same_cfg v u"
proof -
  let ?e = "copyFolderExtractLocked u n (with_status st now r e)"
  have *: "updateQueueStatus E clk u (status_of n st r) now h
     = notifyQueueLocked E clk (maybeRecordHistory E (if h then queuePendingHook (set_item n ?e u) n ?e
         else set_item n ?e u) n ?e)"
    using assms by (simp add: updateQueueStatus_def status_of_def Let_def with_status_def set_item_def split: option.splits)
  show "look (updateQueueStatus E clk u (status_of n st r) now h) k
      = (if k = n then Some (core ?e) else look u k)" unfolding * by simp
  show "same_cfg v (updateQueueStatus E clk u (status_of n st r) now h) \<longleftrightarrow> same_cfg v u" unfolding * by simp
qed

lemma starr_life_update:
  "starr_life (Some (copyFolderExtractLocked u n (with_status st now r e)))
    = map_option (\<lambda>x. x\<lparr>lf_Status := st\<rparr>) (starr_life (Some e))"
proof (cases "e_App e = FolderString")
  case False
  then have "copyFolderExtractLocked u n (with_status st now r e) = with_status st now r e"
    by (simp add: copyFolderExtractLocked_def)
  with False show ?thesis by simp
qed simp

lemma lives_update:
  assumes "aget (d_Map u) n = Some e"
  shows "lives (updateQueueStatus E clk u (status_of n st r) now h) k
    = (if k = n then map_option (\<lambda>x. x\<lparr>lf_Status := st\<rparr>) (starr_life (Some e)) else lives u k)"
  by (simp add: lives_def update_any(1) [OF assms] starr_life_update)

lemma lives_set [simp]: "lives (set_item n e u) k = (if k = n then starr_life (Some e) else lives u k)"
  by (simp add: lives_def)

lemma lives_frames [simp]:
  "lives (notifyQueueLocked E clk u) = lives u" "lives (unlockHistory u) = lives u"
  "lives (maybeRecordHistory E u i e) = lives u" "lives (u\<lparr>d_Retries := x\<rparr>) = lives u"
  "lives (u\<lparr>d_Finished := y\<rparr>) = lives u" "lives (notifyItem E clk i e u) = lives u"
  by (simp_all add: lives_def fun_eq_iff)

lemma lives_delete [simp]: "lives (deleteExtract u n) k = (if k = n then None else lives u k)"
  by (simp add: lives_def)

lemma remnants_waiting: "fst (handleRemnants u F resp snap r) = Some WAITING \<Longrightarrow> r < maxRetries u"
  by (auto simp: handleRemnants_def Let_def not_le split: option.splits if_splits prod.splits)

lemma life_step_map:
  assumes "\<And>x. life_step m Library l (Some x) (Some (f x))"
  shows "life_step m Library l (starr_life y) (map_option f (starr_life y))"
  using assms by (cases "starr_life y") (auto intro: stay)

lemma outcome_lives:
  assumes e: "aget (d_Map u) (rs_Name resp) = Some e" and r: "remnant = Some WAITING \<Longrightarrow> e_Retries e < m"
  shows "lives (starr_outcome E clk now u resp remnant) k = lives u k \<or> k = rs_Name resp
    \<and> life_step m Library l (lives u k) (lives (starr_outcome E clk now u resp remnant) k)"
proof (cases "k = rs_Name resp")
  case False
  have "aget (d_Map (set_item (rs_Name resp) (e\<lparr>e_NoRetry := True\<rparr>) u)) (rs_Name resp) = Some (e\<lparr>e_NoRetry := True\<rparr>)"
    by simp
  note up = lives_update [OF this] lives_update [OF e]
  show ?thesis using False by (auto simp: starr_outcome_def Let_def e up)
next
  case k: True
  let ?n = "rs_Name resp"
  let ?e = "e\<lparr>e_NoRetry := True\<rparr>"
  have "aget (d_Map (set_item ?n ?e u)) ?n = Some ?e" by simp
  note up = lives_update [OF this, where k = ?n] lives_update [OF e, where k = ?n]
  have lk: "lives u ?n = starr_life (Some e)" by (simp add: lives_def look_Some [OF e])
  have st: "life_step m Library l (starr_life (Some e)) (map_option (\<lambda>x. x\<lparr>lf_Status := EXTRACTED\<rparr>) (starr_life (Some e)))"
    by (rule life_step_map) (rule extracted)
  have fl: "life_step m Library l (starr_life (Some e)) (map_option (\<lambda>x. x\<lparr>lf_Status := EXTRACTFAILED\<rparr>) (starr_life (Some e)))"
    using failed [of x "lf_NoRetry x" m l for x] by (intro life_step_map) simp
  have fn: "life_step m Library l (starr_life (Some e)) (map_option (\<lambda>x. x\<lparr>lf_Status := EXTRACTFAILED\<rparr>) (starr_life (Some ?e)))"
    using failed [of "life_of e" True m l] by (simp add: starr_life_def life_of_def stay)
  have ag: "life_step m Library l (starr_life (Some e)) (starr_life (Some (e\<lparr>e_Retries := e_Retries e + 1,
      e_Status := WAITING, e_Updated := now, e_Resp := Some resp\<rparr>)))" if "remnant = Some WAITING"
    using again [of "life_of e" m l] r [OF that] by (simp add: starr_life_def life_of_def stay)
  show ?thesis unfolding k lk starr_outcome_def Let_def e option.case
    using st fl fn ag by (simp add: up)
qed

lemma callback_lives:
  "life_step (maxRetries u) (if rs_Name resp = k then Library else Timer) l (lives u k)
     (lives (fst (handleXtractrCallback E F clk u resp)) k)"
proof (cases "aget (d_Map u) (rs_Name resp)")
  case None
  then show ?thesis by (simp add: handleXtractrCallback_def Let_def stay)
next
  case (Some e)
  let ?n = "rs_Name resp"
  show ?thesis
  proof (cases "rs_Done resp")
    case False
    let ?e = "resetExtractProgress e (archiveCount E (rs_Archives resp) + archiveCount E (rs_Extras resp))"
    have "aget (d_Map (set_item ?n ?e u)) ?n = Some ?e" by simp
    note up = lives_update [OF this]
    have "starr_life (Some ?e) = starr_life (Some e)"
      by (simp add: resetExtractProgress_def Let_def starr_life_def life_of_def)
    moreover have "lives u ?n = starr_life (Some e)" by (simp add: lives_def look_Some [OF Some])
    moreover have "life_step m Library l (starr_life (Some e))
        (map_option (\<lambda>x. x\<lparr>lf_Status := EXTRACTING\<rparr>) (starr_life (Some e)))" for m
      by (rule life_step_map) (rule extracting)
    ultimately show ?thesis using False by (auto simp: handleXtractrCallback_def Some Let_def up stay)
  next
    case True
    let ?v = "unlockHistory u" and ?r = "expand_response F resp"
    obtain st G where G: "handleRemnants ?v F ?r (e_PreFiles e) (e_Retries e) = (st, G)" by force
    have n: "rs_Name ?r = ?n" by (simp add: expand_response_def)
    have e: "aget (d_Map ?v) (rs_Name ?r) = Some e" by (simp add: n unlock_keep Some)
    have "maxRetries ?v = maxRetries u" using same_maxRetries [OF unlock_keep(2) [of u]] by simp
    then have "e_Retries e < maxRetries u" if "st = Some WAITING"
      using that remnants_waiting [of ?v F ?r "e_PreFiles e" "e_Retries e"] G by simp
    from outcome_lives [OF e this, of st E clk "rs_Started resp + rs_Elapsed resp" k l] show ?thesis
      using True by (auto simp: handleXtractrCallback_def Some Let_def G n stay)
  qed
qed

subsection \<open>Polls, hook results and progress\<close>

lemma starr_life_name [simp]: "starr_life (Some (e\<lparr>e_Name := n\<rparr>)) = starr_life (Some e)"
  "starr_life (Some (e\<lparr>e_HookFail := h\<rparr>)) = starr_life (Some e)"
  "starr_life (Some (e\<lparr>e_HookMessages := ms\<rparr>)) = starr_life (Some e)"
  "starr_life (Some (e\<lparr>e_XProg := p\<rparr>)) = starr_life (Some e)"
  by (simp_all add: starr_life_def life_of_def)

lemma lives_aget: "aget (d_Map u) k = Some e \<Longrightarrow> lives u k = starr_life (Some e)"
  by (simp add: lives_def look_Some)

text \<open>Nothing happened but that new downloads may have come in.\<close>

definition grown :: "'a daemon_scheme \<Rightarrow> 'a daemon_scheme \<Rightarrow> bool" where
  "grown u v \<longleftrightarrow> (\<forall>k. lives v k = lives u k \<or> lives u k = None
     \<and> lives v k = Some \<lparr>lf_Status = WAITING, lf_Retries = 0, lf_NoRetry = False\<rparr>)"

lemma grown_refl [simp]: "grown u u"
  by (simp add: grown_def)

lemma grown_trans: "grown u v \<Longrightarrow> grown v w \<Longrightarrow> grown u w"
  unfolding grown_def by metis

lemma grown_same: "lives v = lives u \<Longrightarrow> grown u v"
  by (simp add: grown_def)

lemma grown_step: "grown u v \<Longrightarrow> life_step m Timer l (lives u k) (lives v k)"
  unfolding grown_def using found [of m l] stay by metis

lemma new_download_life:
  "app \<noteq> FolderString \<Longrightarrow> starr_life (Some (new_download app cfg rec path now a))
    = Some \<lparr>lf_Status = WAITING, lf_Retries = 0, lf_NoRetry = False\<rparr>"
  by (simp add: new_download_def tweakExtract_def zero_extract_def starr_life_def life_of_def)

lemma lives_nextAddr [simp]: "lives (u\<lparr>d_nextAddr := a\<rparr>) = lives u"
  by (simp add: lives_def fun_eq_iff)

lemma record_grown:
  assumes "app \<noteq> FolderString" shows "grown (fst s) (fst (check_record F now app cfg s rec))"
proof -
  obtain u c where s: "s = (u, c)" by (cases s)
  show ?thesis
  proof (cases "aget (d_Map u) (qv_Title rec)")
    case None
    then have "lives u (qv_Title rec) = None" by (simp add: lives_def look_def)
    then show ?thesis using None new_download_life [OF assms]
      by (auto simp: s check_record_def grown_def split: option.splits)
  next
    case (Some e)
    then show ?thesis by (auto simp: s check_record_def grown_def lives_aget)
  qed
qed

lemma check_grown: "app \<noteq> FolderString \<Longrightarrow> grown u (checkStarrQueue E F clk now app u)"
proof -
  assume app: "app \<noteq> FolderString"
  let ?R = "\<lambda>s t. grown (fst s :: 'a daemon_scheme) (fst t)"
  have "?R (u, False) (foldl (\<lambda>s cfg. foldl (check_record F now app cfg) s (queueViews cfg)) (u, False)
      (instanceValues (starr_list u app)))"
    by (intro foldl_inv [where R = ?R] record_grown [OF app]) (auto intro: grown_trans)
  then show ?thesis by (auto simp: checkStarrQueue_def grown_def split: prod.splits)
qed

lemma lives_starr_fields [simp]:
  "lives (u\<lparr>d_Lidarr := a, d_Radarr := b, d_Readarr := c, d_Sonarr := d\<rparr>) = lives u"
  "lives (u\<lparr>d_forgotten := xs\<rparr>) = lives u"
  by (simp_all add: lives_def look_def fun_eq_iff)

lemma sweepForgotten_lives [simp]: "lives (sweepForgotten u) = lives u"
  by (simp add: sweepForgotten_def)

lemma poll_grown: "grown u (retrieveAppQueues E F clk now resp u)"
proof -
  let ?v = "u\<lparr>d_Lidarr := poll_all (resp Lidarr) clk (d_Lidarr u), d_Radarr := poll_all (resp Radarr) clk (d_Radarr u),
     d_Readarr := poll_all (resp Readarr) clk (d_Readarr u), d_Sonarr := poll_all (resp Sonarr) clk (d_Sonarr u)\<rparr>"
  let ?w = "foldl (\<lambda>u app. checkStarrQueue E F clk now app u) ?v [Lidarr, Radarr, Readarr, Sonarr]"
  have "grown ?v ?w" by (rule foldl_inv [where R = grown]) (auto intro: check_grown grown_trans)
  then show ?thesis unfolding retrieveAppQueues_def Let_def by (auto simp: grown_def)
qed

lemma lives_bump [simp]: "lives (bumpHistoryHookFail u i) = lives u" "lives (bumpHistoryHookMessage u i k m) = lives u"
  unfolding lives_def
  by (auto simp: bumpHistoryHookFail_def bumpHistoryHookMessage_def Let_def look_more [OF upsert_more] split: option.splits)

lemma fun_eq_if: "(\<And>k. f k = (if k = n then y else g k)) \<Longrightarrow> g n = y \<Longrightarrow> f = g"
  by (auto simp: fun_eq_iff)

lemma lives_set_same: "aget (d_Map u) n = Some e \<Longrightarrow> starr_life (Some e') = starr_life (Some e)
    \<Longrightarrow> lives (set_item n e' u) = lives u"
  by (auto simp: fun_eq_iff lives_aget)

lemma lives_hookFail [simp]: "lives (recordHookFail E clk u i) = lives u"
  by (auto simp: recordHookFail_def Let_def lives_set_same split: option.splits)

lemma lives_saveMessage [simp]: "lives (saveHookMessage E u s) = lives u"
  by (auto simp: saveHookMessage_def Let_def lives_set_same split: option.splits)

lemma lives_drains [simp]: "lives (drainHookFails E clk u) = lives u" "lives (drainHookMessages E u) = lives u"
proof -
  have 1: "lives (foldl (recordHookFail E clk) v xs) = lives v" for v :: "'a daemon_scheme" and xs
    by (induction xs arbitrary: v) simp_all
  have 2: "lives (foldl (saveHookMessage E) v xs) = lives v" for v :: "'a daemon_scheme" and xs
    by (induction xs arbitrary: v) simp_all
  show "lives (drainHookFails E clk u) = lives u" "lives (drainHookMessages E u) = lives u"
    unfolding drainHookFails_def drainHookMessages_def 1 2 by (simp_all add: lives_def look_def fun_eq_iff)
qed

lemma lives_progress [simp]:
  assumes "distinct (akeys (d_Map u))" shows "lives (handleProgress E clk u exp p) = lives u"
proof (cases "find (\<lambda>(n, e). e_addr e = e_addr exp) (d_Map u)")
  case None
  then show ?thesis by (auto simp: handleProgress_def split: option.splits)
next
  case (Some ne)
  obtain n e where ne: "ne = (n, e)" by (cases ne)
  then have "(n, e) \<in> set (d_Map u)" using Some by (auto simp: find_Some_iff in_set_conv_nth)
  then have "aget (d_Map u) n = Some e" using assms by (simp add: akeys_def)
  then show ?thesis using Some ne by (auto simp: handleProgress_def Let_def lives_set_same split: option.splits)
qed

subsection \<open>Actions of the user\<close>

lemma lives_more: "hist.more u = hist.more v \<Longrightarrow> lives u = lives v"
  by (simp add: lives_def look_more [of u v] fun_eq_iff)

lemma lives_forget [simp]: "lives (markHistoryForgotten u i) = lives u" "lives (forget_folder i u) = lives u"
  by (rule lives_more [OF forget_more]) (simp add: forget_folder_def lives_def look_def fun_eq_iff)

lemma recovery_map [simp]: "d_Map (recoveryClearFolder p u) = d_Map u" "d_Map (recoveryTrackFolder E p c st t u) = d_Map u"
  by (auto simp: recoveryClearFolder_def recoveryTrackFolder_def saveRecoveryState_def Let_def split: option.splits)

lemma lives_map: "d_Map u = d_Map v \<Longrightarrow> lives u = lives v"
  by (simp add: lives_def look_def fun_eq_iff)

lemma lives_track [simp]: "lives (track_folder i f u) = lives u"
  by (rule lives_map) (simp add: track_folder_def)

lemma retry_lives:
  "life_step m (if i = k then User else Timer) l (lives u k) (lives (snd (retryQueueID E now u i)) k)"
proof (cases "aget (d_Map u) i")
  case None
  then show ?thesis by (simp add: retryQueueID_def Let_def stay)
next
  case (Some e)
  note e = lives_aget [OF Some]
  show ?thesis
  proof (cases "e_Status e = EXTRACTFAILED")
    case False
    then show ?thesis using Some by (simp add: retryQueueID_def Let_def stay)
  next
    case failed: True
    show ?thesis
    proof (cases "e_App e = FolderString")
      case False
      have "life_step m User l (Some (life_of e)) (Some (life_of (e\<lparr>e_Retries := e_Retries e + 1,
          e_NoRetry := False, e_Status := WAITING, e_Updated := now\<rparr>)))"
        using user_retry [of "life_of e" m l] failed by (simp add: life_of_def)
      then show ?thesis using Some failed False e
        by (auto simp: retryQueueID_def Let_def stay starr_life_def)
    next
      case True
      have same: "lives (set_item i e' (track_folder i f u)) = lives u" if "e_App e' = FolderString" for e' f
        using that True e by (auto simp: fun_eq_iff)
      have "lives (snd (retryFolderLocked E now i e u)) = lives u"
        using True by (auto simp: retryFolderLocked_def Let_def lives_map [OF recovery_map(2)] same split: option.splits)
      then show ?thesis using Some failed True by (simp add: retryQueueID_def Let_def stay)
    qed
  qed
qed

lemma forget_lives:
  "life_step m (if i = k then User else Timer) l (lives u k) (lives (snd (forgetQueueID E clk u i)) k)"
proof (cases "aget (d_Map u) i")
  case None
  then show ?thesis by (simp add: forgetQueueID_def Let_def stay)
next
  case (Some e)
  show ?thesis
  proof (cases "isDurableHistory (e_Status e)")
    case False
    then show ?thesis using Some by (simp add: forgetQueueID_def Let_def stay)
  next
    case True
    have "life_step m User l (starr_life (Some e)) None"
      using user_forget [of "life_of e" m l] True by (cases "e_Status e") (auto simp: starr_life_def stay)
    then show ?thesis using Some True lives_aget [OF Some]
      by (auto simp: forgetQueueID_def Let_def stay)
  qed
qed

subsection \<open>Keys stay distinct, and the limit does not change\<close>

definition kept :: "'a daemon_scheme \<Rightarrow> 'a daemon_scheme \<Rightarrow> bool" where
  "kept u v \<longleftrightarrow> (distinct (akeys (d_Map u)) \<longrightarrow> distinct (akeys (d_Map v))) \<and> d_MaxRetries v = d_MaxRetries u"

lemma kept_trans: "kept u v \<Longrightarrow> kept v w \<Longrightarrow> kept u w"
  by (simp add: kept_def)

interpretation kept: loop_relation kept
proof unfold_locales
  fix u v w :: "'a daemon_scheme"
  show "hist.more v = hist.more u \<Longrightarrow> kept u v" using daemon_more [of v u] by (simp add: kept_def)
  show "kept u (unlockHistory u)" using unlock_keep(1,2) [of u] by (simp add: kept_def same_cfg_def)
  show "kept u (recoveryTrackFolder E n c st now u)" for E n c st now
    by (auto simp: kept_def) (auto simp: recoveryTrackFolder_def recoveryClearFolder_def saveRecoveryState_def Let_def
      split: option.splits)
qed (auto simp: kept_def set_item_def deleteExtract_def dropHookMessages_def notifyItem_def notify_hub_def
  queuePendingHook_def queueDelete_def forget_folder_def track_folder_def Let_def split: option.splits)

lemma kept_limit: "kept u v \<Longrightarrow> maxRetries v = maxRetries u"
  by (simp add: kept_def maxRetries_def)

subsection \<open>Every operation is a step of the life\<close>

lemma step_life:
  assumes "distinct (akeys (d_Map u))"
  shows "life_step (maxRetries u) (op_cause k p) (listed u k (look u k)) (lives u k)
    (lives (fst (queue_step E X (u, F) p)) k)"
proof (cases p)
  case (Poll clk now resp)
  then show ?thesis using grown_step [OF poll_grown] by simp
next
  case (Changes clk now)
  show ?thesis
    using change_sweep.look_sweep [OF assms, where s = u and E = E and clk = clk and now = now and k = k]
      change_life [of "maxRetries u" u k "look u k" now]
    by (cases "k \<in> set (akeys (d_Map u))") (auto simp: Changes checkQueueChanges_def lives_def stay)
next
  case (Downloads clk now)
  let ?js = "download_jobs u"
  have *: "lives (fst (queue_step E X (u, F) p)) k
      = starr_life (if k \<in> set ?js then download_act E X F now (unlockHistory u) k (look u k) else look u k)"
    using download_sweep.look_sweep [OF jobs_distinct [OF assms], where s = "unlockHistory u" and E = E
        and X = X and F = F and clk = clk and now = now and k = k]
    by (simp add: Downloads extractCompletedDownloads_def run_downloads_fst lives_def)
  show ?thesis
  proof (cases "k \<in> set ?js")
    case True
    then obtain e where e: "(k, e) \<in> set (d_Map u)" "e_App e \<noteq> FolderString" "e_Status e < QUEUED"
      by (auto simp: download_jobs_def)
    then have k: "look u k = Some (core e)" using assms by (intro look_Some) (simp add: akeys_def)
    have w: "e_Status e = WAITING" using e(3) by (cases "e_Status e") (simp_all add: less_status_def)
    let ?snap = "keepDirSnapshot F (e_PreFiles e) (archiveSnapshotPaths E (e_Path e) (findCompressed X F (e_Path e) [] False))"
    have q: "starr_life (Some ((case ?snap of Inl err \<Rightarrow> core e | Inr m \<Rightarrow> (core e)\<lparr>e_PreFiles := Some m\<rparr>)
        \<lparr>e_Status := QUEUED, e_Updated := now, e_Note := ''''\<rparr>)) = Some ((life_of e)\<lparr>lf_Status := QUEUED\<rparr>)"
      using e(2) by (cases ?snap) (simp_all add: starr_life_def life_of_def)
    have n: "life_of ((core e)\<lparr>e_Note := x\<rparr>) = life_of e" for x
      by (simp add: life_of_def)
    show ?thesis unfolding * using True e(2) w item_step_intros(3) [OF w]
      by (auto simp: k download_act_def Downloads lives_def stay q n)
  next
    case False
    then show ?thesis unfolding * by (simp add: lives_def stay)
  qed
next
  case (DonePass clk now)
  show ?thesis
    using done_sweep.look_sweep [OF assms, where s = u and E = E and clk = clk and now = now and k = k]
      done_life [of u k "look u k" now]
    by (cases "k \<in> set (akeys (d_Map u))") (auto simp: DonePass checkExtractDone_def lives_def stay)
next
  case (Callback clk resp)
  then show ?thesis using callback_lives [of u resp k "listed u k (look u k)" E F clk]
    by (cases "handleXtractrCallback E F clk u resp") simp
next
  case (RetryID clk i)
  then show ?thesis using retry_lives [of "maxRetries u" i k "listed u k (look u k)" u E clk] by simp
next
  case (ForgetID clk i)
  then show ?thesis using forget_lives [of "maxRetries u" i k "listed u k (look u k)" u E clk] by simp
qed (use assms in \<open>auto intro: stay\<close>)

end
