(* ===== verification/QueueProps.thy ===== *)
theory QueueProps
  imports QueueRefines RemnantProps
begin

text \<open>
  Properties of the Starr queue: single operations and whole runs of the main loop.
\<close>

subsection \<open>Refinement of the life of a download\<close>

text \<open>The causes of a run, with whether Starr listed the item when each operation ran.\<close>

fun labels :: "env \<Rightarrow> xlib \<Rightarrow> string \<Rightarrow> 'a daemon_scheme \<times> fsys \<Rightarrow> queue_op list \<Rightarrow> (cause \<times> bool) list" where
  "labels E X k s [] = []"
| "labels E X k s (p # ps) = (op_cause k p, listed (fst s) k (look (fst s) k)) # labels E X k (queue_step E X s p) ps"

lemma labels_causes: "c \<in> fst ` set (labels E X k s ps) \<Longrightarrow> c \<in> op_cause k ` set ps"
proof (induction ps arbitrary: s)
  case (Cons p ps)
  from Cons.prems have "c = op_cause k p \<or> c \<in> fst ` set (labels E X k (queue_step E X s p) ps)" by simp
  then show ?case using Cons.IH [of "queue_step E X s p"] by (metis image_eqI image_insert insertCI list.simps(15))
qed simp

lemma run_life:
  fixes s :: "'a daemon_scheme \<times> fsys"
  assumes "distinct (akeys (d_Map (fst s)))"
  shows "life_run (maxRetries (fst s)) (labels E X k s ps) (lives (fst s) k)
    (lives (fst (foldl (queue_step E X) s ps)) k)"
  using assms
proof (induction ps arbitrary: s)
  case (Cons p ps)
  obtain u F where s: "s = (u, F)" by (cases s)
  have k: "kept u (fst (queue_step E X s p))" using kept.steps [of s E X p] by (simp add: s)
  then have "distinct (akeys (d_Map (fst (queue_step E X s p))))" using Cons.prems by (simp add: kept_def s)
  from Cons.IH [OF this] step_life [of u k p E X F] Cons.prems show ?case
    by (simp add: s run_cons kept_limit [OF k, unfolded s])
qed (simp add: run_nil)

text \<open>
  C2. The main loop refines the life of a download: whatever polls, callbacks, timers, hook results
  and user actions come, in any order, and whatever happens on disk in between, every download
  goes through its statuses by the steps of \<open>Lifecycle\<close> only, a user's step only when the user
  acted on it and the library's only after a callback for it.
\<close>

theorem queue_refines_lifecycle:
  assumes "distinct (akeys (d_Map u))"
  shows "life_run (maxRetries u) (labels E X k (u, F) ps) (lives u k)
    (lives (fst (foldl (queue_step E X) (u, F) ps)) k)"
  using run_life [of "(u, F)"] assms by simp

text \<open>A queue with one failed download that Sonarr still lists.\<close>

definition demo_item :: extract_item where
  "demo_item = zero_extract\<lparr>e_addr := 7, e_App := Sonarr, e_URL := ''http://s'', e_Path := ''/d'',
     e_Status := EXTRACTFAILED, e_Retries := 2, e_NoRetry := True\<rparr>"

definition demo_starr :: starr where
  "demo_starr = \<lparr>sr_URL = ''http://s'', sr_APIKey = ''k'', sr_Name = '''', sr_Paths = [''/d''],
     sr_Protocols = ''torrent'', sr_DeleteOrig = False, sr_DeleteDelay = 0, sr_Syncthing = False,
     sr_maxBytes = 0, sr_lastQueued = 0, sr_lastRetrieved = 0, sr_lastPolled = 0, sr_lastPollErr = '''',
     sr_polled = True, sr_Queue = Some [\<lparr>qv_Title = ''show'', qv_Status = ''completed'',
       qv_OutputPath = ''/d'', qv_TrackedStatus = '''', qv_TrackedState = '''', qv_Protocol = ''torrent'',
       qv_IDs = []\<rparr>], sr_SplitFlac = False, sr_APEFormat = '''', sr_APECompression = 0\<rparr>"

definition demo_queue :: daemon where
  "demo_queue = demo_daemon\<lparr>d_Map := [(''show'', demo_item)], d_Sonarr := [(''a'', Some demo_starr)]\<rparr>"

definition demo_lib :: xlib where
  "demo_lib = \<lparr>findCompressed = (\<lambda>F p ex sym. []), xGetFileList = (\<lambda>F p. []), allExcept = (\<lambda>ts. []),
     checkR00 = (\<lambda>fs b. False), supportedExts = [''.rar''], timeStamp = int_text, canWatch = (\<lambda>F p. True)\<rparr>"

lemma demo_keys [simp]: "distinct (akeys (d_Map demo_queue))"
  by (simp add: demo_queue_def akeys_def)

lemma demo_life: "lives demo_queue ''show'' = Some \<lparr>lf_Status = EXTRACTFAILED, lf_Retries = 2, lf_NoRetry = True\<rparr>"
  by (simp add: lives_def look_def demo_queue_def demo_item_def zero_extract_def core_def life_of_def starr_life_def)

lemma demo_max: "maxRetries demo_queue = 2"
  by (simp add: demo_queue_def demo_daemon_def maxRetries_def)

theorem queue_refines_lifecycle_witness:
  "life_run (maxRetries demo_queue) (labels demo_env demo_lib ''show'' (demo_queue, demo_disk) [DonePass 9 9])
     (lives demo_queue ''show'')
     (lives (fst (foldl (queue_step demo_env demo_lib) (demo_queue, demo_disk) [DonePass 9 9])) ''show'')"
  by (rule queue_refines_lifecycle) simp

text \<open>
  C7. However long the daemon runs, it retries no download more often than configured: without an
  action of the user on it, its retry count stays within the limit, over every sequence of
  operations.
\<close>

theorem retries_bounded:
  assumes "distinct (akeys (d_Map u))" "bounded (maxRetries u) (lives u k)" "User \<notin> op_cause k ` set ps"
  shows "bounded (maxRetries u) (lives (fst (foldl (queue_step E X) (u, F) ps)) k)"
proof -
  have "User \<notin> fst ` set (labels E X k (u, F) ps)" using assms(3) labels_causes by fastforce
  with run_bounded [OF run_life [of "(u, F)"]] assms show ?thesis by simp
qed

theorem retries_bounded_witness:
  "bounded 2 (lives (fst (foldl (queue_step demo_env demo_lib) (demo_queue, demo_disk)
     [DonePass 9 9, Changes 9 9])) ''show'')"
  using retries_bounded [of demo_queue "''show''" "[DonePass 9 9, Changes 9 9]" demo_env demo_lib demo_disk]
  by (simp add: demo_life demo_max bounded_def)

text \<open>
  C8. A download that was given up stays given up: while Starr lists it, no timer, poll or hook
  result, in any order, starts it again or drops it; only a callback of the library or the user
  can.
\<close>

theorem given_up_stays:
  assumes "distinct (akeys (d_Map u))" "given_up (lives u k)"
    "set (labels E X k (u, F) ps) \<subseteq> {(Timer, True)}"
  shows "given_up (lives (fst (foldl (queue_step E X) (u, F) ps)) k)"
  using run_given_up [OF run_life [of "(u, F)"]] assms by simp

lemma demo_look: "look demo_queue ''show'' = Some (core demo_item)"
  by (simp add: look_def demo_queue_def)

lemma demo_listed: "listed demo_queue ''show'' (Some (core demo_item))"
  by (simp add: listed_def haveQitem_def starr_list_def haveStarrQitem_def hasQueueTitle_def queueViews_def
    demo_queue_def demo_item_def demo_starr_def core_def)

theorem given_up_stays_witness:
  "given_up (lives (fst (foldl (queue_step demo_env demo_lib) (demo_queue, demo_disk) [DonePass 9 9])) ''show'')"
  by (rule given_up_stays) (simp_all add: demo_life given_up_def demo_look demo_listed)

subsection \<open>Deleting files\<close>

lemma done_pass_out:
  assumes "distinct (akeys (d_Map u))"
  shows "d_delQueue (checkExtractDone E clk now u)
       = d_delQueue u @ concat (map (\<lambda>k. done_emit now u k (look u k)) (akeys (d_Map u)))"
    "look (checkExtractDone E clk now u) k = done_act now u k (look u k)"
  using done_sweep.look_sweep [OF assms, where s = u and E = E and clk = clk and now = now and k = k]
    done_sweep.out_sweep [OF assms, where s = u and E = E and clk = clk and now = now]
  by (auto simp: checkExtractDone_def unlock_keep look_akeys)

lemma change_pass_look:
  assumes "distinct (akeys (d_Map u))"
  shows "look (checkQueueChanges E clk now u) k = change_act now u k (look u k)"
  using change_sweep.look_sweep [OF assms, where s = u and E = E and clk = clk and now = now and k = k]
  by (auto simp: checkQueueChanges_def look_akeys)

text \<open>
  C3. The daemon asks for files of a download to be deleted only when Starr has imported it: each
  new request is of an item with status imported whose delete delay is over, whose application
  was polled and no longer lists it; it names the download path, when the original is to be
  deleted, or else the files the extraction wrote.
\<close>

theorem deletes_only_imported:
  assumes "distinct (akeys (d_Map u))" "r \<in> set (drop (length (d_delQueue u)) (d_delQueue (checkExtractDone E clk now u)))"
  shows "\<exists>k e. aget (d_Map u) k = Some e \<and> e_App e \<noteq> FolderString \<and> e_Status e = IMPORTED
    \<and> time_sub now (e_Updated e) \<ge> e_DeleteDelay e \<and> queueSnapshotReady u e \<and> \<not> haveQitem u k (e_App e)
    \<and> (e_DeleteOrig e \<and> dr_Paths r = [e_Path e] \<and> \<not> dr_PurgeEmptyParent r
       \<or> \<not> e_DeleteOrig e \<and> dr_PurgeEmptyRoot r = e_Path e
         \<and> (\<exists>resp. e_Resp e = Some resp \<and> dr_Paths r = rs_NewFiles resp))"
proof -
  obtain k where "r \<in> set (done_emit now u k (look u k))"
    using assms(2) unfolding done_pass_out(1) [OF assms(1)] by fastforce
  moreover have "done_emit now u k None = []" by (simp add: done_emit_def)
  ultimately obtain e where e: "aget (d_Map u) k = Some e" "r \<in> set (done_emit now u k (Some (core e)))"
    unfolding look_def by (metis empty_iff empty_set option.exhaust option.simps(8,9))
  have d: "deletable now u k (core e)"
    by (rule ccontr) (use e(2) in \<open>simp add: done_emit_def\<close>)
  have "delete_imported e = Some r"
  proof (cases "delete_imported (core e)")
    case None
    with e(2) d show ?thesis by (simp add: done_emit_def)
  next
    case (Some q)
    with e(2) d show ?thesis by (simp add: done_emit_def)
  qed
  note e = e(1) d this
  then have "e_App e \<noteq> FolderString \<and> e_Status e = IMPORTED \<and> time_sub now (e_Updated e) \<ge> e_DeleteDelay e
      \<and> queueSnapshotReady u e \<and> \<not> haveQitem u k (e_App e)" by (simp add: deletable_def)
  with e show ?thesis
    by (intro exI [of _ k] exI [of _ e]) (auto simp: delete_imported_def split: option.splits if_splits)
qed

definition demo_gone :: daemon where
  "demo_gone = demo_daemon\<lparr>d_Map := [(''show'', demo_item\<lparr>e_Status := IMPORTED, e_DeleteOrig := True\<rparr>)]\<rparr>"

lemma demo_gone_req: "d_delQueue (checkExtractDone demo_env 9 9 demo_gone)
    = [\<lparr>dr_Paths = [''/d''], dr_PurgeEmptyParent = False, dr_PurgeEmptyRoot = ''''\<rparr>]"
proof -
  have d: "distinct (akeys (d_Map demo_gone))" by (simp add: demo_gone_def akeys_def)
  show ?thesis unfolding done_pass_out(1) [OF d]
    by (simp add: demo_gone_def demo_daemon_def akeys_def look_def done_emit_def deletable_def demo_item_def
      zero_extract_def time_sub_def maxDuration_def minDuration_def queueSnapshotReady_def starr_list_def
      starrSnapshotReady_def instanceValues_def instanceEntries_def instanceKeys_def List.map_filter_def
      haveQitem_def haveStarrQitem_def delete_imported_def core_def)
qed

theorem deletes_only_imported_witness:
  "\<exists>k e. aget (d_Map demo_gone) k = Some e \<and> e_Status e = IMPORTED \<and> e_DeleteOrig e"
  using deletes_only_imported [of demo_gone "\<lparr>dr_Paths = [''/d''], dr_PurgeEmptyParent = False, dr_PurgeEmptyRoot = ''''\<rparr>" demo_env 9 9]
  by (auto simp: demo_gone_req) (auto simp: demo_gone_def demo_daemon_def akeys_def)

text \<open>
  Until an application has answered its first poll since the start, a download missing from its
  queue is not taken for imported, and an imported one keeps its files: neither pass changes it.
\<close>

theorem unpolled_left_alone:
  assumes "distinct (akeys (d_Map u))" "look u k = Some e" "e_App e \<noteq> FolderString"
    "\<not> queueSnapshotReady u e"
  shows "(\<not> haveQitem u k (e_App e) \<longrightarrow> look (checkQueueChanges E clk now u) k = Some e)
    \<and> (e_Status e = IMPORTED \<longrightarrow> look (checkExtractDone E clk now u) k = Some e \<and> done_emit now u k (Some e) = [])"
  using assms(2-4)
  by (auto simp: change_pass_look [OF assms(1)] done_pass_out(2) [OF assms(1)] change_act_def done_act_def
    done_emit_def deletable_def Let_def)

definition demo_unpolled :: daemon where
  "demo_unpolled = demo_daemon\<lparr>d_Map := [(''gone'', demo_item\<lparr>e_Status := IMPORTED\<rparr>)],
     d_Sonarr := [(''a'', Some (demo_starr\<lparr>sr_polled := False, sr_Queue := None\<rparr>))]\<rparr>"

theorem unpolled_left_alone_witness:
  "look (checkExtractDone demo_env 9 9 demo_unpolled) ''gone'' = Some (core (demo_item\<lparr>e_Status := IMPORTED\<rparr>))"
  using unpolled_left_alone [of demo_unpolled "''gone''" "core (demo_item\<lparr>e_Status := IMPORTED\<rparr>)" demo_env 9 9]
  by (simp add: demo_unpolled_def akeys_def look_def demo_item_def zero_extract_def queueSnapshotReady_def
    starr_list_def starrSnapshotReady_def instanceValues_def instanceEntries_def instanceKeys_def
    List.map_filter_def demo_starr_def)


text \<open>The two passes at concrete queues.\<close>

theorem done_pass_pointwise_witness:
  "look (checkExtractDone demo_env 9 9 demo_gone) ''show'' = done_act 9 demo_gone ''show'' (look demo_gone ''show'')"
  using done_pass_pointwise [of demo_gone demo_env 9 9 "''show''"] by (simp add: demo_gone_def akeys_def)

theorem change_pass_pointwise_witness:
  "d_delQueue (checkQueueChanges demo_env 9 9 demo_queue) = d_delQueue demo_queue"
  using change_pass_pointwise [of demo_queue demo_env 9 9 "''show''"] by simp

end
