(* ===== verification/Watch.thy ===== *)
theory Watch
  imports Recovery FolderPaths
begin

text \<open>
  \<open>pkg/folders/watch.go\<close>: which file events become work. A watched directory is only a container;
  the archives below it are tracked one by one in \<open>d_Tracked\<close>. \<open>d_WatchDirs\<close> are the directories
  registered as sources of events, \<open>d_watched\<close> the paths handed to the watchers. The channels and
  the goroutines that read the watchers are not modelled: \<open>handleFileEvent\<close> gives the event it
  would send. The temporary suffix is the one \<open>PollFolders\<close> passes.
\<close>

subsection \<open>Walking up a path ends\<close>

definition comps_size :: "string list \<Rightarrow> nat" where
  "comps_size cs = sum_list (map (\<lambda>c. Suc (length c)) cs)"

lemma comps_size_simps [simp]:
  "comps_size [] = 0" "comps_size (c # cs) = Suc (length c) + comps_size cs"
  "comps_size (xs @ ys) = comps_size xs + comps_size ys" "comps_size (rev xs) = comps_size xs"
  by (simp_all add: comps_size_def rev_map [symmetric])

lemma split_slash_size: "comps_size (split_slash s) = Suc (length s)"
  by (induction s) (auto split: list.splits)

lemma clean_comps_size: "comps_size (clean_comps r acc cs) \<le> comps_size acc + comps_size cs"
proof (induction r acc cs rule: clean_comps.induct)
  case (2 r acc c cs)
  show ?case
  proof (cases acc)
    case Nil
    with 2 show ?thesis by (cases r) (auto simp: numeral_2_eq_2 [symmetric])
  next
    case (Cons a as)
    with 2 show ?thesis by auto
  qed
qed simp

lemma join_size: "xs \<noteq> [] \<Longrightarrow> Suc (length (join ''/'' xs)) = comps_size xs"
  by (induction "''/''" xs rule: join.induct) auto

lemma length_clean: "s \<noteq> [] \<Longrightarrow> length (clean s) \<le> length s"
proof (cases "is_abs s")
  case True
  then obtain t where t: "s = sl # t" by (auto simp: is_abs_def prefix_def)
  have "path_comps s = clean_comps True [] (split_slash t)" using True by (simp add: path_comps_def t)
  then have le: "comps_size (path_comps s) \<le> Suc (length t)"
    using clean_comps_size [of True "[]" "split_slash t"] by (simp add: split_slash_size)
  show ?thesis
  proof (cases "path_comps s = []")
    case False
    from le join_size [OF this] True show ?thesis by (simp add: clean_def t)
  qed (use True in \<open>simp add: clean_def t\<close>)
next
  case False
  assume s: "s \<noteq> []"
  have le: "comps_size (path_comps s) \<le> Suc (length s)"
    using clean_comps_size [of "is_abs s" "[]" "split_slash s"] by (simp add: path_comps_def split_slash_size)
  show ?thesis
  proof (cases "path_comps s = []")
    case True
    with False s show ?thesis by (cases s) (simp_all add: clean_def)
  next
    case False
    from le join_size [OF this] \<open>\<not> is_abs s\<close> False show ?thesis by (simp add: clean_def)
  qed
qed

lemma split_slash_snoc: "split_slash (q @ ''/'') = split_slash q @ [[]]"
  by (induction q) (auto split: list.splits)

lemma clean_comps_snoc: "clean_comps r acc (cs @ [[]]) = clean_comps r acc cs"
  by (induction r acc cs rule: clean_comps.induct) (auto split: list.splits)

lemma clean_snoc: "q \<noteq> [] \<Longrightarrow> clean (q @ ''/'') = clean q"
proof -
  assume "q \<noteq> []"
  then have "is_abs (q @ ''/'') = is_abs q" by (cases q) (auto simp: is_abs_def)
  then show ?thesis by (simp add: clean_def path_comps_def split_slash_snoc clean_comps_snoc)
qed

lemma dropWhile_split: "dropWhile P xs = c # cs \<Longrightarrow> \<not> P c \<and> rev xs = (rev cs @ [c]) @ rev (takeWhile P xs)"
  by (induction xs) (auto split: if_splits)

lemma up_to_slash_cases: "up_to_slash p = [] \<or> (\<exists>q. up_to_slash p = q @ ''/'' \<and> prefix (q @ ''/'') p)"
proof (cases "dropWhile (\<lambda>c. c \<noteq> sl) (rev p)")
  case (Cons c cs)
  have c: "c = sl" using dropWhile_split [OF Cons] by simp
  have p: "p = (rev cs @ [c]) @ rev (takeWhile (\<lambda>c. c \<noteq> sl) (rev p))"
    using dropWhile_split [OF Cons] unfolding rev_rev_ident by (rule conjunct2)
  then have "prefix (rev cs @ ''/'') p" unfolding c by (rule prefixI)
  with Cons c show ?thesis unfolding up_to_slash_def by simp
qed (simp add: up_to_slash_def)

lemma dir_shorter:
  assumes "p \<noteq> []" "p \<noteq> ''.''" "dir p \<noteq> p"
  shows "length (dir p) < length p \<or> length p = 1 \<and> dir p = ''.''"
proof -
  from up_to_slash_cases [of p] consider "up_to_slash p = []"
    | q where "up_to_slash p = q @ ''/''" "prefix (q @ ''/'') p" by blast
  then show ?thesis
  proof cases
    case 1
    then have "dir p = ''.''" by (simp add: dir_def clean_def path_comps_def is_abs_def)
    with assms(1) show ?thesis by (cases p rule: remdups_adj.cases) auto
  next
    case 2
    have le: "Suc (length q) \<le> length p" using prefix_length_le [OF 2(2)] by simp
    show ?thesis
    proof (cases "q = []")
      case True
      then have "dir p = ''/''" using 2 by (simp add: dir_def clean_def path_comps_def is_abs_def)
      moreover have "p \<noteq> ''/''" using assms(3) calculation by metis
      moreover have "prefix ''/'' p" using 2(2) True by simp
      ultimately show ?thesis by (auto simp: prefix_def)
    next
      case False
      then have "dir p = clean q" using 2 by (simp add: dir_def clean_snoc)
      with length_clean [OF False] le show ?thesis by simp
    qed
  qed
qed

definition up_measure :: "string \<Rightarrow> nat" where
  "up_measure p = (if p = ''.'' then 1 else 2 * length p)"

lemma dir_measure: "p \<noteq> [] \<Longrightarrow> dir p \<noteq> p \<Longrightarrow> up_measure (dir p) < up_measure p"
proof (cases "p = ''.''")
  case True
  assume "dir p \<noteq> p"
  with True show ?thesis by (simp add: dir_def up_to_slash_def clean_def path_comps_def is_abs_def)
next
  case False
  assume "p \<noteq> []" "dir p \<noteq> p"
  from dir_shorter [OF this(1) False this(2)] show ?thesis using False \<open>p \<noteq> []\<close>
    by (auto simp: up_measure_def)
qed

subsection \<open>Names the watcher leaves alone\<close>

text \<open>
  \<open>rarPartPattern\<close>, \<open>(?i)\.part0*([0-9]+)\.rar$\<close>: the number of the volume when the name matches.
  \<open>strconv.Atoi\<close> fails above the largest \<open>int\<close>.
\<close>

definition rar_part :: "string \<Rightarrow> nat option" where
  "rar_part b = (let l = to_lower b in
     if \<not> has_suffix l ''.rar'' then None
     else let s = take (length l - 4) l;
              ds = rev (takeWhile is_digit (rev s));
              p = take (length s - length ds) s
       in if ds = [] \<or> \<not> has_suffix p ''.part'' then None else Some (digits_value ds))"

definition isPrimaryArchive :: "string \<Rightarrow> bool" where
  "isPrimaryArchive path = (case rar_part (base path) of None \<Rightarrow> True
     | Some part \<Rightarrow> part > 9223372036854775807 \<or> part = 1)"

function ignoredExtractName :: "string \<Rightarrow> bool" where
  "ignoredExtractName path = (if path = '''' then False
     else if has_suffix (base path) tmp_suffix \<or> has_prefix (base path) (tmp_suffix @ ''.'') then True
     else if dir path = path then False
     else ignoredExtractName (dir path))"
  by pat_completeness auto
termination by (relation "measure up_measure") (auto intro: dir_measure)

declare ignoredExtractName.simps [simp del]

definition hasExtractLog :: "fsys \<Rightarrow> string \<Rightarrow> bool" where
  "hasExtractLog F dirPath = (case read_dir F dirPath of Inl e \<Rightarrow> False
     | Inr entries \<Rightarrow> list_ex (\<lambda>(name, n). \<not> is_dir n \<and> has_prefix name (tmp_suffix @ ''.'')
         \<and> has_suffix (to_lower name) ''.txt'') entries)"

text \<open>The body of the loop of \<open>archiveStem\<close>, which runs twice; a break changes nothing any more.\<close>

definition strip_archive :: "env \<Rightarrow> string \<Rightarrow> string" where
  "strip_archive E stem = (if \<not> isArchive E stem then stem else trim_suffix stem (ext stem))"

definition archiveStem :: "env \<Rightarrow> string \<Rightarrow> string" where
  "archiveStem E name = strip_archive E (strip_archive E name)"

definition hasSiblingArchiveStem :: "env \<Rightarrow> fsys \<Rightarrow> string \<Rightarrow> bool" where
  "hasSiblingArchiveStem E F dirPath = (case read_dir F (dir dirPath) of Inl e \<Rightarrow> False
     | Inr entries \<Rightarrow> list_ex (\<lambda>(name, n). \<not> is_dir n \<and> isArchive E name
         \<and> archiveStem E name = base dirPath) entries)"

definition isExtractDest :: "env \<Rightarrow> fsys \<Rightarrow> string \<Rightarrow> bool" where
  "isExtractDest E F dirPath = (hasExtractLog F dirPath \<or> hasSiblingArchiveStem E F dirPath)"

text \<open>
  \<open>insideExtractDest\<close>: the loop stops at the root or outside of it; a path that is its own parent
  is \<open>/\<close> or \<open>.\<close>, which is the root or outside of it.
\<close>

function inside_loop :: "env \<Rightarrow> fsys \<Rightarrow> string \<Rightarrow> string \<Rightarrow> bool" where
  "inside_loop E F root d = (if d = '''' \<or> \<not> isWithinPath root d \<or> d = root then False
     else if isExtractDest E F d then True
     else if dir d = d then False
     else inside_loop E F root (dir d))"
  by pat_completeness auto
termination by (relation "measure (\<lambda>(E, F, root, d). up_measure d)") (auto intro: dir_measure)

declare inside_loop.simps [simp del]

definition insideExtractDest :: "env \<Rightarrow> fsys \<Rightarrow> string \<Rightarrow> string \<Rightarrow> bool" where
  "insideExtractDest E F root d = inside_loop E F (clean root) (clean d)"

subsection \<open>Watches and tracked items\<close>

definition watch_path :: "string \<Rightarrow> 'a daemon_scheme \<Rightarrow> 'a daemon_scheme" where
  "watch_path path u = u\<lparr>d_watched := List.insert path (d_watched u)\<rparr>"

definition unwatch :: "string \<Rightarrow> 'a daemon_scheme \<Rightarrow> 'a daemon_scheme" where
  "unwatch path u = u\<lparr>d_watched := filter (\<lambda>p. p \<noteq> path) (d_watched u)\<rparr>"

definition untrack :: "string \<Rightarrow> 'a daemon_scheme \<Rightarrow> 'a daemon_scheme" where
  "untrack path u = u\<lparr>d_Tracked := adel path (d_Tracked u)\<rparr>"

definition addWatchDir :: "xlib \<Rightarrow> fsys \<Rightarrow> string \<Rightarrow> 'a daemon_scheme \<Rightarrow> 'a daemon_scheme" where
  "addWatchDir X F path u = (let path = clean path in
     if path \<in> set (d_WatchDirs u) then u
     else if \<not> canWatch X F path then u
     else (watch_path path u)\<lparr>d_WatchDirs := d_WatchDirs u @ [path]\<rparr>)"

definition removeWatchDirs :: "string \<Rightarrow> 'a daemon_scheme \<Rightarrow> 'a daemon_scheme" where
  "removeWatchDirs path u = (let gone = filter (isWithinPath path) (d_WatchDirs u) in
     foldl (\<lambda>u w. unwatch w u) (u\<lparr>d_WatchDirs := filter (\<lambda>w. \<not> isWithinPath path w) (d_WatchDirs u)\<rparr>) gone)"

definition saveEvent :: "xlib \<Rightarrow> fsys \<Rightarrow> folder_config \<Rightarrow> string \<Rightarrow> instant \<Rightarrow> bool
    \<Rightarrow> 'a daemon_scheme \<Rightarrow> 'a daemon_scheme" where
  "saveEvent X F cfg path now refreshExisting u = (case aget (d_Tracked u) path of
     Some f \<Rightarrow> if refreshExisting then track_folder path (f\<lparr>fo_Updated := now\<rparr>) u else u
   | None \<Rightarrow> if \<not> canWatch X F path then u
       else track_folder path (zero_folder\<lparr>fo_Updated := now, fo_Status := WAITING, fo_Config := Some cfg\<rparr>)
         (watch_path path u))"

subsection \<open>scanWatchDir\<close>

text \<open>
  The order in which \<open>filepath.WalkDir\<close> visits the paths at and below a root: every directory before
  what it holds, and the entries of a directory by their names.
\<close>

definition walk_order :: "fsys \<Rightarrow> string \<Rightarrow> (string \<times> fnode) list" where
  "walk_order F root = sort_key (\<lambda>(k, n). path_comps k) (filter (\<lambda>(k, n). below root k) (fs_nodes F))"

definition path_config :: "'a daemon_scheme \<Rightarrow> folder_config \<Rightarrow> string \<Rightarrow> folder_config" where
  "path_config u cfg path = (case watchConfig (map Some (d_WatchCfg u)) path of None \<Rightarrow> cfg | Some c \<Rightarrow> c)"

text \<open>
  The walk with its callback: \<open>skipped\<close> are the directories for which the callback answered
  \<open>SkipDir\<close>. A directory that cannot be read ends the walk.
\<close>

fun scan_loop :: "env \<Rightarrow> xlib \<Rightarrow> fsys \<Rightarrow> folder_config \<Rightarrow> string \<Rightarrow> instant \<Rightarrow> bool
    \<Rightarrow> (string \<times> fnode) list \<Rightarrow> string list \<Rightarrow> 'a daemon_scheme \<Rightarrow> string list \<times> 'a daemon_scheme" where
  "scan_loop E X F cfg root now refresh [] skipped u = ([], u)"
| "scan_loop E X F cfg root now refresh ((path, n) # ks) skipped u = (
     if list_ex (\<lambda>d. below d path) skipped then scan_loop E X F cfg root now refresh ks skipped u
     else let c = path_config u cfg path in
       if IsExcludedPath c path \<or> ignoredExtractName path then
         scan_loop E X F cfg root now refresh ks (if is_dir n then path # skipped else skipped) u
       else if is_dir n then
         (if path \<noteq> root \<and> isExtractDest E F path then scan_loop E X F cfg root now refresh ks (path # skipped) u
          else if path \<in> set (fs_denied F) then ([], addWatchDir X F path u)
          else scan_loop E X F cfg root now refresh ks skipped (addWatchDir X F path u))
       else if \<not> isArchive E (base path) then scan_loop E X F cfg root now refresh ks skipped u
       else if insideExtractDest E F (fc_Path c) (dir path) \<or> \<not> isPrimaryArchive path then
         scan_loop E X F cfg root now refresh ks skipped u
       else (case scan_loop E X F cfg root now refresh ks skipped (saveEvent X F c path now refresh u) of
         (paths, u) \<Rightarrow> (path # paths, u)))"

definition scanWatchDir :: "env \<Rightarrow> xlib \<Rightarrow> fsys \<Rightarrow> folder_config \<Rightarrow> string \<Rightarrow> instant \<Rightarrow> bool
    \<Rightarrow> 'a daemon_scheme \<Rightarrow> string list \<times> 'a daemon_scheme" where
  "scanWatchDir E X F cfg dirPath now refresh u = (let u = addWatchDir X F dirPath u in
     case os_stat F dirPath of Inl e \<Rightarrow> ([], u)
     | Inr n \<Rightarrow> scan_loop E X F cfg dirPath now refresh (walk_order F dirPath) [] u)"

text \<open>\<open>Scan\<close>: the discovered paths of all watch roots.\<close>

fun scan_roots :: "env \<Rightarrow> xlib \<Rightarrow> fsys \<Rightarrow> instant \<Rightarrow> folder_config list
    \<Rightarrow> 'a daemon_scheme \<Rightarrow> string list \<times> 'a daemon_scheme" where
  "scan_roots E X F now [] u = ([], u)"
| "scan_roots E X F now (cfg # cfgs) u = (
     case scanWatchDir E X F cfg (clean (fc_Path cfg)) now False u of (ps, u) \<Rightarrow>
       (case scan_roots E X F now cfgs u of (qs, u) \<Rightarrow> (ps @ qs, u)))"

definition Scan :: "env \<Rightarrow> xlib \<Rightarrow> fsys \<Rightarrow> instant \<Rightarrow> 'a daemon_scheme \<Rightarrow> string list \<times> 'a daemon_scheme" where
  "Scan E X F now u = scan_roots E X F now (d_WatchCfg u) u"

subsection \<open>Events\<close>

definition handleFileEvent :: "string \<Rightarrow> string \<Rightarrow> 'a daemon_scheme \<Rightarrow> event option" where
  "handleFileEvent name operation u = (if ignoredExtractName name then None
     else case watchConfig (map Some (d_WatchCfg u)) name of None \<Rightarrow> None
     | Some cfg \<Rightarrow> if clean name = clean (fc_Path cfg) then None
         else if IsExcludedPath cfg name then None
         else Some \<lparr>ev_Config = Some cfg, ev_Name = base name, ev_File = name, ev_Op = operation\<rparr>)"

text \<open>\<open>eventPath\<close> of an event with a configuration: the path, unless it is outside the watch root.\<close>

definition eventPath :: "folder_config \<Rightarrow> event \<Rightarrow> string option" where
  "eventPath cfg event = (
     let path = (if ev_File event = '''' \<or> hasWaitSuffix (ev_File event) (fc_WaitExtensions cfg)
           then path_join [fc_Path cfg, ev_Name event] else ev_File event);
         path = clean path
     in if isWithinPath (fc_Path cfg) path \<and> clean path \<noteq> clean (fc_Path cfg) then Some path else None)"

definition handleUnreadableEvent :: "string \<Rightarrow> 'a daemon_scheme \<Rightarrow> string list \<times> 'a daemon_scheme" where
  "handleUnreadableEvent dirPath u = (let u = removeWatchDirs dirPath u in
     ([dirPath], if aget (d_Tracked u) dirPath \<noteq> None then unwatch dirPath (untrack dirPath u) else u))"

definition ProcessEvent :: "env \<Rightarrow> xlib \<Rightarrow> fsys \<Rightarrow> event \<Rightarrow> instant
    \<Rightarrow> 'a daemon_scheme \<Rightarrow> string list \<times> 'a daemon_scheme" where
  "ProcessEvent E X F event now u = (case ev_Config event of None \<Rightarrow> ([], u)
   | Some cfg \<Rightarrow> (case eventPath cfg event of None \<Rightarrow> ([], u)
   | Some dirPath \<Rightarrow>
       if IsExcludedPath cfg (ev_File event) \<or> IsExcludedPath cfg dirPath then ([dirPath], u)
       else (case os_stat F dirPath of Inl e \<Rightarrow> handleUnreadableEvent dirPath u
       | Inr n \<Rightarrow>
           if \<not> is_dir n \<and> \<not> isArchive E (base dirPath) then ([dirPath], u)
           else if ignoredExtractName dirPath \<or> ignoredExtractName (ev_File event) then ([dirPath], u)
           else if is_dir n \<and> isExtractDest E F dirPath then ([dirPath], untrack dirPath u)
           else if is_dir n then
             (case scanWatchDir E X F cfg dirPath now True u of (discovered, u) \<Rightarrow>
               if discovered \<noteq> [] then (dirPath # discovered, untrack dirPath u)
               else if fc_WaitExtensions cfg \<noteq> [] \<and> WaitFileInTop F dirPath (fc_WaitExtensions cfg) \<noteq> ''''
                   \<or> fc_SkipEmpty cfg then ([dirPath], saveEvent X F cfg dirPath now True u)
               else ([dirPath], untrack dirPath u))
           else if insideExtractDest E F (fc_Path cfg) (dir dirPath) \<or> \<not> isPrimaryArchive dirPath then ([dirPath], u)
           else ([dirPath], saveEvent X F cfg dirPath now True u))))"

end
