(* ===== verification/FolderQueue.thy ===== *)
theory FolderQueue
  imports Watch Queue
begin

text \<open>
  \<open>pkg/unpackerr/folder.go\<close>: the watched items from discovery to cleanup. The tracker entry of a
  name and the queue's extract of the same name change together; every operation reads the entry
  again after a call that may change it, as the pointer in the code does.

  A tracked item may lack its configuration, and a configuration its delete delay; where the code
  reads through such a null pointer the operation is \<open>None\<close>, a panic. The file system is not changed
  by these operations, except by the callback, which clears remnants; deletes are requests to the
  delete worker.
\<close>

subsection \<open>Incomplete downloads\<close>

definition incompleteDownloadSuffixes :: "string list" where
  "incompleteDownloadSuffixes = [''.part'', ''.partial'', ''.crdownload'', ''.download'', ''.aria2'', ''.!qb'']"

definition isIncompleteArchiveName :: "env \<Rightarrow> string \<Rightarrow> bool" where
  "isIncompleteArchiveName E name = (let lower = to_lower name in
     list_ex (\<lambda>s. has_suffix lower s \<and> isArchive E (trim_suffix lower s)) incompleteDownloadSuffixes)"

text \<open>The first file of a walk that has such a name; a directory that cannot be read ends the walk.\<close>

fun first_incomplete :: "env \<Rightarrow> fsys \<Rightarrow> (string \<times> fnode) list \<Rightarrow> string" where
  "first_incomplete E F [] = ''''"
| "first_incomplete E F ((path, n) # ks) = (
     if is_dir n then (if path \<in> set (fs_denied F) then '''' else first_incomplete E F ks)
     else if isIncompleteArchiveName E (base path) then path
     else first_incomplete E F ks)"

definition folderIncompleteDownload :: "env \<Rightarrow> fsys \<Rightarrow> string \<Rightarrow> string" where
  "folderIncompleteDownload E F path = (case os_stat F path of Inl e \<Rightarrow> ''''
     | Inr n \<Rightarrow> first_incomplete E F (walk_order F path))"

definition multipartIncompleteSibling :: "env \<Rightarrow> fsys \<Rightarrow> string \<Rightarrow> string" where
  "multipartIncompleteSibling E F path = (let b = to_lower (base path) in
     case last_index b ''.part'' of None \<Rightarrow> ''''
     | Some partAt \<Rightarrow> if \<not> has_suffix b ''.rar'' then ''''
         else (case read_dir F (dir path) of Inl e \<Rightarrow> ''''
         | Inr entries \<Rightarrow> (case find (\<lambda>(name, n). \<not> is_dir n \<and> has_prefix (to_lower name) (take (partAt + 5) b)
               \<and> isIncompleteArchiveName E (to_lower name)) entries of
             None \<Rightarrow> '''' | Some (name, n) \<Rightarrow> path_join [dir path, name])))"

definition folderExcludeSuffixes :: "folder_config \<Rightarrow> string list" where
  "folderExcludeSuffixes cfg = (if fc_ExtractISOs cfg then [] else [''.iso''])"

definition folderHasExtractableContent :: "env \<Rightarrow> xlib \<Rightarrow> fsys \<Rightarrow> string \<Rightarrow> folder_config option \<Rightarrow> bool option" where
  "folderHasExtractableContent E X F path cfg = (if path = '''' then Some False
     else if isArchive E path \<or> isIncompleteArchiveName E (base path) then Some True
     else if folderIncompleteDownload E F path \<noteq> '''' then Some True
     else case cfg of None \<Rightarrow> None
       | Some c \<Rightarrow> Some (archiveCount E (findCompressed X F path (folderExcludeSuffixes c) False) > 0))"

definition getFileList :: "fsys \<Rightarrow> string \<Rightarrow> string list" where
  "getFileList F path = (case read_dir F path of Inl e \<Rightarrow> [] | Inr entries \<Rightarrow> map fst entries)"

subsection \<open>Waiting for other files\<close>

definition folderWaitFile :: "fsys \<Rightarrow> string \<Rightarrow> string list \<Rightarrow> string" where
  "folderWaitFile F name exts = (let name = (case os_stat F name of Inl e \<Rightarrow> name
       | Inr n \<Rightarrow> if is_dir n then name else dir name)
     in WaitFileInTop F name exts)"

definition config_wait_file :: "fsys \<Rightarrow> string \<Rightarrow> folder \<Rightarrow> string" where
  "config_wait_file F name f = (case fo_Config f of None \<Rightarrow> ''''
     | Some c \<Rightarrow> folderWaitFile F name (fc_WaitExtensions c))"

definition setFolderWaitNote :: "env \<Rightarrow> instant \<Rightarrow> string \<Rightarrow> string \<Rightarrow> 'a daemon_scheme \<Rightarrow> 'a daemon_scheme" where
  "setFolderWaitNote E clk name waitFile u = unlockHistory (case aget (d_Map u) name of None \<Rightarrow> u
     | Some item \<Rightarrow> if e_Status item \<noteq> WAITING \<or> e_Note item = waitFile then u
         else let item = stampQueueDue u name (item\<lparr>e_Note := waitFile\<rparr>)
           in notifyItem E clk name item (set_item name item u))"

definition refreshFolderWait :: "env \<Rightarrow> fsys \<Rightarrow> instant \<Rightarrow> string \<Rightarrow> 'a daemon_scheme \<Rightarrow> bool \<times> 'a daemon_scheme" where
  "refreshFolderWait E F clk name u = (case aget (d_Tracked u) name of None \<Rightarrow> (False, u)
     | Some f \<Rightarrow> if fo_Status f \<noteq> WAITING then (False, u)
         else let waitFile = config_wait_file F name f
           in (waitFile \<noteq> '''', setFolderWaitNote E clk name waitFile
                (track_folder name (f\<lparr>fo_WaitFile := waitFile\<rparr>) u)))"

definition folderWaitActive :: "env \<Rightarrow> fsys \<Rightarrow> instant \<Rightarrow> string \<Rightarrow> folder \<Rightarrow> instant
    \<Rightarrow> 'a daemon_scheme \<Rightarrow> bool \<times> 'a daemon_scheme" where
  "folderWaitActive E F clk name f now u = (
     if fo_WaitFile f \<noteq> '''' \<and> time_sub now (fo_Updated f) < cleanerInterval + nsecond then (True, u)
     else refreshFolderWait E F clk name u)"

definition folderArchiveCount :: "env \<Rightarrow> xlib \<Rightarrow> fsys \<Rightarrow> string \<Rightarrow> folder \<Rightarrow> int" where
  "folderArchiveCount E X F name f = (
     let cfg = (case fo_Config f of None \<Rightarrow> zero_folder_config | Some c \<Rightarrow> c)
     in archiveCount E (findCompressed X F name (folderExcludeSuffixes cfg) (fc_AllowSymlinks cfg)))"

subsection \<open>The queue mirrors the tracker\<close>

definition syncFolderQueue :: "env \<Rightarrow> fsys \<Rightarrow> instant \<Rightarrow> string \<Rightarrow> string \<Rightarrow> 'a daemon_scheme \<Rightarrow> 'a daemon_scheme" where
  "syncFolderQueue E F clk dirPath kind u = unlockHistory (case aget (d_Tracked u) dirPath of
     None \<Rightarrow> (case aget (d_Map u) dirPath of None \<Rightarrow> u
       | Some item \<Rightarrow> if e_App item = FolderString \<and> e_Status item = WAITING
           then notifyQueueLocked E clk (deleteExtract u dirPath) else u)
   | Some f \<Rightarrow>
       if fo_Status f \<noteq> WAITING then u
       else (case aget (d_Map u) dirPath of
         None \<Rightarrow> let waitFile = config_wait_file F dirPath f in
           updateQueueStatus E clk (track_folder dirPath (f\<lparr>fo_WaitFile := waitFile\<rparr>) u)
             \<lparr>ns_Name = dirPath, ns_Status = WAITING, ns_Resp = None, ns_Event = kind, ns_Note = waitFile\<rparr>
             (fo_Updated f) False
       | Some item \<Rightarrow>
           if e_Status item \<noteq> WAITING then u
           else let item = item\<lparr>e_Updated := fo_Updated f, e_Event := (if kind \<noteq> '''' then kind else e_Event item)\<rparr>;
                    item = stampQueueDue u dirPath item
             in notifyItem E clk dirPath item (set_item dirPath item u)))"

definition dropFolderUnqueued :: "env \<Rightarrow> instant \<Rightarrow> string \<Rightarrow> 'a daemon_scheme \<Rightarrow> 'a daemon_scheme" where
  "dropFolderUnqueued E clk name u =
     unlockHistory (notifyQueueLocked E clk (deleteExtract (untrack name (unwatch name u)) name))"

definition drop_missing :: "env \<Rightarrow> fsys \<Rightarrow> instant \<Rightarrow> string \<Rightarrow> 'a daemon_scheme \<Rightarrow> string \<Rightarrow> 'a daemon_scheme" where
  "drop_missing E F clk dirPath u name = (case aget (d_Tracked u) name of None \<Rightarrow> u
     | Some f \<Rightarrow> if name = dirPath \<or> \<not> isDescendantPath dirPath name then u
         else if fo_Status f \<noteq> WAITING then u
         else recoveryClearFolder name (syncFolderQueue E F clk name '''' (unwatch name (untrack name u))))"

definition dropMissingFolderDescendants ::
    "env \<Rightarrow> fsys \<Rightarrow> instant \<Rightarrow> string \<Rightarrow> 'a daemon_scheme \<Rightarrow> 'a daemon_scheme" where
  "dropMissingFolderDescendants E F clk dirPath u =
     foldl (drop_missing E F clk dirPath) u (akeys (d_Tracked u))"

text \<open>What \<open>processEvent\<close> does for one of the paths the event affected.\<close>

definition affect_path :: "env \<Rightarrow> xlib \<Rightarrow> fsys \<Rightarrow> instant \<Rightarrow> string \<Rightarrow> bool \<Rightarrow> string
    \<Rightarrow> 'a daemon_scheme \<Rightarrow> string \<Rightarrow> 'a daemon_scheme option" where
  "affect_path E X F clk dirPath trackedBefore kind u path = (
     let u = syncFolderQueue E F clk path kind u in
     case (case aget (d_Tracked u) path of
         None \<Rightarrow> Some (if path = dirPath \<and> trackedBefore then recoveryClearFolder path u else u)
       | Some f \<Rightarrow> (let track = recoveryTrackFolder E path (fo_Config f) (fo_Status f) (fo_Updated f) u in
           if fo_Status f \<noteq> WAITING then Some track
           else (case folderHasExtractableContent E X F path (fo_Config f) of None \<Rightarrow> None
             | Some ok \<Rightarrow> Some (if \<not> ok then recoveryClearFolder path u else track)))) of
       None \<Rightarrow> None
     | Some u \<Rightarrow> Some (snd (refreshFolderWait E F clk path u)))"

text \<open>A loop whose body may panic.\<close>

fun fold_opt :: "('s \<Rightarrow> 'b \<Rightarrow> 's option) \<Rightarrow> 's \<Rightarrow> 'b list \<Rightarrow> 's option" where
  "fold_opt f s [] = Some s"
| "fold_opt f s (x # xs) = (case f s x of None \<Rightarrow> None | Some s \<Rightarrow> fold_opt f s xs)"

definition processEvent :: "env \<Rightarrow> xlib \<Rightarrow> fsys \<Rightarrow> instant \<Rightarrow> event \<Rightarrow> instant
    \<Rightarrow> 'a daemon_scheme \<Rightarrow> 'a daemon_scheme option" where
  "processEvent E X F clk event now u = (case ev_Config event of None \<Rightarrow> Some u
   | Some cfg \<Rightarrow>
       if ev_File event = d_LogFile u \<or> ev_File event = d_WebLogFile u then Some u
       else let dirPath = (if ev_File event = '''' then path_join [fc_Path cfg, ev_Name event]
                else clean (ev_File event));
              trackedBefore = (aget (d_Tracked u) dirPath \<noteq> None)
         in (case ProcessEvent E X F event now u of (affected, u) \<Rightarrow>
           if affected = [] then Some u
           else (case fold_opt (affect_path E X F clk dirPath trackedBefore (Kind event)) u affected of
               None \<Rightarrow> None
             | Some u \<Rightarrow> Some (case os_stat F dirPath of Inr n \<Rightarrow> u
                 | Inl e \<Rightarrow> dropMissingFolderDescendants E F clk dirPath u))))"

definition discover :: "env \<Rightarrow> fsys \<Rightarrow> instant \<Rightarrow> 'a daemon_scheme \<Rightarrow> string \<Rightarrow> 'a daemon_scheme" where
  "discover E F clk u path = (let u = syncFolderQueue E F clk path '''' u in
     case aget (d_Tracked u) path of None \<Rightarrow> u
     | Some f \<Rightarrow> recoveryTrackFolder E path (fo_Config f) (fo_Status f) (fo_Updated f) u)"

definition scanWatchedFolders :: "env \<Rightarrow> xlib \<Rightarrow> fsys \<Rightarrow> instant \<Rightarrow> instant \<Rightarrow> 'a daemon_scheme \<Rightarrow> 'a daemon_scheme" where
  "scanWatchedFolders E X F clk now u = (case Scan E X F now u of (paths, u) \<Rightarrow> foldl (discover E F clk) u paths)"

subsection \<open>Starting an extraction\<close>

definition skipR00Extraction :: "env \<Rightarrow> xlib \<Rightarrow> fsys \<Rightarrow> instant \<Rightarrow> string \<Rightarrow> folder \<Rightarrow> instant
    \<Rightarrow> 'a daemon_scheme \<Rightarrow> bool \<times> 'a daemon_scheme" where
  "skipR00Extraction E X F clk name f now u = (
     if \<not> has_suffix (to_lower name) ''.r00'' \<or> \<not> checkR00 X (getFileList F (dir name)) (base name) then (False, u)
     else (True, unlockHistory (updateQueueStatus E clk
       (track_folder name (f\<lparr>fo_Status := EXTRACTEDNOTHING\<rparr>) u) (status_of name EXTRACTEDNOTHING None) now False)))"

definition deferIncompleteFolderExtract :: "env \<Rightarrow> fsys \<Rightarrow> string \<Rightarrow> folder \<Rightarrow> instant
    \<Rightarrow> 'a daemon_scheme \<Rightarrow> bool \<times> 'a daemon_scheme" where
  "deferIncompleteFolderExtract E F name f now u = (
     let partial = folderIncompleteDownload E F name;
         partial = (if partial = '''' then multipartIncompleteSibling E F name else partial)
     in if partial = '''' then (False, u)
        else (True, recoveryTrackFolder E name (fo_Config f) WAITING now
          (track_folder name (f\<lparr>fo_Status := WAITING\<rparr>) u)))"

definition folder_request :: "string \<Rightarrow> folder_config \<Rightarrow> nat \<Rightarrow> xtract" where
  "folder_request name cfg live = \<lparr>x_Password = getPasswordFromPath name, x_Name = name, x_Path = name,
     x_ExcludeSuffix = folderExcludeSuffixes cfg, x_AllowSymlinks = fc_AllowSymlinks cfg,
     x_PreserveExec = fc_PreserveExec cfg, x_APEFormat = '''', x_APECompression = 0,
     x_MaxBytes = fc_ResolvedMaxBytes cfg, x_MaxFiles = fc_MaxFiles cfg, x_MaxRatio = fc_MaxRatio cfg,
     x_MaxNested = fc_MaxNested cfg, x_ExtrasMaxDepth = fc_ExtrasMaxDepth cfg,
     x_TempFolder = (\<not> fc_MoveBack cfg), x_ExtractTo = fc_ExtractPath cfg, x_DeleteOrig = False,
     x_LogFile = (\<not> fc_DisableLog cfg), x_DisableRecursion = fc_DisableRecursion cfg, x_live = live\<rparr>"

definition extractTrackedItem :: "env \<Rightarrow> xlib \<Rightarrow> fsys \<Rightarrow> instant \<Rightarrow> string \<Rightarrow> folder \<Rightarrow> instant
    \<Rightarrow> 'a daemon_scheme \<Rightarrow> ('a daemon_scheme \<times> xtract list) option" where
  "extractTrackedItem E X F clk name f now u = (
     let f = f\<lparr>fo_Updated := now\<rparr> in
     case deferIncompleteFolderExtract E F name f now (track_folder name f u) of
       (True, u) \<Rightarrow> Some (u, [])
     | (False, u) \<Rightarrow> (case fo_Config f of None \<Rightarrow> None
       | Some cfg \<Rightarrow>
           let found = findCompressed X F name (folderExcludeSuffixes cfg) (fc_AllowSymlinks cfg) in
           if archiveCount E found = 0 then
             Some (recoveryTrackFolder E name (Some cfg) EXTRACTEDNOTHING now
               (track_folder name (f\<lparr>fo_Status := EXTRACTEDNOTHING\<rparr>) u), [])
           else let f = f\<lparr>fo_Status := QUEUED\<rparr> in
             (case skipR00Extraction E X F clk name f now (track_folder name f (unwatch name u)) of
               (True, u) \<Rightarrow> Some (recoveryClearFolder name u, [])
             | (False, u) \<Rightarrow>
                 let u = unlockHistory (updateQueueStatus E clk u (status_of name QUEUED None) now True);
                     u = recoveryTrackFolder E name (Some cfg) QUEUED now u;
                     f = (if fc_MoveBack cfg
                       then (case keepDirSnapshot F (fo_PreFiles f) (archiveSnapshotPaths E name found) of
                           Inl e \<Rightarrow> f | Inr snap \<Rightarrow> f\<lparr>fo_PreFiles := Some snap\<rparr>)
                       else f);
                     live = (case aget (d_Map u) name of None \<Rightarrow> 0 | Some item \<Rightarrow> e_addr item)
                 in Some (track_folder name f u, [folder_request name cfg live]))))"

subsection \<open>The callback of the library\<close>

definition finishFolderRemnants :: "'a daemon_scheme \<Rightarrow> folder \<Rightarrow> status \<Rightarrow> folder" where
  "finishFolderRemnants u f st = (if st = WAITING then f\<lparr>fo_Status := EXTRACTFAILED\<rparr>
     else let f = (if remnantAction (d_RemnantAction u) = ''off'' then f\<lparr>fo_NoRetry := True\<rparr> else f)
       in f\<lparr>fo_Status := EXTRACTFAILED\<rparr>)"

definition commitFolderExtract :: "'a daemon_scheme \<Rightarrow> folder \<Rightarrow> response \<Rightarrow> status option \<Rightarrow> folder" where
  "commitFolderExtract u f resp remnant = (
     let f = (if rs_Error resp \<noteq> None then f\<lparr>fo_Archives := rs_Archives resp\<rparr> else f) in
     case remnant of Some st \<Rightarrow> finishFolderRemnants u f st
     | None \<Rightarrow> if rs_Error resp \<noteq> None then f\<lparr>fo_Status := EXTRACTFAILED\<rparr>
         else f\<lparr>fo_Archives := rs_Archives resp, fo_Status := EXTRACTED, fo_Files := rs_NewFiles resp\<rparr>)"

fun no_compressed :: "rerror option \<Rightarrow> bool" where
  "no_compressed (Some (NoCompressedFiles m)) = True"
| "no_compressed e = False"

text \<open>A new status of the tracked item, in the tracker, the queue and the recovery file.\<close>

definition settle_folder :: "env \<Rightarrow> instant \<Rightarrow> string \<Rightarrow> folder \<Rightarrow> response \<Rightarrow> 'a daemon_scheme \<Rightarrow> 'a daemon_scheme" where
  "settle_folder E clk name f resp u = recoveryTrackFolder E name (fo_Config f) (fo_Status f) (fo_Updated f)
     (unlockHistory (updateQueueStatus E clk (track_folder name f u)
       (status_of name (fo_Status f) (Some resp)) (fo_Updated f) True))"

definition folderXtractrCallback :: "env \<Rightarrow> fsys \<Rightarrow> instant \<Rightarrow> response
    \<Rightarrow> 'a daemon_scheme \<Rightarrow> ('a daemon_scheme \<times> fsys) option" where
  "folderXtractrCallback E F clk resp u = (let now = rs_Started resp + rs_Elapsed resp; name = rs_Name resp in
     case (aget (d_Tracked u) name, aget (d_Map u) name) of
       (Some f, Some item) \<Rightarrow>
         if \<not> rs_Done resp then
           Some (settle_folder E clk name (f\<lparr>fo_Status := EXTRACTING, fo_Updated := now\<rparr>) resp
             (set_item name (resetExtractProgress item
               (archiveCount E (rs_Archives resp) + archiveCount E (rs_Extras resp))) u), F)
         else if no_compressed (rs_Error resp) then
           Some (settle_folder E clk name (f\<lparr>fo_Status := EXTRACTEDNOTHING, fo_Updated := now\<rparr>) resp u, F)
         else (case fo_Config f of None \<Rightarrow> None
         | Some cfg \<Rightarrow> let u = unlockHistory u; resp = expand_response F resp in
             (case handleRemnants u F resp (fo_PreFiles f) (fo_Retries f) of (remnant, F) \<Rightarrow>
               (case aget (d_Tracked u) name of None \<Rightarrow> Some (unlockHistory u, F)
               | Some f \<Rightarrow> Some (settle_folder E clk name
                   ((commitFolderExtract u f resp remnant)\<lparr>fo_Updated := now\<rparr>) resp u, F))))
     | _ \<Rightarrow> Some (recoveryClearFolder name (unlockHistory (notifyQueueLocked E clk
         (deleteExtract (untrack name u) name))), F))"

subsection \<open>The timer\<close>

definition checkWaitingFolder :: "env \<Rightarrow> xlib \<Rightarrow> fsys \<Rightarrow> instant \<Rightarrow> string \<Rightarrow> folder \<Rightarrow> instant
    \<Rightarrow> 'a daemon_scheme \<Rightarrow> ('a daemon_scheme \<times> xtract list) option" where
  "checkWaitingFolder E X F clk name f now u = (case os_stat F name of
     Inl e \<Rightarrow> Some (syncFolderQueue E F clk name '''' (unwatch name (untrack name u)), [])
   | Inr n \<Rightarrow> (case folderWaitActive E F clk name f now u of
       (True, u) \<Rightarrow> Some (u, [])
     | (False, u) \<Rightarrow> (case aget (d_Tracked u) name of None \<Rightarrow> Some (u, [])
       | Some f \<Rightarrow>
           if time_sub now (fo_Updated f) < d_StartDelay u then Some (u, [])
           else if (case fo_Config f of None \<Rightarrow> False | Some c \<Rightarrow> fc_SkipEmpty c)
               \<and> folderArchiveCount E X F name f = 0 then Some (dropFolderUnqueued E clk name u, [])
           else extractTrackedItem E X F clk name f now u)))"

definition copyFolderRetriesLocked :: "string \<Rightarrow> folder \<Rightarrow> 'a daemon_scheme \<Rightarrow> 'a daemon_scheme" where
  "copyFolderRetriesLocked name f u = (case aget (d_Map u) name of None \<Rightarrow> u
     | Some item \<Rightarrow> set_item name (item\<lparr>e_Retries := fo_Retries f\<rparr>) u)"

text \<open>The tracked item is done: the last status change, and the tracker and recovery forget it.\<close>

definition finish_folder :: "env \<Rightarrow> instant \<Rightarrow> string \<Rightarrow> instant \<Rightarrow> bool \<Rightarrow> 'a daemon_scheme \<Rightarrow> 'a daemon_scheme" where
  "finish_folder E clk name now hook u = untrack name (recoveryClearFolder name (unlockHistory
     (updateQueueStatus E clk u (status_of name DELETED None) now hook)))"

definition restart_folder :: "env \<Rightarrow> instant \<Rightarrow> string \<Rightarrow> folder \<Rightarrow> instant \<Rightarrow> 'a daemon_scheme \<Rightarrow> 'a daemon_scheme" where
  "restart_folder E clk name f now u = (
     let f = f\<lparr>fo_Retries := fo_Retries f + 1, fo_Updated := now, fo_Status := WAITING\<rparr>;
         u = copyFolderRetriesLocked name f (track_folder name f (u\<lparr>d_Retries := d_Retries u + 1\<rparr>));
         u = (case aget (d_Map u) name of None \<Rightarrow> u
           | Some item \<Rightarrow> let item = item\<lparr>e_Status := WAITING, e_Updated := now\<rparr>
               in maybeRecordHistory E (set_item name item u) name item)
     in recoveryTrackFolder E name (fo_Config f) WAITING now (unlockHistory (notifyQueueLocked E clk u)))"

definition checkFailedFolder :: "env \<Rightarrow> instant \<Rightarrow> string \<Rightarrow> folder \<Rightarrow> instant \<Rightarrow> duration
    \<Rightarrow> 'a daemon_scheme \<Rightarrow> 'a daemon_scheme option" where
  "checkFailedFolder E clk name f now elapsed u = (
     if fo_NoRetry f then Some (finish_folder E clk name now True (copyFolderRetriesLocked name f u))
     else if elapsed \<ge> d_RetryDelay u \<and> fo_Retries f < maxRetries u then
       (if fo_Config f = None then None else Some (restart_folder E clk name f now u))
     else if fo_Retries f < maxRetries u then Some u
     else Some (finish_folder E clk name now True (copyFolderRetriesLocked name f u)))"

definition purge_root :: "fsys \<Rightarrow> string \<Rightarrow> folder \<Rightarrow> string" where
  "purge_root F name f = (case os_stat F name of Inl e \<Rightarrow> ''''
     | Inr n \<Rightarrow> if is_dir n \<and> (case fo_Config f of None \<Rightarrow> True | Some c \<Rightarrow> clean name \<noteq> clean (fc_Path c))
         then name else '''')"

definition folder_outputs :: "string \<Rightarrow> folder \<Rightarrow> folder_config \<Rightarrow> string list" where
  "folder_outputs name f cfg = (if \<not> fc_DeleteFiles cfg then []
     else if fo_Files f = [] \<and> \<not> fc_MoveBack cfg then [trim_right [CHR ''/'', CHR 0x5C] name @ tmp_suffix]
     else fo_Files f)"

definition folder_originals :: "env \<Rightarrow> string \<Rightarrow> folder \<Rightarrow> folder_config \<Rightarrow> string list" where
  "folder_originals E name f cfg = (if \<not> fc_DeleteOrig cfg then []
     else let orig = archiveList E (fo_Archives f) in
       if orig = [] \<and> \<not> fc_MoveBack cfg then [name] else orig)"

definition request_delete :: "string list \<Rightarrow> string \<Rightarrow> 'a daemon_scheme \<Rightarrow> 'a daemon_scheme" where
  "request_delete paths root u = (if paths = [] then u
     else queueDelete \<lparr>dr_Paths = paths, dr_PurgeEmptyParent = (root \<noteq> ''''), dr_PurgeEmptyRoot = root\<rparr> u)"

definition deleteAfterReached :: "env \<Rightarrow> fsys \<Rightarrow> instant \<Rightarrow> string \<Rightarrow> instant \<Rightarrow> folder \<Rightarrow> folder_config
    \<Rightarrow> 'a daemon_scheme \<Rightarrow> 'a daemon_scheme" where
  "deleteAfterReached E F clk name now f cfg u = (
     let root = purge_root F name f; out = folder_outputs name f cfg; orig = folder_originals E name f cfg
     in finish_folder E clk name now (out \<noteq> [] \<or> orig \<noteq> []) (request_delete orig root (request_delete out root u)))"

definition check_folder :: "env \<Rightarrow> xlib \<Rightarrow> fsys \<Rightarrow> instant \<Rightarrow> instant
    \<Rightarrow> 'a daemon_scheme \<times> xtract list \<Rightarrow> string \<Rightarrow> ('a daemon_scheme \<times> xtract list) option" where
  "check_folder E X F clk now s name = (case s of (u, xs) \<Rightarrow>
     case aget (d_Tracked u) name of None \<Rightarrow> Some (u, xs)
   | Some f \<Rightarrow> let elapsed = time_sub now (fo_Updated f) in
       if fo_Status f = WAITING then
         map_option (\<lambda>(u, ys). (u, xs @ ys)) (checkWaitingFolder E X F clk name f now u)
       else if fo_Status f = EXTRACTEDNOTHING then
         Some (if elapsed > d_StartDelay u
           then recoveryClearFolder name (untrack name (unlockHistory (notifyQueueLocked E clk
             (deleteExtract (unwatch name u) name))))
           else u, xs)
       else if fo_Status f = EXTRACTFAILED then
         map_option (\<lambda>u. (u, xs)) (checkFailedFolder E clk name f now elapsed u)
       else if fo_Status f = EXTRACTED then (case fo_Config f of None \<Rightarrow> None
         | Some cfg \<Rightarrow> (case fc_DeleteAfter cfg of None \<Rightarrow> None
           | Some after \<Rightarrow>
               if after \<le> 0 then Some (finish_folder E clk name now False u, xs)
               else if elapsed \<ge> after then Some (deleteAfterReached E F clk name now f cfg u, xs)
               else Some (u, xs)))
       else Some (u, xs))"

definition checkFolderStats :: "env \<Rightarrow> xlib \<Rightarrow> fsys \<Rightarrow> instant \<Rightarrow> instant
    \<Rightarrow> 'a daemon_scheme \<Rightarrow> ('a daemon_scheme \<times> xtract list) option" where
  "checkFolderStats E X F clk now u = fold_opt (check_folder E X F clk now) (u, []) (akeys (d_Tracked u))"

end
