(* ===== verification/FolderFrames.thy ===== *)
theory FolderFrames
  imports FolderQueue Sweep
begin

text \<open>
  What the operations of the folder queue leave alone: \<open>fv\<close> is the tracker, the delete queue and the
  configuration they read. The bundles \<open>tracked_frames\<close>, \<open>delq_frames\<close> and \<open>conf_frames\<close> are the three
  parts as rewrite rules.
\<close>

definition conf :: "'a daemon_scheme \<Rightarrow> duration \<times> duration \<times> uint64 \<times> string \<times> folder_config list \<times> folder_config instances" where
  "conf u = (d_StartDelay u, d_RetryDelay u, d_MaxRetries u, d_RemnantAction u, d_WatchCfg u, d_FolderCfg u)"

definition fv :: "'a daemon_scheme \<Rightarrow> (string \<times> folder) list \<times> delete_req list
    \<times> (duration \<times> duration \<times> uint64 \<times> string \<times> folder_config list \<times> folder_config instances)" where
  "fv u = (d_Tracked u, d_delQueue u, conf u)"

lemma fv_parts:
  assumes "fv u = fv v"
  shows "d_Tracked u = d_Tracked v" "d_delQueue u = d_delQueue v" "conf u = conf v"
  using assms by (simp_all add: fv_def)

lemma conf_parts:
  assumes "conf u = conf v"
  shows "d_StartDelay u = d_StartDelay v" "d_RetryDelay u = d_RetryDelay v" "maxRetries u = maxRetries v"
    "d_RemnantAction u = d_RemnantAction v" "d_WatchCfg u = d_WatchCfg v" "d_FolderCfg u = d_FolderCfg v"
  using assms by (simp_all add: conf_def maxRetries_def)

lemma fv_more: "hist.more u = hist.more (v :: 'a daemon_scheme) \<Longrightarrow> fv u = fv v"
  by (cases u; cases v) (simp add: fv_def conf_def)

lemma fv_notify: "fv (notifyQueueLocked E clk u) = fv u"
  by (simp add: fv_def conf_def notifyQueueLocked_def Let_def split: option.splits)

lemma fv_record: "fv (maybeRecordHistory E u i e) = fv u"
  by (rule fv_more) (rule record_more)

lemma fv_forgotten: "fv (markHistoryForgotten u i) = fv u"
  by (rule fv_more) (rule forget_more)

lemma fv_delete: "fv (deleteExtract u n) = fv u"
  by (auto simp: fv_def conf_def deleteExtract_def dropHookMessages_def Let_def)

lemma fv_small:
  "fv (set_item n e u) = fv u" "fv (queuePendingHook u n e) = fv u" "fv (notifyItem E clk n e u) = fv u"
  "fv (unwatch p u) = fv u" "fv (watch_path p u) = fv u" "fv (saveRecoveryState u) = fv u"
  "fv (u\<lparr>d_Retries := r\<rparr>) = fv u" "fv (u\<lparr>d_Finished := r\<rparr>) = fv u" "fv (u\<lparr>d_nextAddr := a\<rparr>) = fv u"
  "fv (u\<lparr>d_forgotten := s\<rparr>) = fv u"
  by (simp_all add: fv_def conf_def set_item_def queuePendingHook_def notifyItem_def notify_hub_def unwatch_def
    watch_path_def saveRecoveryState_def split: option.splits)

lemma fv_queueHook: "fv (queueHook i a e u s) = fv u"
  by (simp add: fv_def conf_def queueHook_def)

lemma fv_queueHooks: "fv (foldl (queueHook i a e) u ss) = fv u"
  by (induction ss arbitrary: u) (simp_all add: fv_queueHook)

lemma fv_seed: "fv (seedHookMessages u i m a) = fv u"
  by (simp add: fv_def conf_def seedHookMessages_def Let_def split: option.splits)

lemma fv_runHooks: "fv (runAllHooks u p) = fv u"
  by (simp add: runAllHooks_def Let_def fv_queueHooks fv_seed)

lemma fv_unlock: "fv (unlockHistory u) = fv u"
proof -
  have "fv (foldl runAllHooks v ps) = fv v" for v :: "'a daemon_scheme" and ps
    by (induction ps arbitrary: v) (simp_all add: fv_runHooks)
  then show ?thesis by (simp add: unlockHistory_def) (simp add: fv_def conf_def)
qed

lemma fv_recovery:
  "fv (recoveryClearFolder p u) = fv u" "fv (recoveryTrackFolder E p c s t u) = fv u"
proof -
  show c: "fv (recoveryClearFolder p u) = fv u" for p
    by (simp add: recoveryClearFolder_def fv_small) (simp add: fv_def conf_def)
  have "fv (saveRecoveryState (u\<lparr>d_recovery := r\<rparr>)) = fv u" for r
    by (simp add: fv_small) (simp add: fv_def conf_def)
  then show "fv (recoveryTrackFolder E p c s t u) = fv u"
    by (simp add: recoveryTrackFolder_def Let_def c split: option.splits)
qed

lemma fv_update: "fv (updateQueueStatus E clk u d now h) = fv u"
proof -
  have m: "fv (u\<lparr>d_Map := m\<rparr>) = fv u" "fv (u\<lparr>d_Map := m, d_nextAddr := a\<rparr>) = fv u" for m a
    by (simp_all add: fv_def conf_def)
  show ?thesis by (auto simp: updateQueueStatus_def Let_def fv_notify fv_record fv_small m split: option.splits)
qed

lemma fv_waits: "fv (setFolderWaitNote E clk n w u) = fv u"
  by (simp add: setFolderWaitNote_def fv_unlock fv_small Let_def split: option.splits)

lemma fv_retries: "fv (copyFolderRetriesLocked n f u) = fv u"
  by (simp add: copyFolderRetriesLocked_def fv_small split: option.splits)

lemma fv_watchDirs: "fv (addWatchDir X F p u) = fv u" "fv (removeWatchDirs p u) = fv u"
proof -
  have d: "fv (v\<lparr>d_WatchDirs := w\<rparr>) = fv v" for v :: "'a daemon_scheme" and w by (simp add: fv_def conf_def)
  show "fv (addWatchDir X F p u) = fv u" by (simp add: addWatchDir_def Let_def d fv_small)
  have "fv (foldl (\<lambda>u w. unwatch w u) v ps) = fv v" for v :: "'a daemon_scheme" and ps
    by (induction ps arbitrary: v) (simp_all add: fv_small)
  then show "fv (removeWatchDirs p u) = fv u" by (simp add: removeWatchDirs_def Let_def d)
qed

lemmas fv_frames = fv_notify fv_record fv_forgotten fv_delete fv_small fv_unlock fv_recovery fv_update
  fv_waits fv_retries fv_watchDirs

lemmas tracked_frames [simp] = fv_frames [THEN fv_parts(1)]
lemmas delq_frames' [simp] = fv_frames [THEN fv_parts(2)]
lemmas conf_frames [simp] = fv_frames [THEN fv_parts(3)]

lemma tracked_simps [simp]:
  "d_Tracked (track_folder n f u) = aput n f (d_Tracked u)" "d_Tracked (untrack n u) = adel n (d_Tracked u)"
  "d_Tracked (queueDelete r u) = d_Tracked u" "d_delQueue (track_folder n f u) = d_delQueue u"
  "d_delQueue (untrack n u) = d_delQueue u" "conf (track_folder n f u) = conf u" "conf (untrack n u) = conf u"
  "conf (queueDelete r u) = conf u"
  by (simp_all add: track_folder_def untrack_def queueDelete_def conf_def)

end
