(* ===== verification/FolderSweep.thy ===== *)
theory FolderSweep
  imports FolderFrames
begin

text \<open>
  The timer pass \<open>checkFolderStats\<close> as a sweep: what one visit does to its own item, which
  extractions it requests and which deletes, as functions of that item, of the files and of the
  configuration. The interpretations \<open>folder_sweep\<close> and \<open>delete_sweep\<close> then give the whole pass.
\<close>

subsection \<open>A visit to a waiting item\<close>

definition incomplete :: "env \<Rightarrow> fsys \<Rightarrow> string \<Rightarrow> bool" where
  "incomplete E F name \<longleftrightarrow> folderIncompleteDownload E F name \<noteq> '''' \<or> multipartIncompleteSibling E F name \<noteq> ''''"

definition has_rar :: "xlib \<Rightarrow> fsys \<Rightarrow> string \<Rightarrow> bool" where
  "has_rar X F name \<longleftrightarrow> has_suffix (to_lower name) ''.r00'' \<and> checkR00 X (getFileList F (dir name)) (base name)"

definition found_archives :: "xlib \<Rightarrow> fsys \<Rightarrow> string \<Rightarrow> folder_config \<Rightarrow> archive_list" where
  "found_archives X F name cfg = findCompressed X F name (folderExcludeSuffixes cfg) (fc_AllowSymlinks cfg)"

definition with_snapshot :: "env \<Rightarrow> fsys \<Rightarrow> string \<Rightarrow> folder_config \<Rightarrow> archive_list \<Rightarrow> folder \<Rightarrow> folder" where
  "with_snapshot E F name cfg found f = (if fc_MoveBack cfg
     then (case keepDirSnapshot F (fo_PreFiles f) (archiveSnapshotPaths E name found) of
         Inl e \<Rightarrow> f | Inr snap \<Rightarrow> f\<lparr>fo_PreFiles := Some snap\<rparr>)
     else f)"

definition extractable :: "env \<Rightarrow> xlib \<Rightarrow> fsys \<Rightarrow> string \<Rightarrow> folder_config \<Rightarrow> bool" where
  "extractable E X F name cfg \<longleftrightarrow> \<not> incomplete E F name
     \<and> archiveCount E (found_archives X F name cfg) \<noteq> 0 \<and> \<not> has_rar X F name"

definition extract_act :: "env \<Rightarrow> xlib \<Rightarrow> fsys \<Rightarrow> string \<Rightarrow> instant \<Rightarrow> folder_config \<Rightarrow> folder \<Rightarrow> folder" where
  "extract_act E X F name now cfg f = (let f = f\<lparr>fo_Updated := now\<rparr> in
     if incomplete E F name then f\<lparr>fo_Status := WAITING\<rparr>
     else if extractable E X F name cfg
       then with_snapshot E F name cfg (found_archives X F name cfg) (f\<lparr>fo_Status := QUEUED\<rparr>)
     else f\<lparr>fo_Status := EXTRACTEDNOTHING\<rparr>)"

text \<open>A request without the address of the extract it reports to.\<close>

definition anon :: "xtract \<Rightarrow> xtract" where
  "anon x = x\<lparr>x_live := 0\<rparr>"

lemma anon_request [simp]: "anon (folder_request name cfg a) = folder_request name cfg 0"
  by (simp add: anon_def folder_request_def)

lemma recovery_Some [simp]: "d_Tracked (recoveryTrackFolder E p c s t u) = d_Tracked u"
  by simp

lemma defer_result:
  "deferIncompleteFolderExtract E F name f now u = (incomplete E F name,
     if incomplete E F name then recoveryTrackFolder E name (fo_Config f) WAITING now
       (track_folder name (f\<lparr>fo_Status := WAITING\<rparr>) u) else u)"
  by (auto simp: deferIncompleteFolderExtract_def incomplete_def Let_def)

lemma r00_result:
  "skipR00Extraction E X F clk name f now u = (has_rar X F name,
     if has_rar X F name then unlockHistory (updateQueueStatus E clk
       (track_folder name (f\<lparr>fo_Status := EXTRACTEDNOTHING\<rparr>) u) (status_of name EXTRACTEDNOTHING None) now False)
     else u)"
  by (auto simp: skipR00Extraction_def has_rar_def)

text \<open>
  An extraction attempt: it panics without a configuration, unless the download is incomplete;
  else the tracked entry is \<open>extract_act\<close>'s and the request the one of the configuration.
\<close>

lemma extract_panics:
  "extractTrackedItem E X F clk name f now u = None \<longleftrightarrow> fo_Config f = None \<and> \<not> incomplete E F name"
  by (cases "fo_Config f") (simp_all add: extractTrackedItem_def defer_result r00_result Let_def)

lemma extract_incomplete:
  assumes "incomplete E F name" "extractTrackedItem E X F clk name f now u = Some (v, ys)"
  shows "aget (d_Tracked v) = (aget (d_Tracked u))(name \<mapsto> f\<lparr>fo_Updated := now, fo_Status := WAITING\<rparr>)"
    "d_delQueue v = d_delQueue u" "conf v = conf u" "ys = []"
  using assms by (auto simp: extractTrackedItem_def defer_result Let_def)

lemma extract_result:
  assumes "fo_Config f = Some cfg" "extractTrackedItem E X F clk name f now u = Some (v, ys)"
  shows "aget (d_Tracked v) = (aget (d_Tracked u))(name \<mapsto> extract_act E X F name now cfg f)"
    "d_delQueue v = d_delQueue u" "conf v = conf u"
    "map anon ys = (if extractable E X F name cfg then [folder_request name cfg 0] else [])"
proof -
  have "aget (d_Tracked v) = (aget (d_Tracked u))(name \<mapsto> extract_act E X F name now cfg f)
      \<and> d_delQueue v = d_delQueue u \<and> conf v = conf u
      \<and> map anon ys = (if extractable E X F name cfg then [folder_request name cfg 0] else [])"
  proof (cases "incomplete E F name")
    case True
    with extract_incomplete [OF True assms(2)] show ?thesis by (simp add: extract_act_def extractable_def Let_def)
  next
    case False
    show ?thesis
    proof (cases "archiveCount E (found_archives X F name cfg) = 0 \<or> has_rar X F name")
      case True
      with False assms show ?thesis
        by (auto simp: extractTrackedItem_def defer_result r00_result extract_act_def extractable_def
          found_archives_def Let_def split: if_splits)
    next
      case ok: False
      with False assms show ?thesis
        by (auto simp: extractTrackedItem_def defer_result r00_result extract_act_def extractable_def
          found_archives_def with_snapshot_def Let_def split: if_splits sum.splits)
    qed
  qed
  then show "aget (d_Tracked v) = (aget (d_Tracked u))(name \<mapsto> extract_act E X F name now cfg f)"
    "d_delQueue v = d_delQueue u" "conf v = conf u"
    "map anon ys = (if extractable E X F name cfg then [folder_request name cfg 0] else [])" by auto
qed

definition wait_fresh :: "instant \<Rightarrow> folder \<Rightarrow> bool" where
  "wait_fresh now f \<longleftrightarrow> fo_WaitFile f \<noteq> '''' \<and> time_sub now (fo_Updated f) < cleanerInterval + nsecond"

definition empty_skipped :: "env \<Rightarrow> xlib \<Rightarrow> fsys \<Rightarrow> string \<Rightarrow> folder \<Rightarrow> bool" where
  "empty_skipped E X F name f \<longleftrightarrow> (case fo_Config f of None \<Rightarrow> False | Some c \<Rightarrow> fc_SkipEmpty c)
     \<and> folderArchiveCount E X F name f = 0"

text \<open>The item is due: it exists, waits for no file, and was not written to for the start delay.\<close>

definition due :: "env \<Rightarrow> xlib \<Rightarrow> fsys \<Rightarrow> instant \<Rightarrow> 'a daemon_scheme \<Rightarrow> string \<Rightarrow> folder \<Rightarrow> bool" where
  "due E X F now u name f \<longleftrightarrow> \<not> wait_fresh now f \<and> config_wait_file F name f = ''''
     \<and> d_StartDelay u \<le> time_sub now (fo_Updated f) \<and> \<not> empty_skipped E X F name f"

definition waiting_act :: "env \<Rightarrow> xlib \<Rightarrow> fsys \<Rightarrow> instant \<Rightarrow> 'a daemon_scheme \<Rightarrow> string \<Rightarrow> folder \<Rightarrow> folder option" where
  "waiting_act E X F now u name f = (case os_stat F name of Inl e \<Rightarrow> None
   | Inr n \<Rightarrow>
       if wait_fresh now f then Some f
       else let g = f\<lparr>fo_WaitFile := config_wait_file F name f\<rparr> in
         if due E X F now u name f then (case fo_Config f of
             None \<Rightarrow> Some (if incomplete E F name then g\<lparr>fo_Updated := now, fo_Status := WAITING\<rparr> else f)
           | Some cfg \<Rightarrow> Some (extract_act E X F name now cfg g))
         else if config_wait_file F name f = '''' \<and> d_StartDelay u \<le> time_sub now (fo_Updated f) then None
         else Some g)"

definition waiting_requests :: "env \<Rightarrow> xlib \<Rightarrow> fsys \<Rightarrow> instant \<Rightarrow> 'a daemon_scheme \<Rightarrow> string \<Rightarrow> folder \<Rightarrow> xtract list" where
  "waiting_requests E X F now u name f = (case (os_stat F name, fo_Config f) of
     (Inr n, Some cfg) \<Rightarrow> if due E X F now u name f \<and> extractable E X F name cfg
         then [folder_request name cfg 0] else []
   | _ \<Rightarrow> [])"

lemma refresh_result:
  assumes "aget (d_Tracked u) name = Some f" "fo_Status f = WAITING"
  obtains v where "refreshFolderWait E F clk name u = (config_wait_file F name f \<noteq> '''', v)"
    "aget (d_Tracked v) = (aget (d_Tracked u))(name \<mapsto> f\<lparr>fo_WaitFile := config_wait_file F name f\<rparr>)"
    "d_delQueue v = d_delQueue u" "conf v = conf u"
  using assms by (simp add: refreshFolderWait_def Let_def)

lemma waiting_panics:
  assumes "aget (d_Tracked u) name = Some f" "fo_Status f = WAITING"
  shows "checkWaitingFolder E X F clk name f now u = None \<Longrightarrow> fo_Config f = None"
proof -
  assume r: "checkWaitingFolder E X F clk name f now u = None"
  obtain v where v: "refreshFolderWait E F clk name u = (config_wait_file F name f \<noteq> '''', v)"
    "aget (d_Tracked v) name = Some (f\<lparr>fo_WaitFile := config_wait_file F name f\<rparr>)"
    using refresh_result [OF assms, of E F clk] by (metis fun_upd_same)
  from r obtain n where "folderWaitActive E F clk name f now u = (False, v)"
    "extractTrackedItem E X F clk name (f\<lparr>fo_WaitFile := config_wait_file F name f\<rparr>) now v = None"
    by (cases "config_wait_file F name f = ''''")
      (auto simp: checkWaitingFolder_def folderWaitActive_def v split: sum.splits if_splits)
  then show ?thesis by (simp add: extract_panics)
qed

lemma same_count: "folderArchiveCount E X F name (f\<lparr>fo_WaitFile := w\<rparr>) = folderArchiveCount E X F name f"
  by (simp add: folderArchiveCount_def)

lemma waiting_result:
  assumes f: "aget (d_Tracked u) name = Some f" "fo_Status f = WAITING"
    and r: "checkWaitingFolder E X F clk name f now u = Some (v, ys)"
  shows "aget (d_Tracked v) = (aget (d_Tracked u))(name := waiting_act E X F now u name f)
    \<and> d_delQueue v = d_delQueue u \<and> conf v = conf u \<and> map anon ys = waiting_requests E X F now u name f"
proof (cases "os_stat F name")
  case (Inl e)
  with r show ?thesis by (auto simp: checkWaitingFolder_def waiting_act_def waiting_requests_def
    syncFolderQueue_def fun_eq_iff split: option.splits)
next
  case (Inr n)
  show ?thesis
  proof (cases "wait_fresh now f")
    case True
    with Inr r f show ?thesis
      by (auto simp: checkWaitingFolder_def folderWaitActive_def waiting_act_def waiting_requests_def wait_fresh_def
        due_def split: option.splits)
  next
    case stale: False
    let ?w = "config_wait_file F name f" and ?g = "f\<lparr>fo_WaitFile := config_wait_file F name f\<rparr>"
    obtain t where t: "refreshFolderWait E F clk name u = (?w \<noteq> '''', t)"
      "aget (d_Tracked t) = (aget (d_Tracked u))(name \<mapsto> ?g)" "d_delQueue t = d_delQueue u" "conf t = conf u"
      using refresh_result [OF f] by metis
    from t(4) have sd: "d_StartDelay t = d_StartDelay u" by (rule conf_parts)
    from stale have act: "folderWaitActive E F clk name f now u = (?w \<noteq> '''', t)"
      unfolding folderWaitActive_def wait_fresh_def t(1) by (rule if_not_P)
    show ?thesis
    proof (cases "?w \<noteq> '''' \<or> time_sub now (fo_Updated f) < d_StartDelay u")
      case True
      with r Inr stale t sd show ?thesis
        by (cases "?w = ''''") (auto simp: checkWaitingFolder_def act waiting_act_def waiting_requests_def due_def Let_def
          split: option.splits)
    next
      case ready: False
      show ?thesis
      proof (cases "empty_skipped E X F name f")
        case True
        with ready r Inr stale t sd show ?thesis
          by (auto simp: checkWaitingFolder_def act waiting_act_def waiting_requests_def due_def Let_def
            empty_skipped_def same_count dropFolderUnqueued_def split: option.splits)
      next
        case False
        with ready stale have d: "due E X F now u name f" by (simp add: due_def not_less)
        from ready False r Inr t sd have x: "extractTrackedItem E X F clk name ?g now t = Some (v, ys)"
          by (auto simp: checkWaitingFolder_def act empty_skipped_def same_count split: if_splits)
        show ?thesis
        proof (cases "fo_Config f")
          case None
          then have inc: "incomplete E F name" using x extract_panics [of E X F clk name ?g now t] by auto
          from extract_incomplete [OF inc x] d None inc stale Inr t f(2) show ?thesis
            by (simp add: waiting_act_def waiting_requests_def)
        next
          case (Some cfg)
          with extract_result [OF _ x, of cfg] d stale Inr t show ?thesis
            by (simp add: waiting_act_def waiting_requests_def)
        qed
      qed
    qed
  qed
qed

subsection \<open>A visit to any item\<close>

definition failed_act :: "instant \<Rightarrow> 'a daemon_scheme \<Rightarrow> folder \<Rightarrow> folder option" where
  "failed_act now u f = (if fo_NoRetry f then None
     else if time_sub now (fo_Updated f) \<ge> d_RetryDelay u \<and> fo_Retries f < maxRetries u then
       Some (if fo_Config f = None then f
         else f\<lparr>fo_Retries := fo_Retries f + 1, fo_Updated := now, fo_Status := WAITING\<rparr>)
     else if fo_Retries f < maxRetries u then Some f else None)"

definition delete_due :: "instant \<Rightarrow> folder \<Rightarrow> folder_config \<Rightarrow> duration \<Rightarrow> bool" where
  "delete_due now f cfg after \<longleftrightarrow> fo_Status f = EXTRACTED \<and> fc_DeleteAfter cfg = Some after
     \<and> 0 < after \<and> after \<le> time_sub now (fo_Updated f)"

definition folder_act :: "env \<Rightarrow> xlib \<Rightarrow> fsys \<Rightarrow> instant \<Rightarrow> 'a daemon_scheme \<Rightarrow> string \<Rightarrow> folder option \<Rightarrow> folder option" where
  "folder_act E X F now u name x = (case x of None \<Rightarrow> None
   | Some f \<Rightarrow>
       if fo_Status f = WAITING then waiting_act E X F now u name f
       else if fo_Status f = EXTRACTEDNOTHING then
         (if time_sub now (fo_Updated f) > d_StartDelay u then None else Some f)
       else if fo_Status f = EXTRACTFAILED then failed_act now u f
       else if fo_Status f = EXTRACTED then (case fo_Config f of None \<Rightarrow> Some f
         | Some cfg \<Rightarrow> (case fc_DeleteAfter cfg of None \<Rightarrow> Some f
           | Some after \<Rightarrow> if after \<le> 0 \<or> delete_due now f cfg after then None else Some f))
       else Some f)"

definition folder_requests :: "env \<Rightarrow> xlib \<Rightarrow> fsys \<Rightarrow> instant \<Rightarrow> 'a daemon_scheme \<Rightarrow> string \<Rightarrow> folder option \<Rightarrow> xtract list" where
  "folder_requests E X F now u name x = (case x of None \<Rightarrow> []
   | Some f \<Rightarrow> if fo_Status f = WAITING then waiting_requests E X F now u name f else [])"

definition delete_of :: "string list \<Rightarrow> string \<Rightarrow> delete_req list" where
  "delete_of paths root = (if paths = [] then []
     else [\<lparr>dr_Paths = paths, dr_PurgeEmptyParent = (root \<noteq> ''''), dr_PurgeEmptyRoot = root\<rparr>])"

definition folder_deletes :: "env \<Rightarrow> fsys \<Rightarrow> instant \<Rightarrow> 'a daemon_scheme \<Rightarrow> string \<Rightarrow> folder option \<Rightarrow> delete_req list" where
  "folder_deletes E F now u name x = (case x of None \<Rightarrow> []
   | Some f \<Rightarrow> (case fo_Config f of None \<Rightarrow> []
     | Some cfg \<Rightarrow> (case fc_DeleteAfter cfg of None \<Rightarrow> []
       | Some after \<Rightarrow> if delete_due now f cfg after
           then delete_of (folder_outputs name f cfg) (purge_root F name f)
             @ delete_of (folder_originals E name f cfg) (purge_root F name f)
           else [])))"

lemma tracked_finish:
  "aget (d_Tracked (finish_folder E clk name now h u)) = (aget (d_Tracked u))(name := None)"
  "d_delQueue (finish_folder E clk name now h u) = d_delQueue u" "conf (finish_folder E clk name now h u) = conf u"
  by (simp_all add: finish_folder_def)

lemma request_delete_result:
  "d_Tracked (request_delete ps r u) = d_Tracked u" "conf (request_delete ps r u) = conf u"
  "d_delQueue (request_delete ps r u) = d_delQueue u @ delete_of ps r"
  by (simp_all add: request_delete_def delete_of_def)

lemma tracked_restart:
  "aget (d_Tracked (restart_folder E clk name f now u)) = (aget (d_Tracked u))
     (name \<mapsto> f\<lparr>fo_Retries := fo_Retries f + 1, fo_Updated := now, fo_Status := WAITING\<rparr>)"
  "d_delQueue (restart_folder E clk name f now u) = d_delQueue u" "conf (restart_folder E clk name f now u) = conf u"
  by (simp_all add: restart_folder_def Let_def split: option.splits)

lemma failed_result:
  assumes "aget (d_Tracked u) name = Some f"
    "checkFailedFolder E clk name f now (time_sub now (fo_Updated f)) u = Some v"
  shows "aget (d_Tracked v) = (aget (d_Tracked u))(name := failed_act now u f)"
    "d_delQueue v = d_delQueue u" "conf v = conf u"
  using assms by (auto simp: checkFailedFolder_def failed_act_def tracked_finish tracked_restart fun_upd_idem split: if_splits)

lemma delete_result:
  "aget (d_Tracked (deleteAfterReached E F clk name now f cfg u)) = (aget (d_Tracked u))(name := None)"
  "conf (deleteAfterReached E F clk name now f cfg u) = conf u"
  "d_delQueue (deleteAfterReached E F clk name now f cfg u) = d_delQueue u
     @ delete_of (folder_outputs name f cfg) (purge_root F name f)
     @ delete_of (folder_originals E name f cfg) (purge_root F name f)"
  by (simp_all add: deleteAfterReached_def Let_def tracked_finish request_delete_result)

definition visited :: "env \<Rightarrow> xlib \<Rightarrow> fsys \<Rightarrow> instant \<Rightarrow> string \<Rightarrow> 'a daemon_scheme \<times> xtract list
    \<Rightarrow> 'a daemon_scheme \<times> xtract list \<Rightarrow> bool" where
  "visited E X F now name s t \<longleftrightarrow>
     aget (d_Tracked (fst t)) = (aget (d_Tracked (fst s)))
       (name := folder_act E X F now (fst s) name (aget (d_Tracked (fst s)) name))
     \<and> conf (fst t) = conf (fst s)
     \<and> d_delQueue (fst t) = d_delQueue (fst s) @ folder_deletes E F now (fst s) name (aget (d_Tracked (fst s)) name)
     \<and> map anon (snd t) = map anon (snd s) @ folder_requests E X F now (fst s) name (aget (d_Tracked (fst s)) name)"

lemma check_folder_visits:
  assumes "check_folder E X F clk now (u, xs) name = Some (v, ys)"
  shows "visited E X F now name (u, xs) (v, ys)"
proof (cases "aget (d_Tracked u) name")
  case None
  with assms show ?thesis
    by (auto simp: check_folder_def visited_def folder_act_def folder_requests_def folder_deletes_def fun_upd_idem)
next
  case (Some f)
  note defs = check_folder_def visited_def folder_act_def folder_requests_def folder_deletes_def delete_due_def Let_def
  have same: "(aget (d_Tracked u))(name \<mapsto> f) = aget (d_Tracked u)" using Some by (simp add: fun_upd_idem)
  show ?thesis
  proof (cases "fo_Status f = EXTRACTED")
    case True
    with assms Some show ?thesis
      by (auto simp: defs same tracked_finish delete_result split: option.splits if_splits)
  next
    case notdone: False
    then have nodel: "folder_deletes E F now u name (Some f) = []"
      by (simp add: folder_deletes_def delete_due_def split: option.splits)
    consider "fo_Status f = WAITING" | "fo_Status f = EXTRACTFAILED" | "fo_Status f = EXTRACTEDNOTHING"
      | "fo_Status f \<notin> {WAITING, EXTRACTFAILED, EXTRACTEDNOTHING, EXTRACTED}" using notdone by auto
    then show ?thesis
    proof cases
      case 1
      with assms Some obtain zs where w: "checkWaitingFolder E X F clk name f now u = Some (v, zs)" "ys = xs @ zs"
        by (auto simp: check_folder_def)
      from waiting_result [OF Some 1 w(1)] w(2) 1 Some nodel show ?thesis
        by (simp add: visited_def folder_act_def folder_requests_def)
    next
      case 2
      with assms Some have "checkFailedFolder E clk name f now (time_sub now (fo_Updated f)) u = Some v" "ys = xs"
        by (auto simp: check_folder_def)
      with failed_result [OF Some this(1)] 2 Some nodel show ?thesis
        by (simp add: visited_def folder_act_def folder_requests_def)
    next
      case 3
      with assms Some nodel show ?thesis by (auto simp: defs same split: if_splits)
    next
      case 4
      with assms Some nodel show ?thesis by (auto simp: visited_def check_folder_def folder_act_def folder_requests_def same)
    qed
  qed
qed

lemma waiting_panic_keeps:
  assumes f: "aget (d_Tracked u) name = Some f" "fo_Status f = WAITING"
    and r: "checkWaitingFolder E X F clk name f now u = None"
  shows "waiting_act E X F now u name f = Some f" "waiting_requests E X F now u name f = []"
proof -
  let ?w = "config_wait_file F name f" and ?g = "f\<lparr>fo_WaitFile := config_wait_file F name f\<rparr>"
  have none: "fo_Config f = None" by (rule waiting_panics [OF f r])
  obtain t where t: "refreshFolderWait E F clk name u = (?w \<noteq> '''', t)"
    "aget (d_Tracked t) name = Some ?g" "conf t = conf u"
    using refresh_result [OF f, of E F clk] by (metis fun_upd_same)
  from t(3) have sd: "d_StartDelay t = d_StartDelay u" by (rule conf_parts)
  have w: "?w = ''''" by (simp add: config_wait_file_def none)
  from r obtain n where n: "os_stat F name = Inr n" by (cases "os_stat F name") (auto simp: checkWaitingFolder_def)
  from r n w t have fresh: "\<not> wait_fresh now f"
    by (auto simp: checkWaitingFolder_def folderWaitActive_def wait_fresh_def)
  then have "folderWaitActive E F clk name f now u = (False, t)"
    unfolding folderWaitActive_def wait_fresh_def t(1) w by (simp add: if_not_P)
  with r n t sd none have "d_StartDelay u \<le> time_sub now (fo_Updated f)"
    "extractTrackedItem E X F clk name ?g now t = None"
    by (auto simp: checkWaitingFolder_def split: if_splits)
  then show "waiting_act E X F now u name f = Some f" "waiting_requests E X F now u name f = []"
    using fresh n w none
    by (simp_all add: waiting_act_def waiting_requests_def due_def empty_skipped_def extract_panics)
qed

lemma panic_keeps:
  assumes "check_folder E X F clk now (u, xs) name = None"
  shows "visited E X F now name (u, xs) (u, xs)"
proof -
  from assms obtain f where f: "aget (d_Tracked u) name = Some f"
    by (cases "aget (d_Tracked u) name") (auto simp: check_folder_def)
  consider "fo_Status f = WAITING" "checkWaitingFolder E X F clk name f now u = None"
    | "fo_Status f = EXTRACTFAILED" "fo_Config f = None" "\<not> fo_NoRetry f"
        "time_sub now (fo_Updated f) \<ge> d_RetryDelay u \<and> fo_Retries f < maxRetries u"
    | "fo_Status f = EXTRACTED" "fo_Config f = None \<or> (\<exists>c. fo_Config f = Some c \<and> fc_DeleteAfter c = None)"
    using assms f by (auto simp: check_folder_def checkFailedFolder_def Let_def split: if_splits option.splits)
  then show ?thesis
    using f by cases (auto simp: visited_def folder_act_def folder_requests_def folder_deletes_def failed_act_def
      delete_due_def waiting_panic_keeps fun_upd_idem split: option.splits)
qed

definition visit_folder :: "env \<Rightarrow> xlib \<Rightarrow> fsys \<Rightarrow> instant \<Rightarrow> instant
    \<Rightarrow> 'a daemon_scheme \<times> xtract list \<Rightarrow> string \<Rightarrow> 'a daemon_scheme \<times> xtract list" where
  "visit_folder E X F clk now s name = (case check_folder E X F clk now s name of None \<Rightarrow> s | Some t \<Rightarrow> t)"

lemma visit_visited: "visited E X F now name s (visit_folder E X F clk now s name)"
proof (cases s)
  case (Pair u xs)
  show ?thesis
  proof (cases "check_folder E X F clk now s name")
    case None
    with panic_keeps [of E X F clk now u xs name] show ?thesis by (simp add: visit_folder_def Pair)
  next
    case (Some t)
    with check_folder_visits [of E X F clk now u xs name "fst t" "snd t"] show ?thesis
      by (simp add: visit_folder_def Pair)
  qed
qed

lemma act_conf:
  assumes "conf u = conf v"
  shows "folder_act E X F now u k x = folder_act E X F now v k x"
    "folder_requests E X F now u k x = folder_requests E X F now v k x"
proof -
  note c = conf_parts [OF assms]
  show "folder_act E X F now u k x = folder_act E X F now v k x"
    "folder_requests E X F now u k x = folder_requests E X F now v k x"
    unfolding folder_act_def waiting_act_def failed_act_def folder_requests_def waiting_requests_def due_def c
    by (rule refl)+
qed

lemma deletes_any: "folder_deletes E F now u k x = folder_deletes E F now v k x"
  by (simp add: folder_deletes_def)

lemma visit_results:
  "aget (d_Tracked (fst (visit_folder E X F clk now s k))) = (aget (d_Tracked (fst s)))
     (k := folder_act E X F now (fst s) k (aget (d_Tracked (fst s)) k))"
  "conf (fst (visit_folder E X F clk now s k)) = conf (fst s)"
  "d_delQueue (fst (visit_folder E X F clk now s k))
     = d_delQueue (fst s) @ folder_deletes E F now (fst s) k (aget (d_Tracked (fst s)) k)"
  "map anon (snd (visit_folder E X F clk now s k))
     = map anon (snd s) @ folder_requests E X F now (fst s) k (aget (d_Tracked (fst s)) k)"
  using visit_visited [of E X F now k s clk] by (simp_all add: visited_def)

interpretation folder_sweep: item_sweep "visit_folder E X F clk now" "\<lambda>s. aget (d_Tracked (fst s))"
    "\<lambda>s. map anon (snd s)" "\<lambda>s t. conf (fst s) = conf (fst t)" "\<lambda>s. folder_act E X F now (fst s)"
    "\<lambda>s. folder_requests E X F now (fst s)"
  for E :: env and X :: xlib and F :: fsys and clk now :: instant
  by unfold_locales (auto simp: visit_results intro: act_conf)

interpretation delete_sweep: item_sweep "visit_folder E X F clk now" "\<lambda>s. aget (d_Tracked (fst s))"
    "\<lambda>s. d_delQueue (fst s)" "\<lambda>s t. conf (fst s) = conf (fst t)" "\<lambda>s. folder_act E X F now (fst s)"
    "\<lambda>s. folder_deletes E F now (fst s)"
  for E :: env and X :: xlib and F :: fsys and clk now :: instant
  by unfold_locales (auto simp: visit_results intro: act_conf deletes_any)

lemma fold_visits:
  "fold_opt (check_folder E X F clk now) s ks = Some t \<Longrightarrow> foldl (visit_folder E X F clk now) s ks = t"
  by (induction ks arbitrary: s) (auto simp: visit_folder_def split: option.splits)

end
