(* ===== verification/FolderSound.thy ===== *)
theory FolderSound
  imports FolderSweep
begin

text \<open>
  The well-formedness of the tracker: every configuration, and that of every tracked item, has a
  delete delay, and no item was retried more often than configured, or than \<open>m\<close>, the most that a
  restored item had been retried before. It is what keeps the operations from reading through a
  null pointer, and every operation keeps it.
\<close>

definition timed :: "folder_config \<Rightarrow> bool" where
  "timed c \<longleftrightarrow> fc_DeleteAfter c \<noteq> None"

definition good_folder :: "uint64 \<Rightarrow> 'a daemon_scheme \<Rightarrow> folder \<Rightarrow> bool" where
  "good_folder m u f \<longleftrightarrow> (\<exists>c. fo_Config f = Some c \<and> timed c) \<and> fo_Retries f \<le> max m (maxRetries u)"

definition sound :: "uint64 \<Rightarrow> 'a daemon_scheme \<Rightarrow> bool" where
  "sound m u \<longleftrightarrow> (\<forall>k f. aget (d_Tracked u) k = Some f \<longrightarrow> good_folder m u f) \<and> (\<forall>c \<in> set (d_WatchCfg u). timed c)
     \<and> (\<forall>k c. (k, Some c) \<in> set (d_FolderCfg u) \<longrightarrow> timed c)"

lemma sound_cong:
  assumes "d_Tracked u = d_Tracked v" "conf u = conf v"
  shows "sound m u = sound m v"
  using assms conf_parts [OF assms(2)] by (simp add: sound_def good_folder_def)

lemma sound_fv: "fv u = fv v \<Longrightarrow> sound m u = sound m v"
  by (rule sound_cong) (rule fv_parts, assumption)+

lemmas sound_frames [simp] = fv_frames [THEN sound_fv]

lemma sound_queueDelete [simp]: "sound m (queueDelete r u) = sound m u"
  by (rule sound_cong) simp_all

lemma sound_track:
  assumes "sound m u" "good_folder m u f"
  shows "sound m (track_folder n f u)"
proof -
  note c = conf_parts [of "track_folder n f u" u, simplified]
  show ?thesis using assms by (simp add: sound_def good_folder_def c)
qed

lemma sound_untrack: "sound m u \<Longrightarrow> sound m (untrack n u)"
proof -
  note c = conf_parts [of "untrack n u" u, simplified]
  show "sound m u \<Longrightarrow> sound m (untrack n u)" by (simp add: sound_def good_folder_def c)
qed

lemma sound_good: "sound m u \<Longrightarrow> aget (d_Tracked u) k = Some f \<Longrightarrow> good_folder m u f"
  by (simp add: sound_def)

lemma good_conf: "conf u = conf v \<Longrightarrow> good_folder m u f = good_folder m v f"
  using conf_parts(3) [of u v] by (simp add: good_folder_def)

lemma good_same:
  "good_folder m u f \<Longrightarrow> fo_Config g = fo_Config f \<Longrightarrow> fo_Retries g = fo_Retries f \<Longrightarrow> good_folder m u g"
  by (simp add: good_folder_def)

subsection \<open>Events\<close>

lemma watchConfig_member: "watchConfig (map Some cs) p = Some c \<Longrightarrow> c \<in> set cs"
  by (auto simp: watchConfig_def Let_def somes_def List.map_filter_def o_def dest: longest_Some)

lemma sound_saveEvent: "sound m u \<Longrightarrow> timed cfg \<Longrightarrow> sound m (saveEvent X F cfg p now r u)"
proof -
  assume s: "sound m u" and t: "timed cfg"
  have "good_folder m u (f\<lparr>fo_Updated := now\<rparr>)" if "aget (d_Tracked u) p = Some f" for f
    using sound_good [OF s that] by (rule good_same) simp_all
  moreover have "good_folder m u (zero_folder\<lparr>fo_Updated := now, fo_Status := WAITING, fo_Config := Some cfg\<rparr>)"
    using t by (simp add: good_folder_def zero_folder_def)
  then have "good_folder m (watch_path p u) (zero_folder\<lparr>fo_Updated := now, fo_Status := WAITING, fo_Config := Some cfg\<rparr>)"
    by (simp add: good_conf [of "watch_path p u" u])
  ultimately show ?thesis using s
    by (cases "aget (d_Tracked u) p") (auto simp: saveEvent_def intro!: sound_track)
qed

lemma timed_path_config: "sound m u \<Longrightarrow> timed cfg \<Longrightarrow> timed (path_config u cfg p)"
  by (auto simp: path_config_def sound_def dest: watchConfig_member split: option.splits)

text \<open>What may become work in a scan, and the induction rule for it.\<close>

definition eligible :: "env \<Rightarrow> fsys \<Rightarrow> folder_config \<Rightarrow> string \<Rightarrow> bool" where
  "eligible E F c p \<longleftrightarrow> \<not> IsExcludedPath c p \<and> \<not> ignoredExtractName p \<and> isArchive E (base p)
     \<and> \<not> insideExtractDest E F (fc_Path c) (dir p) \<and> isPrimaryArchive p"

lemma scan_loop_inv:
  assumes "P u" "\<And>u p. P u \<Longrightarrow> P (addWatchDir X F p u)"
    "\<And>u p n. P u \<Longrightarrow> (p, n) \<in> set ks \<Longrightarrow> \<not> is_dir n \<Longrightarrow> eligible E F (path_config u cfg p) p
       \<Longrightarrow> P (saveEvent X F (path_config u cfg p) p now r u)"
  shows "P (snd (scan_loop E X F cfg root now r ks sk u))"
  using assms(1,3)
proof (induction ks arbitrary: sk u)
  case (Cons kn ks)
  obtain p n where kn: "kn = (p, n)" by (cases kn)
  have IH: "P v \<Longrightarrow> P (snd (scan_loop E X F cfg root now r ks sk' v))" for v sk'
    by (erule Cons.IH) (rule Cons.prems(2), assumption, simp_all)
  have "P (saveEvent X F (path_config u cfg p) p now r u)" if "\<not> is_dir n" "eligible E F (path_config u cfg p) p"
    using that by (intro Cons.prems(2) [of _ p n] Cons.prems(1)) (simp_all add: kn)
  then show ?case using Cons.prems(1)
    by (auto simp: kn Let_def case_prod_beta eligible_def intro!: IH assms(2))
qed simp

lemma sound_scan:
  "sound m u \<Longrightarrow> timed cfg \<Longrightarrow> sound m (snd (scan_loop E X F cfg root now r ks sk u))"
  by (rule scan_loop_inv) (simp_all add: sound_saveEvent timed_path_config)

lemma sound_scanWatchDir:
  "sound m u \<Longrightarrow> timed cfg \<Longrightarrow> sound m (snd (scanWatchDir E X F cfg p now r u))"
  by (simp add: scanWatchDir_def Let_def sound_scan split: sum.splits)

lemma sound_scan_roots:
  "sound m u \<Longrightarrow> \<forall>c \<in> set cs. timed c \<Longrightarrow> sound m (snd (scan_roots E X F now cs u))"
proof (induction cs arbitrary: u)
  case (Cons c cs)
  then have "sound m (snd (scanWatchDir E X F c (clean (fc_Path c)) now False u))" by (simp add: sound_scanWatchDir)
  with Cons show ?case by (simp add: case_prod_beta)
qed simp

lemma sound_Scan: "sound m u \<Longrightarrow> sound m (snd (Scan E X F now u))"
  unfolding Scan_def by (rule sound_scan_roots) (simp_all add: sound_def)

lemma sound_ProcessEvent:
  assumes "sound m u" "\<And>c. ev_Config ev = Some c \<Longrightarrow> timed c"
  shows "sound m (snd (ProcessEvent E X F ev now u))"
proof (cases "ev_Config ev")
  case None
  with assms show ?thesis by (simp add: ProcessEvent_def)
next
  case (Some c)
  have sc: "sound m (snd (scanWatchDir E X F c p now True u))" for p
    using assms Some by (simp add: sound_scanWatchDir)
  show ?thesis using assms(1) assms(2) [OF Some]
    by (auto simp: ProcessEvent_def Some handleUnreadableEvent_def Let_def case_prod_beta
      intro!: sound_untrack sound_saveEvent sc split: option.splits sum.splits)
qed

subsection \<open>The queue of watched items\<close>

lemma sound_sync: "sound m u \<Longrightarrow> sound m (syncFolderQueue E F clk p kind u)"
proof -
  assume s: "sound m u"
  have "sound m (track_folder p (f\<lparr>fo_WaitFile := w\<rparr>) u)" if "aget (d_Tracked u) p = Some f" for f w
    using good_same [OF sound_good [OF s that]] s by (auto intro: sound_track)
  then show ?thesis using s
    by (auto simp: syncFolderQueue_def Let_def split: option.splits)
qed

lemma sound_refresh: "sound m u \<Longrightarrow> sound m (snd (refreshFolderWait E F clk n u))"
proof -
  assume s: "sound m u"
  have "sound m (track_folder n (f\<lparr>fo_WaitFile := w\<rparr>) u)" if "aget (d_Tracked u) n = Some f" for f w
    using good_same [OF sound_good [OF s that]] s by (auto intro: sound_track)
  then show ?thesis using s by (auto simp: refreshFolderWait_def Let_def split: option.splits)
qed

lemma sound_drop_missing: "sound m u \<Longrightarrow> sound m (dropMissingFolderDescendants E F clk p u)"
proof -
  have "sound m v \<Longrightarrow> sound m (drop_missing E F clk p v n)" for v :: "'a daemon_scheme" and n
    by (auto simp: drop_missing_def intro!: sound_sync sound_untrack split: option.splits)
  then have "sound m v \<Longrightarrow> sound m (foldl (drop_missing E F clk p) v ns)" for v :: "'a daemon_scheme" and ns
    by (induction ns arbitrary: v) simp_all
  then show "sound m u \<Longrightarrow> sound m (dropMissingFolderDescendants E F clk p u)"
    by (simp add: dropMissingFolderDescendants_def)
qed

lemma affect_sound:
  assumes "sound m u"
  shows "\<exists>v. affect_path E X F clk d t kind u p = Some v \<and> sound m v"
proof -
  let ?v = "syncFolderQueue E F clk p kind u"
  have s: "sound m ?v" by (rule sound_sync [OF assms])
  show ?thesis
  proof (cases "aget (d_Tracked ?v) p")
    case None
    with s show ?thesis by (auto simp: affect_path_def Let_def intro: sound_refresh)
  next
    case (Some f)
    then obtain c where c: "fo_Config f = Some c" using sound_good [OF s] by (auto simp: good_folder_def)
    with Some s show ?thesis
      by (auto simp: affect_path_def Let_def folderHasExtractableContent_def intro: sound_refresh)
  qed
qed

lemma fold_sound:
  assumes "\<And>s x. I s \<Longrightarrow> \<exists>t. f s x = Some t \<and> I t" "I s"
  shows "\<exists>t. fold_opt f s xs = Some t \<and> I t"
  using assms(2)
proof (induction xs arbitrary: s)
  case (Cons x xs)
  obtain t where "f s x = Some t" "I t" using assms(1) [OF Cons.prems] by blast
  with Cons.IH show ?case by simp
qed simp

lemma process_sound:
  assumes "sound m u" "\<And>c. ev_Config ev = Some c \<Longrightarrow> timed c"
  shows "\<exists>v. processEvent E X F clk ev now u = Some v \<and> sound m v"
proof (cases "ev_Config ev")
  case None
  with assms show ?thesis by (simp add: processEvent_def)
next
  case (Some c)
  have s: "sound m (snd (ProcessEvent E X F ev now u))" using assms by (rule sound_ProcessEvent)
  define d where "d = (if ev_File ev = '''' then path_join [fc_Path c, ev_Name ev] else clean (ev_File ev))"
  define t where "t = (aget (d_Tracked u) d \<noteq> None)"
  obtain v where v: "fold_opt (affect_path E X F clk d t (Kind ev)) (snd (ProcessEvent E X F ev now u))
      (fst (ProcessEvent E X F ev now u)) = Some v" "sound m v"
    using fold_sound [of "sound m" "affect_path E X F clk d t (Kind ev)", OF affect_sound s] by blast
  have "processEvent E X F clk ev now u = (if ev_File ev = d_LogFile u \<or> ev_File ev = d_WebLogFile u then Some u
      else if fst (ProcessEvent E X F ev now u) = [] then Some (snd (ProcessEvent E X F ev now u))
      else Some (case os_stat F d of Inr n \<Rightarrow> v | Inl e \<Rightarrow> dropMissingFolderDescendants E F clk d v))"
    unfolding processEvent_def Some option.case Let_def d_def [symmetric] t_def [symmetric] case_prod_beta v(1)
    by simp
  then show ?thesis using s assms(1) v(2) by (auto intro: sound_drop_missing split: sum.splits)
qed

subsection \<open>The callback and the timer\<close>

lemma commit_keeps:
  "fo_Config (commitFolderExtract u f resp r) = fo_Config f" "fo_Retries (commitFolderExtract u f resp r) = fo_Retries f"
  by (auto simp: commitFolderExtract_def finishFolderRemnants_def Let_def split: option.splits)

lemma sound_settle: "sound m u \<Longrightarrow> good_folder m u f \<Longrightarrow> sound m (settle_folder E clk n f resp u)"
  by (simp add: settle_folder_def sound_track)

lemma callback_sound:
  assumes "sound m u"
  shows "\<exists>v G. folderXtractrCallback E F clk resp u = Some (v, G) \<and> sound m v"
proof -
  let ?n = "rs_Name resp"
  have gone: ?thesis if "aget (d_Tracked u) ?n = None \<or> aget (d_Map u) ?n = None"
    using that assms by (auto simp: folderXtractrCallback_def Let_def sound_untrack split: option.splits)
  have found: ?thesis if f: "aget (d_Tracked u) ?n = Some f" and i: "aget (d_Map u) ?n = Some item" for f item
  proof -
    have g: "good_folder m u f" by (rule sound_good [OF assms f])
    then obtain c where c: "fo_Config f = Some c" by (auto simp: good_folder_def)
    have set: "good_folder m (set_item ?n e u) f'" if "good_folder m u f'" for e f'
      using that by (simp add: good_conf [of "set_item ?n e u" u])
    have un: "good_folder m (unlockHistory u) f'" if "good_folder m u f'" for f'
      using that by (simp add: good_conf [of "unlockHistory u" u])
    have g1: "good_folder m u (f\<lparr>fo_Status := s, fo_Updated := t\<rparr>)" for s t using g by (rule good_same) simp_all
    have g2: "good_folder m u ((commitFolderExtract w f resp' r)\<lparr>fo_Updated := t\<rparr>)"
      for w :: "'a daemon_scheme" and resp' r t
      using g by (rule good_same) (simp_all add: commit_keeps)
    show ?thesis
      by (auto simp: folderXtractrCallback_def f i c assms Let_def case_prod_beta intro!: sound_settle set un g1 g2)
  qed
  show ?thesis using gone found by (metis not_Some_eq)
qed

lemma extract_act_keeps:
  "fo_Config (extract_act E X F n now c f) = fo_Config f" "fo_Retries (extract_act E X F n now c f) = fo_Retries f"
  by (auto simp: extract_act_def with_snapshot_def Let_def split: sum.splits)

lemma act_good:
  assumes "folder_act E X F now u k (Some f) = Some g" "good_folder m u f"
  shows "good_folder m u g"
proof -
  have w: "fo_Config h = fo_Config f \<and> fo_Retries h = fo_Retries f" if "waiting_act E X F now u k f = Some h" for h
    using that by (auto simp: waiting_act_def extract_act_keeps Let_def split: sum.splits if_splits option.splits)
  have r: "good_folder m u (f\<lparr>fo_Retries := fo_Retries f + 1, fo_Updated := t, fo_Status := s\<rparr>)"
    if "fo_Retries f < maxRetries u" for t s
    using assms(2) uint64_inc_less [OF that] by (simp add: good_folder_def le_max_iff_disj)
  show ?thesis
  proof (cases "fo_Status f = WAITING")
    case True
    with assms(1) have "waiting_act E X F now u k f = Some g" by (simp add: folder_act_def)
    then show ?thesis using w good_same [OF assms(2)] by blast
  next
    case False
    with assms r show ?thesis
      by (auto simp: folder_act_def failed_act_def split: if_splits option.splits)
  qed
qed

lemma check_sound:
  assumes "sound m (fst s)"
  shows "\<exists>t. check_folder E X F clk now s n = Some t \<and> sound m (fst t)"
proof -
  obtain u xs where s: "s = (u, xs)" by (cases s)
  have su: "sound m u" using assms s by simp
  have "check_folder E X F clk now (u, xs) n \<noteq> None"
  proof (cases "aget (d_Tracked u) n")
    case (Some f)
    obtain c where "fo_Config f = Some c" "fc_DeleteAfter c \<noteq> None"
      using sound_good [OF su Some] by (auto simp: good_folder_def timed_def)
    then show ?thesis using Some waiting_panics [OF Some, of E X F clk now]
      by (cases "checkWaitingFolder E X F clk n f now u") (auto simp: check_folder_def Let_def checkFailedFolder_def)
  qed (simp add: check_folder_def)
  then obtain t where t: "check_folder E X F clk now s n = Some t" using s by auto
  with s have v: "visited E X F now n (u, xs) t"
    using check_folder_visits [of E X F clk now u xs n "fst t" "snd t"] by simp
  then have c: "conf (fst t) = conf u" by (simp add: visited_def)
  have "good_folder m (fst t) g" if "aget (d_Tracked (fst t)) k = Some g" for k g
  proof (cases "k = n")
    case True
    with v that have a: "folder_act E X F now u n (aget (d_Tracked u) n) = Some g" by (simp add: visited_def)
    then obtain f where f: "aget (d_Tracked u) n = Some f" by (cases "aget (d_Tracked u) n") (auto simp: folder_act_def)
    with a act_good [OF _ sound_good [OF su f], of E X F now n g] show ?thesis by (simp add: good_conf [OF c])
  next
    case False
    with v that have "aget (d_Tracked u) k = Some g" by (simp add: visited_def)
    then show ?thesis using sound_good [OF su] by (simp add: good_conf [OF c])
  qed
  then have "sound m (fst t)" using su conf_parts(5,6) [OF c] by (simp add: sound_def)
  with t show ?thesis by blast
qed

lemma timer_sound:
  assumes "sound m u"
  shows "\<exists>v xs. checkFolderStats E X F clk now u = Some (v, xs) \<and> sound m v"
  using fold_sound [of "\<lambda>s. sound m (fst s)" "check_folder E X F clk now", OF check_sound, of "(u, [])"] assms
  by (simp add: checkFolderStats_def)

lemma sound_discover: "sound m u \<Longrightarrow> sound m (discover E F clk u p)"
  by (simp add: discover_def Let_def sound_sync split: option.splits)

lemma sound_scanWatched: "sound m u \<Longrightarrow> sound m (scanWatchedFolders E X F clk now u)"
proof -
  have "sound m v \<Longrightarrow> sound m (foldl (discover E F clk) v ps)" for v :: "'a daemon_scheme" and ps
    by (induction ps arbitrary: v) (simp_all add: sound_discover)
  then show "sound m u \<Longrightarrow> sound m (scanWatchedFolders E X F clk now u)"
    by (simp add: scanWatchedFolders_def case_prod_beta sound_Scan)
qed

end
