(* ===== verification/WatchProps.thy ===== *)
theory WatchProps
  imports FolderSound DaemonProps
begin

text \<open>
  Properties of the file watcher: what becomes work, what a scan of the watch roots finds, and what
  a scan at the start leaves alone.
\<close>

subsection \<open>A watched directory\<close>

text \<open>One watch root with an archive, and the event for it; the witnesses of the watch properties use them.\<close>

definition watch_cfg :: folder_config where
  "watch_cfg = zero_folder_config\<lparr>fc_Path := ''/w'', fc_DeleteFiles := True, fc_DeleteAfter := Some 5\<rparr>"

definition watch_disk :: fsys where
  "watch_disk = \<lparr>fs_nodes = [(''/w'', DirN 1), (''/w/a.rar'', FileN 2)], fs_denied = []\<rparr>"

definition watch_lib :: xlib where
  "watch_lib = \<lparr>findCompressed = (\<lambda>F p ex sym. [(''/w'', [p])]), xGetFileList = (\<lambda>F p. []), allExcept = (\<lambda>ts. []),
     checkR00 = (\<lambda>fs b. False), supportedExts = [''.rar''], timeStamp = int_text, canWatch = (\<lambda>F p. True)\<rparr>"

definition watch_daemon :: daemon where
  "watch_daemon = demo_daemon\<lparr>d_WatchCfg := [watch_cfg]\<rparr>"

definition watch_event :: event where
  "watch_event = \<lparr>ev_Config = Some watch_cfg, ev_Name = ''a.rar'', ev_File = ''/w/a.rar'', ev_Op = ''w''\<rparr>"

text \<open>The daemon after the event, and one whose item was extracted.\<close>

definition watch_busy :: daemon where
  "watch_busy = snd (ProcessEvent demo_env watch_lib watch_disk watch_event 7 watch_daemon)"

definition watch_done :: daemon where
  "watch_done = watch_daemon\<lparr>d_Tracked := [(''/w/a.rar'', zero_folder\<lparr>fo_Config := Some watch_cfg,
     fo_Status := EXTRACTED, fo_Files := [''/w/a/x'']\<rparr>)]\<rparr>"


subsection \<open>What becomes work\<close>

text \<open>The tracked items that were not tracked in \<open>u\<close> all satisfy \<open>ok\<close>.\<close>

definition new_ok :: "(string \<Rightarrow> folder \<Rightarrow> bool) \<Rightarrow> 'a daemon_scheme \<Rightarrow> 'a daemon_scheme \<Rightarrow> bool" where
  "new_ok ok u v \<longleftrightarrow> conf v = conf u
     \<and> (\<forall>k f. aget (d_Tracked v) k = Some f \<and> aget (d_Tracked u) k = None \<longrightarrow> ok k f)"

lemma new_ok_self: "new_ok ok u u"
  by (auto simp: new_ok_def)

lemma new_ok_frame:
  "fv w = fv v \<Longrightarrow> new_ok ok u v \<Longrightarrow> new_ok ok u w"
  by (simp add: new_ok_def fv_def)

lemma new_ok_untrack: "new_ok ok u v \<Longrightarrow> new_ok ok u (untrack n v)"
  by (simp add: new_ok_def)

lemma new_ok_save:
  assumes "new_ok ok u v"
    "\<And>f. fo_Config f = Some c \<Longrightarrow> fo_Status f = WAITING \<Longrightarrow> ok p f"
    "\<And>f. ok p f \<Longrightarrow> ok p (f\<lparr>fo_Updated := now\<rparr>)"
  shows "new_ok ok u (saveEvent X F c p now r v)"
  using assms by (auto simp: new_ok_def saveEvent_def split: option.splits)

definition watch_configs :: "'a daemon_scheme \<Rightarrow> folder_config \<Rightarrow> folder_config set" where
  "watch_configs u cfg = insert cfg (set (d_WatchCfg u))"

definition archive_work :: "env \<Rightarrow> fsys \<Rightarrow> folder_config set \<Rightarrow> string \<Rightarrow> folder \<Rightarrow> bool" where
  "archive_work E F cs k f \<longleftrightarrow> fo_Status f = WAITING \<and> (\<exists>c \<in> cs. fo_Config f = Some c \<and> eligible E F c k)"

lemma path_config_in: "path_config u cfg p \<in> watch_configs u cfg"
  by (auto simp: path_config_def watch_configs_def dest: watchConfig_member split: option.splits)

lemma scan_new:
  assumes "new_ok ok u v" "\<And>k f. archive_work E F (watch_configs u cfg) k f \<Longrightarrow> ok k f"
    "\<And>k f. ok k f \<Longrightarrow> ok k (f\<lparr>fo_Updated := now\<rparr>)"
  shows "new_ok ok u (snd (scanWatchDir E X F cfg p now r v))"
proof -
  have "new_ok ok u (snd (scan_loop E X F cfg root now r ks sk v'))" if "new_ok ok u v'" for root ks sk v'
    using that
  proof (rule scan_loop_inv)
    show "new_ok ok u (addWatchDir X F q w)" if "new_ok ok u w" for w q
      using that by (rule new_ok_frame [OF fv_watchDirs(1)])
    show "new_ok ok u (saveEvent X F (path_config w cfg q) q now r w)"
      if "new_ok ok u w" "eligible E F (path_config w cfg q) q" for w q
    proof (rule new_ok_save [OF that(1) _ assms(3)])
      have "conf w = conf u" using that(1) by (simp add: new_ok_def)
      then have "path_config w cfg q \<in> watch_configs u cfg"
        using path_config_in [of w cfg q] conf_parts(5) [of w u] by (simp add: watch_configs_def)
      then show "fo_Config f = Some (path_config w cfg q) \<Longrightarrow> fo_Status f = WAITING \<Longrightarrow> ok q f" for f
        using that(2) by (intro assms(2)) (auto simp: archive_work_def)
    qed
  qed
  moreover have "new_ok ok u (addWatchDir X F p v)" using assms(1) by (rule new_ok_frame [OF fv_watchDirs(1)])
  ultimately show ?thesis by (simp add: scanWatchDir_def Let_def split: sum.splits)
qed

text \<open>
  C14. What an event adds to the tracked work is an archive the watch covers: no path excluded in its
  configuration, nothing inside the output of an extraction and none of the library's temporary
  names, and of a multipart set the first volume only. The one exception is the directory of the
  event, for which the configuration asks to wait for other files or to skip it while it is empty.
\<close>

theorem event_tracks_archives_only:
  assumes "ev_Config ev = Some cfg" "aget (d_Tracked u) k = None"
    "aget (d_Tracked (snd (ProcessEvent E X F ev now u))) k = Some f"
  shows "fo_Status f = WAITING \<and> (\<exists>c \<in> insert cfg (set (d_WatchCfg u)). fo_Config f = Some c
    \<and> (\<not> IsExcludedPath c k \<and> \<not> ignoredExtractName k \<and> isArchive E (base k)
        \<and> \<not> insideExtractDest E F (fc_Path c) (dir k) \<and> isPrimaryArchive k
       \<or> c = cfg \<and> eventPath cfg ev = Some k \<and> \<not> IsExcludedPath c k \<and> \<not> ignoredExtractName k
        \<and> \<not> isExtractDest E F k \<and> (fc_SkipEmpty cfg \<or> WaitFileInTop F k (fc_WaitExtensions cfg) \<noteq> '''')))"
proof -
  define ok where "ok = (\<lambda>k (f :: folder). fo_Status f = WAITING \<and> (\<exists>c \<in> insert cfg (set (d_WatchCfg u)). fo_Config f = Some c
    \<and> (eligible E F c k
       \<or> c = cfg \<and> eventPath cfg ev = Some k \<and> \<not> IsExcludedPath c k \<and> \<not> ignoredExtractName k
        \<and> \<not> isExtractDest E F k \<and> (fc_SkipEmpty cfg \<or> WaitFileInTop F k (fc_WaitExtensions cfg) \<noteq> ''''))))"
  have upd: "ok q f \<Longrightarrow> ok q (f\<lparr>fo_Updated := now\<rparr>)" for q f by (simp add: ok_def)
  have sc: "new_ok ok u (snd (scanWatchDir E X F cfg p now True u))" for p
    by (rule scan_new) (rule new_ok_self, auto simp: ok_def archive_work_def watch_configs_def)
  have "new_ok ok u (removeWatchDirs p u)" for p by (rule new_ok_frame [OF fv_watchDirs(2) new_ok_self])
  then have un: "new_ok ok u (snd (handleUnreadableEvent p u))" for p
    by (simp add: handleUnreadableEvent_def Let_def new_ok_untrack new_ok_frame [OF fv_small(4)])
  have "new_ok ok u (snd (ProcessEvent E X F ev now u))"
  proof (cases "eventPath cfg ev")
    case None
    then show ?thesis by (simp add: ProcessEvent_def assms(1) new_ok_self)
  next
    case (Some p)
    show ?thesis
    proof (cases "os_stat F p")
      case (Inl e)
      then show ?thesis by (simp add: ProcessEvent_def assms(1) Some un new_ok_self)
    next
      case (Inr n)
      have arch: "new_ok ok u (saveEvent X F cfg p now True v)" if "new_ok ok u v" "eligible E F cfg p" for v
        using that by (intro new_ok_save upd) (auto simp: ok_def)
      have waits: "new_ok ok u (saveEvent X F cfg p now True v)" if "new_ok ok u v" "\<not> IsExcludedPath cfg p"
        "\<not> ignoredExtractName p" "\<not> isExtractDest E F p"
        "fc_SkipEmpty cfg \<or> WaitFileInTop F p (fc_WaitExtensions cfg) \<noteq> ''''" for v
        using that Some by (intro new_ok_save upd) (auto simp: ok_def)
      show ?thesis
      proof (cases "is_dir n")
        case True
        then show ?thesis using Inr
          by (auto simp: ProcessEvent_def assms(1) Some case_prod_beta new_ok_self intro!: new_ok_untrack sc waits)
      next
        case False
        then show ?thesis using Inr
          by (auto simp: ProcessEvent_def assms(1) Some new_ok_self eligible_def intro!: arch)
      qed
    qed
  qed
  with assms(2,3) have "ok k f" by (simp add: new_ok_def)
  then show ?thesis by (simp only: ok_def eligible_def)
qed

theorem event_tracks_archives_only_witness:
  "\<exists>f. aget (d_Tracked watch_busy) ''/w/a.rar'' = Some f \<and> fo_Status f = WAITING"
proof -
  have "aget (d_Tracked watch_busy) ''/w/a.rar'' \<noteq> None" by code_simp
  then obtain f where "aget (d_Tracked (snd (ProcessEvent demo_env watch_lib watch_disk watch_event 7 watch_daemon)))
      ''/w/a.rar'' = Some f"
    by (auto simp: watch_busy_def)
  with event_tracks_archives_only [OF _ _ this, of watch_cfg] show ?thesis
    by (auto simp: watch_busy_def watch_event_def watch_daemon_def demo_daemon_def)
qed

text \<open>
  A scan at the start changes no item that is tracked already, so that the times of recovered
  work survive it, and never drops one.
\<close>

theorem scan_keeps_recovered:
  assumes "aget (d_Tracked u) k = Some f"
  shows "aget (d_Tracked (snd (Scan E X F now u))) k = Some f"
proof -
  let ?P = "\<lambda>v :: 'a daemon_scheme. aget (d_Tracked v) k = Some f"
  have save: "?P v \<Longrightarrow> ?P (saveEvent X F c p now False v)" for v c p
    by (cases "aget (d_Tracked v) p") (auto simp: saveEvent_def)
  have dir: "?P (snd (scanWatchDir E X F c p now False v))" if "?P v" for v c p
  proof -
    have "?P (snd (scan_loop E X F c p now False ks sk (addWatchDir X F p v)))" for ks sk
      by (rule scan_loop_inv [where P = ?P]) (use that in \<open>auto intro: save\<close>)
    with that show ?thesis by (simp add: scanWatchDir_def Let_def split: sum.splits)
  qed
  have "?P v \<Longrightarrow> ?P (snd (scan_roots E X F now cs v))" for v cs
    using dir by (induction cs arbitrary: v) (simp_all add: case_prod_beta)
  with assms show ?thesis by (simp add: Scan_def)
qed

theorem scan_keeps_recovered_witness:
  "aget (d_Tracked (snd (Scan demo_env watch_lib watch_disk 9 watch_done))) ''/w/a.rar''
    = Some (zero_folder\<lparr>fo_Config := Some watch_cfg, fo_Status := EXTRACTED, fo_Files := [''/w/a/x'']\<rparr>)"
  by (rule scan_keeps_recovered) (simp add: watch_done_def)

subsection \<open>What a scan finds\<close>

text \<open>
  A tidy file system names its nodes once, by clean absolute paths. \<open>hidden\<close> are the directories
  a scan of \<open>root\<close> does not enter.
\<close>

definition tidy :: "fsys \<Rightarrow> bool" where
  "tidy F \<longleftrightarrow> distinct (akeys (fs_nodes F)) \<and> (\<forall>k \<in> set (akeys (fs_nodes F)). is_abs k \<and> clean k = k)"

definition hidden :: "env \<Rightarrow> fsys \<Rightarrow> folder_config \<Rightarrow> string \<Rightarrow> string \<Rightarrow> bool" where
  "hidden E F c root d \<longleftrightarrow> IsExcludedPath c d \<or> ignoredExtractName d \<or> d \<noteq> root \<and> isExtractDest E F d"

lemma slash_slash: "is_abs p \<Longrightarrow> \<not> prefix ''//'' (clean p)"
proof (cases "path_comps p")
  case (Cons c cs)
  assume a: "is_abs p"
  have "good_comp c" using path_comps_good [OF a, of c] Cons by simp
  then obtain x xs where "c = x # xs" "x \<noteq> sl" by (cases c) (auto simp: good_comp_def)
  then show ?thesis using a Cons by (cases cs) (auto simp: clean_def)
qed (simp add: clean_def)

lemma below_comps:
  assumes "is_abs d" "is_abs k" "clean k = k"
  shows "below d k \<Longrightarrow> k = clean d \<or> strict_prefix (path_comps d) (path_comps k)"
proof -
  assume b: "below d k"
  show ?thesis
  proof (cases "path_comps d = []")
    case True
    then have "clean d = ''/''" using assms(1) by (simp add: clean_def)
    with b slash_slash [OF assms(2)] assms(3) show ?thesis by (auto simp: below_def)
  next
    case False
    with b prefix_slash_clean [OF assms(1,2) False] assms(3) show ?thesis by (auto simp: below_def)
  qed
qed

lemma strict_prefix_less: "strict_prefix xs ys \<Longrightarrow> xs < (ys :: 'a :: linorder list)"
proof (induction xs arbitrary: ys)
  case Nil
  then show ?case by (cases ys) simp_all
next
  case (Cons x xs)
  then show ?case by (cases ys) auto
qed

lemma below_trans:
  assumes "below a b" "below b c" "clean b = b"
  shows "below a c"
proof (cases "c = b \<or> b = clean a")
  case True
  with assms show ?thesis by (auto simp: below_def)
next
  case False
  with assms have "prefix (clean a @ ''/'') b" "prefix (b @ ''/'') c" by (auto simp: below_def)
  then have "prefix (clean a @ ''/'') c" using prefix_order.trans append_prefixD by metis
  then show ?thesis by (simp add: below_def)
qed

text \<open>In the order of a walk no directory comes after what it holds.\<close>

definition walks :: "(string \<times> fnode) list \<Rightarrow> bool" where
  "walks ks \<longleftrightarrow> sorted_wrt (\<lambda>a b. \<not> below (fst b) (fst a)) ks \<and> (\<forall>(k, n) \<in> set ks. clean k = k)"

lemma walk_order_walks:
  assumes "tidy F"
  shows "walks (walk_order F root)"
proof -
  let ?ks = "walk_order F root"
  have t: "is_abs k \<and> clean k = k" if "(k, n) \<in> set ?ks" for k n
    using that assms by (force simp: walk_order_def tidy_def akeys_def)
  have "distinct (map fst (fs_nodes F))" using assms by (simp add: tidy_def akeys_def)
  then have "distinct (map fst (filter (\<lambda>(k, n). below root k) (fs_nodes F)))" by (rule distinct_map_filter)
  then have d: "distinct (map fst ?ks)" by (simp add: walk_order_def distinct_map)
  have s: "sorted (map (\<lambda>(k, n). path_comps k) ?ks)" by (simp add: walk_order_def)
  have "\<not> below (fst (?ks ! j)) (fst (?ks ! i))" if ij: "i < j" "j < length ?ks" for i j
  proof
    assume b: "below (fst (?ks ! j)) (fst (?ks ! i))"
    obtain a m b' n where ks: "?ks ! i = (a, m)" "?ks ! j = (b', n)" by (cases "?ks ! i"; cases "?ks ! j") auto
    have ab: "is_abs a" "clean a = a" "is_abs b'" "clean b' = b'"
      using t [of a m] t [of b' n] ks ij nth_mem [of i ?ks] nth_mem [of j ?ks] by auto
    have "a \<noteq> b'" using d ij ks nth_eq_iff_index_eq [of "map fst ?ks" i j] by auto
    with below_comps [OF ab(3,1,2)] b ks ab have "path_comps b' < path_comps a"
      by (intro strict_prefix_less) auto
    moreover have "path_comps a \<le> path_comps b'"
      using sorted_nth_mono [OF s, of i j] ij ks by simp
    ultimately show False by simp
  qed
  then show ?thesis using t by (auto simp: walks_def sorted_wrt_iff_nth_less)
qed

definition covered :: "env \<Rightarrow> fsys \<Rightarrow> (string \<Rightarrow> folder_config) \<Rightarrow> string \<Rightarrow> (string \<times> fnode) list \<Rightarrow> string \<Rightarrow> bool" where
  "covered E F c root ks p \<longleftrightarrow> (\<exists>(d, m) \<in> set ks. is_dir m \<and> hidden E F (c d) root d \<and> below d p)"

definition finds :: "env \<Rightarrow> fsys \<Rightarrow> (string \<Rightarrow> folder_config) \<Rightarrow> string \<Rightarrow> (string \<times> fnode) list \<Rightarrow> string set" where
  "finds E F c root ks = {p. (\<exists>(q, n) \<in> set ks. q = p \<and> \<not> is_dir n) \<and> eligible E F (c p) p
     \<and> \<not> covered E F c root ks p}"

lemma scan_paths:
  assumes "walks ks" "fs_denied F = []" "\<And>q. path_config u cfg q = c q"
  shows "set (fst (scan_loop E X F cfg root now r ks sk u)) = {p \<in> finds E F c root ks. \<not> list_ex (\<lambda>d. below d p) sk}"
  using assms(1,3)
proof (induction ks arbitrary: sk u)
  case (Cons kn ks)
  obtain p n where kn: "kn = (p, n)" by (cases kn)
  have w: "walks ks" "clean p = p" and later: "\<And>d m. (d, m) \<in> set ks \<Longrightarrow> \<not> below d p"
    using Cons.prems(1) by (auto simp: walks_def kn)
  note pc = Cons.prems(2)
  have cw: "path_config (addWatchDir X F p u) cfg q = c q"
    "path_config (saveEvent X F (c p) p now r u) cfg q = c q" for q
    using pc [of q]
    by (auto simp: path_config_def addWatchDir_def saveEvent_def watch_path_def track_folder_def Let_def split: option.splits)
  note IH = Cons.IH [OF w(1) Cons.prems(2)] Cons.IH [OF w(1) cw(1)] Cons.IH [OF w(1) cw(2)]
  let ?hid = "is_dir n \<and> hidden E F (c p) root p"
  have "\<not> covered E F c root ks p" using later by (auto simp: covered_def)
  then have step: "finds E F c root ((p, n) # ks) = {q \<in> finds E F c root ks. \<not> (?hid \<and> below p q)}
      \<union> (if \<not> is_dir n \<and> eligible E F (c p) p then {p} else {})"
    by (auto simp: finds_def) (auto simp: covered_def)
  show ?case
  proof (cases "list_ex (\<lambda>d. below d p) sk")
    case True
    have "\<not> list_ex (\<lambda>d. below d q) sk \<Longrightarrow> \<not> below p q" for q
      using True below_trans [OF _ _ w(2)] by (auto simp: list_ex_iff)
    with True show ?thesis by (auto simp: kn IH step)
  next
    case False
    show ?thesis
    proof (cases "is_dir n")
      case True
      with False show ?thesis by (auto simp: kn IH(1,2) step pc Let_def assms(2) hidden_def)
    next
      case notdir: False
      with False show ?thesis by (auto simp: kn IH(1,3) step pc Let_def case_prod_beta eligible_def)
    qed
  qed
qed (simp add: finds_def)

lemma scan_tracks:
  assumes "\<And>q. canWatch X F q"
    and "p \<in> set (fst (scan_loop E X F cfg root now r ks sk u))"
  shows "aget (d_Tracked (snd (scan_loop E X F cfg root now r ks sk u))) p \<noteq> None"
proof -
  define P :: "string list \<times> 'a daemon_scheme \<Rightarrow> bool"
    where "P s \<longleftrightarrow> (p \<in> set (fst s) \<longrightarrow> aget (d_Tracked (snd s)) p \<noteq> None)" for s
  have save: "aget (d_Tracked (saveEvent X F c q now r v)) p \<noteq> None"
    if "aget (d_Tracked v) p \<noteq> None \<or> q = p" for c q and v :: "'a daemon_scheme"
    using that assms(1) by (cases "aget (d_Tracked v) q") (auto simp: saveEvent_def)
  have stays: "aget (d_Tracked (snd (scan_loop E X F cfg root now r ks sk v))) p \<noteq> None"
    if "aget (d_Tracked v) p \<noteq> None" for v :: "'a daemon_scheme" and ks sk
    by (rule scan_loop_inv [where P = "\<lambda>v. aget (d_Tracked v) p \<noteq> None"]) (use that save in simp_all)
  have found: "P (k # fst s, snd s)"
    if "P s" "s = scan_loop E X F cfg root now r ks sk (saveEvent X F c k now r v)" for k s ks sk c and v :: "'a daemon_scheme"
    using that stays save unfolding P_def by simp blast
  have "P (scan_loop E X F cfg root now r ks sk u)" for ks sk and u :: "'a daemon_scheme"
  proof (induction ks arbitrary: sk u)
    case (Cons kn ks)
    show ?case by (cases kn) (simp add: Let_def case_prod_beta Cons.IH found, simp add: P_def)
  qed (simp add: P_def)
  then show ?thesis using assms(2) unfolding P_def by blast
qed

text \<open>
  C15. When every directory can be read, a scan finds exactly the archives below a watched directory
  that may be work, and that lie in no directory it must not enter: none that is excluded,
  temporary, or the output of an extraction. Everything found is tracked, if it can be watched.
\<close>

theorem scan_finds_exactly:
  assumes "tidy F" "fs_denied F = []" "os_stat F root = Inr n"
  shows "set (fst (scanWatchDir E X F cfg root now r u))
      = {p. (\<exists>n. aget (fs_nodes F) p = Some n \<and> \<not> is_dir n) \<and> below root p \<and> eligible E F (path_config u cfg p) p
         \<and> \<not> (\<exists>d m. aget (fs_nodes F) d = Some m \<and> is_dir m \<and> below root d \<and> below d p \<and> hidden E F (path_config u cfg d) root d)}
    \<and> ((\<forall>q. canWatch X F q) \<longrightarrow> (\<forall>p \<in> set (fst (scanWatchDir E X F cfg root now r u)).
         aget (d_Tracked (snd (scanWatchDir E X F cfg root now r u))) p \<noteq> None))"
proof -
  let ?c = "path_config u cfg"
  let ?u = "addWatchDir X F root u"
  have s: "scanWatchDir E X F cfg root now r u = scan_loop E X F cfg root now r (walk_order F root) [] ?u"
    using assms(3) by (simp add: scanWatchDir_def)
  have pc: "path_config ?u cfg q = ?c q" for q
    using conf_parts(5) [of ?u u] by (simp add: path_config_def)
  have mem: "(k, n) \<in> set (walk_order F root) \<longleftrightarrow> aget (fs_nodes F) k = Some n \<and> below root k" for k n
    using assms(1) by (auto simp: walk_order_def tidy_def akeys_def)
  have cov: "covered E F ?c root (walk_order F root) p \<longleftrightarrow> (\<exists>d m. aget (fs_nodes F) d = Some m \<and> is_dir m
      \<and> below root d \<and> below d p \<and> hidden E F (?c d) root d)" for p
    by (auto simp: covered_def mem Bex_def)
  have "set (fst (scan_loop E X F cfg root now r (walk_order F root) [] ?u)) = finds E F ?c root (walk_order F root)"
    by (simp add: scan_paths [OF walk_order_walks [OF assms(1)] assms(2) pc])
  moreover have "finds E F ?c root (walk_order F root)
      = {p. (\<exists>n. aget (fs_nodes F) p = Some n \<and> \<not> is_dir n) \<and> below root p \<and> eligible E F (?c p) p
         \<and> \<not> (\<exists>d m. aget (fs_nodes F) d = Some m \<and> is_dir m \<and> below root d \<and> below d p \<and> hidden E F (?c d) root d)}"
    unfolding finds_def cov by (auto simp: mem)
  moreover have "\<forall>p \<in> set (fst (scan_loop E X F cfg root now r (walk_order F root) [] ?u)).
      aget (d_Tracked (snd (scan_loop E X F cfg root now r (walk_order F root) [] ?u))) p \<noteq> None"
    if "\<forall>q. canWatch X F q"
    using that by (intro ballI scan_tracks) simp_all
  ultimately show ?thesis unfolding s by simp
qed

theorem scan_finds_exactly_witness:
  "eligible demo_env watch_disk (path_config watch_daemon watch_cfg ''/w/a.rar'') ''/w/a.rar''"
proof -
  have f: "''/w/a.rar'' \<in> set (fst (scanWatchDir demo_env watch_lib watch_disk watch_cfg ''/w'' 7 True watch_daemon))"
    by code_simp
  have "tidy watch_disk" "fs_denied watch_disk = []" "os_stat watch_disk ''/w'' = Inr (DirN 1)" by code_simp+
  from scan_finds_exactly [OF this, of demo_env watch_lib watch_cfg 7 True watch_daemon] f
  show ?thesis by blast
qed

end
