(* ===== verification/FolderProps.thy ===== *)
theory FolderProps
  imports WatchProps RemnantProps
begin

text \<open>
  Properties of the watched items: the timer pass, what it extracts and deletes, and what the
  file watcher takes for work.
\<close>

subsection \<open>The timer pass\<close>

lemma timer_pass:
  assumes "distinct (akeys (d_Tracked u))" "checkFolderStats E X F clk now u = Some (v, xs)"
  shows "aget (d_Tracked v) k = folder_act E X F now u k (aget (d_Tracked u) k)"
    "map anon xs = concat (map (\<lambda>k. folder_requests E X F now u k (aget (d_Tracked u) k)) (akeys (d_Tracked u)))"
    "d_delQueue v = d_delQueue u
       @ concat (map (\<lambda>k. folder_deletes E F now u k (aget (d_Tracked u) k)) (akeys (d_Tracked u)))"
proof -
  have f: "foldl (visit_folder E X F clk now) (u, []) (akeys (d_Tracked u)) = (v, xs)"
    using assms(2) by (intro fold_visits) (simp add: checkFolderStats_def)
  have "folder_act E X F now u k None = None" by (simp add: folder_act_def)
  with folder_sweep.look_sweep [OF assms(1), where s = "(u, [])" and E = E and X = X and F = F and clk = clk and now = now and k = k] f
  show "aget (d_Tracked v) k = folder_act E X F now u k (aget (d_Tracked u) k)"
    by (cases "k \<in> set (akeys (d_Tracked u))") (auto simp: aget_None [THEN iffD2])
  show "map anon xs = concat (map (\<lambda>k. folder_requests E X F now u k (aget (d_Tracked u) k)) (akeys (d_Tracked u)))"
    using folder_sweep.out_sweep [OF assms(1), where s = "(u, [])" and E = E and X = X and F = F and clk = clk and now = now] f
    by simp
  show "d_delQueue v = d_delQueue u
       @ concat (map (\<lambda>k. folder_deletes E F now u k (aget (d_Tracked u) k)) (akeys (d_Tracked u)))"
    using delete_sweep.out_sweep [OF assms(1), where s = "(u, [])" and E = E and X = X and F = F and clk = clk and now = now] f
    by simp
qed

lemma waiting_requests_dest:
  "x \<in> set (waiting_requests E X F now u k f) \<Longrightarrow> \<exists>n cfg. os_stat F k = Inr n \<and> fo_Config f = Some cfg
     \<and> due E X F now u k f \<and> extractable E X F k cfg \<and> x = folder_request k cfg 0"
  by (cases "os_stat F k"; cases "fo_Config f") (auto simp: waiting_requests_def split: if_splits)

lemma folder_deletes_dest:
  assumes "r \<in> set (folder_deletes E F now u k x)"
  shows "\<exists>f cfg after. x = Some f \<and> fo_Config f = Some cfg \<and> fc_DeleteAfter cfg = Some after
     \<and> delete_due now f cfg after \<and> r \<in> set (delete_of (folder_outputs k f cfg) (purge_root F k f))
       \<union> set (delete_of (folder_originals E k f cfg) (purge_root F k f))"
proof -
  obtain f where f: "x = Some f" using assms by (cases x) (simp_all add: folder_deletes_def)
  obtain cfg where c: "fo_Config f = Some cfg" using assms f by (cases "fo_Config f") (simp_all add: folder_deletes_def)
  obtain after where "fc_DeleteAfter cfg = Some after"
    using assms f c by (cases "fc_DeleteAfter cfg") (simp_all add: folder_deletes_def)
  with f c assms show ?thesis by (auto simp: folder_deletes_def split: if_splits)
qed

text \<open>
  C11. One pass of \<open>checkFolderStats\<close> does to every watched item, whatever the order in which Go
  visits the map, what its own state and the files below it say, and the extractions and deletes
  it requests are exactly those of the single items.
\<close>

theorem timer_pass_pointwise:
  assumes "distinct (akeys (d_Tracked u))" "checkFolderStats E X F clk now u = Some (v, xs)"
  shows "aget (d_Tracked v) k = folder_act E X F now u k (aget (d_Tracked u) k)
    \<and> map anon xs = concat (map (\<lambda>k. folder_requests E X F now u k (aget (d_Tracked u) k)) (akeys (d_Tracked u)))
    \<and> d_delQueue v = d_delQueue u
       @ concat (map (\<lambda>k. folder_deletes E F now u k (aget (d_Tracked u) k)) (akeys (d_Tracked u)))"
  using timer_pass [OF assms] by simp

theorem timer_pass_pointwise_witness:
  "map anon (snd (the (checkFolderStats demo_env watch_lib watch_disk 0 (60 * nsecond) watch_busy)))
    = [folder_request ''/w/a.rar'' watch_cfg 0]"
proof -
  let ?t = "60 * nsecond"
  have "checkFolderStats demo_env watch_lib watch_disk 0 ?t watch_busy \<noteq> None" by code_simp
  then obtain v xs where v: "checkFolderStats demo_env watch_lib watch_disk 0 ?t watch_busy = Some (v, xs)" by auto
  have d: "distinct (akeys (d_Tracked watch_busy))" by code_simp
  have "concat (map (\<lambda>k. folder_requests demo_env watch_lib watch_disk ?t watch_busy k (aget (d_Tracked watch_busy) k))
      (akeys (d_Tracked watch_busy))) = [folder_request ''/w/a.rar'' watch_cfg 0]"
    by code_simp
  with timer_pass_pointwise [OF d v] v show ?thesis by simp
qed

text \<open>
  C12. An archive is handed to the library only when it is settled: a tracked item that waits, exists
  on disk, was not written to for the start delay, has no partial download in or beside it and no
  file it must wait for, and holds archives; the request is the one of its configuration.
\<close>

theorem extracts_only_settled:
  assumes "distinct (akeys (d_Tracked u))" "checkFolderStats E X F clk now u = Some (v, xs)" "x \<in> set xs"
  shows "\<exists>f cfg n. aget (d_Tracked u) (x_Name x) = Some f \<and> fo_Status f = WAITING \<and> fo_Config f = Some cfg
    \<and> os_stat F (x_Name x) = Inr n \<and> d_StartDelay u \<le> time_sub now (fo_Updated f)
    \<and> folderIncompleteDownload E F (x_Name x) = '''' \<and> multipartIncompleteSibling E F (x_Name x) = ''''
    \<and> folderWaitFile F (x_Name x) (fc_WaitExtensions cfg) = ''''
    \<and> archiveCount E (findCompressed X F (x_Name x) (folderExcludeSuffixes cfg) (fc_AllowSymlinks cfg)) \<noteq> 0
    \<and> anon x = folder_request (x_Name x) cfg 0"
proof -
  have "anon x \<in> set (map anon xs)" using assms(3) by simp
  then obtain k where k: "anon x \<in> set (folder_requests E X F now u k (aget (d_Tracked u) k))"
    unfolding timer_pass(2) [OF assms(1,2)] by auto
  then obtain f where f: "aget (d_Tracked u) k = Some f" "fo_Status f = WAITING"
    "anon x \<in> set (waiting_requests E X F now u k f)"
    by (cases "aget (d_Tracked u) k") (auto simp: folder_requests_def split: if_splits)
  then obtain n cfg where c: "os_stat F k = Inr n" "fo_Config f = Some cfg" "due E X F now u k f"
    "extractable E X F k cfg" "anon x = folder_request k cfg 0"
    using waiting_requests_dest by blast
  have "x_Name (anon x) = k" unfolding c(5) by (simp add: folder_request_def)
  then have "x_Name x = k" by (simp add: anon_def)
  with f c show ?thesis
    by (auto simp: due_def extractable_def incomplete_def config_wait_file_def found_archives_def)
qed

theorem extracts_only_settled_witness:
  "folderIncompleteDownload demo_env watch_disk ''/w/a.rar'' = ''''"
proof -
  let ?t = "60 * nsecond"
  have "(case checkFolderStats demo_env watch_lib watch_disk 0 ?t watch_busy of
      Some (v, xs) \<Rightarrow> map x_Name xs = [''/w/a.rar''] | _ \<Rightarrow> False)"
    by code_simp
  then obtain v x where v: "checkFolderStats demo_env watch_lib watch_disk 0 ?t watch_busy = Some (v, [x])"
      "x_Name x = ''/w/a.rar''"
    by (auto split: option.splits)
  have "distinct (akeys (d_Tracked watch_busy))" by code_simp
  from extracts_only_settled [OF this v(1), of x] v(2) show ?thesis by auto
qed

text \<open>
  C13. The timer asks for files of a watched item to be deleted only when its extraction succeeded and
  the delete delay, which must be positive, is over; it names the files the extraction wrote, if
  they are to be deleted, or the archives, if the originals are.
\<close>

theorem folder_deletes_only_extracted:
  assumes "distinct (akeys (d_Tracked u))" "checkFolderStats E X F clk now u = Some (v, xs)"
    "r \<in> set (drop (length (d_delQueue u)) (d_delQueue v))"
  shows "\<exists>k f cfg after. aget (d_Tracked u) k = Some f \<and> fo_Config f = Some cfg \<and> fo_Status f = EXTRACTED
    \<and> fc_DeleteAfter cfg = Some after \<and> 0 < after \<and> after \<le> time_sub now (fo_Updated f)
    \<and> dr_PurgeEmptyRoot r \<in> {'''', k}
    \<and> (fc_DeleteFiles cfg \<and> dr_Paths r = folder_outputs k f cfg
       \<or> fc_DeleteOrig cfg \<and> dr_Paths r = folder_originals E k f cfg)"
proof -
  obtain k where k: "r \<in> set (folder_deletes E F now u k (aget (d_Tracked u) k))"
    using assms(3) unfolding timer_pass(3) [OF assms(1,2)] by fastforce
  then obtain f cfg after where f: "aget (d_Tracked u) k = Some f" "fo_Config f = Some cfg"
    "fc_DeleteAfter cfg = Some after" "delete_due now f cfg after"
    "r \<in> set (delete_of (folder_outputs k f cfg) (purge_root F k f))
       \<union> set (delete_of (folder_originals E k f cfg) (purge_root F k f))"
    using folder_deletes_dest by blast
  have p: "purge_root F k f \<in> {'''', k}" by (auto simp: purge_root_def split: sum.splits)
  have "fc_DeleteFiles cfg" if "folder_outputs k f cfg \<noteq> []"
    using that by (auto simp: folder_outputs_def split: if_splits)
  moreover have "fc_DeleteOrig cfg" if "folder_originals E k f cfg \<noteq> []"
    using that by (auto simp: folder_originals_def split: if_splits)
  ultimately show ?thesis using f p
    by (intro exI [of _ k] exI [of _ f] exI [of _ cfg] exI [of _ after])
      (auto simp: delete_due_def delete_of_def split: if_splits)
qed

theorem folder_deletes_only_extracted_witness:
  "\<exists>f. aget (d_Tracked watch_done) ''/w/a.rar'' = Some f \<and> fo_Status f = EXTRACTED"
proof -
  let ?t = "60 * nsecond"
  have "(case checkFolderStats demo_env watch_lib watch_disk 0 ?t watch_done of Some (v, xs) \<Rightarrow> length (d_delQueue v) = 1 | _ \<Rightarrow> False)"
    by code_simp
  then obtain v xs r where v: "checkFolderStats demo_env watch_lib watch_disk 0 ?t watch_done = Some (v, xs)" "d_delQueue v = [r]"
    by (auto split: option.splits simp: length_Suc_conv)
  have d: "distinct (akeys (d_Tracked watch_done))" "d_delQueue watch_done = []" by code_simp+
  from folder_deletes_only_extracted [OF d(1) v(1), of r] v(2) d(2) show ?thesis
    by (auto simp: watch_done_def split: if_splits)
qed

end
