(* ===== verification/Restore.thy ===== *)
theory Restore
  imports Queue Watch Perms
begin

text \<open>
  What a start of the daemon makes of the history and of the folder settings:
  \<open>pkg/unpackerr/historyrestore.go\<close>, \<open>validateFolderList\<close>, \<open>PollFolders\<close> and
  \<open>applyLegacyFolderInterval\<close> of \<open>folder.go\<close>, and \<open>NewWatcher\<close> of \<open>pkg/folders/watch.go\<close>. \<open>now\<close>
  is the clock of the start.
\<close>

abbreviation (input) historyRestoreAge :: duration where "historyRestoreAge \<equiv> 72 * nhour"
abbreviation errInterruptedRestart :: string where "errInterruptedRestart \<equiv> ''interrupted by restart''"

subsection \<open>Which rows come back\<close>

text \<open>\<open>None\<close>: the row is not restored.\<close>

fun restoreQueueStatus :: "status \<Rightarrow> (status \<times> string) option" where
  "restoreQueueStatus WAITING = Some (WAITING, '''')"
| "restoreQueueStatus EXTRACTED = Some (EXTRACTED, '''')"
| "restoreQueueStatus IMPORTED = Some (IMPORTED, '''')"
| "restoreQueueStatus EXTRACTFAILED = Some (EXTRACTFAILED, '''')"
| "restoreQueueStatus EXTRACTEDNOTHING = Some (EXTRACTEDNOTHING, '''')"
| "restoreQueueStatus QUEUED = Some (WAITING, '''')"
| "restoreQueueStatus EXTRACTING = Some (EXTRACTFAILED, errInterruptedRestart)"
| "restoreQueueStatus DELETING = Some (EXTRACTFAILED, errInterruptedRestart)"
| "restoreQueueStatus DELETEFAILED = Some (IMPORTED, '''')"
| "restoreQueueStatus _ = None"

fun restoreNeedsKind :: "status \<Rightarrow> bool" where
  "restoreNeedsKind EXTRACTED = True"
| "restoreNeedsKind WAITING = True"
| "restoreNeedsKind EXTRACTFAILED = True"
| "restoreNeedsKind _ = False"

fun restoreFolderStatus :: "status \<Rightarrow> bool" where
  "restoreFolderStatus WAITING = True"
| "restoreFolderStatus EXTRACTFAILED = True"
| "restoreFolderStatus EXTRACTED = True"
| "restoreFolderStatus EXTRACTEDNOTHING = True"
| "restoreFolderStatus _ = False"

definition historyStamp :: "history_record \<Rightarrow> instant" where
  "historyStamp rec = (if h_Updated rec \<noteq> zeroTime then h_Updated rec
     else if h_Finished rec \<noteq> zeroTime then h_Finished rec else h_Started rec)"

definition has_url :: "starr instances \<Rightarrow> string \<Rightarrow> bool" where
  "has_url l url = list_ex (\<lambda>s. sr_URL s = url) (somes (map snd l))"

definition kindFromURL :: "'a daemon_scheme \<Rightarrow> string \<Rightarrow> string" where
  "kindFromURL u url = (if url = '''' then ''''
     else if has_url (d_Sonarr u) url then Sonarr
     else if has_url (d_Radarr u) url then Radarr
     else if has_url (d_Lidarr u) url then Lidarr
     else if has_url (d_Readarr u) url then Readarr
     else '''')"

definition historyKind :: "'a daemon_scheme \<Rightarrow> history_record \<Rightarrow> string" where
  "historyKind u rec = (if h_Kind rec \<noteq> '''' then h_Kind rec
     else if h_App rec \<in> {FolderString, Sonarr, Radarr, Lidarr, Readarr} then h_App rec
     else kindFromURL u (h_URL rec))"

definition row_id :: "history_record \<Rightarrow> string" where
  "row_id rec = (if h_ID rec = '''' then h_Path rec else h_ID rec)"

definition historyRestoreGate :: "'a daemon_scheme \<Rightarrow> history_record \<Rightarrow> instant
    \<Rightarrow> (string \<times> instant \<times> status \<times> string \<times> string) option" where
  "historyRestoreGate u rec cutoff = (let itemID = row_id rec; stamp = historyStamp rec; kind = historyKind u rec in
     if itemID = '''' then None
     else if stamp = zeroTime \<or> stamp < cutoff then None
     else case restoreQueueStatus (h_Status rec) of None \<Rightarrow> None
     | Some (status, errMsg) \<Rightarrow>
         if h_Status rec = WAITING \<and> kind \<noteq> FolderString then None
         else if restoreNeedsKind status \<and> kind = '''' then None
         else if kind = FolderString \<and> \<not> restoreFolderStatus status then None
         else Some (itemID, stamp, status, errMsg, kind))"

subsection \<open>From a row to an item\<close>

definition applyHistoryRestoreDelay :: "env \<Rightarrow> extract_item \<Rightarrow> string \<Rightarrow> duration \<Rightarrow> extract_item" where
  "applyHistoryRestoreDelay E item delay fallback = (
     let item = (case (if delay \<noteq> '''' then parseDuration E delay else None) of None \<Rightarrow> item
           | Some d \<Rightarrow> item\<lparr>e_DeleteDelay := d\<rparr>)
     in if e_DeleteDelay item = 0 then item\<lparr>e_DeleteDelay := fallback\<rparr> else item)"

definition applyHistoryRestoreResp :: "env \<Rightarrow> extract_item \<Rightarrow> history_record \<Rightarrow> string \<Rightarrow> extract_item" where
  "applyHistoryRestoreResp E item rec errMsg = (
     let errMsg = (if h_Error rec \<noteq> '''' then h_Error rec else errMsg) in
     if h_NewFiles rec = [] \<and> h_Bytes rec = 0 \<and> errMsg = '''' \<and> h_OrigFiles rec = [] \<and> h_Output rec = ''''
       \<and> h_Queue rec = 0 \<and> h_Elapsed rec = '''' \<and> h_ExtraFiles rec = [] then item
     else item\<lparr>e_Resp := Some (empty_response\<lparr>
         rs_NewFiles := h_NewFiles rec, rs_Size := h_Bytes rec, rs_Output := h_Output rec,
         rs_Queued := h_Queue rec, rs_Started := h_Started rec,
         rs_Elapsed := (case (if h_Elapsed rec \<noteq> '''' then parseDuration E (h_Elapsed rec) else None) of
           None \<Rightarrow> 0 | Some d \<Rightarrow> d),
         rs_Archives := (if h_OrigFiles rec = [] then [] else [('''', h_OrigFiles rec)]),
         rs_Extras := (if h_ExtraFiles rec = [] then [] else [('''', h_ExtraFiles rec)]),
         rs_Error := (if h_Error rec \<noteq> '''' then Some (OtherError (h_Error rec))
           else if errMsg \<noteq> '''' then Some (OtherError errInterruptedRestart) else None)\<rparr>)\<rparr>)"

definition applyHistoryRestoreClock :: "extract_item \<Rightarrow> status \<Rightarrow> instant \<Rightarrow> instant \<Rightarrow> duration \<Rightarrow> extract_item" where
  "applyHistoryRestoreClock item saved now stamp retryDelay = (
     let item = (if e_Status item \<in> {EXTRACTED, WAITING} then item\<lparr>e_Updated := now\<rparr>
           else if e_Status item = EXTRACTFAILED \<and> \<not> e_NoRetry item \<and> saved \<in> {EXTRACTING, DELETING} then
             item\<lparr>e_Updated := now - retryDelay,
               e_Resp := (case e_Resp item of None \<Rightarrow>
                   Some (empty_response\<lparr>rs_Error := Some (OtherError errInterruptedRestart)\<rparr>)
                 | Some r \<Rightarrow> Some r)\<rparr>
           else item)
     in if e_Updated item = zeroTime then item\<lparr>e_Updated := stamp\<rparr> else item)"

definition extractFromHistoryRecord :: "env \<Rightarrow> 'a daemon_scheme \<Rightarrow> history_record \<Rightarrow> string \<Rightarrow> status \<Rightarrow> string
    \<Rightarrow> instant \<Rightarrow> instant \<Rightarrow> extract_item" where
  "extractFromHistoryRecord E u rec kind status errMsg stamp now = (
     let item = zero_extract\<lparr>e_addr := d_nextAddr u, e_Syncthing := h_Syncthing rec, e_SplitFlac := h_SplitFlac rec,
           e_APEFormat := h_APEFormat rec, e_APECompression := h_APECompression rec, e_Retries := h_Retries rec,
           e_HookFail := h_HookFail rec, e_HookMessages := h_HookMessages rec, e_Path := h_Path rec,
           e_OutputPath := h_OutputPath rec, e_App := kind, e_URL := h_URL rec, e_Updated := h_Updated rec,
           e_DeleteOrig := h_DeleteOrig rec, e_Status := status, e_NoRetry := h_NoRetry rec,
           e_MaxBytes := h_MaxBytes rec, e_PreFiles := preFilesFromKeys (h_PreFiles rec),
           e_IDs := cloneIDs (h_IDs rec), e_Event := h_Event rec\<rparr>;
         item = (if h_App rec \<noteq> '''' \<and> h_App rec \<noteq> kind then item\<lparr>e_Name := h_App rec\<rparr> else item);
         item = applyHistoryRestoreDelay E item (h_DeleteDelay rec) (d_DeleteDelay u);
         item = applyHistoryRestoreResp E item rec errMsg;
         item = applyHistoryRestoreClock item (h_Status rec) now stamp (d_RetryDelay u)
     in item\<lparr>e_XProg := Some new_progress\<rparr>)"

definition extractFromHistory :: "env \<Rightarrow> 'a daemon_scheme \<Rightarrow> history_record \<Rightarrow> instant \<Rightarrow> instant
    \<Rightarrow> (extract_item \<times> string) option" where
  "extractFromHistory E u rec now cutoff = (case historyRestoreGate u rec cutoff of None \<Rightarrow> None
   | Some (itemID, stamp, status, errMsg, kind) \<Rightarrow>
       Some (extractFromHistoryRecord E u rec kind status errMsg stamp now, itemID))"

subsection \<open>Onto the tracker\<close>

definition folderFromExtract :: "extract_item \<Rightarrow> folder_config \<Rightarrow> folder" where
  "folderFromExtract item cfg = (
     let folder = zero_folder\<lparr>fo_Updated := e_Updated item, fo_Status := e_Status item, fo_Config := Some cfg,
       fo_Retries := e_Retries item, fo_NoRetry := e_NoRetry item, fo_PreFiles := e_PreFiles item\<rparr>
     in case e_Resp item of None \<Rightarrow> folder
     | Some r \<Rightarrow> folder\<lparr>fo_Files := rs_NewFiles r, fo_Archives := rs_Archives r\<rparr>)"

text \<open>The item of the map is changed in place, so the result is whether it stays, and the daemon.\<close>

definition seedFolderItemLocked :: "string \<Rightarrow> extract_item \<Rightarrow> bool \<Rightarrow> 'a daemon_scheme \<Rightarrow> bool \<times> 'a daemon_scheme" where
  "seedFolderItemLocked itemID item requireConfig u = (
     if aget (d_Tracked u) itemID \<noteq> None then (True, u)
     else if d_WatchCfg u = [] then (\<not> requireConfig, u)
     else case folderConfigForPath (map Some (d_WatchCfg u)) (e_Path item) of None \<Rightarrow> (False, u)
     | Some cfg \<Rightarrow> (True, set_item itemID
           (if e_Event item \<noteq> '''' then item
            else item\<lparr>e_Event := (if UsesPoller (Some cfg) then KindPolling else KindFSNotify)\<rparr>)
         (track_folder itemID (folderFromExtract item cfg) u)))"

text \<open>One row of \<open>restoreQueueFromHistory\<close>; the new item gets the next address.\<close>

definition restore_row :: "env \<Rightarrow> instant \<Rightarrow> 'a daemon_scheme \<Rightarrow> history_record \<Rightarrow> 'a daemon_scheme" where
  "restore_row E now u rec = (let itemID = row_id rec in
     if h_Forgotten rec then
       (if itemID \<noteq> '''' \<and> h_Kind rec \<noteq> FolderString
        then u\<lparr>d_forgotten := List.insert itemID (d_forgotten u)\<rparr> else u)
     else case extractFromHistory E u rec now (now - historyRestoreAge) of None \<Rightarrow> u
     | Some (item, itemID) \<Rightarrow>
         if aget (d_Map u) itemID \<noteq> None then u
         else let u = (set_item itemID item u)\<lparr>d_nextAddr := d_nextAddr u + 1\<rparr>;
                  s = (if e_App item = FolderString then seedFolderItemLocked itemID item False u else (True, u))
           in if \<not> fst s then (snd s)\<lparr>d_Map := adel itemID (d_Map (snd s))\<rparr>
              else (case aget (d_Map (snd s)) itemID of None \<Rightarrow> snd s
                | Some item \<Rightarrow> set_item itemID (stampQueueDue (snd s) itemID item) (snd s)))"

definition restoreQueueFromHistory :: "env \<Rightarrow> instant \<Rightarrow> 'a daemon_scheme \<Rightarrow> 'a daemon_scheme" where
  "restoreQueueFromHistory E now u = (if d_KeepHistory u = 0 \<or> d_records u = [] then u
     else unlockHistory (foldl (restore_row E now) u (d_records u)))"

definition seed_item :: "bool \<times> 'a daemon_scheme \<Rightarrow> string \<Rightarrow> bool \<times> 'a daemon_scheme" where
  "seed_item s itemID = (case s of (dropped, u) \<Rightarrow> (case aget (d_Map u) itemID of None \<Rightarrow> (dropped, u)
   | Some item \<Rightarrow>
       if e_App item \<noteq> FolderString then (dropped, u)
       else (case seedFolderItemLocked itemID item True u of (ok, v) \<Rightarrow>
         if ok then (dropped, v) else (True, deleteExtract v itemID))))"

definition seedFolderTracker :: "env \<Rightarrow> instant \<Rightarrow> 'a daemon_scheme \<Rightarrow> 'a daemon_scheme" where
  "seedFolderTracker E clk u = (case foldl seed_item (False, u) (akeys (d_Map u)) of (dropped, u) \<Rightarrow>
     unlockHistory (if dropped then notifyQueueLocked E clk u else u))"

subsection \<open>The watched folders\<close>

datatype list_error = BadSlug | NilEntry | NoPath | ListError folder_error

definition folder_entry_error :: "string \<times> folder_config option \<Rightarrow> list_error option" where
  "folder_entry_error kv = (case kv of (key, f) \<Rightarrow>
     if \<not> validateInstanceSlug key then Some BadSlug
     else case f of None \<Rightarrow> Some NilEntry
     | Some c \<Rightarrow> if trim_space (fc_Path c) = '''' then Some NoPath else None)"

text \<open>The entries are changed in place; the result is the map with the new entries.\<close>

definition validateFolderList :: "(string \<Rightarrow> uint64 option) \<Rightarrow> folder_config instances
    \<Rightarrow> list_error + folder_config instances" where
  "validateFolderList tb list = (case List.map_filter folder_entry_error list of e # _ \<Rightarrow> Inl e
   | [] \<Rightarrow> (case ValidateList (parseOptionalMaxBytes tb) (map Some (instanceValues list)) of
       Inl e \<Rightarrow> Inl (ListError e)
     | Inr cs \<Rightarrow> Inr (map (\<lambda>k. (k, aget (zip (instanceKeys list) cs) k)) (akeys list))))"

definition applyLegacyFolderInterval :: "folder_config list \<Rightarrow> duration \<Rightarrow> folder_config list" where
  "applyLegacyFolderInterval watched legacy = (if legacy < MinimumPollInterval then watched
     else map (\<lambda>cfg. if fc_Interval cfg = 0 then cfg\<lparr>fc_Interval := legacy\<rparr> else cfg) watched)"

text \<open>
  The paths with a poller of their own, and whether any other path needs the file system's events;
  \<open>canPoll\<close> says where a poller starts.
\<close>

definition addPollers :: "(string \<Rightarrow> bool) \<Rightarrow> folder_config list \<Rightarrow> string list \<times> bool" where
  "addPollers canPoll cfgs = (let polled = (\<lambda>c. UsesPoller (Some c) \<and> canPoll (fc_Path c)) in
     (map fc_Path (filter polled cfgs), list_ex (\<lambda>c. \<not> polled c) cfgs))"

definition pollerFor :: "folder_config list \<Rightarrow> string list \<Rightarrow> string \<Rightarrow> bool" where
  "pollerFor cfgs pollers path = (case watchConfig (map Some cfgs) path of None \<Rightarrow> False
     | Some cfg \<Rightarrow> fc_Path cfg \<in> set pollers)"

definition openFSNotify :: "folder_config list \<Rightarrow> string list \<Rightarrow> string list" where
  "openFSNotify cfgs pollers = dedup_acc [] (map (\<lambda>c. clean (fc_Path c))
     (filter (\<lambda>c. \<not> pollerFor cfgs pollers (fc_Path c)) cfgs))"

text \<open>
  \<open>None\<close> is the error of \<open>fsnotify.NewWatcher\<close>, \<open>fsn\<close> whether it succeeds; otherwise the directories
  that are watched as sources of events.
\<close>

definition NewWatcher :: "(string \<Rightarrow> bool) \<Rightarrow> bool \<Rightarrow> folder_config list \<Rightarrow> string list option" where
  "NewWatcher canPoll fsn cfgs = (if cfgs = [] then Some []
     else case addPollers canPoll cfgs of (pollers, needFSNotify) \<Rightarrow>
       if \<not> needFSNotify then Some []
       else if \<not> fsn then None else Some (openFSNotify cfgs pollers))"

definition PollFolders :: "(string \<Rightarrow> string option) \<Rightarrow> string option \<Rightarrow> (string \<Rightarrow> bool) \<Rightarrow> bool \<Rightarrow> duration
    \<Rightarrow> fsys \<Rightarrow> 'a daemon_scheme \<Rightarrow> 'a daemon_scheme" where
  "PollFolders he cwd canPoll fsn legacy F u = (
     let watched = applyLegacyFolderInterval (fst (Check he cwd F (instanceValues (d_FolderCfg u)))) legacy
     in case NewWatcher canPoll fsn watched of None \<Rightarrow> u
     | Some dirs \<Rightarrow> u\<lparr>d_WatchCfg := watched, d_Tracked := [], d_watched := [], d_WatchDirs := dirs\<rparr>)"

end
