(* ===== verification/MainLoop.thy ===== *)
theory MainLoop
  imports Restore FolderSound QueueLoop
begin

text \<open>
  The whole main loop: the start of \<open>Run\<close> (\<open>pkg/unpackerr/start.go\<close>), the branches of its \<open>select\<close> for
  the Starr queue and for the watched folders, and the proof that a start establishes the
  well-formedness of the tracker and that every branch keeps it. \<open>None\<close> is a panic of the daemon.
\<close>

subsection \<open>The start\<close>

text \<open>
  What happens to the watched folders before the loop: the history and the recovery file are read,
  the watchers are opened, and the restored, recovered and found items are tracked.
\<close>

definition start_folders :: "env \<Rightarrow> xlib \<Rightarrow> (string \<Rightarrow> string option) \<Rightarrow> string option \<Rightarrow> (string \<Rightarrow> bool) \<Rightarrow> bool
    \<Rightarrow> duration \<Rightarrow> instant \<Rightarrow> instant \<Rightarrow> 'a daemon_scheme \<times> fsys \<Rightarrow> 'a daemon_scheme \<times> fsys" where
  "start_folders E X he cwd canPoll fsn legacy clk now s = (case s of (u, F) \<Rightarrow>
     let u = restoreQueueFromHistory E clk (readRecoveryState u);
         u = seedFolderTracker E clk (PollFolders he cwd canPoll fsn legacy F u)
     in case recoverInterruptedFolders E X now u F of (u, F) \<Rightarrow>
       (scanWatchedFolders E X F clk now u, F))"

subsection \<open>The loop\<close>

datatype main_op =
    Starr queue_op
  | FileEvent instant instant string string
  | FolderCallback instant response
  | FolderTimer instant instant

text \<open>
  A file event goes through \<open>handleFileEvent\<close> and the channel to \<open>processEvent\<close>; the watch
  configuration does not change in between.
\<close>

fun main_step :: "env \<Rightarrow> xlib \<Rightarrow> 'a daemon_scheme \<times> fsys \<Rightarrow> main_op \<Rightarrow> ('a daemon_scheme \<times> fsys) option" where
  "main_step E X s (Starr p) = Some (queue_step E X s p)"
| "main_step E X (u, F) (FileEvent clk now name operation) = (case handleFileEvent name operation u of
     None \<Rightarrow> Some (u, F)
   | Some event \<Rightarrow> map_option (\<lambda>v. (v, F)) (processEvent E X F clk event now u))"
| "main_step E X (u, F) (FolderCallback clk resp) = folderXtractrCallback E F clk resp u"
| "main_step E X (u, F) (FolderTimer clk now) = map_option (\<lambda>(v, xs). (v, F)) (checkFolderStats E X F clk now u)"

definition main_run :: "env \<Rightarrow> xlib \<Rightarrow> 'a daemon_scheme \<times> fsys \<Rightarrow> main_op list \<Rightarrow> ('a daemon_scheme \<times> fsys) option" where
  "main_run E X s ps = fold_opt (main_step E X) s ps"

subsection \<open>Every branch keeps the tracker well-formed\<close>

definition sound_keeps :: "uint64 \<Rightarrow> 'a daemon_scheme \<Rightarrow> 'a daemon_scheme \<Rightarrow> bool" where
  "sound_keeps m u v \<longleftrightarrow> (sound m u \<longrightarrow> sound m v)"

lemma sound_same: "fv u = fv v \<Longrightarrow> sound_keeps m u v"
  using sound_fv [of u v m] by (simp add: sound_keeps_def)

interpretation sound_loop: loop_relation "sound_keeps m" for m
proof unfold_locales
  fix u v w :: "'a daemon_scheme"
  show "sound_keeps m u u" "sound_keeps m u v \<Longrightarrow> sound_keeps m v w \<Longrightarrow> sound_keeps m u w"
    by (simp_all add: sound_keeps_def)
  show "hist.more v = hist.more u \<Longrightarrow> sound_keeps m u v" using fv_more [of v u] by (simp add: sound_same)
  show "sound_keeps m u (queueDelete r u)" for r by (simp add: sound_keeps_def)
  show "sound_keeps m u (forget_folder n u)" for n
    using sound_untrack [of m u n] sound_cong [of "forget_folder n u" "untrack n u" m]
    by (cases "aget (d_Tracked u) n") (simp_all add: sound_keeps_def forget_folder_def untrack_def conf_def)
  show "sound_keeps m u (u\<lparr>d_hookFails := xs\<rparr>)" "sound_keeps m u (u\<lparr>d_hookMsgSaves := ss\<rparr>)"
    "sound_keeps m u (u\<lparr>d_Lidarr := l, d_Radarr := rd, d_Readarr := re, d_Sonarr := so\<rparr>)" for xs ss l rd re so
    by (rule sound_same, simp add: fv_def conf_def)+
  show "sound_keeps m u (track_folder n (f\<lparr>fo_Status := WAITING, fo_NoRetry := False, fo_Retries := 0, fo_Updated := now\<rparr>) u)"
    if "aget (d_Tracked u) n = Some f" for n f now
    using sound_good [OF _ that, of m] by (auto simp: sound_keeps_def good_folder_def intro!: sound_track)
qed (simp_all add: sound_keeps_def)

lemma starr_sound: "sound m (fst s) \<Longrightarrow> sound m (fst (queue_step E X s p))"
  using sound_loop.steps [of m s E X p] by (simp add: sound_keeps_def)

lemma step_sound:
  assumes "sound m (fst s)"
  shows "\<exists>t. main_step E X s p = Some t \<and> sound m (fst t)"
proof -
  obtain u F where s: "s = (u, F)" by (cases s)
  have u: "sound m u" using assms s by simp
  show ?thesis
  proof (cases p)
    case (Starr q)
    then show ?thesis using starr_sound [OF assms] by simp
  next
    case (FileEvent clk now name operation)
    show ?thesis
    proof (cases "handleFileEvent name operation u")
      case None
      with FileEvent s u show ?thesis by simp
    next
      case (Some ev)
      then have "\<And>c. ev_Config ev = Some c \<Longrightarrow> timed c"
        using u by (auto simp: handleFileEvent_def sound_def split: option.splits if_splits dest: watchConfig_member)
      from process_sound [OF u this] show ?thesis using FileEvent s Some by fastforce
    qed
  next
    case (FolderCallback clk resp)
    then show ?thesis using callback_sound [OF u, of E F clk resp] s by auto
  next
    case (FolderTimer clk now)
    then show ?thesis using timer_sound [OF u, of E X F clk now] s by auto
  qed
qed

lemma run_sound: "sound m (fst s) \<Longrightarrow> \<exists>t. main_run E X s ps = Some t \<and> sound m (fst t)"
  unfolding main_run_def by (rule fold_sound [of "\<lambda>s. sound m (fst s)"]) (rule step_sound)

subsection \<open>A start makes it well-formed\<close>

lemma timed_ValidateList: "ValidateList pm cs = Inr ds \<Longrightarrow> d \<in> set ds \<Longrightarrow> timed d"
  by (induction pm cs arbitrary: ds rule: ValidateList.induct)
    (auto simp: timed_def Let_def split: if_splits option.splits sum.splits)

lemma timed_validated:
  assumes "validateFolderList tb l = Inr l'" "(k, Some c) \<in> set l'"
  shows "timed c"
proof -
  obtain cs where cs: "ValidateList (parseOptionalMaxBytes tb) (map Some (instanceValues l)) = Inr cs"
    "l' = map (\<lambda>k. (k, aget (zip (instanceKeys l) cs) k)) (akeys l)"
    using assms(1) by (auto simp: validateFolderList_def split: list.splits sum.splits)
  with assms(2) have "aget (zip (instanceKeys l) cs) k = Some c" by auto
  then have "(k, c) \<in> set (zip (instanceKeys l) cs)" by (rule map_of_SomeD)
  then show ?thesis using timed_ValidateList [OF cs(1)] by (meson set_zip_rightD)
qed

lemma map_filter_in: "y \<in> set (List.map_filter f xs) \<longleftrightarrow> (\<exists>x \<in> set xs. f x = Some y)"
  by (induction xs) (auto simp: List.map_filter_def)

lemma instanceValues_in:
  assumes "c \<in> set (instanceValues l)"
  shows "\<exists>k. (k, Some c) \<in> set l"
proof -
  obtain k x where "(case aget l k of Some (Some v) \<Rightarrow> Some (k, v) | _ \<Rightarrow> None) = Some x" "c = snd x"
    using assms unfolding instanceValues_def instanceEntries_def by (auto simp only: map_filter_in set_map)
  then have "aget l k = Some (Some c)" by (auto split: option.split_asm)
  then show ?thesis by (blast dest: map_of_SomeD)
qed

lemma timed_Check: "c \<in> set (fst (Check he cwd F cs)) \<Longrightarrow> \<forall>c \<in> set cs. timed c \<Longrightarrow> timed c"
  by (induction he cwd F cs rule: Check.induct) (auto simp: Let_def timed_def split: if_splits option.splits sum.splits)

lemma sound_PollFolders:
  assumes "\<And>k c. (k, Some c) \<in> set (d_FolderCfg u) \<Longrightarrow> timed c" "d_Tracked u = []" "d_WatchCfg u = []"
  shows "sound m (PollFolders he cwd canPoll fsn legacy F u)"
proof -
  have t: "\<forall>c \<in> set (instanceValues (d_FolderCfg u)). timed c" using assms(1) by (blast dest: instanceValues_in)
  have "timed c" if "c \<in> set (applyLegacyFolderInterval (fst (Check he cwd F (instanceValues (d_FolderCfg u)))) legacy)" for c
    using that timed_Check [OF _ t] by (auto simp: applyLegacyFolderInterval_def timed_def split: if_splits)
  then show ?thesis using assms by (auto simp: PollFolders_def sound_def Let_def split: option.splits)
qed

text \<open>The items of the map were not retried more often than \<open>m\<close>.\<close>

definition few_retries :: "uint64 \<Rightarrow> 'a daemon_scheme \<Rightarrow> bool" where
  "few_retries m u \<longleftrightarrow> (\<forall>k e. aget (d_Map u) k = Some e \<longrightarrow> e_Retries e \<le> m)"

lemma few_set: "few_retries m u \<Longrightarrow> e_Retries e \<le> m \<Longrightarrow> few_retries m (set_item n e u)"
  by (simp add: few_retries_def)

lemma few_cong: "d_Map u = d_Map v \<Longrightarrow> few_retries m u = few_retries m v"
  by (simp add: few_retries_def)

lemma few_good: "few_retries m u \<Longrightarrow> aget (d_Map u) k = Some e \<Longrightarrow> timed c \<Longrightarrow> good_folder m v (folderFromExtract e c)"
  by (auto simp: few_retries_def good_folder_def folderFromExtract_def Let_def le_max_iff_disj zero_folder_def split: option.splits)

lemma timed_folderConfig:
  "sound m u \<Longrightarrow> folderConfigForPath (map Some (d_WatchCfg u)) p = Some c \<Longrightarrow> timed c"
  by (auto simp: folderConfigForPath_def sound_def Let_def somes_def List.map_filter_def o_def dest: longest_Some)

lemma seed_keeps:
  assumes "sound m u" "few_retries m u" "aget (d_Map u) n = Some e" "seedFolderItemLocked n e r u = (ok, v)"
  shows "sound m v \<and> few_retries m v"
proof (cases "folderConfigForPath (map Some (d_WatchCfg u)) (e_Path e)")
  case None
  with assms show ?thesis by (auto simp: seedFolderItemLocked_def split: if_splits)
next
  case (Some c)
  have "sound m (track_folder n (folderFromExtract e c) u)"
    using few_good [OF assms(2,3) timed_folderConfig [OF assms(1) Some]] by (rule sound_track [OF assms(1)])
  moreover have "few_retries m (track_folder n (folderFromExtract e c) u)"
    using assms(2) by (simp add: few_retries_def track_folder_def)
  moreover have "e_Retries e \<le> m" using assms(2,3) by (simp add: few_retries_def)
  ultimately show ?thesis using assms Some
    by (auto simp: seedFolderItemLocked_def intro!: few_set split: if_splits)
qed

lemma restore_parts [simp]:
  "e_Retries (applyHistoryRestoreDelay E e d f) = e_Retries e"
  "e_Retries (applyHistoryRestoreResp E e rec err) = e_Retries e"
  "e_Retries (applyHistoryRestoreClock e st now stamp r) = e_Retries e"
  by (simp_all add: applyHistoryRestoreDelay_def applyHistoryRestoreResp_def applyHistoryRestoreClock_def Let_def
    split: option.splits)

lemma restored_retries: "e_Retries (extractFromHistoryRecord E u rec kind st err stamp now) = h_Retries rec"
  by (simp add: extractFromHistoryRecord_def Let_def)

lemma restore_row_keeps:
  assumes "d_WatchCfg u = []" "few_retries m u" "h_Retries rec \<le> m"
  shows "few_retries m (restore_row E now u rec)" "d_WatchCfg (restore_row E now u rec) = []"
    "d_Tracked (restore_row E now u rec) = d_Tracked u" "d_FolderCfg (restore_row E now u rec) = d_FolderCfg u"
proof -
  have seed: "seedFolderItemLocked n e False v = (True, v)" if "d_WatchCfg v = []" for n e and v :: "'a daemon_scheme"
    using that by (simp add: seedFolderItemLocked_def)
  have st: "e_Retries (stampQueueDue v n e) = e_Retries e" for v :: "'a daemon_scheme" and n e
    by (simp add: stampQueueDue_def split: prod.splits)
  show "few_retries m (restore_row E now u rec)" "d_WatchCfg (restore_row E now u rec) = []"
    "d_Tracked (restore_row E now u rec) = d_Tracked u" "d_FolderCfg (restore_row E now u rec) = d_FolderCfg u"
    using assms
    by (auto simp: restore_row_def Let_def seed set_item_def few_retries_def st extractFromHistory_def restored_retries
      split: option.splits prod.splits)
qed

lemma unlock_parts [simp]:
  "d_Map (unlockHistory u) = d_Map u" "d_WatchCfg (unlockHistory u) = d_WatchCfg u"
  "d_FolderCfg (unlockHistory u) = d_FolderCfg u"
  using unlock_keep [of u] conf_parts(5,6) [OF fv_parts(3) [OF fv_unlock]] by (simp_all add: same_cfg_def)

lemma restore_keeps:
  assumes "d_WatchCfg u = []" "few_retries m u" "\<forall>rec \<in> set (d_records u). h_Retries rec \<le> m"
  shows "few_retries m (restoreQueueFromHistory E now u)" "d_WatchCfg (restoreQueueFromHistory E now u) = []" "d_Tracked (restoreQueueFromHistory E now u) = d_Tracked u" "d_FolderCfg (restoreQueueFromHistory E now u) = d_FolderCfg u"
proof -
  have "few_retries m w \<and> d_WatchCfg w = [] \<and> d_Tracked w = d_Tracked u \<and> d_FolderCfg w = d_FolderCfg u"
    if "w = foldl (restore_row E now) s rs" "\<forall>rec \<in> set rs. h_Retries rec \<le> m" "d_WatchCfg s = []" "few_retries m s"
      "d_Tracked s = d_Tracked u" "d_FolderCfg s = d_FolderCfg u" for w s :: "'a daemon_scheme" and rs
    using that by (induction rs arbitrary: s) (simp_all add: restore_row_keeps)
  from this [OF refl assms(3,1,2) refl refl]
  show "few_retries m (restoreQueueFromHistory E now u)" "d_WatchCfg (restoreQueueFromHistory E now u) = []" "d_Tracked (restoreQueueFromHistory E now u) = d_Tracked u" "d_FolderCfg (restoreQueueFromHistory E now u) = d_FolderCfg u"
    using assms by (auto simp: restoreQueueFromHistory_def few_retries_def)
qed

lemma seed_item_keeps:
  assumes "sound m (snd s)" "few_retries m (snd s)"
  shows "sound m (snd (seed_item s n)) \<and> few_retries m (snd (seed_item s n))"
proof -
  obtain d u where s: "s = (d, u)" by (cases s)
  have del: "few_retries m (deleteExtract v n)" if "few_retries m v" for v :: "'a daemon_scheme"
    using that by (simp add: few_retries_def deleteExtract_def dropHookMessages_def Let_def split: option.splits)
  show ?thesis
  proof (cases "aget (d_Map u) n")
    case None
    with assms s show ?thesis by (simp add: seed_item_def)
  next
    case (Some e)
    obtain ok v where v: "seedFolderItemLocked n e True u = (ok, v)" by (cases "seedFolderItemLocked n e True u")
    then have "sound m v \<and> few_retries m v" using assms s by (intro seed_keeps [OF _ _ Some]) simp_all
    then show ?thesis using assms Some v del by (auto simp: s seed_item_def)
  qed
qed

lemma seed_keeps_sound:
  assumes "sound m u" "few_retries m u"
  shows "sound m (seedFolderTracker E clk u)"
proof -
  have "sound m (snd (foldl seed_item s ns)) \<and> few_retries m (snd (foldl seed_item s ns))"
    if "sound m (snd s) \<and> few_retries m (snd s)" for s :: "bool \<times> 'a daemon_scheme" and ns
    using that by (induction ns arbitrary: s) (simp_all add: seed_item_keeps)
  from this [of "(False, u)" "akeys (d_Map u)"] assms show ?thesis
    by (auto simp: seedFolderTracker_def split: prod.splits)
qed

lemma recover_item_sound:
  assumes "sound m u"
  shows "sound m (fst (snd (snd (recoverInterruptedFolderItem E X now p item u F))))"
proof -
  have f: "fv (put_recovery q r w) = fv w" "fv (drop_recovery q w) = fv w" "fv (recoverNormalizeFolder q r w) = fv w"
    for q r and w :: "'a daemon_scheme"
    by (simp_all add: fv_def conf_def put_recovery_def drop_recovery_def recoverNormalizeFolder_def Let_def)
  note [simp] = f [THEN sound_fv]
  have found: "find P cs = Some c \<Longrightarrow> c \<in> set cs" for P cs and c :: folder_config
    by (induction cs) (auto split: if_splits)
  have timed: "timed c" if "recoveryFolderConfig (map snd (d_FolderCfg u)) a b = Some c" for a b c
  proof -
    have "Some c \<in> set (map snd (d_FolderCfg u))" unfolding set_somes [symmetric]
      using that by (auto simp: recoveryFolderConfig_def Let_def simp del: set_somes dest: found longest_Some split: if_splits)
    then show ?thesis using assms by (auto simp: sound_def)
  qed
  have new: "sound m (track_folder q g w)" if "sound m w" "fo_Config g = Some c" "timed c" "fo_Retries g = 0"
    for q g c and w :: "'a daemon_scheme"
    using that by (auto intro!: sound_track simp: good_folder_def)
  have c: "d_FolderCfg (recoverNormalizeFolder q r u) = d_FolderCfg u" for q r
    by (simp add: recoverNormalizeFolder_def put_recovery_def drop_recovery_def Let_def)
  show ?thesis using assms
    by (auto simp: recoverInterruptedFolderItem_def restoreExtractedFolder_def Let_def c zero_folder_def
      intro!: new timed split: option.splits sum.splits)
qed

lemma recover_sound:
  assumes "sound m u"
  shows "sound m (fst (recoverInterruptedFolders E X now u F))"
proof -
  have item: "sound m w" if "recoverInterruptedFolderItem E X now p it v G = (r, st, w, G')" "sound m v"
    for p it r st w G G' and v :: "'a daemon_scheme"
    using recover_item_sound [OF that(2), of E X now p it G] that(1) by simp
  have loop: "sound m (fst (snd (recover_loop E X now ps any v G)))" if "sound m v"
    for ps any G and v :: "'a daemon_scheme"
    using that by (induction ps arbitrary: any v G) (auto split: option.splits prod.splits dest: item)
  show ?thesis using loop [OF assms, of "akeys (d_recovery u)" False F]
    by (auto simp: recoverInterruptedFolders_def split: prod.splits)
qed

lemma start_sound:
  assumes "validateFolderList tb l = Inr (d_FolderCfg u)" "d_Tracked u = []" "d_WatchCfg u = []" "d_Map u = []"
    "\<forall>rec \<in> set (d_records u). h_Retries rec \<le> m"
  shows "sound m (fst (start_folders E X he cwd canPoll fsn legacy clk now (u, F)))"
proof -
  let ?r = "readRecoveryState u"
  have r: "d_WatchCfg ?r = []" "d_Tracked ?r = []" "d_FolderCfg ?r = d_FolderCfg u" "few_retries m ?r"
    "d_records ?r = d_records u"
    using assms(2-4) by (simp_all add: readRecoveryState_def few_retries_def)
  let ?v = "restoreQueueFromHistory E clk ?r"
  note v = restore_keeps [OF r(1,4), unfolded r(5), OF assms(5), of E clk]
  have "timed c" if "(k, Some c) \<in> set (d_FolderCfg ?v)" for k c
    using that timed_validated [OF assms(1)] by (simp add: v(4) r(3))
  then have p: "sound m (PollFolders he cwd canPoll fsn legacy F ?v)"
    using v(2,3) r(2) by (intro sound_PollFolders) simp_all
  have "few_retries m (PollFolders he cwd canPoll fsn legacy F ?v)"
    using v(1) by (auto simp: PollFolders_def few_retries_def Let_def split: option.splits)
  then have "sound m (fst (recoverInterruptedFolders E X now
      (seedFolderTracker E clk (PollFolders he cwd canPoll fsn legacy F ?v)) F))"
    by (intro recover_sound seed_keeps_sound p)
  then show ?thesis
    by (auto simp: start_folders_def Let_def intro: sound_scanWatched split: prod.splits)
qed

end
