(* ===== verification/RestoreProps.thy ===== *)
theory RestoreProps
  imports MainLoop WatchProps
begin

text \<open>
  Properties of a restart: which items come back from the history, with what, and the main loop from
  a start on.
\<close>

subsection \<open>Which items come back\<close>

lemma gate_id: "historyRestoreGate u rec cutoff = Some (i, st, s, m, k) \<Longrightarrow> i = row_id rec \<and> i \<noteq> ''''"
  by (auto simp: historyRestoreGate_def Let_def split: if_splits option.splits prod.splits)

lemma gate_same:
  assumes "d_Sonarr u = d_Sonarr v" "d_Radarr u = d_Radarr v" "d_Lidarr u = d_Lidarr v" "d_Readarr u = d_Readarr v"
  shows "historyRestoreGate u rec cutoff = historyRestoreGate v rec cutoff"
  by (simp add: historyRestoreGate_def historyKind_def kindFromURL_def assms)

text \<open>A row brings its item back: it is not forgotten and passes \<open>historyRestoreGate\<close>.\<close>

definition brings :: "'a daemon_scheme \<Rightarrow> instant \<Rightarrow> history_record \<Rightarrow> bool" where
  "brings u now rec \<longleftrightarrow> \<not> h_Forgotten rec \<and> historyRestoreGate u rec (now - historyRestoreAge) \<noteq> None"

definition starrs :: "'a daemon_scheme \<Rightarrow> starr instances list" where
  "starrs u = [d_Sonarr u, d_Radarr u, d_Lidarr u, d_Readarr u]"

lemma brings_same: "starrs u = starrs v \<Longrightarrow> brings u now rec = brings v now rec"
  using gate_same [of u v rec "now - historyRestoreAge"] by (simp add: brings_def starrs_def)

lemma restore_row_dom:
  assumes "d_WatchCfg u = []"
  shows "(aget (d_Map (restore_row E now u rec)) k \<noteq> None) \<longleftrightarrow> aget (d_Map u) k \<noteq> None \<or> brings u now rec \<and> k = row_id rec"
    "starrs (restore_row E now u rec) = starrs u" "d_WatchCfg (restore_row E now u rec) = []"
proof -
  have seed: "seedFolderItemLocked n e False v = (True, v)" if "d_WatchCfg v = []" for n e and v :: "'a daemon_scheme"
    using that by (simp add: seedFolderItemLocked_def)
  show "starrs (restore_row E now u rec) = starrs u" "d_WatchCfg (restore_row E now u rec) = []"
    using assms by (auto simp: restore_row_def Let_def seed set_item_def starrs_def split: option.splits prod.splits)
  show "(aget (d_Map (restore_row E now u rec)) k \<noteq> None) \<longleftrightarrow> aget (d_Map u) k \<noteq> None \<or> brings u now rec \<and> k = row_id rec"
    using assms
    by (auto simp: restore_row_def Let_def seed set_item_def extractFromHistory_def brings_def
      split: option.splits prod.splits dest!: gate_id)
qed

lemma restore_rows_dom:
  assumes "d_WatchCfg u = []"
  shows "(aget (d_Map (foldl (restore_row E now) u rs)) k \<noteq> None)
    \<longleftrightarrow> aget (d_Map u) k \<noteq> None \<or> (\<exists>rec \<in> set rs. brings u now rec \<and> k = row_id rec)"
  using assms
proof (induction rs arbitrary: u)
  case (Cons r rs)
  note row = restore_row_dom [OF Cons.prems, of E now r]
  from Cons.IH [OF row(3)] row(1) show ?case by (auto simp: brings_same [OF row(2)])
qed simp

text \<open>
  C16. A restart brings back exactly the items of the history that are still work: those whose row is
  not forgotten, is at most three days old, has a status that is not final, and names the
  application it belongs to; a WAITING row only if it is that of a watched item.
\<close>

theorem restart_restores_exactly:
  assumes "d_KeepHistory u \<noteq> 0" "d_WatchCfg u = []"
  shows "(aget (d_Map (restoreQueueFromHistory E now u)) k \<noteq> None) \<longleftrightarrow> aget (d_Map u) k \<noteq> None
    \<or> (\<exists>rec \<in> set (d_records u). k = (if h_ID rec = '''' then h_Path rec else h_ID rec) \<and> k \<noteq> '''' \<and> \<not> h_Forgotten rec
       \<and> historyStamp rec \<noteq> zeroTime \<and> now - historyRestoreAge \<le> historyStamp rec
       \<and> h_Status rec \<noteq> DELETED
       \<and> (if historyKind u rec = FolderString then h_Status rec \<notin> {IMPORTED, DELETEFAILED}
          else h_Status rec \<noteq> WAITING \<and> (historyKind u rec = '''' \<longrightarrow> h_Status rec \<in> {IMPORTED, DELETEFAILED, EXTRACTEDNOTHING})))"
proof -
  have b: "brings u now rec \<and> k = row_id rec \<longleftrightarrow> k = (if h_ID rec = '''' then h_Path rec else h_ID rec) \<and> k \<noteq> ''''
       \<and> \<not> h_Forgotten rec \<and> historyStamp rec \<noteq> zeroTime \<and> now - historyRestoreAge \<le> historyStamp rec
       \<and> h_Status rec \<noteq> DELETED
       \<and> (if historyKind u rec = FolderString then h_Status rec \<notin> {IMPORTED, DELETEFAILED}
          else h_Status rec \<noteq> WAITING \<and> (historyKind u rec = '''' \<longrightarrow> h_Status rec \<in> {IMPORTED, DELETEFAILED, EXTRACTEDNOTHING}))" for rec
    by (cases "h_Status rec") (auto simp: brings_def historyRestoreGate_def Let_def row_id_def not_less)
  show ?thesis unfolding b [symmetric] using assms
    by (cases "d_records u = []") (simp_all add: restoreQueueFromHistory_def restore_rows_dom [OF assms(2)] del: not_None_eq)
qed

subsection \<open>With what they come back\<close>

lemma trim_trim [simp]: "trim_space (trim_space s) = trim_space s"
proof -
  have hd: "dropWhile P ys = ys" if "ys = [] \<or> \<not> P (hd ys)" for P :: "char \<Rightarrow> bool" and ys
    using that by (cases ys) auto
  have "dropWhile P (rev (dropWhile P (rev (dropWhile P xs)))) = rev (dropWhile P (rev (dropWhile P xs)))"
    for P :: "char \<Rightarrow> bool" and xs
  proof (rule hd)
    have "rev (rev (dropWhile P xs)) = rev (dropWhile P (rev (dropWhile P xs))) @ rev (takeWhile P (rev (dropWhile P xs)))"
      by (metis rev_append takeWhile_dropWhile_id)
    then show "rev (dropWhile P (rev (dropWhile P xs))) = [] \<or> \<not> P (hd (rev (dropWhile P (rev (dropWhile P xs)))))"
      by (metis append_is_Nil_conv hd_append2 hd_dropWhile rev_rev_ident)
  qed
  then show ?thesis by (simp add: trim_space_def)
qed

lemma stats_parts:
  "h_App (fillHistoryStats E e r) = h_App r" "h_Kind (fillHistoryStats E e r) = h_Kind r"
  "h_ID (fillHistoryStats E e r) = h_ID r" "h_URL (fillHistoryStats E e r) = h_URL r"
  "h_Path (fillHistoryStats E e r) = h_Path r" "h_OutputPath (fillHistoryStats E e r) = h_OutputPath r"
  "h_Status (fillHistoryStats E e r) = h_Status r" "h_Retries (fillHistoryStats E e r) = h_Retries r"
  "h_HookMessages (fillHistoryStats E e r) = h_HookMessages r" "h_Updated (fillHistoryStats E e r) = h_Updated r"
  "h_DeleteOrig (fillHistoryStats E e r) = h_DeleteOrig r" "h_DeleteDelay (fillHistoryStats E e r) = h_DeleteDelay r"
  "h_MaxBytes (fillHistoryStats E e r) = h_MaxBytes r" "h_NoRetry (fillHistoryStats E e r) = h_NoRetry r"
  "h_IDs (fillHistoryStats E e r) = h_IDs r" "h_Event (fillHistoryStats E e r) = h_Event r"
  "h_PreFiles (fillHistoryStats E e r) = h_PreFiles r" "h_Forgotten (fillHistoryStats E e r) = h_Forgotten r"
  by (simp_all add: fillHistoryStats_def Let_def split: option.splits)



lemma row_parts:
  fixes E n e
  defines "r \<equiv> historyFromExtract E n e"
  shows "h_App r = Label e" "h_Kind r = e_App e" "h_URL r = e_URL e" "h_Path r = e_Path e"
    "h_OutputPath r = e_OutputPath e" "h_Status r = e_Status e" "h_Retries r = e_Retries e"
    "h_HookMessages r = e_HookMessages e" "h_Updated r = e_Updated e" "h_DeleteOrig r = e_DeleteOrig e"
    "h_MaxBytes r = e_MaxBytes e" "h_NoRetry r = e_NoRetry e" "h_IDs r = e_IDs e" "h_Event r = e_Event e"
    "h_PreFiles r = preFileKeys (e_PreFiles e)" "\<not> h_Forgotten r"
    "h_ID r = (if n = '''' then e_Path e else n)"
    "h_DeleteDelay r = (if e_DeleteDelay e = 0 then '''' else durString E (e_DeleteDelay e))"
  by (simp_all add: r_def historyFromExtract_def Let_def stats_parts cloneIDs_def)













text \<open>A history with an imported download of Sonarr, seen by a start an hour later.\<close>

definition saved_item :: extract_item where
  "saved_item = zero_extract\<lparr>e_App := Sonarr, e_Path := ''/d'', e_Status := IMPORTED, e_Updated := 400 * nhour,
     e_DeleteDelay := 5, e_Resp := Some (empty_response\<lparr>rs_NewFiles := [''/d/x'']\<rparr>)\<rparr>"

definition saved_daemon :: daemon where
  "saved_daemon = demo_daemon\<lparr>d_records := [historyFromExtract demo_env ''show'' saved_item]\<rparr>"

theorem restart_restores_exactly_witness:
  "aget (d_Map (restoreQueueFromHistory demo_env (401 * nhour) saved_daemon)) ''show'' \<noteq> None"
proof -
  have w: "d_KeepHistory saved_daemon \<noteq> 0" "d_WatchCfg saved_daemon = []" by (simp_all add: saved_daemon_def demo_daemon_def)
  let ?rec = "historyFromExtract demo_env ''show'' saved_item"
  have "?rec \<in> set (d_records saved_daemon)" by (simp add: saved_daemon_def)
  moreover have "historyStamp ?rec = 400 * nhour" "h_Kind ?rec = Sonarr"
    by (simp_all add: historyStamp_def row_parts saved_item_def)
  moreover have "historyKind saved_daemon ?rec = Sonarr" by (simp add: historyKind_def row_parts saved_item_def)
  ultimately show ?thesis
    unfolding restart_restores_exactly [OF w, of demo_env "401 * nhour" "''show''"]
    by (intro disjI2 bexI [of _ ?rec]) (simp_all add: row_parts saved_item_def)
qed




subsection \<open>The main loop\<close>






end
