(* ===== verification/DeleteWorker.thy ===== *)
theory DeleteWorker
  imports Watch Queue
begin

text \<open>
  The delete worker of \<open>pkg/unpackerr/start.go\<close>: it takes the requests of \<open>d_delQueue\<close> one by one,
  removes their paths and, if asked, the directories above them that became empty. \<open>rm\<close> stands for
  \<open>DeleteFiles\<close> of the archive library; \<open>removes_all\<close> is what it is documented to do.
\<close>

type_synonym remover = "string list \<Rightarrow> fsys \<Rightarrow> fsys"

definition removes_all :: "remover \<Rightarrow> bool" where
  "removes_all rm \<longleftrightarrow> (\<forall>ps F. rm ps F =
     F\<lparr>fs_nodes := filter (\<lambda>(k, n). \<not> list_ex (\<lambda>p. removable F p k) ps) (fs_nodes F)\<rparr>)"

text \<open>The names \<open>fileList\<close> logs; a path that cannot be opened or is no directory has none.\<close>

definition fileList :: "fsys \<Rightarrow> string list \<Rightarrow> string list" where
  "fileList F paths = concat (map (\<lambda>p. case read_dir F p of Inl e \<Rightarrow> [] | Inr es \<Rightarrow> map fst es) paths)"

definition dirIsEmpty :: "fsys \<Rightarrow> string \<Rightarrow> bool" where
  "dirIsEmpty F path = (case read_dir F path of Inl e \<Rightarrow> False | Inr es \<Rightarrow> es = [])"

subsection \<open>Empty directories above a path\<close>

definition outside_root :: "string \<Rightarrow> string \<Rightarrow> bool" where
  "outside_root root d = (case rel root d of None \<Rightarrow> True | Some r \<Rightarrow> r = ''..'' \<or> has_prefix r ''../'')"

text \<open>The directories the inner loop of \<open>purgeEmptyFolders\<close> collects, from \<open>d\<close> upwards.\<close>

lemma clean_measure: "up_measure (clean d) \<le> up_measure d \<or> d = ''''"
proof (cases "d = ''''")
  case False
  have "up_measure d \<ge> 1" using False by (cases d) (auto simp: up_measure_def)
  moreover have "length (clean d) \<le> length d" by (rule length_clean [OF False])
  moreover have "d = ''.'' \<Longrightarrow> clean d = ''.''" by (simp add: clean_def path_comps_def is_abs_def)
  ultimately show ?thesis by (auto simp: up_measure_def)
qed simp

lemma dir_dot: "dir ''.'' = ''.''"
  by (simp add: dir_def up_to_slash_def clean_def path_comps_def is_abs_def)

lemma clean_comps_ne: "\<forall>c \<in> set acc. c \<noteq> '''' \<Longrightarrow> c \<in> set (clean_comps r acc cs) \<Longrightarrow> c \<noteq> ''''"
  by (induction r acc cs rule: clean_comps.induct) (auto split: if_splits list.splits)

lemma clean_file_nonempty [simp]: "clean d \<noteq> ''''"
proof (cases "path_comps d")
  case (Cons c cs)
  then have "c \<in> set (clean_comps (is_abs d) [] (split_slash d))" by (simp add: path_comps_def)
  then have "c \<noteq> ''''" by (rule clean_comps_ne [rotated]) simp
  with Cons show ?thesis by (cases cs) (simp_all add: clean_def)
qed (simp add: clean_def)

function purge_dirs :: "string \<Rightarrow> string \<Rightarrow> string list" where
  "purge_dirs root d = (
     if root \<noteq> '''' \<and> outside_root root (clean d) then []
     else if root \<noteq> '''' \<and> clean d = root \<or> dir (clean d) = clean d then [clean d]
     else clean d # purge_dirs root (dir (clean d)))"
  by pat_completeness auto
termination
proof (relation "measure (\<lambda>(root, d). if d = '''' then 2 else up_measure d)")
  fix root d
  assume "\<not> (root \<noteq> '''' \<and> clean d = root \<or> dir (clean d) = clean d)"
  then have "up_measure (dir (clean d)) < up_measure (clean d)" by (intro dir_measure) auto
  moreover have "dir (clean d) \<noteq> ''''" by (simp add: dir_def)
  moreover have "up_measure (clean '''') = 1" by (simp add: clean_def path_comps_def is_abs_def up_measure_def)
  ultimately show "((root, dir (clean d)), root, d) \<in> measure (\<lambda>(root, d). if d = '''' then 2 else up_measure d)"
    using clean_measure [of d] by auto
qed simp

declare purge_dirs.simps [simp del]

definition purge_candidates :: "string list \<Rightarrow> string \<Rightarrow> string list" where
  "purge_candidates paths root = dedup_acc []
     (concat (map (\<lambda>path. purge_dirs root (dir path)) (filter (\<lambda>path. path \<noteq> '''') paths)))"

definition purge_dir :: "remover \<Rightarrow> int \<times> fsys \<Rightarrow> string \<Rightarrow> int \<times> fsys" where
  "purge_dir rm s d = (case s of (purged, F) \<Rightarrow>
     if dirIsEmpty F d then (purged + 1, rm [d] F) else (purged, F))"

text \<open>Longer paths first; paths of the same length do not lie in each other.\<close>

definition purgeEmptyFolders :: "remover \<Rightarrow> string list \<Rightarrow> string \<Rightarrow> fsys \<Rightarrow> int \<times> fsys" where
  "purgeEmptyFolders rm paths root F = (let dirs = purge_candidates paths root in
     foldl (purge_dir rm) (0, F) (rev (sort_key length dirs)))"

subsection \<open>Requests\<close>

definition deleteRequest :: "remover \<Rightarrow> 'a daemon_scheme \<times> fsys \<Rightarrow> delete_req \<Rightarrow> 'a daemon_scheme \<times> fsys" where
  "deleteRequest rm s input = (case s of (u, F) \<Rightarrow>
     let u = u\<lparr>d_inFlight := d_inFlight u - 1\<rparr> in
     if dr_Paths input = [] then (u, F)
     else let F = rm (dr_Paths input) F in
       if \<not> dr_PurgeEmptyParent input then (u, F)
       else let root = (if dr_PurgeEmptyRoot input \<noteq> '''' then clean (dr_PurgeEmptyRoot input) else '''')
         in (u, snd (purgeEmptyFolders rm (dr_Paths input) root F)))"

text \<open>\<open>watchDeleteChannel\<close> until the channel is empty.\<close>

definition watchDeleteChannel :: "remover \<Rightarrow> 'a daemon_scheme \<times> fsys \<Rightarrow> 'a daemon_scheme \<times> fsys" where
  "watchDeleteChannel rm s = foldl (deleteRequest rm) ((fst s)\<lparr>d_delQueue := []\<rparr>, snd s) (d_delQueue (fst s))"

end
