(* ===== verification/DeleteProps.thy ===== *)
theory DeleteProps
  imports DeleteWorker WatchProps
begin

text \<open>
  Properties of the delete worker: what a request removes, and that no empty directory above a
  removed path is left. The file system is \<open>tidy\<close> and holds the parent of every node.
\<close>

subsection \<open>Parents\<close>

lemma slashed_append [simp]: "slashed (xs @ ys) = slashed xs @ slashed ys"
  by (induction xs) simp_all

lemma up_to_slash_snoc: "sl \<notin> set c \<Longrightarrow> up_to_slash (x @ sl # c) = x @ ''/''"
  by (auto simp: up_to_slash_def dropWhile_append3)

lemma path_comps_slashed: "\<forall>c \<in> set ds. good_comp c \<Longrightarrow> ds \<noteq> [] \<Longrightarrow> path_comps (slashed ds) = ds"
  using split_slashed [of ds] by (cases ds) (auto simp: path_comps_def is_abs_def good_comp_def clean_comps_id)

lemma clean_slashed: "is_abs d \<Longrightarrow> clean d = (if path_comps d = [] then ''/'' else slashed (path_comps d))"
  using slashed_join [of "path_comps d"] by (simp add: clean_def)

lemma dir_comps:
  assumes "is_abs d" "clean d = d"
  shows "is_abs (dir d)" "clean (dir d) = dir d" "path_comps (dir d) = butlast (path_comps d)"
proof -
  have "is_abs (dir d) \<and> clean (dir d) = dir d \<and> path_comps (dir d) = butlast (path_comps d)"
  proof (cases "path_comps d" rule: rev_cases)
    case Nil
    then have "d = ''/''" using clean_slashed [OF assms(1)] assms(2) by simp
    then show ?thesis using Nil by (simp add: dir_def up_to_slash_def is_abs_def clean_def path_comps_def)
  next
    case (snoc ds c)
    have c: "sl \<notin> set c" using path_comps_good [OF assms(1), of c] snoc by (simp add: good_comp_def)
    have d: "d = slashed ds @ sl # c" using clean_slashed [OF assms(1)] assms(2) snoc by simp
    then have u: "dir d = clean (slashed ds @ ''/'')" by (simp add: dir_def up_to_slash_snoc [OF c])
    show ?thesis
    proof (cases "ds = []")
      case True
      with u snoc show ?thesis by (simp add: is_abs_def clean_def path_comps_def)
    next
      case False
      have a: "is_abs (slashed ds)" using False by (cases ds) (simp_all add: is_abs_def)
      have g: "\<forall>x \<in> set ds. good_comp x" using path_comps_good [OF assms(1)] snoc by simp
      have "slashed ds \<noteq> []" using False by (cases ds) simp_all
      then have "dir d = clean (slashed ds)" using u clean_snoc by simp
      moreover have "path_comps (slashed ds) = ds"
        by (rule path_comps_slashed [OF g False])
      ultimately show ?thesis using a snoc by simp
    qed
  qed
  then show "is_abs (dir d)" "clean (dir d) = dir d" "path_comps (dir d) = butlast (path_comps d)" by blast+
qed

lemma clean_comps_eq: "is_abs a \<Longrightarrow> is_abs b \<Longrightarrow> clean a = a \<Longrightarrow> clean b = b \<Longrightarrow> a = b \<longleftrightarrow> path_comps a = path_comps b"
  using clean_eq_iff [of a b] by metis

lemma below_strict:
  assumes "is_abs d" "is_abs k" "clean d = d" "clean k = k"
  shows "strict_prefix (path_comps d) (path_comps k) \<Longrightarrow> length d < length k"
  using assms clean_slashed [OF assms(1)] clean_slashed [OF assms(2)]
  by (cases "path_comps d"; cases "path_comps k") (auto simp: strict_prefix_def prefix_def)

subsection \<open>The candidates\<close>

lemma outside_comps:
  "is_abs r \<Longrightarrow> is_abs d \<Longrightarrow> outside_root r d \<longleftrightarrow> \<not> prefix (path_comps r) (path_comps d)"
  by (rule rel_cases [of r d]) (auto simp: outside_root_def strict_prefix_def)

lemma prefix_butlast: "prefix xs ys \<longleftrightarrow> xs = ys \<or> ys \<noteq> [] \<and> prefix xs (butlast ys)"
  by (cases ys rule: rev_cases) auto

lemma purge_dirs_set:
  assumes "is_abs d" "clean d = d" "root = '''' \<or> is_abs root \<and> clean root = root"
  shows "e \<in> set (purge_dirs root d) \<longleftrightarrow> is_abs e \<and> clean e = e \<and> prefix (path_comps e) (path_comps d)
    \<and> (root \<noteq> '''' \<longrightarrow> prefix (path_comps root) (path_comps e))"
  using assms
proof (induction root d rule: purge_dirs.induct)
  case (1 root d)
  note d = 1(2,3) and r = 1(4)
  note dc = dir_comps [OF d]
  have same: "is_abs e \<and> clean e = e \<and> path_comps e = path_comps d \<longleftrightarrow> e = d"
    using clean_comps_eq [of e d] d by metis
  show ?case
  proof (cases "root \<noteq> '''' \<and> outside_root root d")
    case True
    then have "\<not> prefix (path_comps root) (path_comps d)" using r d outside_comps [of root d] by simp
    with True show ?thesis by (auto simp: purge_dirs.simps [of root d] d dest: prefix_order.trans)
  next
    case inside: False
    then have ri: "root \<noteq> '''' \<Longrightarrow> prefix (path_comps root) (path_comps d)" using r d outside_comps [of root d] by auto
    show ?thesis
    proof (cases "root \<noteq> '''' \<and> d = root \<or> dir d = d")
      case True
      have "prefix (path_comps e) (path_comps d) \<and> (root \<noteq> '''' \<longrightarrow> prefix (path_comps root) (path_comps e))
          \<longleftrightarrow> path_comps e = path_comps d"
        using True
      proof
        assume "dir d = d"
        then have "path_comps d = []" using dc(3) by (cases "path_comps d" rule: rev_cases) auto
        then show ?thesis using ri by auto
      qed (auto intro: prefix_order.antisym)
      moreover have "purge_dirs root d = [d]" using True inside by (simp add: purge_dirs.simps [of root d] d)
      ultimately show ?thesis using same by auto
    next
      case False
      have "path_comps d \<noteq> []"
      proof
        assume "path_comps d = []"
        then have "path_comps (dir d) = path_comps d" using dc(3) by simp
        then have "dir d = d" using clean_comps_eq [OF dc(1) d(1) dc(2) d(2)] by simp
        with False show False by simp
      qed
      moreover have "e \<in> set (purge_dirs root (dir d)) \<longleftrightarrow> is_abs e \<and> clean e = e \<and> prefix (path_comps e) (butlast (path_comps d))
          \<and> (root \<noteq> '''' \<longrightarrow> prefix (path_comps root) (path_comps e))"
        using 1(1) inside False dc r by (simp add: d)
      moreover have "purge_dirs root d = d # purge_dirs root (dir d)"
        by (subst purge_dirs.simps) (use False inside d in auto)
      ultimately show ?thesis using same ri prefix_butlast [of "path_comps e" "path_comps d"] by auto
    qed
  qed
qed

lemma candidates_set:
  assumes "\<forall>p \<in> set paths. is_abs p \<and> clean p = p" "root = '''' \<or> is_abs root \<and> clean root = root"
  shows "e \<in> set (purge_candidates paths root) \<longleftrightarrow> is_abs e \<and> clean e = e
    \<and> (\<exists>p \<in> set paths. prefix (path_comps e) (butlast (path_comps p)))
    \<and> (root \<noteq> '''' \<longrightarrow> prefix (path_comps root) (path_comps e))"
proof -
  have "p \<in> set paths \<Longrightarrow> p \<noteq> ''''" for p using assms(1) by (auto simp: is_abs_def)
  moreover have "e \<in> set (purge_dirs root (dir p)) \<longleftrightarrow> is_abs e \<and> clean e = e
      \<and> prefix (path_comps e) (butlast (path_comps p)) \<and> (root \<noteq> '''' \<longrightarrow> prefix (path_comps root) (path_comps e))"
    if "p \<in> set paths" for p
    using purge_dirs_set [OF dir_comps(1,2) assms(2)] dir_comps(3) assms(1) that by metis
  ultimately show ?thesis by (auto simp: purge_candidates_def set_dedup_acc)
qed

subsection \<open>Removing empty directories\<close>

text \<open>A sane file system: clean absolute names, each once, and the parent of every node.\<close>

definition sane :: "fsys \<Rightarrow> bool" where
  "sane F \<longleftrightarrow> tidy F \<and> (\<forall>k \<in> set (akeys (fs_nodes F)). dir k \<in> set (akeys (fs_nodes F)))"

lemma sane_key: "sane F \<Longrightarrow> k \<in> set (akeys (fs_nodes F)) \<Longrightarrow> is_abs k \<and> clean k = k \<and> dir k \<in> set (akeys (fs_nodes F))"
  by (auto simp: sane_def tidy_def)

lemma keys_node: "k \<in> set (akeys (fs_nodes F)) \<longleftrightarrow> aget (fs_nodes F) k \<noteq> None"
  by (simp add: aget_None)

lemma children_nil:
  "children F d = [] \<longleftrightarrow> (\<forall>k \<in> set (akeys (fs_nodes F)). k = clean d \<or> dir k \<noteq> clean d)"
proof -
  have "children F d = [] \<longleftrightarrow> filter (\<lambda>(k, n). k \<noteq> clean d \<and> dir k = clean d) (fs_nodes F) = []"
    unfolding children_def by (metis (no_types, lifting) length_0_conv length_map length_sort)
  then show ?thesis by (auto simp: filter_empty_conv akeys_def)
qed

lemma dirIsEmpty_iff: "dirIsEmpty F d \<longleftrightarrow> (\<exists>n. os_stat F d = Inr n \<and> is_dir n \<and> children F d = [])"
  by (auto simp: dirIsEmpty_def read_dir_def split: sum.splits)

text \<open>Nothing lies below an empty directory.\<close>

lemma empty_leaf:
  assumes "sane F" "children F d = []" "is_abs d" "clean d = d" "k \<in> set (akeys (fs_nodes F))" "below d k"
  shows "k = d"
proof (rule ccontr)
  assume "k \<noteq> d"
  have "strict_prefix (path_comps d) (path_comps k)"
    using below_comps [of d k] sane_key [OF assms(1,5)] assms(3,4,6) \<open>k \<noteq> d\<close> by auto
  then show False using assms(5)
  proof (induction "length (path_comps k)" arbitrary: k rule: less_induct)
    case less
    note k = sane_key [OF assms(1) less.prems(2)]
    note dc = dir_comps [OF k [THEN conjunct1] k [THEN conjunct2, THEN conjunct1]]
    have ne: "path_comps k \<noteq> []" using less.prems(1) by auto
    have "prefix (path_comps d) (butlast (path_comps k))"
      using less.prems(1) prefix_butlast [of "path_comps d" "path_comps k"] by (auto simp: strict_prefix_def)
    then consider "path_comps d = path_comps (dir k)" | "strict_prefix (path_comps d) (path_comps (dir k))"
      by (auto simp: dc(3) strict_prefix_def)
    then show False
    proof cases
      case 1
      then have "dir k = d" using clean_comps_eq [OF assms(3) dc(1) assms(4) dc(2)] by simp
      moreover have "k \<noteq> d" using less.prems(1) by auto
      ultimately show False using assms(2,4) less.prems(2) by (auto simp: children_nil)
    next
      case 2
      have "length (path_comps (dir k)) < length (path_comps k)" using ne by (simp add: dc(3))
      from less.hyps [OF this 2] k show False by simp
    qed
  qed
qed

lemma remove_node:
  "removes_all rm \<Longrightarrow> aget (fs_nodes (rm ps F)) k = (if list_ex (\<lambda>p. removable F p k) ps then None else aget (fs_nodes F) k)"
  by (simp add: removes_all_def aget_filter_keys)

lemma remove_denied: "removes_all rm \<Longrightarrow> fs_denied (rm ps F) = fs_denied F"
  by (simp add: removes_all_def)

lemma below_dir:
  assumes "is_abs k" "clean k = k" "dir k \<noteq> ''/''"
  shows "prefix (dir k @ ''/'') k"
proof -
  note dc = dir_comps [OF assms(1,2)]
  have "path_comps (dir k) \<noteq> []" using assms(3) clean_slashed [OF dc(1)] dc(2) by auto
  moreover have "strict_prefix (path_comps (dir k)) (path_comps k)"
    using calculation by (cases "path_comps k" rule: rev_cases) (simp_all add: dc(3) strict_prefix_def)
  ultimately show ?thesis using prefix_slash_clean [OF dc(1) assms(1)] dc(2) assms(2) by simp
qed

lemma remove_sane:
  assumes "removes_all rm" "sane F" "\<forall>p \<in> set ps. clean p \<noteq> ''/'' \<or> children F p = []"
  shows "sane (rm ps F)"
proof -
  have keys: "k \<in> set (akeys (fs_nodes (rm ps F))) \<longleftrightarrow> k \<in> set (akeys (fs_nodes F)) \<and> \<not> list_ex (\<lambda>p. removable F p k) ps" for k
    by (simp add: keys_node remove_node [OF assms(1)])
  have up: "removable F p k" if "removable F p (dir k)" "k \<in> set (akeys (fs_nodes F))" "p \<in> set ps" for p k
  proof (cases "dir k = ''/''")
    case True
    then have c: "clean p = ''/''" using that(1) clean_file_nonempty [of p] by (auto simp: removable_def below_def prefix_Cons)
    then have "k = ''/''" using assms(3) that(2,3) True by (auto simp: children_nil)
    with that(1) True show ?thesis by simp
  next
    case False
    have k: "prefix (dir k @ ''/'') k" using below_dir [OF _ _ False] sane_key [OF assms(2) that(2)] by simp
    have c: "clean (dir k) = dir k" using dir_comps(2) sane_key [OF assms(2) that(2)] by simp
    have "below p k"
      using that(1) k by (auto simp: removable_def below_def dest: prefix_order.trans append_prefixD)
    moreover have "below (dir k) x" if "below k x" for x
      using that k c sane_key [OF assms(2) \<open>k \<in> set (akeys (fs_nodes F))\<close>]
      by (auto simp: below_def dest: prefix_order.trans append_prefixD)
    ultimately show ?thesis using that(1) by (auto simp: removable_def list_ex_iff)
  qed
  have "distinct (akeys (fs_nodes (rm ps F)))"
    using assms by (simp add: removes_all_def sane_def tidy_def akeys_def distinct_map_filter)
  then show ?thesis using assms(2) keys up by (auto simp: sane_def tidy_def list_ex_iff)
qed

text \<open>One candidate: nothing happens, or the empty directory is gone and nothing else.\<close>

lemma purge_dir_effect:
  assumes "removes_all rm" "sane F" "is_abs d" "clean d = d" "purge_dir rm (c, F) d = (c', G)"
  shows "sane G" "fs_denied G = fs_denied F"
    "aget (fs_nodes G) k = aget (fs_nodes F) k \<or> k = d \<and> dirIsEmpty F d \<and> aget (fs_nodes G) k = None"
    "dirIsEmpty F d \<Longrightarrow> fs_denied F = [] \<Longrightarrow> aget (fs_nodes G) d = None"
proof -
  have "sane G \<and> fs_denied G = fs_denied F
    \<and> (aget (fs_nodes G) k = aget (fs_nodes F) k \<or> k = d \<and> dirIsEmpty F d \<and> aget (fs_nodes G) k = None)
    \<and> (dirIsEmpty F d \<longrightarrow> fs_denied F = [] \<longrightarrow> aget (fs_nodes G) d = None)"
  proof (cases "dirIsEmpty F d")
    case False
    with assms(2,5) show ?thesis by (simp add: purge_dir_def)
  next
    case True
    then have ch: "children F d = []" by (auto simp: dirIsEmpty_iff)
    have G: "G = rm [d] F" using assms(5) True by (simp add: purge_dir_def)
    have "aget (fs_nodes G) k = aget (fs_nodes F) k \<or> k = d \<and> aget (fs_nodes G) k = None"
    proof (cases "k \<in> set (akeys (fs_nodes F)) \<and> removable F d k")
      case True
      then have "k = d" using empty_leaf [OF assms(2) ch assms(3,4)] by (simp add: removable_def)
      with True show ?thesis by (simp add: G remove_node [OF assms(1)])
    next
      case False
      then show ?thesis by (auto simp: G remove_node [OF assms(1)] keys_node)
    qed
    moreover have "sane G" unfolding G by (rule remove_sane [OF assms(1,2)]) (simp add: ch)
    moreover have "fs_denied F = [] \<longrightarrow> aget (fs_nodes G) d = None"
      using below_self [of d] assms(4) by (simp add: G remove_node [OF assms(1)] removable_def)
    ultimately show ?thesis using True by (simp add: G remove_denied [OF assms(1)])
  qed
  then show "sane G" "fs_denied G = fs_denied F"
    "aget (fs_nodes G) k = aget (fs_nodes F) k \<or> k = d \<and> dirIsEmpty F d \<and> aget (fs_nodes G) k = None"
    "dirIsEmpty F d \<Longrightarrow> fs_denied F = [] \<Longrightarrow> aget (fs_nodes G) d = None" by blast+
qed

subsection \<open>What a request removes\<close>

text \<open>A candidate that is gone was a directory, and everything that was below it is gone too.\<close>

lemma purge_removes:
  assumes "removes_all rm" "sane F" "\<forall>d \<in> set ds. is_abs d \<and> clean d = d" "foldl (purge_dir rm) (c, F) ds = (c', G)"
  shows "sane G \<and> fs_denied G = fs_denied F \<and> (\<forall>k. aget (fs_nodes G) k = aget (fs_nodes F) k
    \<or> aget (fs_nodes G) k = None \<and> k \<in> set ds \<and> (\<exists>i. aget (fs_nodes F) k = Some (DirN i))
      \<and> (\<forall>j. below k j \<longrightarrow> aget (fs_nodes G) j = None))"
  using assms(2-4)
proof (induction ds arbitrary: c F)
  case (Cons d ds)
  obtain c1 H where H: "purge_dir rm (c, F) d = (c1, H)" by (cases "purge_dir rm (c, F) d")
  have d: "is_abs d" "clean d = d" using Cons.prems(2) by simp_all
  note e = purge_dir_effect [OF assms(1) Cons.prems(1) d H]
  have IH: "sane G \<and> fs_denied G = fs_denied H \<and> (\<forall>k. aget (fs_nodes G) k = aget (fs_nodes H) k
    \<or> aget (fs_nodes G) k = None \<and> k \<in> set ds \<and> (\<exists>i. aget (fs_nodes H) k = Some (DirN i))
      \<and> (\<forall>j. below k j \<longrightarrow> aget (fs_nodes G) j = None))"
    using Cons.prems H by (intro Cons.IH [OF e(1)]) simp_all
  have gone: "aget (fs_nodes G) j = None" if "aget (fs_nodes H) j = None" for j
    using IH that by metis
  have "aget (fs_nodes G) k = aget (fs_nodes F) k
    \<or> aget (fs_nodes G) k = None \<and> k \<in> set (d # ds) \<and> (\<exists>i. aget (fs_nodes F) k = Some (DirN i))
      \<and> (\<forall>j. below k j \<longrightarrow> aget (fs_nodes G) j = None)" for k
  proof (cases "aget (fs_nodes H) k = aget (fs_nodes F) k")
    case True
    with IH show ?thesis by (metis list.set_intros(2))
  next
    case False
    with e(3) [of k] have k: "k = d" "dirIsEmpty F d" "aget (fs_nodes H) k = None" by auto
    then obtain n where n: "aget (fs_nodes F) d = Some n" "is_dir n" "children F d = []"
      using d by (auto simp: dirIsEmpty_iff os_stat_Inr)
    then obtain i where i: "aget (fs_nodes F) d = Some (DirN i)" "children F d = []"
      by (cases n) (simp_all add: is_dir_def)
    have "aget (fs_nodes G) j = None" if "below d j" for j
    proof (cases "j \<in> set (akeys (fs_nodes F))")
      case True
      then have "j = d" using empty_leaf [OF Cons.prems(1) i(2) d _ that] by simp
      then show ?thesis using gone k by simp
    next
      case False
      then have "aget (fs_nodes F) j = None" by (simp add: keys_node)
      then show ?thesis using gone e(3) [of j] by auto
    qed
    then show ?thesis using k i gone by simp
  qed
  then show ?case using IH e(2) by simp
qed simp

lemma purge_empties:
  assumes "removes_all rm" "sane F" "\<forall>d \<in> set ds. is_abs d \<and> clean d = d" "fs_denied F = []"
    "sorted_wrt (\<lambda>a b. length b \<le> length a) ds" "foldl (purge_dir rm) (c, F) ds = (c', G)" "d \<in> set ds"
  shows "\<not> dirIsEmpty G d"
  using assms(2-7)
proof (induction ds arbitrary: c F)
  case (Cons e ds)
  obtain c1 H where H: "purge_dir rm (c, F) e = (c1, H)" by (cases "purge_dir rm (c, F) e")
  have e: "is_abs e" "clean e = e" using Cons.prems(2) by simp_all
  note ef = purge_dir_effect [OF assms(1) Cons.prems(1) e H]
  have G: "foldl (purge_dir rm) (c1, H) ds = (c', G)" using Cons.prems(5) H by simp
  have ds: "\<forall>d \<in> set ds. is_abs d \<and> clean d = d" using Cons.prems(2) by simp
  show ?case
  proof (cases "d \<in> set ds")
    case True
    then show ?thesis using Cons.IH [OF ef(1) ds] ef(2) Cons.prems(3,4) G by simp
  next
    case False
    then have d: "d = e" using Cons.prems(6) by simp
    note pr = purge_removes [OF assms(1) ef(1) ds G, THEN conjunct2, THEN conjunct2, rule_format]
    show ?thesis
    proof (cases "dirIsEmpty F e")
      case True
      then have "aget (fs_nodes H) e = None" using ef(4) Cons.prems(3) by simp
      then have "aget (fs_nodes G) e = None" using pr [of e] by auto
      then show ?thesis using e by (auto simp: d dirIsEmpty_iff os_stat_Inr)
    next
      case full: False
      have same: "aget (fs_nodes H) k = aget (fs_nodes F) k" for k using ef(3) [of k] full by auto
      show ?thesis
      proof
        assume "dirIsEmpty G d"
        then obtain n where n: "aget (fs_nodes G) e = Some n" "is_dir n" "children G e = []"
          using e by (auto simp: d dirIsEmpty_iff os_stat_Inr)
        then have "aget (fs_nodes F) e = Some n" using pr [of e] same by auto
        then have "children F e \<noteq> []" using full n(2) e Cons.prems(3) by (auto simp: dirIsEmpty_iff os_stat_Inr)
        then obtain k where k: "k \<in> set (akeys (fs_nodes F))" "k \<noteq> e" "dir k = e"
          using e by (auto simp: children_nil)
        have "aget (fs_nodes G) k = None"
          using n(3) k e by (auto simp: children_nil keys_node)
        then have "k \<in> set ds" using pr [of k] same k(1) by (auto simp: keys_node)
        then have "length k \<le> length e" using Cons.prems(4) by simp
        moreover have ka: "is_abs k" "clean k = k" using \<open>k \<in> set ds\<close> ds by simp_all
        have "path_comps e = butlast (path_comps k)" using dir_comps(3) [OF ka] k(3) by simp
        moreover have "path_comps k \<noteq> path_comps e" using clean_comps_eq [OF ka(1) e(1) ka(2) e(2)] k(2) by simp
        then have "strict_prefix (path_comps e) (path_comps k)"
          using calculation(2) by (cases "path_comps k" rule: rev_cases) (auto simp: strict_prefix_def)
        then have "length e < length k" using below_strict [OF e(1) ka(1) e(2) ka(2)] by simp
        ultimately show False by simp
      qed
    qed
  qed
qed simp

lemma candidates_sorted: "sorted_wrt (\<lambda>a b. length b \<le> length a) (rev (sort_key length ds))"
  using sorted_sort_key [of length ds] by (simp add: sorted_wrt_rev sorted_map)

text \<open>What a request does to the disk: its paths, then the candidates.\<close>

lemma deleteRequest_disk:
  "snd (deleteRequest rm (u, F) r) = (if dr_Paths r = [] then F
     else if \<not> dr_PurgeEmptyParent r then rm (dr_Paths r) F
     else snd (purgeEmptyFolders rm (dr_Paths r)
       (if dr_PurgeEmptyRoot r \<noteq> '''' then clean (dr_PurgeEmptyRoot r) else '''') (rm (dr_Paths r) F)))"
  by (simp add: deleteRequest_def Let_def)

text \<open>
  C4. A delete request removes what it names and nothing else, except directories above it that
  became empty, if it asks for that: a node that is gone lies at or below a path of the request,
  or it was a directory above one, not outside of the root that bounds the purge, and everything
  that was in it is gone too. Nothing else changes.
\<close>

theorem deletes_only_named:
  assumes "removes_all rm" "sane F" "\<forall>p \<in> set (dr_Paths r). is_abs p \<and> clean p = p \<and> p \<noteq> ''/''"
    "dr_PurgeEmptyRoot r = '''' \<or> is_abs (dr_PurgeEmptyRoot r)"
    "G = snd (deleteRequest rm (u, F) r)" "aget (fs_nodes G) k \<noteq> aget (fs_nodes F) k"
  shows "aget (fs_nodes G) k = None \<and> ((\<exists>p \<in> set (dr_Paths r). below p k)
    \<or> dr_PurgeEmptyParent r \<and> (\<exists>i. aget (fs_nodes F) k = Some (DirN i))
      \<and> (\<exists>p \<in> set (dr_Paths r). strict_prefix (path_comps k) (path_comps p))
      \<and> (dr_PurgeEmptyRoot r \<noteq> '''' \<longrightarrow> isWithinPath (dr_PurgeEmptyRoot r) k)
      \<and> (\<forall>j. below k j \<longrightarrow> aget (fs_nodes G) j = None))"
proof -
  let ?H = "rm (dr_Paths r) F"
  have H: "aget (fs_nodes ?H) j = aget (fs_nodes F) j \<or> aget (fs_nodes ?H) j = None \<and> (\<exists>p \<in> set (dr_Paths r). below p j)" for j
    using remove_node [OF assms(1), of "dr_Paths r" F j] by (auto simp: removable_def list_ex_iff)
  have sH: "sane ?H" using assms(3) by (intro remove_sane [OF assms(1,2)]) auto
  show ?thesis
  proof (cases "dr_Paths r = [] \<or> \<not> dr_PurgeEmptyParent r")
    case True
    then have "G = F \<or> G = ?H" using assms(5) by (auto simp: deleteRequest_disk)
    with assms(6) H [of k] show ?thesis by auto
  next
    case False
    let ?root = "if dr_PurgeEmptyRoot r \<noteq> '''' then clean (dr_PurgeEmptyRoot r) else ''''"
    let ?ds = "rev (sort_key length (purge_candidates (dr_Paths r) ?root))"
    have root: "?root = '''' \<or> is_abs ?root \<and> clean ?root = ?root" using assms(4) by auto
    have paths: "\<forall>p \<in> set (dr_Paths r). is_abs p \<and> clean p = p" using assms(3) by blast
    note cand = candidates_set [OF paths root]
    obtain c where G: "foldl (purge_dir rm) (0, ?H) ?ds = (c, G)"
      using assms(5) False by (cases "foldl (purge_dir rm) (0, ?H) ?ds") (simp add: deleteRequest_disk purgeEmptyFolders_def Let_def)
    have "\<forall>d \<in> set ?ds. is_abs d \<and> clean d = d" using cand by simp
    note pr = purge_removes [OF assms(1) sH this G, THEN conjunct2, THEN conjunct2, rule_format, of k]
    show ?thesis
    proof (cases "aget (fs_nodes G) k = aget (fs_nodes ?H) k")
      case True
      with assms(6) H [of k] show ?thesis by auto
    next
      case purged: False
      then have k: "aget (fs_nodes G) k = None" "k \<in> set ?ds" "\<exists>i. aget (fs_nodes ?H) k = Some (DirN i)"
        "\<forall>j. below k j \<longrightarrow> aget (fs_nodes G) j = None" using pr by auto
      have kc: "is_abs k" "\<exists>p \<in> set (dr_Paths r). prefix (path_comps k) (butlast (path_comps p))"
        "?root \<noteq> '''' \<longrightarrow> prefix (path_comps ?root) (path_comps k)" using k(2) cand by auto
      have "strict_prefix (path_comps k) (path_comps p)" if "p \<in> set (dr_Paths r)" "prefix (path_comps k) (butlast (path_comps p))" for p
      proof -
        have "p \<noteq> ''/''" "is_abs p" "clean p = p" using assms(3) that(1) by auto
        then have "path_comps p \<noteq> []" using clean_slashed [of p] by auto
        then show ?thesis using that(2) prefix_butlast [of "path_comps k" "path_comps p"]
          by (cases "path_comps p" rule: rev_cases) (auto simp: strict_prefix_def)
      qed
      moreover have "dr_PurgeEmptyRoot r \<noteq> '''' \<longrightarrow> isWithinPath (dr_PurgeEmptyRoot r) k"
        using kc(1,3) assms(4) by (auto simp: isWithinPath_comps)
      moreover have "\<exists>i. aget (fs_nodes F) k = Some (DirN i)" using k(3) H [of k] by auto
      ultimately show ?thesis using k(1,4) kc(2) False by blast
    qed
  qed
qed

text \<open>A request for the one file of a directory, bounded by the watch root above.\<close>

definition demo_remover :: remover where
  "demo_remover ps F = F\<lparr>fs_nodes := filter (\<lambda>(k, n). \<not> list_ex (\<lambda>p. removable F p k) ps) (fs_nodes F)\<rparr>"

definition purge_disk :: fsys where
  "purge_disk = \<lparr>fs_nodes = [(''/'', DirN 1), (''/w'', DirN 2), (''/w/x'', DirN 3), (''/w/x/a'', FileN 4), (''/w/b'', FileN 5)],
     fs_denied = []\<rparr>"

definition purge_req :: delete_req where
  "purge_req = \<lparr>dr_Paths = [''/w/x/a''], dr_PurgeEmptyParent = True, dr_PurgeEmptyRoot = ''/w''\<rparr>"

lemma purge_setup: "removes_all demo_remover" "sane purge_disk" "fs_denied purge_disk = []"
  "\<forall>p \<in> set (dr_Paths purge_req). is_abs p \<and> clean p = p \<and> p \<noteq> ''/''"
  "dr_PurgeEmptyRoot purge_req = '''' \<or> is_abs (dr_PurgeEmptyRoot purge_req)" "dr_PurgeEmptyParent purge_req"
proof -
  show "removes_all demo_remover" by (simp add: removes_all_def demo_remover_def)
  show "sane purge_disk" "\<forall>p \<in> set (dr_Paths purge_req). is_abs p \<and> clean p = p \<and> p \<noteq> ''/''"
    "dr_PurgeEmptyRoot purge_req = '''' \<or> is_abs (dr_PurgeEmptyRoot purge_req)" by code_simp+
qed (simp_all add: purge_disk_def purge_req_def)

theorem deletes_only_named_witness:
  "aget (fs_nodes (snd (deleteRequest demo_remover (demo_daemon, purge_disk) purge_req))) ''/w/x'' = None
    \<and> isWithinPath (dr_PurgeEmptyRoot purge_req) ''/w/x''"
proof -
  let ?G = "snd (deleteRequest demo_remover (demo_daemon, purge_disk) purge_req)"
  have c: "aget (fs_nodes ?G) ''/w/x'' \<noteq> aget (fs_nodes purge_disk) ''/w/x''" by code_simp
  have "\<not> list_ex (\<lambda>p. below p ''/w/x'') (dr_Paths purge_req)" by code_simp
  with deletes_only_named [OF purge_setup(1,2,4,5) refl c] show ?thesis by (auto simp: list_ex_iff purge_req_def)
qed


text \<open>
  C5. After a request that purges, no directory above a removed path is left empty, up to the root
  of the purge.
\<close>

theorem no_empty_parent_left:
  assumes "removes_all rm" "sane F" "fs_denied F = []" "\<forall>p \<in> set (dr_Paths r). is_abs p \<and> clean p = p \<and> p \<noteq> ''/''"
    "dr_PurgeEmptyRoot r = '''' \<or> is_abs (dr_PurgeEmptyRoot r)" "dr_PurgeEmptyParent r"
    "p \<in> set (dr_Paths r)" "is_abs d" "clean d = d" "strict_prefix (path_comps d) (path_comps p)"
    "dr_PurgeEmptyRoot r \<noteq> '''' \<Longrightarrow> isWithinPath (dr_PurgeEmptyRoot r) d"
  shows "\<not> dirIsEmpty (snd (deleteRequest rm (u, F) r)) d"
proof -
  let ?H = "rm (dr_Paths r) F"
  let ?root = "if dr_PurgeEmptyRoot r \<noteq> '''' then clean (dr_PurgeEmptyRoot r) else ''''"
  let ?ds = "rev (sort_key length (purge_candidates (dr_Paths r) ?root))"
  have sH: "sane ?H" using assms(4) by (intro remove_sane [OF assms(1,2)]) auto
  have root: "?root = '''' \<or> is_abs ?root \<and> clean ?root = ?root" using assms(5) by auto
  have paths: "\<forall>p \<in> set (dr_Paths r). is_abs p \<and> clean p = p" using assms(4) by blast
  note cand = candidates_set [OF paths root]
  have "prefix (path_comps d) (butlast (path_comps p))"
    using assms(10) prefix_butlast [of "path_comps d" "path_comps p"] by (auto simp: strict_prefix_def)
  moreover have "?root \<noteq> '''' \<longrightarrow> prefix (path_comps ?root) (path_comps d)"
    using assms(5,8,11) by (auto simp: isWithinPath_comps)
  ultimately have d: "d \<in> set ?ds" using cand assms(7-9) by auto
  obtain c G where G: "foldl (purge_dir rm) (0, ?H) ?ds = (c, G)" by (cases "foldl (purge_dir rm) (0, ?H) ?ds")
  have "\<forall>d \<in> set ?ds. is_abs d \<and> clean d = d" using cand by simp
  from purge_empties [OF assms(1) sH this _ candidates_sorted G d] assms(3) have "\<not> dirIsEmpty G d"
    by (simp add: remove_denied [OF assms(1)])
  moreover have "dr_Paths r \<noteq> []" using assms(7) by auto
  ultimately show ?thesis using G assms(6) by (simp add: deleteRequest_disk purgeEmptyFolders_def Let_def)
qed

theorem no_empty_parent_left_witness:
  "\<not> dirIsEmpty (snd (deleteRequest demo_remover (demo_daemon, purge_disk) purge_req)) ''/w/x''"
proof (rule no_empty_parent_left [OF purge_setup(1,2,3,4,5,6), where p = "''/w/x/a''"])
  show "strict_prefix (path_comps ''/w/x'') (path_comps ''/w/x/a'')" by code_simp
  show "isWithinPath (dr_PurgeEmptyRoot purge_req) ''/w/x''" by code_simp
  show "clean ''/w/x'' = ''/w/x''" by code_simp
qed (simp_all add: purge_req_def is_abs_def)


end
