(* ===== verification/Hooks.thy ===== *)
theory Hooks
  imports Daemon Perms "HOL-Library.AList"
begin

text \<open>
  \<open>pkg/hooks\<close>: the configuration of a webhook or command hook, the choice of its template
  (\<open>profiles.go\<close>), extra request headers (\<open>headers.go\<close>), the Notifiarr URL (\<open>notifiarr.go\<close>),
  validation (\<open>validate.go\<close>) and the environment form of lists (\<open>config.go\<close>), with
  \<open>hookssettings.go\<close> of the daemon. A map of headers is an association list in the order
  \<open>range\<close> visits it. URLs are read and written by \<open>net/url\<close>, a parameter.
\<close>

subsection \<open>Data\<close>

text \<open>The two fields the daemon's queue reads are those of \<open>hook_config\<close>.\<close>

record hook = hook_config +
  hk_Name :: string
  hk_URL :: string
  hk_Command :: string
  hk_CType :: string
  hk_TmplPath :: string
  hk_TempName :: string
  hk_Timeout :: duration
  hk_Shell :: bool
  hk_IgnoreSSL :: bool
  hk_Silent :: bool
  hk_Nickname :: string
  hk_Token :: string
  hk_Channel :: string
  hk_Update :: "bool option"
  hk_Headers :: "(string \<times> string) list"
  hk_client :: "(duration \<times> bool) option"
  hk_fails :: uint64
  hk_posts :: uint64

text \<open>A header error carries the name as the message shows it.\<close>

datatype hook_error =
    InvalidStatus nat string | UnknownEvent | WebhookNoURL | CmdhookNoCmd | NilConfig
  | MessageGone string | HeaderName string | HeaderValue string | HeaderDup string
  | RequestError | NetError | TemplateError | PayloadError | EditPayload | EnvError | AbsError
  | CmdError | NumError | NilClient

text \<open>\<open>url.URL\<close>, and the functions of \<open>net/url\<close> on it; the other parts of a URL are \<open>uri_Rest\<close>.\<close>

record uri =
  uri_Hostname :: string
  uri_Path :: string
  uri_RawPath :: string
  uri_RawQuery :: string
  uri_Rest :: string

type_synonym url_values = "(string \<times> string list) list"

record urls =
  url_parse :: "string \<Rightarrow> uri option"
  url_string :: "uri \<Rightarrow> string"
  url_query :: "string \<Rightarrow> url_values"
  url_encode :: "url_values \<Rightarrow> string"
  url_escape :: "string \<Rightarrow> string"

subsection \<open>profiles.go\<close>

abbreviation (input) ProfileNotifiarr :: string where "ProfileNotifiarr \<equiv> ''notifiarr''"
abbreviation (input) ProfileDiscord :: string where "ProfileDiscord \<equiv> ''discord''"
abbreviation (input) ProfileTelegram :: string where "ProfileTelegram \<equiv> ''telegram''"
abbreviation (input) ProfileSlack :: string where "ProfileSlack \<equiv> ''slack''"
abbreviation (input) ProfilePushover :: string where "ProfilePushover \<equiv> ''pushover''"
abbreviation (input) ProfileGotify :: string where "ProfileGotify \<equiv> ''gotify''"
abbreviation (input) ProfileNtfy :: string where "ProfileNtfy \<equiv> ''ntfy''"
abbreviation (input) ProfileApprise :: string where "ProfileApprise \<equiv> ''apprise''"
abbreviation (input) ProfileMattermost :: string where "ProfileMattermost \<equiv> ''mattermost''"
abbreviation (input) ProfileCustom :: string where "ProfileCustom \<equiv> ''custom''"

record profile =
  pf_Name :: string
  pf_CanUpdate :: bool

definition namedProfile :: "string \<Rightarrow> profile option" where
  "namedProfile name = (
     if name = ProfileNotifiarr then Some \<lparr>pf_Name = ProfileNotifiarr, pf_CanUpdate = False\<rparr>
     else if name = ProfileDiscord then Some \<lparr>pf_Name = ProfileDiscord, pf_CanUpdate = True\<rparr>
     else if name = ProfileTelegram then Some \<lparr>pf_Name = ProfileTelegram, pf_CanUpdate = True\<rparr>
     else if name = ProfileSlack then Some \<lparr>pf_Name = ProfileSlack, pf_CanUpdate = False\<rparr>
     else if name = ProfilePushover then Some \<lparr>pf_Name = ProfilePushover, pf_CanUpdate = False\<rparr>
     else if name = ProfileGotify then Some \<lparr>pf_Name = ProfileGotify, pf_CanUpdate = False\<rparr>
     else if name = ProfileNtfy then Some \<lparr>pf_Name = ProfileNtfy, pf_CanUpdate = False\<rparr>
     else if name = ProfileApprise then Some \<lparr>pf_Name = ProfileApprise, pf_CanUpdate = False\<rparr>
     else if name = ProfileMattermost then Some \<lparr>pf_Name = ProfileMattermost, pf_CanUpdate = False\<rparr>
     else None)"

definition hookHostPath :: "urls \<Rightarrow> string \<Rightarrow> string \<times> string" where
  "hookHostPath N raw = (case url_parse N raw of None \<Rightarrow> ('''', '''')
     | Some p \<Rightarrow> (to_lower (uri_Hostname p), to_lower (uri_Path p)))"

definition sniffURL :: "urls \<Rightarrow> string \<Rightarrow> profile" where
  "sniffURL N raw = (let lower = to_lower raw; host = fst (hookHostPath N raw); path = snd (hookHostPath N raw) in
     if contains_sub lower ''notifiarr.com'' then \<lparr>pf_Name = ProfileNotifiarr, pf_CanUpdate = False\<rparr>
     else if contains_sub lower ''discord.com'' \<or> contains_sub lower ''discordapp.com''
       then \<lparr>pf_Name = ProfileDiscord, pf_CanUpdate = True\<rparr>
     else if contains_sub lower ''api.telegram.org'' then \<lparr>pf_Name = ProfileTelegram, pf_CanUpdate = True\<rparr>
     else if contains_sub lower ''hooks.slack.com'' then \<lparr>pf_Name = ProfileSlack, pf_CanUpdate = False\<rparr>
     else if contains_sub lower ''pushover.net'' then \<lparr>pf_Name = ProfilePushover, pf_CanUpdate = False\<rparr>
     else if contains_sub lower ''gotify'' then \<lparr>pf_Name = ProfileGotify, pf_CanUpdate = False\<rparr>
     else if host = ''ntfy.sh'' \<or> contains_sub host ''ntfy'' then \<lparr>pf_Name = ProfileNtfy, pf_CanUpdate = False\<rparr>
     else if contains_sub host ''apprise'' \<or> contains_sub path ''/notify''
       then \<lparr>pf_Name = ProfileApprise, pf_CanUpdate = False\<rparr>
     else if contains_sub path ''/hooks/'' then \<lparr>pf_Name = ProfileMattermost, pf_CanUpdate = False\<rparr>
     else \<lparr>pf_Name = ProfileNotifiarr, pf_CanUpdate = False\<rparr>)"

definition Detect :: "urls \<Rightarrow> string \<Rightarrow> string \<Rightarrow> string \<Rightarrow> profile" where
  "Detect N name rawURL tmplPath = (let name = to_lower (trim_space name);
       name = (if name = ''default'' then ProfileNotifiarr else name) in
     case namedProfile name of Some p \<Rightarrow> p
     | None \<Rightarrow> if trim_space tmplPath \<noteq> '''' then \<lparr>pf_Name = ProfileCustom, pf_CanUpdate = False\<rparr>
         else sniffURL N rawURL)"

definition DetectTransport :: "urls \<Rightarrow> string \<Rightarrow> string \<Rightarrow> profile" where
  "DetectTransport N name rawURL = Detect N name rawURL ''''"

definition DefaultContentType :: "urls \<Rightarrow> string \<Rightarrow> string \<Rightarrow> string" where
  "DefaultContentType N name rawURL = (if pf_Name (DetectTransport N name rawURL) = ProfilePushover
     then ''application/x-www-form-urlencoded'' else ''application/json'')"

subsection \<open>headers.go\<close>

abbreviation (input) HeaderAPIKey :: string where "HeaderAPIKey \<equiv> ''X-Api-Key''"

definition skipRequestHeader :: "string \<Rightarrow> bool" where
  "skipRequestHeader name = (to_lower name \<in> set [''content-length'', ''content-type'', ''host'',
     ''transfer-encoding'', ''connection'', ''upgrade''])"

definition validHeaderName :: "string \<Rightarrow> bool" where
  "validHeaderName name = (name \<noteq> '''' \<and> list_all (\<lambda>c. let n = of_char c :: nat in
     (65 \<le> n \<and> n \<le> 90) \<or> (97 \<le> n \<and> n \<le> 122) \<or> (48 \<le> n \<and> n \<le> 57) \<or> n = 95 \<or> n = 45) name)"

text \<open>\<open>strings.ContainsAny(s, "\\r\\n")\<close>.\<close>

definition has_newline :: "string \<Rightarrow> bool" where
  "has_newline s = list_ex (\<lambda>c. of_char c = (13::nat) \<or> of_char c = (10::nat)) s"

fun validate_headers :: "string list \<Rightarrow> (string \<times> string) list \<Rightarrow> hook_error option" where
  "validate_headers seen [] = None"
| "validate_headers seen ((name, value) # hs) = (let trimmed = trim_space name; lower = to_lower trimmed in
     if trimmed = '''' \<or> \<not> validHeaderName trimmed then Some (HeaderName name)
     else if has_newline trimmed \<or> has_newline value then Some (HeaderValue trimmed)
     else if lower \<in> set seen then Some (HeaderDup trimmed)
     else validate_headers (lower # seen) hs)"

definition ValidateHeaders :: "(string \<times> string) list \<Rightarrow> hook_error option" where
  "ValidateHeaders headers = validate_headers [] headers"

definition SecretHeaderName :: "string \<Rightarrow> bool" where
  "SecretHeaderName name = (let lower = to_lower name in
     list_ex (contains_sub lower) [''authorization'', ''token'', ''secret'', ''password'', ''passwd'',
       ''cookie'', ''credential'', ''api-key'', ''apikey'']
     \<or> has_suffix lower ''-key'' \<or> has_suffix lower ''_key'')"

definition RedactHeaderSecrets :: "(string \<times> string) list \<Rightarrow> (string \<times> string) list" where
  "RedactHeaderSecrets headers = amap (\<lambda>name value. if SecretHeaderName name then '''' else value) headers"

definition headerValue :: "(string \<times> string) list \<Rightarrow> string \<Rightarrow> string" where
  "headerValue headers name = (case find (\<lambda>(key, _). equal_fold key name) headers of
     Some (_, value) \<Rightarrow> value | None \<Rightarrow> '''')"

definition setHeader :: "(string \<times> string) list \<Rightarrow> string \<Rightarrow> string \<Rightarrow> (string \<times> string) list" where
  "setHeader headers name value = aput name value (filter (\<lambda>(key, _). \<not> equal_fold key name) headers)"

subsection \<open>notifiarr.go\<close>

abbreviation (input) notifiarrUnpackerrPath :: string where
  "notifiarrUnpackerrPath \<equiv> ''/api/v1/notification/unpackerr''"

text \<open>The regular expression \<open>notifiarrAPIKey\<close>: hexadecimal groups of 8, 4, 4, 4 and 12 digits.\<close>

definition hex_digit :: "char \<Rightarrow> bool" where
  "hex_digit c = (let n = of_char c :: nat in (48 \<le> n \<and> n \<le> 57) \<or> (65 \<le> n \<and> n \<le> 70) \<or> (97 \<le> n \<and> n \<le> 102))"

definition notifiarrAPIKey :: "string \<Rightarrow> bool" where
  "notifiarrAPIKey s = (length s = 36
     \<and> list_all (\<lambda>(i, c). if i \<in> set [8, 13, 18, 23] then c = CHR ''-'' else hex_digit c) (enumerate 0 s))"

definition notifiarrHost :: "string \<Rightarrow> bool" where
  "notifiarrHost host = (let host = to_lower host in
     host = ''notifiarr.com'' \<or> has_suffix host ''.notifiarr.com'')"

definition rewriteNotifiarrURL :: "urls \<Rightarrow> string \<Rightarrow> string \<times> string" where
  "rewriteNotifiarrURL N raw = (case url_parse N (trim_space raw) of None \<Rightarrow> (raw, '''')
     | Some parsed \<Rightarrow> if \<not> notifiarrHost (uri_Hostname parsed) then (raw, '''') else
         let path = trim_suffix (uri_Path parsed) ''/'' in
         if \<not> equal_fold path notifiarrUnpackerrPath
            \<and> \<not> has_prefix (to_lower path) (notifiarrUnpackerrPath @ ''/'') then (raw, '''')
         else if equal_fold path notifiarrUnpackerrPath then (raw, '''')
         else let rest = drop (length notifiarrUnpackerrPath + 1) path in
           if rest = '''' \<or> contains_sub rest ''/'' \<or> \<not> notifiarrAPIKey rest then (raw, '''')
           else (url_string N (parsed\<lparr>uri_Path := notifiarrUnpackerrPath, uri_RawPath := ''''\<rparr>), rest))"

definition NormalizeNotifiarr :: "urls \<Rightarrow> hook \<Rightarrow> hook" where
  "NormalizeNotifiarr N w = (let (next_url, key) = rewriteNotifiarrURL N (hk_URL w); w = w\<lparr>hk_URL := next_url\<rparr> in
     if key = '''' \<or> trim_space (headerValue (hk_Headers w) HeaderAPIKey) \<noteq> '''' then w
     else w\<lparr>hk_Headers := setHeader (hk_Headers w) HeaderAPIKey key\<rparr>)"

subsection \<open>config.go\<close>

definition applyDefaults :: "duration \<Rightarrow> hook \<Rightarrow> hook" where
  "applyDefaults defaultTimeout w = (let w = (if hk_Timeout w = 0 then w\<lparr>hk_Timeout := defaultTimeout\<rparr> else w) in
     if hk_Events w = [] then w\<lparr>hk_Events := [WAITING]\<rparr> else w)"

definition ensureClient :: "hook \<Rightarrow> hook" where
  "ensureClient w = (if hk_client w \<noteq> None then w else w\<lparr>hk_client := Some (hk_Timeout w, hk_IgnoreSSL w)\<rparr>)"

definition WantUpdate :: "urls \<Rightarrow> hook option \<Rightarrow> bool" where
  "WantUpdate N h = (case h of None \<Rightarrow> False | Some w \<Rightarrow>
     if \<not> pf_CanUpdate (Detect N (hk_TempName w) (hk_URL w) (hk_TmplPath w)) then False
     else case hk_Update w of Some b \<Rightarrow> b | None \<Rightarrow> True)"

definition Counts :: "hook \<Rightarrow> uint64 \<times> uint64" where
  "Counts w = (hk_posts w, hk_fails w)"

definition CountAll :: "hook option list \<Rightarrow> uint64 \<times> uint64" where
  "CountAll hs = foldl (\<lambda>(total, fails) h. case h of None \<Rightarrow> (total, fails)
     | Some w \<Rightarrow> (total + fst (Counts w), fails + snd (Counts w))) (0, 0) hs"

fun log_events :: "string \<Rightarrow> uint8 list \<Rightarrow> string" where
  "log_events output [] = output"
| "log_events output (e # es) = log_events ((if length output > 0 then output @ ''; '' else output) @ String e) es"

definition LogEvents :: "uint8 list \<Rightarrow> string" where
  "LogEvents events = (if length events = 1 \<and> events ! 0 = status_code WAITING then ''all'' else log_events '''' events)"

text \<open>A copy has no client and no counts.\<close>

definition clone_hook :: "hook \<Rightarrow> hook" where
  "clone_hook w = w\<lparr>hk_client := None, hk_posts := 0, hk_fails := 0\<rparr>"

definition CloneList :: "hook list \<Rightarrow> hook list" where
  "CloneList src = map clone_hook src"

text \<open>Splitting at commas; \<open>Status\<close> is the 8-bit integer the variable holds.\<close>

fun split_comma :: "string \<Rightarrow> string list" where
  "split_comma [] = [[]]"
| "split_comma (c # s) = (if c = CHR '','' then [] # split_comma s
     else case split_comma s of [] \<Rightarrow> [[c]] | x # xs \<Rightarrow> (c # x) # xs)"

definition trim_env :: "string \<Rightarrow> string" where
  "trim_env s = (let cut_set = [CHR ''['', CHR 0x22, CHR 0x27, CHR '','', CHR '']'', CHR '' ''] in
     trim_right cut_set (trim_left cut_set s))"

text \<open>The first value that is not a number of 8 bits leaves the values before it and an error.\<close>

fun parse_statuses :: "string list \<Rightarrow> uint8 list \<times> hook_error option" where
  "parse_statuses [] = ([], None)"
| "parse_statuses (val # vals) = (case parse_uint 8 (trim_space val) of
     None \<Rightarrow> (replicate (Suc (length vals)) 0, Some NumError)
   | Some n \<Rightarrow> let (rest, err) = parse_statuses vals in (of_nat n # rest, err))"

definition Statuses_UnmarshalENV :: "uint8 list \<Rightarrow> string \<Rightarrow> uint8 list \<times> hook_error option" where
  "Statuses_UnmarshalENV old envval = (if envval = '''' then (old, None)
     else parse_statuses (split_comma (trim_env envval)))"

definition Statuses_MarshalENV :: "uint8 list \<Rightarrow> string" where
  "Statuses_MarshalENV statuses = join '','' (map String statuses)"

definition StringSlice_UnmarshalENV :: "string list \<Rightarrow> string \<Rightarrow> string list" where
  "StringSlice_UnmarshalENV old envval = (if envval = '''' then old
     else map trim_space (split_comma (trim_env envval)))"

definition StringSlice_MarshalENV :: "string list \<Rightarrow> string" where
  "StringSlice_MarshalENV vals = join '','' vals"

subsection \<open>validate.go\<close>

text \<open>A hook as it is left, and the error that stopped its validation.\<close>

definition validate_webhook :: "urls \<Rightarrow> duration \<Rightarrow> hook \<Rightarrow> hook \<times> hook_error option" where
  "validate_webhook N defaultTimeout w = (let w = w\<lparr>hk_Command := ''''\<rparr> in
     if hk_URL w = '''' then (w, Some WebhookNoURL)
     else let w = NormalizeNotifiarr N w;
       w = (if hk_Name w = '''' then w\<lparr>hk_Name := hk_URL w\<rparr> else w);
       profile = Detect N (hk_TempName w) (hk_URL w) (hk_TmplPath w);
       w = (if hk_Nickname w = '''' \<and> pf_Name profile \<noteq> ProfilePushover \<and> pf_Name profile \<noteq> ProfileCustom
            then w\<lparr>hk_Nickname := ''Unpackerr''\<rparr> else w);
       w = (if hk_CType w = '''' then w\<lparr>hk_CType := DefaultContentType N (hk_TempName w) (hk_URL w)\<rparr> else w)
     in case ValidateHeaders (hk_Headers w) of Some err \<Rightarrow> (w, Some err)
       | None \<Rightarrow> (ensureClient (applyDefaults defaultTimeout w), None))"

definition validate_cmdhook :: "(string \<Rightarrow> string) option \<Rightarrow> duration \<Rightarrow> hook \<Rightarrow> hook \<times> hook_error option" where
  "validate_cmdhook expandHome defaultTimeout w = (let w = w\<lparr>hk_URL := ''''\<rparr>;
       cmd = trim_space (hk_Command w);
       cmd = (case expandHome of Some f \<Rightarrow> trim_space (f cmd) | None \<Rightarrow> cmd);
       w = w\<lparr>hk_Command := cmd\<rparr> in
     if hk_Command w = '''' then (w, Some CmdhookNoCmd)
     else let w = (if hk_Name w = '''' then w\<lparr>hk_Name := fields_func is_space (hk_Command w) ! 0\<rparr> else w)
       in (applyDefaults defaultTimeout w, None))"

text \<open>The loop over a list of pointers; the hooks before an error keep their changes.\<close>

fun validate_list :: "(hook \<Rightarrow> hook \<times> hook_error option) \<Rightarrow> hook option list \<Rightarrow> hook option list \<times> hook_error option" where
  "validate_list f [] = ([], None)"
| "validate_list f (None # hs) = (None # hs, Some NilConfig)"
| "validate_list f (Some w # hs) = (case f w of (w, Some err) \<Rightarrow> (Some w # hs, Some err)
     | (w, None) \<Rightarrow> let (hs, err) = validate_list f hs in (Some w # hs, err))"

definition ValidateWebhooks :: "urls \<Rightarrow> hook option list \<Rightarrow> duration \<Rightarrow> hook option list \<times> hook_error option" where
  "ValidateWebhooks N hs defaultTimeout = validate_list (validate_webhook N defaultTimeout) hs"

definition ValidateCmdhooks ::
  "(string \<Rightarrow> string) option \<Rightarrow> hook option list \<Rightarrow> duration \<Rightarrow> hook option list \<times> hook_error option" where
  "ValidateCmdhooks expandHome hs defaultTimeout = validate_list (validate_cmdhook expandHome defaultTimeout) hs"

subsection \<open>hookssettings.go\<close>

fun validate_ids :: "string list \<Rightarrow> string list \<Rightarrow> hook_error option" where
  "validate_ids seen [] = None"
| "validate_ids seen (key # ks) = (if \<not> validRoleName key then Some (HeaderName key)
     else if to_lower key \<in> set seen then Some (HeaderDup key) else validate_ids (to_lower key # seen) ks)"

text \<open>\<open>validateHookIDs\<close>; its two errors are those of a name, here \<open>HeaderName\<close> and \<open>HeaderDup\<close>.\<close>

definition validateHookIDs :: "(string \<times> string) list \<Rightarrow> hook_error option" where
  "validateHookIDs ids = validate_ids [] (akeys ids)"

record hook_titles =
  ht_Waiting :: string
  ht_Queued :: string
  ht_Extracting :: string
  ht_ExtractFailed :: string
  ht_Extracted :: string
  ht_Imported :: string
  ht_Deleting :: string
  ht_DeleteFailed :: string
  ht_Deleted :: string
  ht_ExtractedNothing :: string

record hooks_config =
  hc_CustomIDs :: "(string \<times> string) list"
  hc_Titles :: hook_titles

fun title_of :: "hook_titles \<Rightarrow> status \<Rightarrow> string" where
  "title_of t WAITING = ht_Waiting t"
| "title_of t QUEUED = ht_Queued t"
| "title_of t EXTRACTING = ht_Extracting t"
| "title_of t EXTRACTFAILED = ht_ExtractFailed t"
| "title_of t EXTRACTED = ht_Extracted t"
| "title_of t IMPORTED = ht_Imported t"
| "title_of t DELETING = ht_Deleting t"
| "title_of t DELETEFAILED = ht_DeleteFailed t"
| "title_of t DELETED = ht_Deleted t"
| "title_of t EXTRACTEDNOTHING = ht_ExtractedNothing t"

definition forStatus :: "hook_titles \<Rightarrow> status \<Rightarrow> string" where
  "forStatus t s = (let title = trim_space (title_of t s) in if title \<noteq> '''' then title else Desc (status_code s))"

definition nonEmpty :: "hook_titles \<Rightarrow> nat" where
  "nonEmpty t = length (filter (\<lambda>title. trim_space title \<noteq> '''')
     [ht_Waiting t, ht_Queued t, ht_Extracting t, ht_ExtractFailed t, ht_Extracted t,
      ht_Imported t, ht_Deleting t, ht_DeleteFailed t, ht_Deleted t, ht_ExtractedNothing t])"

definition payloadCustomIDs :: "(string \<times> string) list \<Rightarrow> (string \<times> string) list" where
  "payloadCustomIDs ids = filter (\<lambda>(key, val). \<not> (key = '''' \<or> val = '''')) ids"

subsection \<open>templates.go\<close>

record xtract_payload =
  xp_Error :: string
  xp_Archive :: "string list"
  xp_Archives :: "string list"
  xp_Files :: "string list"
  xp_File :: "string list"
  xp_Start :: instant
  xp_Output :: string
  xp_Bytes :: uint64
  xp_Queue :: int
  xp_Elapsed :: duration

record hook_payload =
  p_Path :: string
  p_App :: string
  p_IDs :: "(string \<times> idval) list"
  p_CustomIDs :: "(string \<times> string) list"
  p_Event :: uint8
  p_Time :: instant
  p_Data :: "xtract_payload option"
  p_Retries :: uint64
  p_EventTitle :: string

definition Title :: "hook_payload option \<Rightarrow> string" where
  "Title p = (case p of None \<Rightarrow> '''' | Some p \<Rightarrow> let title = trim_space (p_EventTitle p) in
     if title \<noteq> '''' then title else Desc (p_Event p))"

datatype template = Builtin string | FileText string

definition BuiltinWebhookTemplate :: "string \<Rightarrow> template option" where
  "BuiltinWebhookTemplate name = (let name = to_lower (trim_space name) in
     if name \<in> set [ProfileNotifiarr, ProfileDiscord, ProfileTelegram, ProfileSlack, ProfilePushover,
       ProfileGotify, ProfileNtfy, ProfileApprise, ProfileMattermost] then Some (Builtin name) else None)"

text \<open>The body of \<open>Template\<close>; \<open>read\<close> is \<open>os.ReadFile\<close>.\<close>

definition Template :: "urls \<Rightarrow> (string \<Rightarrow> string option) \<Rightarrow> hook \<Rightarrow> hook_error + template" where
  "Template N read w = (let profile = Detect N (hk_TempName w) (hk_URL w) (hk_TmplPath w) in
     if pf_Name profile = ProfileCustom then (case read (hk_TmplPath w) of
         None \<Rightarrow> Inl TemplateError | Some body \<Rightarrow> Inr (FileText body))
     else case BuiltinWebhookTemplate (pf_Name profile) of
         Some body \<Rightarrow> Inr body | None \<Rightarrow> Inr (Builtin ProfileNotifiarr))"

definition WebhookTemplateFileName :: "string \<Rightarrow> string" where
  "WebhookTemplateFileName name = ''unpackerr-webhook-'' @ to_lower (trim_space name) @ ''.tmpl''"

text \<open>\<open>humanbytes\<close>: the loop that finds the unit; \<open>None\<close> is an index out of the string of units.\<close>

function unit_of :: "uint64 \<Rightarrow> uint64 \<Rightarrow> nat \<Rightarrow> uint64 \<times> nat" where
  "unit_of n d e = (if n \<ge> 1024 then unit_of (n div 1024) (d * 1024) (e + 1) else (d, e))"
  by pat_completeness auto
termination
  by (relation "measure (\<lambda>(n, _). unat n)") (auto simp: unat_div word_le_nat_alt)

declare unit_of.simps [simp del]

datatype human = Plain uint64 | Scaled uint64 uint64 char

definition humanbytes :: "uint64 \<Rightarrow> human option" where
  "humanbytes sz = (if sz < 1024 then Some (Plain sz)
     else let (d, e) = unit_of (sz div 1024) 1024 0; units = ''KMGTPE'' in
       if e < length units then Some (Scaled sz d (units ! e)) else None)"

subsection \<open>sample.go\<close>

text \<open>\<open>PrepareSample\<close> on a payload that has its \<open>Data\<close>, as \<open>SamplePayload\<close> makes it.\<close>

definition prepare_data :: "status \<Rightarrow> string \<Rightarrow> xtract_payload \<Rightarrow> xtract_payload option" where
  "prepare_data event invalidHead d = (case event of
     WAITING \<Rightarrow> None
   | QUEUED \<Rightarrow> None
   | EXTRACTING \<Rightarrow> Some (d\<lparr>xp_Bytes := 0, xp_Files := [], xp_Elapsed := 0\<rparr>)
   | EXTRACTED \<Rightarrow> Some (d\<lparr>xp_Bytes := 1234567009\<rparr>)
   | EXTRACTFAILED \<Rightarrow> Some (d\<lparr>xp_Files := [], xp_Bytes := 0, xp_Error := invalidHead\<rparr>)
   | IMPORTED \<Rightarrow> Some (d\<lparr>xp_Bytes := 0, xp_Files := []\<rparr>)
   | DELETING \<Rightarrow> Some (d\<lparr>xp_Elapsed := 0\<rparr>)
   | DELETED \<Rightarrow> Some (d\<lparr>xp_Elapsed := 0\<rparr>)
   | DELETEFAILED \<Rightarrow> Some (d\<lparr>xp_Elapsed := 0, xp_Error := ''unable to delete files''\<rparr>)
   | EXTRACTEDNOTHING \<Rightarrow> Some (d\<lparr>xp_Files := [], xp_Archives := [], xp_Bytes := 0, xp_Error := ''''\<rparr>))"

definition PrepareSample :: "string \<Rightarrow> hook_payload \<Rightarrow> uint8 \<Rightarrow> hook_payload \<times> hook_error option" where
  "PrepareSample invalidHead p event = (let p = p\<lparr>p_Event := event, p_EventTitle := Desc event\<rparr>;
       p = (if p_Retries p = 0 then p\<lparr>p_Retries := 2\<rparr> else p) in
     if unat event < length all_statuses then let s = all_statuses ! unat event;
         p = (if s = QUEUED then p\<lparr>p_App := ''Folder''\<rparr> else p)
       in (p\<lparr>p_Data := (case p_Data p of None \<Rightarrow> None | Some d \<Rightarrow> prepare_data s invalidHead d)\<rparr>, None)
     else (p, Some UnknownEvent))"

subsection \<open>webhook.go\<close>

definition hookPayload :: "hooks_config \<Rightarrow> extract_item \<Rightarrow> hook_payload" where
  "hookPayload h item = \<lparr>p_Path = e_Path item, p_App = Label item, p_IDs = cloneIDs (e_IDs item),
     p_CustomIDs = payloadCustomIDs (hc_CustomIDs h), p_Event = status_code (e_Status item),
     p_Time = e_Updated item,
     p_Data = (case e_Resp item of None \<Rightarrow> None
       | Some resp \<Rightarrow> let archives = concat (map snd (rs_Archives resp)) @ concat (map snd (rs_Extras resp)) in
         Some \<lparr>xp_Error = (case rs_Error resp of None \<Rightarrow> '''' | Some e \<Rightarrow> err_text e), xp_Archive = archives,
           xp_Archives = archives, xp_Files = rs_NewFiles resp, xp_File = rs_NewFiles resp,
           xp_Start = rs_Started resp, xp_Output = rs_Output resp, xp_Bytes = rs_Size resp,
           xp_Queue = rs_Queued resp, xp_Elapsed = rs_Elapsed resp\<rparr>),
     p_Retries = e_Retries item, p_EventTitle = forStatus (hc_Titles h) (e_Status item)\<rparr>"

definition decorateSamplePayload :: "hooks_config \<Rightarrow> hook_payload \<Rightarrow> status \<Rightarrow> hook_payload" where
  "decorateSamplePayload h p event = p\<lparr>p_EventTitle := forStatus (hc_Titles h) event,
     p_CustomIDs := payloadCustomIDs (hc_CustomIDs h)\<rparr>"

text \<open>
  The keys are checked first, in the order of the map, then the values in the order of the keys.
  \<open>Inl\<close> is the error; the hooks of a list that is refused may be changed, but the list is thrown away.
\<close>

definition validateWebhookList :: "urls \<Rightarrow> duration \<Rightarrow> hook instances \<Rightarrow> hook_error + hook list" where
  "validateWebhookList N timeout hs = (case find (\<lambda>key. \<not> validateInstanceSlug key) (akeys hs) of
     Some key \<Rightarrow> Inl (HeaderName key)
   | None \<Rightarrow> case ValidateWebhooks N (map Some (instanceValues hs)) timeout of
       (_, Some err) \<Rightarrow> Inl err | (ws, None) \<Rightarrow> Inr (List.map_filter id ws))"

definition validateCmdhookList :: "(string \<Rightarrow> string) option \<Rightarrow> duration \<Rightarrow> hook instances \<Rightarrow> hook_error + hook list" where
  "validateCmdhookList expand timeout hs = (case find (\<lambda>key. \<not> validateInstanceSlug key) (akeys hs) of
     Some key \<Rightarrow> Inl (HeaderName key)
   | None \<Rightarrow> case ValidateCmdhooks expand (map Some (instanceValues hs)) timeout of
       (_, Some err) \<Rightarrow> Inl err | (ws, None) \<Rightarrow> Inr (List.map_filter id ws))"

end
