(* ===== verification/HookDelivery.thy ===== *)
theory HookDelivery
  imports Hooks Queue
begin

text \<open>
  The delivery of \<open>pkg/hooks\<close>: \<open>http.go\<close>, \<open>update.go\<close>, \<open>cmd.go\<close>, \<open>fire.go\<close> and \<open>worker.go\<close>, with
  the hook functions the daemon gives to each item (\<open>queueHook\<close> of \<open>start.go\<close>).

  The remote side is the function \<open>w_do\<close> of the requests sent so far and the request: it may answer
  every request differently. The log of the requests is a part of the state. JSON, templates,
  processes and \<open>net/url\<close> are the other fields of \<open>web\<close>.
\<close>

subsection \<open>Requests\<close>

datatype verb = POST | PATCH

type_synonym req_headers = "(string \<times> string) list"

record request =
  rq_verb :: verb
  rq_url :: string
  rq_head :: req_headers
  rq_body :: string

datatype outcome = NoReply | Reply nat string

record web =
  w_urls :: urls
  w_do :: "request list \<Rightarrow> request \<Rightarrow> outcome"
  w_read :: "string \<Rightarrow> string option"
  w_execute :: "template \<Rightarrow> hook \<Rightarrow> hook_payload \<Rightarrow> string option"
  w_discordID :: "string \<Rightarrow> string option"
  w_telegramID :: "string \<Rightarrow> int option"
  w_edit :: "string \<Rightarrow> idval \<Rightarrow> string option"
  w_env :: "hook \<Rightarrow> hook_payload \<Rightarrow> string list option"
  w_abs :: "string \<Rightarrow> string option"
  w_path :: string
  w_exec :: "string list \<Rightarrow> string list \<Rightarrow> bool \<times> string"
  w_windows :: bool

text \<open>\<open>http.CanonicalHeaderKey\<close>, under which \<open>Header.Set\<close> stores a value.\<close>

definition token_char :: "char \<Rightarrow> bool" where
  "token_char c = (let n = of_char c :: nat in (65 \<le> n \<and> n \<le> 90) \<or> (97 \<le> n \<and> n \<le> 122) \<or> (48 \<le> n \<and> n \<le> 57)
     \<or> c \<in> set ''!#$%&*+-.^_|~'' \<or> n = 39 \<or> n = 96)"

definition upper_char :: "char \<Rightarrow> char" where
  "upper_char c = (if 97 \<le> (of_char c :: nat) \<and> (of_char c :: nat) \<le> 122
     then char_of ((of_char c :: nat) - 32) else c)"

fun canonical_go :: "bool \<Rightarrow> string \<Rightarrow> string" where
  "canonical_go up [] = []"
| "canonical_go up (c # s) = (if up then upper_char c else lower_char c) # canonical_go (c = CHR ''-'') s"

definition canonical_key :: "string \<Rightarrow> string" where
  "canonical_key s = (if list_all token_char s then canonical_go True s else s)"

definition head_set :: "string \<Rightarrow> string \<Rightarrow> req_headers \<Rightarrow> req_headers" where
  "head_set name value h = aput (canonical_key name) value h"

definition add_header :: "req_headers \<Rightarrow> string \<times> string \<Rightarrow> req_headers" where
  "add_header h nv = (case nv of (name, value) \<Rightarrow> let name = trim_space name in
     if name = '''' \<or> skipRequestHeader name \<or> has_newline name \<or> has_newline value then h
     else head_set name value h)"

definition setRequestHeaders :: "urls \<Rightarrow> hook \<Rightarrow> req_headers" where
  "setRequestHeaders N w = (let h = head_set ''Content-Type'' (hk_CType w) (foldl add_header [] (hk_Headers w)) in
     if pf_Name (DetectTransport N (hk_TempName w) (hk_URL w)) \<noteq> ProfileNtfy then h
     else let token = trim_space (hk_Token w) in
       if token \<noteq> '''' then head_set ''Authorization'' (''Bearer '' @ token) h else h)"

subsection \<open>update.go\<close>

text \<open>The error \<open>NilClient\<close> stands for the panic of a request by a nil client.\<close>

type_synonym wire = "hook \<times> request list"
type_synonym answer = "string \<times> hook_error option"

definition telegramMessageGone :: "nat \<Rightarrow> string \<Rightarrow> bool" where
  "telegramMessageGone code reply = (let lower = to_lower reply in
     contains_sub lower ''message to edit not found'' \<or> contains_sub lower ''message not found''
     \<or> code = 400 \<and> contains_sub lower ''message to edit'')"

definition is_gone :: "hook_error option \<Rightarrow> bool" where
  "is_gone err = (case err of Some (MessageGone _) \<Rightarrow> True | _ \<Rightarrow> False)"

definition messageGone :: "hook_error option \<Rightarrow> string \<Rightarrow> bool" where
  "messageGone err reply = (is_gone err \<or> telegramMessageGone 0 reply)"

text \<open>A request that cannot be made is not sent.\<close>

definition sendTo :: "web \<Rightarrow> verb \<Rightarrow> string \<Rightarrow> string \<Rightarrow> wire \<Rightarrow> answer \<times> wire" where
  "sendTo W v rawURL body s = (case s of (w, sent) \<Rightarrow>
     if url_parse (w_urls W) rawURL = None then (('''', Some RequestError), s)
     else let req = \<lparr>rq_verb = v, rq_url = rawURL, rq_head = setRequestHeaders (w_urls W) w, rq_body = body\<rparr>;
            s = (w, sent @ [req]) in
       case hk_client w of None \<Rightarrow> (('''', Some NilClient), (w, sent))
       | Some _ \<Rightarrow> (case w_do W sent req of NoReply \<Rightarrow> (('''', Some NetError), s)
         | Reply code reply \<Rightarrow>
             if code = 404 then ((reply, Some (MessageGone reply)), s)
             else if code < 200 \<or> code > 204
               then ((reply, Some (if telegramMessageGone code reply then MessageGone reply
                                   else InvalidStatus code reply)), s)
             else ((reply, None), s)))"

definition count_post :: "hook \<Rightarrow> hook" where
  "count_post w = w\<lparr>hk_posts := hk_posts w + 1\<rparr>"

definition count_fail :: "hook_error option \<Rightarrow> hook \<Rightarrow> hook" where
  "count_fail err w = (if err \<noteq> None then w\<lparr>hk_fails := hk_fails w + 1\<rparr> else w)"

definition doSend :: "web \<Rightarrow> verb \<Rightarrow> string \<Rightarrow> string \<Rightarrow> wire \<Rightarrow> answer \<times> wire" where
  "doSend W v rawURL body s = (case s of (w, sent) \<Rightarrow>
     if rawURL = '''' then (('''', Some WebhookNoURL), s)
     else case sendTo W v rawURL body (count_post (ensureClient w), sent) of
       ((reply, err), (w, sent)) \<Rightarrow> ((reply, err), (count_fail err w, sent)))"

definition discordWaitURL :: "urls \<Rightarrow> string \<Rightarrow> string" where
  "discordWaitURL N raw = (case url_parse N raw of None \<Rightarrow> raw
     | Some p \<Rightarrow> url_string N (p\<lparr>uri_RawQuery := url_encode N (aput ''wait'' [''true''] (url_query N (uri_RawQuery p)))\<rparr>))"

definition discordMessageURL :: "urls \<Rightarrow> string \<Rightarrow> string \<Rightarrow> string" where
  "discordMessageURL N raw msgID = (case url_parse N raw of None \<Rightarrow> raw
     | Some p \<Rightarrow> url_string N (p\<lparr>uri_Path := trim_suffix (uri_Path p) ''/'' @ ''/messages/'' @ url_escape N msgID,
         uri_RawQuery := url_encode N (adel ''wait'' (url_query N (uri_RawQuery p)))\<rparr>))"

definition telegramMethodURL :: "urls \<Rightarrow> string \<Rightarrow> string \<Rightarrow> string" where
  "telegramMethodURL N raw verb = (case url_parse N raw of None \<Rightarrow> raw
     | Some p \<Rightarrow> let path = trim_suffix (uri_Path p) ''/'';
         path = (if has_suffix path ''/sendMessage'' \<or> has_suffix path ''/editMessageText''
           then (case last_index path ''/'' of Some i \<Rightarrow> take i path | None \<Rightarrow> path) else path)
       in url_string N (p\<lparr>uri_Path := path @ ''/'' @ verb\<rparr>))"

text \<open>\<open>strconv.ParseInt(s, 10, 64)\<close> and \<open>strconv.FormatInt\<close>.\<close>

definition parse_int64 :: "string \<Rightarrow> int option" where
  "parse_int64 s = (case s of [] \<Rightarrow> None
     | c # r \<Rightarrow> if c = CHR ''-'' then (case parse_uint 64 r of
           Some n \<Rightarrow> if n \<le> 2 ^ 63 then Some (- int n) else None | None \<Rightarrow> None)
         else (case parse_uint 64 (if c = CHR ''+'' then r else s) of
           Some n \<Rightarrow> if n < 2 ^ 63 then Some (int n) else None | None \<Rightarrow> None))"

definition format_int :: "int \<Rightarrow> string" where
  "format_int i = (if i < 0 then CHR ''-'' # itoa (nat (- i)) else itoa (nat i))"

definition telegramEditBody :: "web \<Rightarrow> string \<Rightarrow> string \<Rightarrow> hook_error + string" where
  "telegramEditBody W body msgID = (case w_edit W body
       (case parse_int64 msgID of Some i \<Rightarrow> IdInt i | None \<Rightarrow> IdStr msgID) of
     None \<Rightarrow> Inl EditPayload | Some out \<Rightarrow> Inr out)"

text \<open>The result holds the ID \<open>save\<close> was called with.\<close>

definition create_discord :: "web \<Rightarrow> string \<Rightarrow> wire \<Rightarrow> answer \<times> string option \<times> wire" where
  "create_discord W body s = (case doSend W POST (discordWaitURL (w_urls W) (hk_URL (fst s))) body s of
     ((reply, Some err), s) \<Rightarrow> ((reply, Some err), None, s)
   | ((reply, None), s) \<Rightarrow> ((reply, None), (case w_discordID W reply of
         Some i \<Rightarrow> if i \<noteq> '''' then Some i else None | None \<Rightarrow> None), s))"

definition deliverDiscord :: "web \<Rightarrow> string \<Rightarrow> string \<Rightarrow> wire \<Rightarrow> answer \<times> string option \<times> wire" where
  "deliverDiscord W body msgID s = (if msgID = '''' then create_discord W body s
     else case doSend W PATCH (discordMessageURL (w_urls W) (hk_URL (fst s)) msgID) body s of
       ((reply, err), s) \<Rightarrow> if err = None \<or> \<not> messageGone err reply then ((reply, err), None, s)
         else create_discord W body s)"

definition create_telegram :: "web \<Rightarrow> string \<Rightarrow> wire \<Rightarrow> answer \<times> string option \<times> wire" where
  "create_telegram W body s = (case doSend W POST (telegramMethodURL (w_urls W) (hk_URL (fst s)) ''sendMessage'') body s of
     ((reply, Some err), s) \<Rightarrow> ((reply, Some err), None, s)
   | ((reply, None), s) \<Rightarrow> ((reply, None), (case w_telegramID W reply of
         Some i \<Rightarrow> if i \<noteq> 0 then Some (format_int i) else None | None \<Rightarrow> None), s))"

definition deliverTelegram :: "web \<Rightarrow> string \<Rightarrow> string \<Rightarrow> wire \<Rightarrow> answer \<times> string option \<times> wire" where
  "deliverTelegram W body msgID s = (if msgID = '''' then create_telegram W body s
     else case telegramEditBody W body msgID of Inl err \<Rightarrow> (('''', Some err), None, s)
       | Inr editBody \<Rightarrow>
         (case doSend W POST (telegramMethodURL (w_urls W) (hk_URL (fst s)) ''editMessageText'') editBody s of
           ((reply, err), s) \<Rightarrow> if err = None \<or> \<not> messageGone err reply then ((reply, err), None, s)
             else create_telegram W body s))"

subsection \<open>http.go\<close>

text \<open>The reply is dropped when the status is not one of success.\<close>

definition send_hook :: "web \<Rightarrow> string \<Rightarrow> wire \<Rightarrow> answer \<times> wire" where
  "send_hook W body s = (case s of (w, sent) \<Rightarrow>
     if url_parse (w_urls W) (hk_URL w) = None then (('''', Some RequestError), s)
     else let req = \<lparr>rq_verb = POST, rq_url = hk_URL w, rq_head = setRequestHeaders (w_urls W) w, rq_body = body\<rparr>;
            s = (w, sent @ [req]) in
       case hk_client w of None \<Rightarrow> (('''', Some NilClient), (w, sent))
       | Some _ \<Rightarrow> (case w_do W sent req of NoReply \<Rightarrow> (('''', Some NetError), s)
         | Reply code reply \<Rightarrow> if code < 200 \<or> code > 204 then (('''', Some (InvalidStatus code reply)), s)
             else ((reply, None), s)))"

definition Send :: "web \<Rightarrow> string \<Rightarrow> wire \<Rightarrow> answer \<times> wire" where
  "Send W body s = (case s of (w, sent) \<Rightarrow> if hk_URL w = '''' then (('''', Some WebhookNoURL), s)
     else case send_hook W body (count_post w, sent) of
       ((reply, err), (w, sent)) \<Rightarrow> ((reply, err), (count_fail err w, sent)))"

definition renderWebhook :: "web \<Rightarrow> hook \<Rightarrow> hook_payload \<Rightarrow> hook_error + string" where
  "renderWebhook W w p = (case Template (w_urls W) (w_read W) w of Inl err \<Rightarrow> Inl err
     | Inr tmpl \<Rightarrow> (case w_execute W tmpl w p of None \<Rightarrow> Inl PayloadError | Some body \<Rightarrow> Inr body))"

text \<open>\<open>can_save\<close>: the argument \<open>save\<close> is not nil.\<close>

definition deliverWebhook :: "web \<Rightarrow> hook_payload \<Rightarrow> string \<Rightarrow> bool \<Rightarrow> wire \<Rightarrow> hook_error option \<times> string option \<times> wire" where
  "deliverWebhook W p msgID can_save s = (let w = fst s in case renderWebhook W w p of Inl err \<Rightarrow> (Some err, None, s)
     | Inr body \<Rightarrow> let profile = pf_Name (Detect (w_urls W) (hk_TempName w) (hk_URL w) (hk_TmplPath w));
         r = (if can_save \<and> profile = ProfileDiscord then deliverDiscord W body msgID s
              else if can_save \<and> profile = ProfileTelegram then deliverTelegram W body msgID s
              else (case Send W body s of (a, s) \<Rightarrow> (a, None, s)))
       in case r of ((_, err), saved, s) \<Rightarrow> (err, saved, s))"

definition SendWithLog :: "web \<Rightarrow> hook_payload \<Rightarrow> wire \<Rightarrow> hook_error option \<times> wire" where
  "SendWithLog W p s = (case deliverWebhook W p '''' False s of (err, _, s) \<Rightarrow> (err, s))"

subsection \<open>cmd.go\<close>

definition cmd_args :: "web \<Rightarrow> hook \<Rightarrow> hook_error + string list" where
  "cmd_args W w = (case fields_func is_space (hk_Command w) of [] \<Rightarrow> Inl CmdhookNoCmd
     | a # as \<Rightarrow> (case w_abs W a of None \<Rightarrow> Inl AbsError
         | Some a \<Rightarrow> Inr (if hk_Shell w then (if w_windows W then [''cmd'', ''/C''] else [''/bin/sh'', ''-c'']) @ a # as
                         else a # as)))"

text \<open>The output is \<open>None\<close> when no buffer was made.\<close>

definition runCmd :: "web \<Rightarrow> hook \<Rightarrow> hook_payload \<Rightarrow> string option \<times> hook_error option" where
  "runCmd W w p = (if hk_Command w = '''' then (None, Some CmdhookNoCmd)
     else case w_env W w p of None \<Rightarrow> (None, Some EnvError)
       | Some env \<Rightarrow> (case cmd_args W w of Inl err \<Rightarrow> (None, Some err)
         | Inr args \<Rightarrow> (case w_exec W args (env @ [''PATH='' @ w_path W]) of (ok, out) \<Rightarrow> (Some out, if ok then None else Some CmdError))))"

definition runCmdWithLog :: "web \<Rightarrow> hook \<Rightarrow> hook_payload \<Rightarrow> hook_error option \<times> hook" where
  "runCmdWithLog W w p = (let err = snd (runCmd W w p) in (err, count_fail err (count_post w)))"

subsection \<open>fire.go\<close>

definition Fire :: "web \<Rightarrow> hook_payload \<Rightarrow> hook option \<times> request list \<Rightarrow> answer \<times> hook option \<times> request list" where
  "Fire W p s = (case s of (None, _) \<Rightarrow> (('''', Some NilConfig), s)
     | (Some w, sent) \<Rightarrow>
       if hk_Command w \<noteq> '''' then (case runCmd W w p of (None, err) \<Rightarrow> (('''', err), s)
         | (Some out, err) \<Rightarrow> ((trim_space out, err), s))
       else if hk_URL w = '''' then (('''', Some WebhookNoURL), s)
       else case renderWebhook W w p of Inl err \<Rightarrow> (('''', Some err), s)
         | Inr body \<Rightarrow> (case send_hook W body (ensureClient w, sent) of
             ((reply, err), (w, sent)) \<Rightarrow> ((trim_space reply, err), Some w, sent)))"

subsection \<open>worker.go\<close>

text \<open>\<open>deliverHTTP\<close> of an item with the functions \<open>queueHook\<close> gave it.\<close>

definition deliverHTTP :: "web \<Rightarrow> hook_payload \<Rightarrow> queued_hook \<Rightarrow> 'a daemon_scheme \<times> wire
    \<Rightarrow> hook_error option \<times> 'a daemon_scheme \<times> wire" where
  "deliverHTTP W p q s = (case s of (u, w, sent) \<Rightarrow>
     let up = WantUpdate (w_urls W) (Some w); has_id = qh_slug q \<noteq> '''';
         msgID = (if up \<and> has_id then lookupHookMessage u (qh_itemID q) (qh_slug q) (Some (qh_live q)) else '''')
     in case deliverWebhook W p msgID (up \<and> has_id) (w, sent) of
       (err, saved, s) \<Rightarrow> (err, (case saved of None \<Rightarrow> u
         | Some i \<Rightarrow> storeHookMessage u (qh_itemID q) (qh_slug q) i (Some (qh_live q))), s))"

definition item_done :: "queued_hook \<Rightarrow> hook_error option \<Rightarrow> 'a daemon_scheme \<Rightarrow> 'a daemon_scheme" where
  "item_done q err u = (if err = None then u else reportHookFail (qh_itemID q) u)"

text \<open>One turn of \<open>Run\<close>: \<open>run\<close> of the item, and the daemon's \<open>after\<close>.\<close>

definition run_item :: "web \<Rightarrow> hook_payload \<Rightarrow> queued_hook \<Rightarrow> 'a daemon_scheme \<times> wire \<Rightarrow> 'a daemon_scheme \<times> wire" where
  "run_item W p q s = (let (u, w, sent) = (if hk_URL (fst (snd s)) \<noteq> '''' then
         (case deliverHTTP W p q s of (err, u, w, sent) \<Rightarrow> (item_done q err u, w, sent)) else s);
       (u, w) = (if hk_Command w \<noteq> '''' then
         (case runCmdWithLog W w p of (err, w) \<Rightarrow> (item_done q err u, w)) else (u, w))
     in (u\<lparr>d_inFlight := d_inFlight u - 1\<rparr>, w, sent))"

end
