(* ===== verification/HookProps.thy ===== *)
theory HookProps
  imports HookDelivery DaemonProps
begin

text \<open>
  What the delivery of hooks guarantees: which configurations are accepted, which headers are sent,
  and that a status change edits the message of its extraction instead of posting a new one.
\<close>

subsection \<open>Units\<close>

lemma unat_uint64: "unat s < 2 ^ 64" for s :: uint64
proof -
  have "unat s < 2 ^ LENGTH(64)" by (rule unsigned_less)
  then show ?thesis by simp
qed

lemma div_up: "0 < k \<Longrightarrow> m < (m div k + 1) * k" for m k :: nat
  by (simp add: dividend_less_div_times)

lemma unit_of_scale:
  fixes s :: uint64
  assumes "unat n * unat d \<le> unat s" "unat s < (unat n + 1) * unat d" "0 < n" "unat d = 1024 ^ (k + 1)" "unat s < 1024 ^ 7"
  shows "\<exists>d' e. unit_of n d k = (d', e) \<and> e \<le> 5 \<and> unat d' \<le> unat s \<and> unat s < 1024 * unat d'"
  using assms
proof (induction n d k rule: unit_of.induct)
  case (1 n d k)
  have n0: "0 < unat n" using 1(4) by (simp add: word_less_nat_alt)
  have "1 * unat d \<le> unat n * unat d" using n0 by (intro mult_right_mono) auto
  then have ds: "unat d \<le> unat s" using 1(2) by linarith
  then have "(1024::nat) ^ (k + 1) < 1024 ^ 7" using 1(5,6) by simp
  then have k: "k \<le> 5" by (subst (asm) power_strict_increasing_iff) auto
  show ?case
  proof (cases "n \<ge> 1024")
    case True
    then have n: "1024 \<le> unat n" by (simp add: word_le_nat_alt)
    have "1024 * unat d \<le> unat n * unat d" using n by (intro mult_right_mono) auto
    then have ld: "1024 * unat d \<le> unat s" using 1(2) by linarith
    moreover have "unat s < 2 ^ 64" by (rule unat_uint64)
    ultimately have "unat d * 1024 < 2 ^ 64" by simp
    then have d': "unat (d * 1024) = unat d * 1024" by (subst unat_mult_lem [THEN iffD1]) auto
    have n': "unat (n div 1024) = unat n div 1024" by (simp add: unat_div)
    have "\<exists>d' e. unit_of (n div 1024) (d * 1024) (k + 1) = (d', e) \<and> e \<le> 5 \<and> unat d' \<le> unat s \<and> unat s < 1024 * unat d'"
    proof (rule 1(1) [OF True])
      have "unat n div 1024 * 1024 \<le> unat n" by simp
      then have "unat n div 1024 * 1024 * unat d \<le> unat n * unat d" by (rule mult_right_mono) simp
      then have "unat n div 1024 * 1024 * unat d \<le> unat s" using 1(2) by (rule le_trans)
      then show "unat (n div 1024) * unat (d * 1024) \<le> unat s" unfolding n' d' by (simp only: ac_simps)
      have "unat n + 1 \<le> (unat n div 1024 + 1) * 1024" using div_up [of 1024 "unat n"] by linarith
      then have "(unat n + 1) * unat d \<le> (unat n div 1024 + 1) * 1024 * unat d" by (rule mult_right_mono) simp
      with 1(3) have "unat s < (unat n div 1024 + 1) * 1024 * unat d" by (rule less_le_trans)
      then show "unat s < (unat (n div 1024) + 1) * unat (d * 1024)" unfolding n' d' by (simp only: ac_simps)
      show "0 < n div 1024" using n by (simp add: word_less_nat_alt n')
      show "unat (d * 1024) = 1024 ^ (k + 1 + 1)" unfolding d' using 1(5) by simp
    qed (rule 1(6))
    then show ?thesis using True by (subst unit_of.simps) simp
  next
    case False
    then have "unat n + 1 \<le> 1024" by (simp add: word_le_nat_alt)
    then have "(unat n + 1) * unat d \<le> 1024 * unat d" by (rule mult_right_mono) simp
    with 1(3) have "unat s < 1024 * unat d" by (rule less_le_trans)
    then show ?thesis using False ds k by (subst unit_of.simps) simp
  qed
qed

text \<open>
  The size in a message always finds its unit, and the number before the unit is at least 1
  and below 1024.
\<close>

theorem humanbytes_unit:
  "humanbytes s = Some (Plain s) \<and> s < 1024
   \<or> (\<exists>d c. humanbytes s = Some (Scaled s d c) \<and> unat d \<le> unat s \<and> unat s < 1024 * unat d)"
proof (cases "s < 1024")
  case False
  have s: "1024 \<le> unat s" using False by (simp add: word_less_nat_alt)
  have n: "unat (s div 1024) = unat s div 1024" by (simp add: unat_div)
  have lt: "unat s < 1024 ^ 7" using unat_uint64 [of s] by simp
  have "\<exists>d' e. unit_of (s div 1024) 1024 0 = (d', e) \<and> e \<le> 5 \<and> unat d' \<le> unat s \<and> unat s < 1024 * unat d'"
  proof (rule unit_of_scale [where s = s])
    have k: "unat (1024 :: uint64) = 1024" by simp
    show "unat (s div 1024) * unat (1024 :: uint64) \<le> unat s" unfolding n k by (rule div_times_less_eq_dividend)
    show "unat s < (unat (s div 1024) + 1) * unat (1024 :: uint64)" unfolding n k by (rule div_up) simp
    show "0 < s div 1024" using s n by (simp add: word_less_nat_alt)
    show "unat (1024 :: uint64) = 1024 ^ (0 + 1)" by simp
  qed (rule lt)
  then obtain d e where "unit_of (s div 1024) 1024 0 = (d, e)" "e \<le> 5" "unat d \<le> unat s" "unat s < 1024 * unat d" by blast
  with False show ?thesis by (simp add: humanbytes_def)
qed (simp add: humanbytes_def)

subsection \<open>Headers\<close>

lemma validate_headers_None: "validate_headers seen hs = None \<longleftrightarrow>
    (\<forall>(name, val) \<in> set hs. validHeaderName (trim_space name) \<and> \<not> has_newline (trim_space name) \<and> \<not> has_newline val)
    \<and> distinct (map (\<lambda>h. to_lower (trim_space (fst h))) hs) \<and> set (map (\<lambda>h. to_lower (trim_space (fst h))) hs) \<inter> set seen = {}"
proof (induction seen hs rule: validate_headers.induct)
  case (2 seen name val hs)
  show ?case
  proof (cases "trim_space name = '''' \<or> \<not> validHeaderName (trim_space name)
      \<or> has_newline (trim_space name) \<or> has_newline val \<or> to_lower (trim_space name) \<in> set seen")
    case True
    then show ?thesis by (auto simp: Let_def validHeaderName_def)
  next
    case False
    then show ?thesis using 2 [OF refl refl] by (auto simp: Let_def)
  qed
qed simp

lemma valid_name_line: "validHeaderName n \<Longrightarrow> \<not> has_newline n"
  by (auto simp: validHeaderName_def has_newline_def list_all_iff list_ex_iff Let_def)

text \<open>
  \<open>ValidateHeaders\<close> accepts the headers whose names, trimmed, are words of letters, digits,
  underscores and hyphens, different without regard to case, and whose values have no line break.
\<close>

theorem ValidateHeaders_exactly:
  "ValidateHeaders hs = None \<longleftrightarrow> (\<forall>(name, val) \<in> set hs. validHeaderName (trim_space name) \<and> \<not> has_newline val)
     \<and> distinct (map (\<lambda>h. to_lower (trim_space (fst h))) hs)"
  unfolding ValidateHeaders_def validate_headers_None using valid_name_line by auto


lemma char_lower_upper: "lower_char (upper_char c) = lower_char c"
proof (cases "97 \<le> (of_char c :: nat) \<and> (of_char c :: nat) \<le> 122")
  case True
  then have a: "upper_char c = char_of ((of_char c :: nat) - 32)" by (simp add: upper_char_def)
  have "(of_char c - 32 :: nat) < 256" using True by linarith
  then have "(of_char (char_of ((of_char c :: nat) - 32)) :: nat) = of_char c - 32" by simp
  moreover have "65 \<le> (of_char c - 32 :: nat)" "(of_char c - 32 :: nat) \<le> 90" "(of_char c - 32 + 32 :: nat) = of_char c"
    using True by linarith+
  ultimately have "lower_char (upper_char c) = char_of ((of_char c :: nat))" unfolding a lower_char_def by (simp only: simp_thms if_True)
  then show ?thesis using True by (simp add: lower_char_def)
next
  case False
  then show ?thesis unfolding upper_char_def by (simp only: if_False)
qed

lemma char_lower_lower [simp]: "lower_char (lower_char c) = lower_char c"
  by (simp add: lower_char_def)

lemma lower_canonical_go: "to_lower (canonical_go up s) = to_lower s"
  by (induction up s rule: canonical_go.induct) (simp_all add: to_lower_def char_lower_upper)

lemma skip_canonical [simp]: "skipRequestHeader (canonical_key s) = skipRequestHeader s"
  by (simp add: skipRequestHeader_def canonical_key_def lower_canonical_go)

lemma in_aput: "(n, v) \<in> set (aput k x m) \<Longrightarrow> n = k \<and> v = x \<or> (n, v) \<in> set m"
  by (induction m) (auto split: if_splits)

lemma in_head_set: "(n, v) \<in> set (head_set k x h) \<Longrightarrow> n = canonical_key k \<and> v = x \<or> (n, v) \<in> set h"
  unfolding head_set_def by (rule in_aput)

lemma add_headers_safe: "(n, v) \<in> set (foldl add_header h hs) \<Longrightarrow>
    (n, v) \<in> set h \<or> \<not> skipRequestHeader n \<and> \<not> has_newline v"
proof (induction hs arbitrary: h)
  case (Cons a hs)
  then have "(n, v) \<in> set (add_header h a) \<or> \<not> skipRequestHeader n \<and> \<not> has_newline v" by simp
  then show ?case by (auto simp: add_header_def head_set_def Let_def split: prod.splits if_splits dest: in_aput)
qed simp

lemma canonical_names: "canonical_key ''Content-Type'' = ''Content-Type''" "canonical_key ''Authorization'' = ''Authorization''"
  by code_simp+

text \<open>
  The configured headers of a webhook cannot replace the content type, the host or the framing
  of a request, nor carry a line break: besides the content type and the authorization, which
  the program sets itself, a request has only configured headers of other names.
\<close>

theorem request_headers_safe:
  "aget (setRequestHeaders N w) ''Content-Type'' = Some (hk_CType w)
   \<and> (\<forall>(n, v) \<in> set (setRequestHeaders N w). n = ''Content-Type'' \<and> v = hk_CType w
      \<or> n = ''Authorization'' \<and> v = ''Bearer '' @ trim_space (hk_Token w)
      \<or> \<not> skipRequestHeader n \<and> \<not> has_newline v)"
proof -
  let ?h = "head_set ''Content-Type'' (hk_CType w) (foldl add_header [] (hk_Headers w))"
  have r: "setRequestHeaders N w \<in> {?h, head_set ''Authorization'' (''Bearer '' @ trim_space (hk_Token w)) ?h}"
    by (simp add: setRequestHeaders_def Let_def)
  have "aget ?h ''Content-Type'' = Some (hk_CType w)" by (simp add: head_set_def canonical_names)
  then have c: "aget (setRequestHeaders N w) ''Content-Type'' = Some (hk_CType w)"
    using r by (auto simp: head_set_def [of "''Authorization''"] canonical_names)
  have h: "n = ''Content-Type'' \<and> v = hk_CType w \<or> \<not> skipRequestHeader n \<and> \<not> has_newline v" if "(n, v) \<in> set ?h" for n v
    using in_aput [OF that [unfolded head_set_def canonical_names]] add_headers_safe [of n v "[]" "hk_Headers w"] by auto
  have "n = ''Authorization'' \<and> v = ''Bearer '' @ trim_space (hk_Token w) \<or> (n, v) \<in> set ?h"
    if "(n, v) \<in> set (setRequestHeaders N w)" for n v
  proof (cases "setRequestHeaders N w = ?h")
    case True
    then show ?thesis using that by simp
  next
    case False
    then have e: "setRequestHeaders N w = head_set ''Authorization'' (''Bearer '' @ trim_space (hk_Token w)) ?h" using r by simp
    show ?thesis using in_head_set [OF that [unfolded e]] by (simp only: canonical_names)
  qed
  then show ?thesis using c h by fastforce
qed

subsection \<open>Requests\<close>


lemma clone_counts [simp]: "clone_hook (count_post w) = clone_hook w" "clone_hook (count_fail e w) = clone_hook w"
  "clone_hook (ensureClient w) = clone_hook w"
  by (simp_all add: clone_hook_def count_post_def count_fail_def ensureClient_def)

lemma ensured [simp]: "hk_client (ensureClient w) \<noteq> None"
  by (simp add: ensureClient_def)

definition says_gone :: "outcome \<Rightarrow> bool" where
  "says_gone out = (case out of NoReply \<Rightarrow> False | Reply code t \<Rightarrow> code = 404 \<or> telegramMessageGone code t)"

lemma gone_any_code: "telegramMessageGone 0 t \<Longrightarrow> telegramMessageGone code t"
  by (auto simp: telegramMessageGone_def Let_def)

lemma empty_not_gone [simp]: "\<not> telegramMessageGone c ''''"
  by (simp add: telegramMessageGone_def to_lower_def contains_sub_def)

lemma doSend_result:
  assumes "doSend W v url body (w, sent) = ((reply, err), (w', sent'))"
  shows "clone_hook w' = clone_hook w \<and> err \<noteq> Some NilClient
    \<and> (sent' = sent \<and> err \<noteq> None \<and> \<not> messageGone err reply
       \<or> (\<exists>r. sent' = sent @ [r] \<and> rq_verb r = v \<and> rq_url r = url \<and> rq_body r = body
            \<and> (err \<noteq> None \<and> messageGone err reply \<longrightarrow> says_gone (w_do W sent r))))"
proof (cases "url = ''''")
  case True
  then show ?thesis using assms by (auto simp: doSend_def messageGone_def is_gone_def)
next
  case False
  let ?v = "count_post (ensureClient w)"
  obtain reply1 err1 w1 sent1 where s: "sendTo W v url body (?v, sent) = ((reply1, err1), (w1, sent1))" by (metis prod.collapse)
  then have r: "reply = reply1" "err = err1" "w' = count_fail err1 w1" "sent' = sent1"
    using assms False by (auto simp: doSend_def)
  have c: "hk_client ?v \<noteq> None" by (simp add: count_post_def)
  show ?thesis
  proof (cases "url_parse (w_urls W) url")
    case None
    then show ?thesis using s r by (auto simp: sendTo_def messageGone_def is_gone_def)
  next
    case (Some p)
    let ?r = "\<lparr>rq_verb = v, rq_url = url, rq_head = setRequestHeaders (w_urls W) ?v, rq_body = body\<rparr>"
    have "sent1 = sent @ [?r] \<and> w1 = ?v \<and> err1 \<noteq> Some NilClient
        \<and> (err1 \<noteq> None \<and> messageGone err1 reply1 \<longrightarrow> says_gone (w_do W sent ?r))"
      using s c Some by (auto simp: sendTo_def says_gone_def messageGone_def is_gone_def gone_any_code Let_def
          split: outcome.splits option.splits if_splits)
    then show ?thesis unfolding r by auto
  qed
qed

lemma create_discord_result:
  assumes "create_discord W body (w, sent) = ((reply, err), saved, (w', sent'))"
  shows "clone_hook w' = clone_hook w \<and> err \<noteq> Some NilClient \<and> (sent' = sent \<and> saved = None \<or> (\<exists>r. sent' = sent @ [r]))"
proof -
  obtain rep e w1 s1 where d: "doSend W POST (discordWaitURL (w_urls W) (hk_URL w)) body (w, sent) = ((rep, e), (w1, s1))"
    by (metis prod.collapse)
  then show ?thesis using doSend_result [OF d] assms by (auto simp: create_discord_def split: option.splits if_splits)
qed

lemma create_telegram_result:
  assumes "create_telegram W body (w, sent) = ((reply, err), saved, (w', sent'))"
  shows "clone_hook w' = clone_hook w \<and> err \<noteq> Some NilClient \<and> (sent' = sent \<and> saved = None \<or> (\<exists>r. sent' = sent @ [r]))"
proof -
  obtain rep e w1 s1 where d: "doSend W POST (telegramMethodURL (w_urls W) (hk_URL w) ''sendMessage'') body (w, sent)
      = ((rep, e), (w1, s1))"
    by (metis prod.collapse)
  then show ?thesis using doSend_result [OF d] assms by (auto simp: create_telegram_def split: option.splits if_splits)
qed

text \<open>The request that edits the message with an ID, at Discord or at Telegram.\<close>

definition edits :: "web \<Rightarrow> hook \<Rightarrow> string \<Rightarrow> request \<Rightarrow> bool" where
  "edits W w m r = (if pf_Name (Detect (w_urls W) (hk_TempName w) (hk_URL w) (hk_TmplPath w)) = ProfileDiscord
     then rq_verb r = PATCH \<and> rq_url r = discordMessageURL (w_urls W) (hk_URL w) m
     else rq_verb r = POST \<and> rq_url r = telegramMethodURL (w_urls W) (hk_URL w) ''editMessageText''
       \<and> (\<exists>b. telegramEditBody W b m = Inr (rq_body r)))"

text \<open>At most two requests; the second, a new message, only when the first was answered that the message is gone.\<close>

definition edit_first :: "web \<Rightarrow> hook \<Rightarrow> string \<Rightarrow> request list \<Rightarrow> request list \<Rightarrow> bool" where
  "edit_first W w m sent sent' \<longleftrightarrow> sent' = sent \<or> (\<exists>r rest. sent' = sent @ r # rest \<and> edits W w m r
     \<and> (rest = [] \<or> length rest = 1 \<and> says_gone (w_do W sent r)))"

lemma deliver_discord_result:
  assumes "deliverDiscord W body m (w, sent) = ((reply, err), saved, (w', sent'))"
    "pf_Name (Detect (w_urls W) (hk_TempName w) (hk_URL w) (hk_TmplPath w)) = ProfileDiscord"
  shows "clone_hook w' = clone_hook w \<and> err \<noteq> Some NilClient \<and> (m \<noteq> '''' \<longrightarrow> edit_first W w m sent sent' \<and> (sent' = sent \<longrightarrow> err \<noteq> None))"
proof (cases "m = ''''")
  case True
  with assms(1) show ?thesis using create_discord_result by (auto simp: deliverDiscord_def)
next
  case False
  obtain rep e w1 s1 where d: "doSend W PATCH (discordMessageURL (w_urls W) (hk_URL w) m) body (w, sent) = ((rep, e), (w1, s1))"
    by (metis prod.collapse)
  note dr = doSend_result [OF d]
  show ?thesis
  proof (cases "e = None \<or> \<not> messageGone e rep")
    case True
    then show ?thesis using d dr assms False by (auto simp: deliverDiscord_def edit_first_def edits_def)
  next
    case gone: False
    then obtain r where r: "s1 = sent @ [r]" "edits W w m r" "says_gone (w_do W sent r)" using dr assms(2) by (auto simp: edits_def)
    have "create_discord W body (w1, s1) = ((reply, err), saved, (w', sent'))"
      using assms(1) gone False d by (auto simp: deliverDiscord_def)
    note cr = create_discord_result [OF this]
    then show ?thesis using r dr by (auto simp: edit_first_def)
  qed
qed

lemma deliver_telegram_result:
  assumes "deliverTelegram W body m (w, sent) = ((reply, err), saved, (w', sent'))"
    "pf_Name (Detect (w_urls W) (hk_TempName w) (hk_URL w) (hk_TmplPath w)) \<noteq> ProfileDiscord"
  shows "clone_hook w' = clone_hook w \<and> err \<noteq> Some NilClient \<and> (m \<noteq> '''' \<longrightarrow> edit_first W w m sent sent' \<and> (sent' = sent \<longrightarrow> err \<noteq> None))"
proof (cases "m = ''''")
  case True
  with assms(1) show ?thesis using create_telegram_result by (auto simp: deliverTelegram_def)
next
  case False
  show ?thesis
  proof (cases "telegramEditBody W body m")
    case (Inl er)
    then show ?thesis using assms(1) False
      by (auto simp: deliverTelegram_def edit_first_def telegramEditBody_def split: option.splits)
  next
    case (Inr b)
    obtain rep e w1 s1 where d: "doSend W POST (telegramMethodURL (w_urls W) (hk_URL w) ''editMessageText'') b (w, sent)
        = ((rep, e), (w1, s1))"
      by (metis prod.collapse)
    note dr = doSend_result [OF d]
    have ed: "edits W w m r" if "rq_verb r = POST" "rq_url r = telegramMethodURL (w_urls W) (hk_URL w) ''editMessageText''"
      "rq_body r = b" for r
      using that Inr assms(2) by (auto simp: edits_def)
    show ?thesis
    proof (cases "e = None \<or> \<not> messageGone e rep")
      case True
      then show ?thesis using d dr assms(1) False Inr by (auto simp: deliverTelegram_def edit_first_def intro: ed)
    next
      case gone: False
      then obtain r where r: "s1 = sent @ [r]" "edits W w m r" "says_gone (w_do W sent r)" using dr ed by auto
      have "create_telegram W body (w1, s1) = ((reply, err), saved, (w', sent'))"
        using assms(1) gone False d Inr by (auto simp: deliverTelegram_def)
      note cr = create_telegram_result [OF this]
      then show ?thesis using r dr by (auto simp: edit_first_def)
    qed
  qed
qed

subsection \<open>The worker\<close>

definition editable :: "profile \<Rightarrow> bool" where
  "editable p \<longleftrightarrow> (pf_CanUpdate p \<longrightarrow> pf_Name p = ProfileDiscord \<or> pf_Name p = ProfileTelegram)"

lemma editable_if: "editable a \<Longrightarrow> editable b \<Longrightarrow> editable (if c then a else b)"
  by simp

lemma editable_pair [simp]: "editable \<lparr>pf_Name = n, pf_CanUpdate = False\<rparr>"
  "editable \<lparr>pf_Name = ProfileDiscord, pf_CanUpdate = True\<rparr>" "editable \<lparr>pf_Name = ProfileTelegram, pf_CanUpdate = True\<rparr>"
  by (simp_all add: editable_def)

lemma editable_named: "case namedProfile n of None \<Rightarrow> True | Some p \<Rightarrow> editable p"
  by (simp only: namedProfile_def option.case editable_pair split: if_split) simp

lemma editable_detect: "editable (Detect N a b c)"
proof -
  have s: "editable (sniffURL N b)" unfolding sniffURL_def Let_def by (intro editable_if editable_pair)
  show ?thesis
  proof (cases "namedProfile (if to_lower (trim_space a) = ''default'' then ProfileNotifiarr else to_lower (trim_space a))")
    case None
    then show ?thesis using s by (simp add: Detect_def Let_def)
  next
    case (Some p)
    then have "Detect N a b c = p" unfolding Detect_def Let_def by (simp only: option.case)
    then show ?thesis using Some editable_named by (metis option.case(2))
  qed
qed

lemma profile_cases: "pf_CanUpdate (Detect N a b c) \<Longrightarrow>
    pf_Name (Detect N a b c) = ProfileDiscord \<or> pf_Name (Detect N a b c) = ProfileTelegram"
  using editable_detect by (simp only: editable_def simp_thms)

lemma want_profile: "WantUpdate N (Some w) \<Longrightarrow>
    pf_Name (Detect N (hk_TempName w) (hk_URL w) (hk_TmplPath w)) = ProfileDiscord
    \<or> pf_Name (Detect N (hk_TempName w) (hk_URL w) (hk_TmplPath w)) = ProfileTelegram"
  using profile_cases by (auto simp: WantUpdate_def split: if_splits)

lemma send_no_nil:
  assumes "hk_client w \<noteq> None"
  shows "snd (fst (Send W body (w, sent))) \<noteq> Some NilClient"
proof -
  have c: "hk_client (count_post w) \<noteq> None" using assms by (simp add: count_post_def)
  have "snd (fst (send_hook W body (count_post w, sent))) \<noteq> Some NilClient"
    using c by (auto simp: send_hook_def Let_def split: outcome.splits option.splits)
  then show ?thesis by (auto simp: Send_def split: prod.splits)
qed


lemma render_no_nil: "renderWebhook W w p \<noteq> Inl NilClient"
  by (auto simp: renderWebhook_def Template_def Let_def split: sum.splits option.splits if_splits)

text \<open>Delivery with a function to save the ID, of a hook that wants its messages updated.\<close>

lemma deliver_updates:
  assumes "WantUpdate (w_urls W) (Some w)" "deliverWebhook W p m True (w, sent) = (err, saved, (w', sent'))"
  shows "clone_hook w' = clone_hook w \<and> err \<noteq> Some NilClient \<and> (m \<noteq> '''' \<longrightarrow> edit_first W w m sent sent' \<and> (sent' = sent \<longrightarrow> err \<noteq> None))"
proof (cases "renderWebhook W w p")
  case (Inl e)
  then show ?thesis using assms(2) render_no_nil [of W w p] by (auto simp: deliverWebhook_def edit_first_def)
next
  case (Inr body)
  show ?thesis
  proof (cases "pf_Name (Detect (w_urls W) (hk_TempName w) (hk_URL w) (hk_TmplPath w)) = ProfileDiscord")
    case True
    then obtain reply where "deliverDiscord W body m (w, sent) = ((reply, err), saved, (w', sent'))"
      using assms(2) Inr by (auto simp: deliverWebhook_def Let_def split: prod.splits)
    then show ?thesis using True by (rule deliver_discord_result)
  next
    case False
    then obtain reply where "deliverTelegram W body m (w, sent) = ((reply, err), saved, (w', sent'))"
      using assms(2) Inr want_profile [OF assms(1)] by (auto simp: deliverWebhook_def Let_def split: prod.splits)
    then show ?thesis using False by (rule deliver_telegram_result)
  qed
qed

lemma send_clone: "clone_hook (fst (snd (Send W body (w, sent)))) = clone_hook w"
  by (auto simp: Send_def send_hook_def Let_def split: outcome.splits option.splits prod.splits if_splits)

lemma deliver_clone:
  assumes "deliverWebhook W p m False (w, sent) = (err, saved, (w', sent'))"
  shows "clone_hook w' = clone_hook w"
proof (cases "renderWebhook W w p")
  case (Inr body)
  then show ?thesis using assms send_clone [of W body w sent] by (auto simp: deliverWebhook_def Let_def split: prod.splits)
qed (use assms in \<open>auto simp: deliverWebhook_def\<close>)


lemma item_done_msgs [simp]: "d_hookMsgSaves (item_done q err u) = d_hookMsgSaves u"
  "lookupHookMessage (item_done q err u) i k l = lookupHookMessage u i k l"
  by (simp_all add: item_done_def reportHookFail_def lookupHookMessage_def)

lemma lookup_inFlight [simp]: "lookupHookMessage (u\<lparr>d_inFlight := n\<rparr>) i k l = lookupHookMessage u i k l"
  by (simp add: lookupHookMessage_def)



subsection \<open>Validated webhooks\<close>

lemma validate_webhook_client:
  assumes "validate_webhook N t w = (w', None)"
  shows "hk_client w' \<noteq> None"
proof -
  have 1: "(if c then (a, Some e) else r) = (w', None) \<Longrightarrow> r = (w', None)" for c a r and e :: hook_error by (cases c) simp_all
  have 2: "(case x of None \<Rightarrow> (ensureClient y, None) | Some e \<Rightarrow> (a, Some e)) = (w', None) \<Longrightarrow> hk_client w' \<noteq> None"
    for x :: "hook_error option" and y a by (cases x) (auto simp: ensureClient_def)
  show ?thesis by (rule 2 [OF 1 [OF assms [unfolded validate_webhook_def Let_def]]])
qed

lemma validate_list_each: "validate_list f hs = (hs', None) \<Longrightarrow> Some w \<in> set hs' \<Longrightarrow> \<exists>v. f v = (w, None)"
proof (induction f hs arbitrary: hs' rule: validate_list.induct)
  case (3 f v hs)
  obtain w1 e where v: "f v = (w1, e)" by (metis prod.collapse)
  obtain hs1 e1 where l: "validate_list f hs = (hs1, e1)" by (metis prod.collapse)
  have e: "e = None" using 3(2) v l by (cases e) auto
  then have r: "e1 = None" "hs' = Some w1 # hs1" using 3(2) v l by auto
  show ?case
  proof (cases "w = w1")
    case True
    then show ?thesis using v e by auto
  next
    case False
    then have "Some w \<in> set hs1" using 3(3) r by auto
    then show ?thesis using 3(1) v e l r by auto
  qed
qed auto

text \<open>
  C32. A webhook of a list that passed validation has its HTTP client, so that no delivery of it
  fails for want of one, whether or not its messages are updated.
\<close>

theorem validated_webhooks_deliver:
  assumes "validateWebhookList N t hs = Inr ws" "w \<in> set ws" "w_urls W = N"
  shows "fst (deliverHTTP W p q (u, w, sent)) \<noteq> Some NilClient"
proof -
  obtain l where l: "ValidateWebhooks N (map Some (instanceValues hs)) t = (l, None)" "ws = List.map_filter id l"
    using assms(1) by (auto simp: validateWebhookList_def split: option.splits prod.splits)
  then have "Some w \<in> set l" using assms(2) by (auto simp: List.map_filter_def)
  then obtain v where "validate_webhook N t v = (w, None)" using validate_list_each l(1) unfolding ValidateWebhooks_def by metis
  then have c: "hk_client w \<noteq> None" by (rule validate_webhook_client)
  let ?can = "WantUpdate (w_urls W) (Some w) \<and> qh_slug q \<noteq> ''''"
  let ?m = "if ?can then lookupHookMessage u (qh_itemID q) (qh_slug q) (Some (qh_live q)) else ''''"
  obtain err saved w' sent' where d: "deliverWebhook W p ?m ?can (w, sent) = (err, saved, (w', sent'))" by (metis prod.collapse)
  have "err \<noteq> Some NilClient"
  proof (cases ?can)
    case True
    then show ?thesis using deliver_updates [of W w p ?m sent err saved w' sent'] d by simp
  next
    case False
    then have e: "?can = False" by simp
    have d: "deliverWebhook W p '''' False (w, sent) = (err, saved, (w', sent'))" using d unfolding e if_False .
    have ns: "Send W b (w, sent) \<noteq> ((r, Some NilClient), x)" for b r x using send_no_nil [OF c, of W b sent] by auto
    then show ?thesis using d render_no_nil [of W w p]
      by (auto simp: deliverWebhook_def Let_def split: sum.splits prod.splits)
  qed
  then show ?thesis using d by (simp add: deliverHTTP_def Let_def split: prod.splits)
qed

subsection \<open>Examples\<close>

definition demo_urls :: urls where
  "demo_urls = \<lparr>url_parse = (\<lambda>s. if s = '''' then None else Some \<lparr>uri_Hostname = '''', uri_Path = s, uri_RawPath = '''',
       uri_RawQuery = '''', uri_Rest = ''''\<rparr>), url_string = uri_Path, url_query = (\<lambda>_. []), url_encode = (\<lambda>_. ''''),
     url_escape = (\<lambda>s. s)\<rparr>"

definition demo_web :: web where
  "demo_web = \<lparr>w_urls = demo_urls, w_do = (\<lambda>sent r. Reply 200 ''42''), w_read = (\<lambda>_. None), w_execute = (\<lambda>_ _ _. Some ''text''),
     w_discordID = Some, w_telegramID = (\<lambda>_. None), w_edit = (\<lambda>b _. Some b), w_env = (\<lambda>_ _. Some []), w_abs = Some,
     w_path = '''', w_exec = (\<lambda>_ _. (True, '''')), w_windows = False\<rparr>"

definition demo_hook :: hook where
  "demo_hook = \<lparr>hk_Events = [WAITING], hk_Exclude = [], hk_Name = '''', hk_URL = ''/hook'', hk_Command = '''', hk_CType = '''',
     hk_TmplPath = '''', hk_TempName = ''discord'', hk_Timeout = 0, hk_Shell = False, hk_IgnoreSSL = False, hk_Silent = False,
     hk_Nickname = '''', hk_Token = '''', hk_Channel = '''', hk_Update = None, hk_Headers = [(''X-Id'', ''1'')], hk_client = None,
     hk_fails = 0, hk_posts = 0\<rparr>"

definition demo_payload :: hook_payload where
  "demo_payload = \<lparr>p_Path = ''/d'', p_App = ''Sonarr'', p_IDs = [], p_CustomIDs = [], p_Event = 1, p_Time = 0, p_Data = None,
     p_Retries = 0, p_EventTitle = ''''\<rparr>"

definition demo_queued :: queued_hook where
  "demo_queued = \<lparr>qh_itemID = ''a'', qh_slug = ''d'', qh_live = 1, qh_item = zero_extract\<rparr>"



definition demo_hooks :: "hook instances" where
  "demo_hooks = [(''d'', Some demo_hook)]"

theorem validated_webhooks_deliver_witness:
  "fst (deliverHTTP demo_web demo_payload demo_queued (demo_daemon, hd (projr (validateWebhookList demo_urls 5 demo_hooks)), []))
     \<noteq> Some NilClient"
proof (rule validated_webhooks_deliver)
  have "sum.isl (validateWebhookList demo_urls 5 demo_hooks) = False" "projr (validateWebhookList demo_urls 5 demo_hooks) \<noteq> []"
    by code_simp+
  then show "validateWebhookList demo_urls 5 demo_hooks = Inr (projr (validateWebhookList demo_urls 5 demo_hooks))"
    "hd (projr (validateWebhookList demo_urls 5 demo_hooks)) \<in> set (projr (validateWebhookList demo_urls 5 demo_hooks))"
    by (auto simp: sum.collapse)
  show "w_urls demo_web = demo_urls" by (simp add: demo_web_def)
qed

theorem ValidateHeaders_exactly_witness: "ValidateHeaders [(''X-A '', ''1''), (''x-b'', ''2'')] = None"
proof -
  have "list_all (\<lambda>(name, val). validHeaderName (trim_space name) \<and> \<not> has_newline val) [(''X-A '', ''1''), (''x-b'', ''2'')]"
    "distinct (map (\<lambda>h. to_lower (trim_space (fst h))) [(''X-A '', ''1''), (''x-b'', ''2'')])"
    by code_simp+
  then show ?thesis unfolding ValidateHeaders_exactly list_all_iff by blast
qed

theorem request_headers_safe_witness:
  "aget (setRequestHeaders demo_urls demo_hook) ''Content-Type'' = Some '''' \<and> (''X-Id'', ''1'') \<in> set (setRequestHeaders demo_urls demo_hook)
   \<and> \<not> skipRequestHeader ''X-Id''"
proof -
  have m: "(''X-Id'', ''1'') \<in> set (setRequestHeaders demo_urls demo_hook)" by code_simp
  have "''X-Id'' \<noteq> ''Content-Type''" "''X-Id'' \<noteq> ''Authorization''" "hk_CType demo_hook = ''''" by code_simp+
  with m request_headers_safe [of demo_urls demo_hook] show ?thesis by fastforce
qed

end
