(* ===== verification/Config.thy ===== *)
theory Config
  imports Restore Hooks Auth
begin

text \<open>
  The settings: \<open>Config\<close> of \<open>apps.go\<close> with its copies (\<open>configclone.go\<close>), the limits of
  \<open>cnfgfile.go\<close>, the checks of a Starr instance, the decoding of an instance list
  (\<open>instancemap.go\<close>), and what a GET shows of them (\<open>configapi.go\<close>). The codecs, the overlay of the
  environment by \<open>cnfg\<close>, \<open>cnfgfile\<close>, the file system and the operating system are the fields of
  \<open>config_env\<close>.
\<close>

subsection \<open>Data\<close>

record general =
  g_Debug :: bool
  g_Quiet :: bool
  g_Activity :: bool
  g_Parallel :: uint64
  g_ErrorStdErr :: bool
  g_LogFile :: string
  g_LogFiles :: int
  g_LogFileMb :: int
  g_LogFileMode :: string
  g_MaxRetries :: uint64
  g_RemnantAction :: string
  g_FileMode :: string
  g_DirMode :: string
  g_LogQueues :: duration
  g_Interval :: duration
  g_Timeout :: duration
  g_DeleteDelay :: duration
  g_StartDelay :: duration
  g_RetryDelay :: duration
  g_Progress :: duration
  g_KeepHistory :: uint64
  g_Passwords :: "string list"

text \<open>The settings of the web server that \<open>Auth\<close> does not read extend its record.\<close>

record web_conf = web_server +
  w_API :: bool
  w_UI :: bool
  w_Metrics :: bool
  w_Pprof :: bool
  w_LogFiles :: int
  w_LogFileMb :: int
  w_ListenAddr :: string
  w_LogFile :: string
  w_Upstreams :: "string list"
  w_WSOrigins :: "string list"

text \<open>\<open>sr_Client\<close> is the HTTP client, \<open>sr_connected\<close> that the API client was made.\<close>

record starr_conf = starr +
  sr_Path :: string
  sr_ValidSSL :: bool
  sr_Timeout :: duration
  sr_MaxBytes :: string
  sr_Password :: string
  sr_HTTPPass :: string
  sr_Client :: "(duration \<times> bool) option"
  sr_connected :: bool

record config = general +
  cf_StateFile :: string
  cf_WebURL :: string
  cf_Webserver :: "web_conf option"
  cf_Lidarr :: "starr_conf instances"
  cf_Radarr :: "starr_conf instances"
  cf_Readarr :: "starr_conf instances"
  cf_Sonarr :: "starr_conf instances"
  cf_Folders :: "folder_config instances"
  cf_Webhook :: "hook instances"
  cf_Cmdhook :: "hook instances"
  cf_Hooks :: hooks_config
  cf_Interval :: duration
  cf_Buffer :: uint64

datatype config_error =
    InvalidJSON | EmptySection | NilConfigEntry | InstanceJSON | InstanceSlug string | UnknownSection
  | RemnantActionError | EnvError | ExpandError | PassFileError | NoConfigFile | PersistError | NoFileSnapshot
  | StarrURL | StarrKey | StarrName | StarrMaxBytes | APEFormatError | APECompressionError
  | URLBaseBraces | EmptySecretFile | PlaintextUIPassword | ReservedUIUser | CurrentUIPassword
  | AuthError auth_error | PassError pass_error | FolderError list_error | HookError hook_error

text \<open>JSON up to the values of other types.\<close>

datatype json = JNull | JObj "(string \<times> json) list" | JArr "json list" | JValue string

record folders_api =
  fa_Interval :: "duration option"
  fa_Buffer :: uint64
  fa_Folder :: "folder_config instances"

record config_env =
  ce_general :: "json \<Rightarrow> general option"
  ce_web :: "json \<Rightarrow> (web_conf \<times> string) option"
  ce_starr :: "json \<Rightarrow> starr_conf option"
  ce_folders :: "json \<Rightarrow> folders_api option"
  ce_hook :: "json \<Rightarrow> hook option"
  ce_hooks :: "json \<Rightarrow> hooks_config option"
  ce_EnvPrefix :: string
  ce_Environ :: "(string \<times> string) list"
  ce_envUsed :: "(string \<times> string) list"
  ce_parseENV :: "config \<Rightarrow> config option"
  ce_expandWeb :: "web_conf \<Rightarrow> web_conf option"
  ce_expandStarr :: "starr_conf instances \<Rightarrow> starr_conf instances option"
  ce_expandFolders :: "folder_config instances \<Rightarrow> folder_config instances option"
  ce_expandHooks :: "hook instances \<Rightarrow> hook instances option"
  ce_homedir :: "string \<Rightarrow> string option"
  ce_ReadFile :: "string \<Rightarrow> string option"
  ce_schema :: bool
  ce_write :: "config \<Rightarrow> bool"
  ce_toBytes :: "string \<Rightarrow> uint64 option"
  ce_allPrint :: "string \<Rightarrow> bool"
  ce_ips :: "string list \<Rightarrow> (string \<Rightarrow> bool) list"
  ce_hash :: "string \<Rightarrow> string option"
  ce_cmp :: "string \<Rightarrow> string \<Rightarrow> bool"
  ce_kdf :: "string \<Rightarrow> string \<Rightarrow> string"
  ce_urls :: urls
  ce_windows :: bool
  ce_gui :: bool

subsection \<open>configclone.go\<close>

text \<open>The zero value of \<open>WebServer\<close>, which the copy of a nil pointer is.\<close>

definition zero_web :: web_conf where
  "zero_web = \<lparr>w_URLBase = '''', w_UIPassword = '''', w_UIRoleHeader = '''', w_APIKeys = [], w_Roles = [],
     w_keyPerms = None, w_allow = [], w_cookies = None, w_SSLCrtFile = '''', w_SSLKeyFile = '''', w_API = False,
     w_UI = False, w_Metrics = False, w_Pprof = False, w_LogFiles = 0, w_LogFileMb = 0, w_ListenAddr = '''',
     w_LogFile = '''', w_Upstreams = [], w_WSOrigins = []\<rparr>"

definition cloneWebserver :: "web_conf option \<Rightarrow> web_conf" where
  "cloneWebserver src = (case src of None \<Rightarrow> zero_web | Some w \<Rightarrow> w\<lparr>w_keyPerms := None, w_cookies := None\<rparr>)"

definition clone_map :: "('a \<Rightarrow> 'a) \<Rightarrow> 'a instances \<Rightarrow> 'a instances" where
  "clone_map f src = List.map_filter (\<lambda>(key, item). case item of None \<Rightarrow> None | Some x \<Rightarrow> Some (key, Some (f x))) src"

definition stripRuntime :: "starr_conf \<Rightarrow> starr_conf" where
  "stripRuntime s = s\<lparr>sr_Queue := None, sr_connected := False\<rparr>"

definition cloneStarrMap :: "starr_conf instances \<Rightarrow> starr_conf instances" where
  "cloneStarrMap src = clone_map stripRuntime src"

definition cloneFolderMap :: "folder_config instances \<Rightarrow> folder_config instances" where
  "cloneFolderMap src = clone_map (\<lambda>f. f) src"

definition cloneHookMap :: "hook instances \<Rightarrow> hook instances" where
  "cloneHookMap src = clone_map clone_hook src"

definition cloneConfig :: "config \<Rightarrow> config" where
  "cloneConfig src = src\<lparr>cf_Webserver := Some (cloneWebserver (cf_Webserver src)),
     cf_Lidarr := cloneStarrMap (cf_Lidarr src), cf_Radarr := cloneStarrMap (cf_Radarr src),
     cf_Readarr := cloneStarrMap (cf_Readarr src), cf_Sonarr := cloneStarrMap (cf_Sonarr src),
     cf_Folders := cloneFolderMap (cf_Folders src), cf_Webhook := cloneHookMap (cf_Webhook src),
     cf_Cmdhook := cloneHookMap (cf_Cmdhook src)\<rparr>"

text \<open>\<open>takeQueue\<close> with \<open>takePoll\<close>: the last poll of an old entry.\<close>

definition takeQueue :: "starr_conf \<Rightarrow> 'a starr_scheme \<Rightarrow> starr_conf" where
  "takeQueue s old = s\<lparr>sr_Queue := sr_Queue old, sr_lastQueued := sr_lastQueued old,
     sr_lastRetrieved := sr_lastRetrieved old, sr_lastPolled := sr_lastPolled old,
     sr_lastPollErr := sr_lastPollErr old, sr_polled := sr_polled old\<rparr>"

subsection \<open>instancemap.go\<close>

definition unmarshalStrict :: "(json \<Rightarrow> 'a option) \<Rightarrow> json \<Rightarrow> config_error + 'a" where
  "unmarshalStrict dec raw = (case dec raw of None \<Rightarrow> Inl InvalidJSON | Some x \<Rightarrow> Inr x)"

definition unmarshalObject :: "(json \<Rightarrow> 'a option) \<Rightarrow> json \<Rightarrow> string list \<Rightarrow> config_error + 'a" where
  "unmarshalObject dec raw ignore = (case raw of
     JObj kvs \<Rightarrow> if filter (\<lambda>(k, _). k \<notin> set ignore) kvs = [] then Inl EmptySection else unmarshalStrict dec raw
   | JNull \<Rightarrow> Inl EmptySection
   | _ \<Rightarrow> Inl InvalidJSON)"

text \<open>\<open>null\<close> entries of an array decode to nil pointers, which \<open>unmarshalList\<close> refuses.\<close>

fun unmarshalList :: "(json \<Rightarrow> 'a option) \<Rightarrow> json list \<Rightarrow> config_error + 'a list" where
  "unmarshalList dec vs = (case List.map_filter (\<lambda>v. if v \<noteq> JNull \<and> dec v = None then Some InvalidJSON else None) vs of
     e # _ \<Rightarrow> Inl e
   | [] \<Rightarrow> if JNull \<in> set vs then Inl NilConfigEntry else Inr (List.map_filter dec vs))"

fun unmarshal_entries :: "(json \<Rightarrow> 'a option) \<Rightarrow> (string \<times> json) list \<Rightarrow> config_error + 'a instances" where
  "unmarshal_entries dec [] = Inr []"
| "unmarshal_entries dec ((key, val) # kvs) = (
     if \<not> validateInstanceSlug key then Inl (InstanceSlug key)
     else if val = JNull then Inl NilConfigEntry
     else case unmarshalStrict dec val of Inl e \<Rightarrow> Inl e
     | Inr item \<Rightarrow> (case unmarshal_entries dec kvs of Inl e \<Rightarrow> Inl e | Inr m \<Rightarrow> Inr ((key, Some item) # m)))"

definition unmarshalInstances :: "(json \<Rightarrow> 'a option) \<Rightarrow> json \<Rightarrow> config_error + 'a instances" where
  "unmarshalInstances dec raw = (case raw of
     JNull \<Rightarrow> Inr []
   | JArr vs \<Rightarrow> (case unmarshalList dec vs of Inl e \<Rightarrow> Inl e
       | Inr xs \<Rightarrow> Inr (map (\<lambda>(i, x). (itoa i, Some x)) (enumerate 0 xs)))
   | JObj kvs \<Rightarrow> unmarshal_entries dec kvs
   | JValue _ \<Rightarrow> Inl InstanceJSON)"

subsection \<open>cnfgfile.go: limits\<close>

abbreviation (input) minimumInterval :: duration where "minimumInterval \<equiv> 15 * nsecond"
abbreviation (input) minimumDeleteDelay :: duration where "minimumDeleteDelay \<equiv> nsecond"
abbreviation (input) defaultProgressInterval :: duration where "defaultProgressInterval \<equiv> 15 * nsecond"
abbreviation (input) minimumProgressInterval :: duration where "minimumProgressInterval \<equiv> nsecond"

text \<open>\<open>strconv.ParseUint(s, 8, 32)\<close> and \<open>strconv.FormatUint(n, 8)\<close>.\<close>

definition is_octal :: "char \<Rightarrow> bool" where
  "is_octal c = (48 \<le> (of_char c :: nat) \<and> (of_char c :: nat) \<le> 55)"

definition octal_value :: "string \<Rightarrow> nat" where
  "octal_value s = foldl (\<lambda>n c. 8 * n + (of_char c - 48)) 0 s"

fun format_octal :: "nat \<Rightarrow> string" where
  "format_octal n = (if n < 8 then [digit_char n] else format_octal (n div 8) @ [digit_char (n mod 8)])"

declare format_octal.simps [simp del]

definition parseUnixMode :: "string \<Rightarrow> nat \<Rightarrow> nat" where
  "parseUnixMode raw fallback = (let raw = trim_space raw in
     if raw = '''' then fallback
     else if list_all is_octal raw \<and> int (octal_value raw) < 2 ^ 32 then octal_value raw else fallback)"

definition clampUnixMode :: "string \<Rightarrow> nat \<Rightarrow> string" where
  "clampUnixMode raw fallback = format_octal (parseUnixMode raw fallback)"

definition sameUnixMode :: "string \<Rightarrow> string \<Rightarrow> nat \<Rightarrow> bool" where
  "sameUnixMode cur next fallback = (parseUnixMode cur fallback = parseUnixMode next fallback)"

text \<open>The modes 0644, 0600 and 0755.\<close>

abbreviation (input) defaultFileMode :: nat where "defaultFileMode \<equiv> 420"
abbreviation (input) defaultLogFileMode :: nat where "defaultLogFileMode \<equiv> 384"
abbreviation (input) defaultDirMode :: nat where "defaultDirMode \<equiv> 493"

text \<open>Each statement of \<open>clampConfig\<close> reads and sets one field.\<close>

definition clampConfig :: "config_env \<Rightarrow> config \<Rightarrow> config" where
  "clampConfig C cfg = cfg\<lparr>
     g_DeleteDelay := (if g_DeleteDelay cfg > 0 \<and> g_DeleteDelay cfg < minimumDeleteDelay then minimumDeleteDelay
       else g_DeleteDelay cfg),
     g_LogFileMode := clampUnixMode (g_LogFileMode cfg) defaultLogFileMode,
     g_FileMode := format_octal (parseUnixMode (g_FileMode cfg) defaultFileMode),
     g_DirMode := format_octal (parseUnixMode (g_DirMode cfg) defaultDirMode),
     g_Parallel := (if g_Parallel cfg = 0 then 1 else g_Parallel cfg),
     g_LogFileMb := (if g_LogFileMb cfg = 0 then 10 else g_LogFileMb cfg),
     g_Progress := (if g_Progress cfg = 0 then defaultProgressInterval
       else if g_Progress cfg < minimumProgressInterval then minimumProgressInterval else g_Progress cfg),
     cf_Buffer := (if cf_Buffer cfg = 0 then 20000 else if cf_Buffer cfg < 1000 then 1000 else cf_Buffer cfg),
     g_Interval := (if g_Interval cfg < minimumInterval then minimumInterval else g_Interval cfg),
     g_StartDelay := (if g_StartDelay cfg < minimumInterval then minimumInterval else g_StartDelay cfg),
     g_LogQueues := (if g_LogQueues cfg < minimumInterval then minimumInterval else g_LogQueues cfg),
     g_ErrorStdErr := (if g_ErrorStdErr cfg \<and> ce_windows C then False else g_ErrorStdErr cfg),
     g_LogFile := (if ce_gui C \<and> g_LogFile cfg = [] then path_join [''~'', ''.unpackerr'', ''unpackerr.log'']
       else g_LogFile cfg)\<rparr>"

fun expandPasswords :: "(string \<Rightarrow> string option) \<Rightarrow> string list \<Rightarrow> config_error + string list" where
  "expandPasswords readf [] = Inr []"
| "expandPasswords readf (pass # ps) = (
     if \<not> has_prefix pass filePrefix then
       (case expandPasswords readf ps of Inl e \<Rightarrow> Inl e | Inr out \<Rightarrow> Inr (pass # out))
     else case readf (trim_prefix pass filePrefix) of None \<Rightarrow> Inl PassFileError
     | Some fileContent \<Rightarrow> let fps = split_lines fileContent;
           fps = (if fps \<noteq> [] \<and> last fps = '''' then butlast fps else fps)
         in (case expandPasswords readf ps of Inl e \<Rightarrow> Inl e | Inr out \<Rightarrow> Inr (fps @ out)))"

subsection \<open>cnfgfile.go: the environment\<close>

definition digitsOnly :: "string \<Rightarrow> bool" where
  "digitsOnly s = list_all is_digit s"

definition indexedPathEnv :: "config_env \<Rightarrow> string \<Rightarrow> string \<Rightarrow> bool" where
  "indexedPathEnv C app slug = (let head = ce_EnvPrefix C @ ''_'' @ app @ ''_'' @ slug @ ''_PATHS_'' in
     list_ex (\<lambda>(name, _). has_prefix name head \<and> trim_prefix name head \<noteq> '''' \<and> digitsOnly (trim_prefix name head))
       (ce_Environ C))"

definition splitCommaList :: "string \<Rightarrow> string list" where
  "splitCommaList envval = map trim_space (split_comma (trim_env envval))"

definition getenv :: "config_env \<Rightarrow> string \<Rightarrow> string" where
  "getenv C name = (case aget (ce_Environ C) name of None \<Rightarrow> '''' | Some v \<Rightarrow> v)"

definition applyBarePathMap :: "config_env \<Rightarrow> string \<Rightarrow> starr_conf instances \<Rightarrow> starr_conf instances" where
  "applyBarePathMap C app list = map (\<lambda>(slug, item). (slug, case item of None \<Rightarrow> None
     | Some s \<Rightarrow> if slug = '''' \<or> indexedPathEnv C app slug then Some s
         else let bare = getenv C (ce_EnvPrefix C @ ''_'' @ app @ ''_'' @ slug @ ''_PATHS'') in
           if bare = '''' then Some s else Some (s\<lparr>sr_Paths := splitCommaList bare\<rparr>))) list"

definition recordBareStarrPaths :: "config_env \<Rightarrow> config \<Rightarrow> config" where
  "recordBareStarrPaths C cfg = (if ce_EnvPrefix C = '''' then cfg else cfg\<lparr>
     cf_Sonarr := applyBarePathMap C ''SONARR'' (cf_Sonarr cfg), cf_Radarr := applyBarePathMap C ''RADARR'' (cf_Radarr cfg),
     cf_Lidarr := applyBarePathMap C ''LIDARR'' (cf_Lidarr cfg), cf_Readarr := applyBarePathMap C ''READARR'' (cf_Readarr cfg)\<rparr>)"

text \<open>\<open>strings.Cut\<close> at a string.\<close>

definition cut_at :: "string \<Rightarrow> string \<Rightarrow> (string \<times> string) option" where
  "cut_at s p = (case index_of s p of None \<Rightarrow> None | Some i \<Rightarrow> Some (take i s, drop (i + length p) s))"

definition envSuffixes :: "(string \<times> string) list \<Rightarrow> string \<Rightarrow> (string \<times> string) list" where
  "envSuffixes used pfx = foldl (\<lambda>out (key, val). aput (if pfx \<noteq> '''' \<and> has_prefix key (pfx @ ''_'')
     then trim_prefix key (pfx @ ''_'') else key) val out) [] used"

definition envAlwaysRedact :: "string \<Rightarrow> bool" where
  "envAlwaysRedact name = equal_fold name ''WEBSERVER_UI_PASSWORD''"

definition envValueSecret :: "string \<Rightarrow> bool" where
  "envValueSecret name = (let name = to_upper name in
     if contains_sub name ''PASSWORD'' \<or> contains_sub name ''_PASS'' \<or> name = ''API_KEY'' \<or> has_suffix name ''_API_KEY''
        \<or> has_suffix name ''_TOKEN'' then True
     else if (case cut_at name ''API_KEYS_'' of None \<Rightarrow> False
        | Some (_, afterKeys) \<Rightarrow> (case cut_at afterKeys ''_'' of None \<Rightarrow> False | Some (_, after) \<Rightarrow> after = ''KEY''))
       then True
     else case cut_at name ''_HEADERS_'' of None \<Rightarrow> False | Some (_, header) \<Rightarrow> SecretHeaderName header)"

subsection \<open>A Starr instance\<close>

definition checkStarrName :: "config_env \<Rightarrow> string \<Rightarrow> bool" where
  "checkStarrName C name = (ce_allPrint C name
     \<and> \<not> list_ex (\<lambda>c. c \<in> set [CHR 0x22, CHR 0x27, CHR 0x60, CHR 0x5C, CHR ''{'', CHR ''}'', CHR ''<'', CHR ''>'']) name)"

definition dropBlankPaths :: "string list \<Rightarrow> string list" where
  "dropBlankPaths paths = filter (\<lambda>p. p \<noteq> '''') paths"

definition defaultAppMaxBytes :: "string \<Rightarrow> string" where
  "defaultAppMaxBytes app = (if app = Sonarr then ''20GB'' else if app = Radarr then ''75GB''
     else if app = Lidarr then ''4GB'' else if app = Readarr then ''1GB'' else ''20GB'')"

definition applyMaxBytes :: "config_env \<Rightarrow> string \<Rightarrow> starr_conf \<Rightarrow> starr_conf option" where
  "applyMaxBytes C app s = (let sz = trim_space (sr_MaxBytes s); sz = (if sz = '''' then defaultAppMaxBytes app else sz) in
     map_option (\<lambda>n. s\<lparr>sr_maxBytes := n\<rparr>) (parseExtractMaxBytes (ce_toBytes C) sz))"

definition requireStarrAccess :: "starr_conf \<Rightarrow> config_error option" where
  "requireStarrAccess s = (if sr_URL s = '''' then Some StarrURL
     else if sr_APIKey s = '''' then Some StarrKey
     else if \<not> has_prefix (sr_URL s) ''http://'' \<and> \<not> has_prefix (sr_URL s) ''https://'' then Some StarrURL
     else if length (sr_APIKey s) < 32 then Some StarrKey else None)"

text \<open>\<open>validateApp\<close> with the timeout and the delete delay of the running settings.\<close>

definition validateApp :: "config_env \<Rightarrow> duration \<Rightarrow> duration \<Rightarrow> string \<Rightarrow> starr_conf \<Rightarrow> config_error + starr_conf" where
  "validateApp C timeout delay app s = (let s = s\<lparr>sr_Name := trim_space (sr_Name s)\<rparr> in
     if \<not> checkStarrName C (sr_Name s) then Inl StarrName
     else case requireStarrAccess s of Some e \<Rightarrow> Inl e
     | None \<Rightarrow> let s = (if sr_Timeout s = 0 then s\<lparr>sr_Timeout := timeout\<rparr> else s);
           s = (if sr_DeleteDelay s = 0 then s\<lparr>sr_DeleteDelay := delay\<rparr> else s);
           s = (if sr_Path s \<noteq> '''' \<and> sr_Path s \<notin> set (sr_Paths s) then s\<lparr>sr_Paths := sr_Paths s @ [sr_Path s]\<rparr> else s);
           s = s\<lparr>sr_Paths := dropBlankPaths (map (\<lambda>p. trim_space (expandHomedir (ce_homedir C) p)) (sr_Paths s))\<rparr>;
           s = (if sr_Paths s = [] then s\<lparr>sr_Paths := [''/downloads'']\<rparr> else s);
           s = (if sr_Protocols s = '''' then s\<lparr>sr_Protocols := ''torrent,TorrentDownloadProtocol''\<rparr> else s)
         in case applyMaxBytes C app s of None \<Rightarrow> Inl StarrMaxBytes
            | Some s \<Rightarrow> Inr (s\<lparr>sr_Client := Some (sr_Timeout s, \<not> sr_ValidSSL s)\<rparr>))"

definition skipInvalidApp :: "config_error \<Rightarrow> bool" where
  "skipInvalidApp e = (e = StarrURL \<or> e = StarrKey)"

text \<open>\<open>validateStarrSettings\<close>: only Lidarr has settings of its own.\<close>

definition validateStarrSettings :: "string \<Rightarrow> starr_conf \<Rightarrow> config_error + starr_conf" where
  "validateStarrSettings app s = (if app \<noteq> Lidarr then Inr s
     else let format = to_lower (trim_space (sr_APEFormat s)) in
       if format \<notin> set ['''', ''ape'', ''wav'', ''flac''] then Inl APEFormatError
       else let s = s\<lparr>sr_APEFormat := format\<rparr> in
         if sr_APECompression s = 0 then Inr (s\<lparr>sr_APECompression := 2000\<rparr>)
         else if sr_APECompression s \<in> set [1000, 2000, 3000, 4000, 5000] then Inr s
         else Inl APECompressionError)"

text \<open>\<open>validateStarrList\<close>, at the start: an entry that cannot be used is dropped.\<close>

fun validateStarrList :: "config_env \<Rightarrow> duration \<Rightarrow> duration \<Rightarrow> string \<Rightarrow> starr_conf instances
    \<Rightarrow> config_error + starr_conf instances" where
  "validateStarrList C timeout delay app [] = Inr []"
| "validateStarrList C timeout delay app ((key, item) # kvs) = (
     if \<not> validateInstanceSlug key then Inl (InstanceSlug key)
     else case item of None \<Rightarrow> validateStarrList C timeout delay app kvs
     | Some s \<Rightarrow> (case validateApp C timeout delay app s of
         Inl e \<Rightarrow> if skipInvalidApp e then validateStarrList C timeout delay app kvs else Inl e
       | Inr s \<Rightarrow> (case validateStarrSettings app s of Inl e \<Rightarrow> Inl e
         | Inr s \<Rightarrow> (case validateStarrList C timeout delay app kvs of Inl e \<Rightarrow> Inl e
           | Inr m \<Rightarrow> Inr ((key, Some (s\<lparr>sr_connected := True\<rparr>)) # m)))))"

end
