(* ===== verification/ConfigPut.thy ===== *)
theory ConfigPut
  imports Config
begin

text \<open>
  The settings API: \<open>configput.go\<close>, \<open>configapi.go\<close>, the writing of the file (\<open>cnfgfile.go\<close>) and the
  web UI password at the start and in the file (\<open>password.go\<close>). A PUT stages its change on a copy of
  the file settings, writes the file and then changes the running settings. The operations return
  what the code returns and the state after it, also when they fail.
\<close>

subsection \<open>The state\<close>

text \<open>
  The daemon with its settings: \<open>s_file\<close> is \<open>fileConfig\<close>, \<open>s_live\<close> the running \<open>Config\<close>, \<open>s_disk\<close> the
  settings the file was last written from. The fields of the daemon that the other theories read
  follow the running settings: \<open>publish\<close> copies the general ones, and the PUT of a list its list.
\<close>

record server = daemon +
  s_file :: "config option"
  s_live :: config
  s_livePasswords :: "string list option"
  s_disk :: "config option"
  s_workThreads :: int
  s_hookWorker :: bool
  s_tickers :: "(duration \<times> duration \<times> duration \<times> duration) option"
  s_pendingRestart :: bool
  s_writeErr :: bool

definition publish :: "server \<Rightarrow> server" where
  "publish u = u\<lparr>d_KeepHistory := g_KeepHistory (s_live u), d_StartDelay := g_StartDelay (s_live u),
     d_RetryDelay := g_RetryDelay (s_live u), d_DeleteDelay := g_DeleteDelay (s_live u),
     d_MaxRetries := g_MaxRetries (s_live u), d_RemnantAction := g_RemnantAction (s_live u)\<rparr>"

subsection \<open>Writing the file\<close>

definition writeConfigFrom :: "config_env \<Rightarrow> config option \<Rightarrow> server \<Rightarrow> config_error option \<times> server" where
  "writeConfigFrom C cfg u = (if trim_space (d_ConfigFile u) = '''' then (Some NoConfigFile, u)
     else if \<not> ce_schema C then (Some PersistError, u)
     else case cfg of None \<Rightarrow> (Some NoFileSnapshot, u)
     | Some c \<Rightarrow> if ce_write C c then (None, u\<lparr>s_disk := Some c\<rparr>) else (Some PersistError, u))"

definition writeConfigFile :: "config_env \<Rightarrow> server \<Rightarrow> config_error option \<times> server" where
  "writeConfigFile C u = writeConfigFrom C (s_file u) u"

definition persistConfigFile :: "config_env \<Rightarrow> server \<Rightarrow> server" where
  "persistConfigFile C u = (case writeConfigFile C u of (None, u) \<Rightarrow> u\<lparr>s_writeErr := False\<rparr>
     | (Some e, u) \<Rightarrow> if e = NoConfigFile then u else u\<lparr>s_writeErr := True\<rparr>)"

definition commitConfig :: "config_env \<Rightarrow> (config \<Rightarrow> config) \<Rightarrow> (server \<Rightarrow> server) \<Rightarrow> server
    \<Rightarrow> config_error option \<times> server" where
  "commitConfig C mutateFile applyLive u = (case s_file u of None \<Rightarrow> (None, applyLive u)
     | Some f \<Rightarrow> let staged = mutateFile (cloneConfig f) in
       case writeConfigFrom C (Some staged) u of (err, u) \<Rightarrow>
         if err \<noteq> None \<and> err \<noteq> Some NoConfigFile then (err, u)
         else (None, applyLive (u\<lparr>s_file := Some staged\<rparr>)))"

subsection \<open>The overlay of the environment\<close>

definition zero_config :: config where
  "zero_config = \<lparr>g_Debug = False, g_Quiet = False, g_Activity = False, g_Parallel = 0, g_ErrorStdErr = False,
     g_LogFile = '''', g_LogFiles = 0, g_LogFileMb = 0, g_LogFileMode = '''', g_MaxRetries = 0, g_RemnantAction = '''',
     g_FileMode = '''', g_DirMode = '''', g_LogQueues = 0, g_Interval = 0, g_Timeout = 0, g_DeleteDelay = 0,
     g_StartDelay = 0, g_RetryDelay = 0, g_Progress = 0, g_KeepHistory = 0, g_Passwords = [], cf_StateFile = '''',
     cf_WebURL = '''', cf_Webserver = None, cf_Lidarr = [], cf_Radarr = [], cf_Readarr = [], cf_Sonarr = [],
     cf_Folders = [], cf_Webhook = [], cf_Cmdhook = [], cf_Hooks = \<lparr>hc_CustomIDs = [], hc_Titles = \<lparr>ht_Waiting = '''',
       ht_Queued = '''', ht_Extracting = '''', ht_ExtractFailed = '''', ht_Extracted = '''', ht_Imported = '''',
       ht_Deleting = '''', ht_DeleteFailed = '''', ht_Deleted = '''', ht_ExtractedNothing = ''''\<rparr>\<rparr>,
     cf_Interval = 0, cf_Buffer = 0\<rparr>"

definition cloneFileConfig :: "server \<Rightarrow> config" where
  "cloneFileConfig u = (case s_file u of None \<Rightarrow> zero_config | Some f \<Rightarrow> cloneConfig f)"

definition overlayEnv :: "config_env \<Rightarrow> config \<Rightarrow> config_error + config" where
  "overlayEnv C cfg = (if ce_envUsed C = [] then Inr cfg
     else case ce_parseENV C cfg of None \<Rightarrow> Inl EnvError | Some cfg \<Rightarrow> Inr (recordBareStarrPaths C cfg))"

definition applyEnvOverlay :: "config_env \<Rightarrow> (config \<Rightarrow> config) \<Rightarrow> server \<Rightarrow> config_error + config" where
  "applyEnvOverlay C mutate u = overlayEnv C (mutate (cloneFileConfig u))"

text \<open>The result of an operation: whether a restart is needed, or the error; and the state.\<close>

type_synonym put = "(config_error + bool) \<times> server"

definition refuse :: "config_error \<Rightarrow> server \<Rightarrow> put" where
  "refuse e u = (Inl e, u)"

definition commit :: "config_env \<Rightarrow> bool \<Rightarrow> (config \<Rightarrow> config) \<Rightarrow> (server \<Rightarrow> server) \<Rightarrow> server \<Rightarrow> put" where
  "commit C restart mutateFile applyLive u = (case commitConfig C mutateFile applyLive u of
     (None, u) \<Rightarrow> (Inr restart, u) | (Some e, u) \<Rightarrow> (Inl e, u))"

subsection \<open>The general section\<close>

definition applyGeneral :: "config \<Rightarrow> 'a general_scheme \<Rightarrow> config" where
  "applyGeneral dst next = dst\<lparr>g_Debug := g_Debug next, g_Quiet := g_Quiet next, g_Activity := g_Activity next,
     g_Parallel := g_Parallel next, g_ErrorStdErr := g_ErrorStdErr next, g_LogFile := g_LogFile next,
     g_LogFiles := g_LogFiles next, g_LogFileMb := g_LogFileMb next, g_LogFileMode := g_LogFileMode next,
     g_MaxRetries := g_MaxRetries next, g_RemnantAction := g_RemnantAction next, g_FileMode := g_FileMode next,
     g_DirMode := g_DirMode next, g_LogQueues := g_LogQueues next, g_Interval := g_Interval next,
     g_Timeout := g_Timeout next, g_DeleteDelay := g_DeleteDelay next, g_StartDelay := g_StartDelay next,
     g_RetryDelay := g_RetryDelay next, g_Progress := g_Progress next, g_KeepHistory := g_KeepHistory next,
     g_Passwords := g_Passwords next\<rparr>"

definition generalConfigFrom :: "config \<Rightarrow> general" where
  "generalConfigFrom cfg = general.truncate cfg"

definition generalRestartRequired :: "config \<Rightarrow> config \<Rightarrow> bool" where
  "generalRestartRequired cur next \<longleftrightarrow> g_Debug next \<noteq> g_Debug cur \<or> g_Quiet next \<noteq> g_Quiet cur
     \<or> g_Parallel next \<noteq> g_Parallel cur \<or> g_LogFile next \<noteq> g_LogFile cur \<or> g_LogFiles next \<noteq> g_LogFiles cur
     \<or> g_LogFileMb next \<noteq> g_LogFileMb cur \<or> \<not> sameUnixMode (g_LogFileMode cur) (g_LogFileMode next) defaultLogFileMode
     \<or> g_ErrorStdErr next \<noteq> g_ErrorStdErr cur \<or> \<not> sameUnixMode (g_FileMode cur) (g_FileMode next) defaultFileMode
     \<or> \<not> sameUnixMode (g_DirMode cur) (g_DirMode next) defaultDirMode
     \<or> g_Timeout next \<noteq> g_Timeout cur \<or> g_DeleteDelay next \<noteq> g_DeleteDelay cur"

definition resetTickers :: "server \<Rightarrow> server" where
  "resetTickers u = (case s_tickers u of None \<Rightarrow> u
     | Some _ \<Rightarrow> u\<lparr>s_tickers := Some (g_Interval (s_live u), g_StartDelay (s_live u), g_Progress (s_live u),
         g_LogQueues (s_live u))\<rparr>)"

definition restampQueueDeadlines :: "env \<Rightarrow> instant \<Rightarrow> 'a daemon_scheme \<Rightarrow> 'a daemon_scheme" where
  "restampQueueDeadlines E clk u = unlockHistory (notifyQueueLocked E clk
     (u\<lparr>d_Map := amap (\<lambda>name item. stampQueueDue u name item) (d_Map u)\<rparr>))"

text \<open>The change of the running settings under the lock.\<close>

definition apply_general_live :: "config_env \<Rightarrow> config \<Rightarrow> string list \<Rightarrow> server \<Rightarrow> server" where
  "apply_general_live C preview expanded u = (let
     u = u\<lparr>s_live := applyGeneral (s_live u) (generalConfigFrom preview)\<rparr>;
     u = u\<lparr>s_livePasswords := Some (g_Passwords preview)\<rparr>;
     u = u\<lparr>s_live := (s_live u)\<lparr>g_Passwords := expanded, g_RemnantAction := remnantAction (g_RemnantAction preview)\<rparr>\<rparr>;
     u = u\<lparr>s_live := clampConfig C (s_live u)\<rparr>
   in resetTickers (publish u))"

text \<open>After the settings are live: deadlines again, and the saved queue if history was just turned on.\<close>

definition after_general :: "env \<Rightarrow> instant \<Rightarrow> bool \<Rightarrow> 'a daemon_scheme \<Rightarrow> 'a daemon_scheme" where
  "after_general E clk historyWasOff u = (let u = restampQueueDeadlines E clk u in
     if historyWasOff \<and> d_KeepHistory u > 0 then restoreQueueFromHistory E clk (loadHistory E u) else u)"

definition putGeneral :: "config_env \<Rightarrow> env \<Rightarrow> instant \<Rightarrow> json \<Rightarrow> server \<Rightarrow> put" where
  "putGeneral C E clk raw u = (case unmarshalObject (ce_general C) raw [] of Inl e \<Rightarrow> refuse e u
     | Inr next \<Rightarrow> if remnantActionError (g_RemnantAction next) then refuse RemnantActionError u
     else case applyEnvOverlay C (\<lambda>cfg. applyGeneral cfg next) u of Inl e \<Rightarrow> refuse e u
     | Inr preview \<Rightarrow> let preview = clampConfig C preview in
       case expandPasswords (ce_ReadFile C) (g_Passwords preview) of Inl e \<Rightarrow> refuse e u
     | Inr expanded \<Rightarrow> let restart = generalRestartRequired (s_live u) preview;
           historyWasOff = (d_KeepHistory u = 0) in
       case commit C restart (\<lambda>cfg. applyGeneral cfg next) (apply_general_live C preview expanded) u of
         (Inl e, u) \<Rightarrow> (Inl e, u)
       | (Inr r, u) \<Rightarrow> (Inr r, after_general E clk historyWasOff u))"

subsection \<open>The web server section\<close>

definition normalizeURLBase :: "web_conf \<Rightarrow> web_conf" where
  "normalizeURLBase w = w\<lparr>w_URLBase := trim_suffix (path_join [''/'', w_URLBase w]) ''/'' @ ''/''\<rparr>"

definition validateURLBase :: "web_conf \<Rightarrow> config_error option" where
  "validateURLBase w = (if list_ex (\<lambda>c. c \<in> set ''{}'') (w_URLBase w) then Some URLBaseBraces else None)"

definition dropEmptyAPIKeys :: "api_key list \<Rightarrow> api_key list" where
  "dropEmptyAPIKeys ks = filter (\<lambda>k. trim_space (k_Key k) \<noteq> '''') ks"

text \<open>The first key of a name counts.\<close>

definition keys_by_name :: "api_key list \<Rightarrow> (string \<times> string) list" where
  "keys_by_name ks = foldl (\<lambda>m k. if k_Name k = '''' \<or> k_Key k = '''' then m
     else if aget m (k_Name k) = None then aput (k_Name k) (k_Key k) m else m) [] ks"

definition keepNamedAPIKeys :: "api_key list \<Rightarrow> api_key list list \<Rightarrow> api_key list" where
  "keepNamedAPIKeys next sources = (let byName = keys_by_name (concat sources) in
     map (\<lambda>k. if trim_space (k_Key k) = ''''
       then k\<lparr>k_Key := (case aget byName (k_Name k) of None \<Rightarrow> '''' | Some key \<Rightarrow> key)\<rparr> else k) next)"

definition uiPassword :: "server \<Rightarrow> crypt_pass" where
  "uiPassword u = (case cf_Webserver (s_live u) of None \<Rightarrow> '''' | Some w \<Rightarrow> w_UIPassword w)"

definition uiPasswordUser :: "server \<Rightarrow> string" where
  "uiPasswordUser u = (let name = Username (uiPassword u) in if name \<noteq> '''' then name else defaultUIUser)"

definition expandCryptPassFile :: "(string \<Rightarrow> string option) \<Rightarrow> crypt_pass \<Rightarrow> config_error + crypt_pass" where
  "expandCryptPassFile readf raw = (if \<not> has_prefix raw filePrefix then Inr raw
     else case readf (trim_prefix raw filePrefix) of None \<Rightarrow> Inl PassFileError | Some data \<Rightarrow> Inr (trim_space data))"

definition pass_result :: "pass_error + crypt_pass \<Rightarrow> config_error + crypt_pass" where
  "pass_result r = (case r of Inl e \<Rightarrow> Inl (PassError e) | Inr p \<Rightarrow> Inr p)"

definition normalizeStoredPassword :: "config_env \<Rightarrow> crypt_pass \<Rightarrow> string \<Rightarrow> bool \<Rightarrow> config_error + crypt_pass" where
  "normalizeStoredPassword C pass fallback allowPlain = (
     if pass = '''' \<or> IsCrypted pass \<or> Webauth pass then Inr pass
     else let user = fst (splitUserPass pass fallback); secret = snd (splitUserPass pass fallback) in
       if allowPlain then pass_result (SetPlain (ce_hash C) (ce_kdf C) user secret)
       else if \<not> isKDFHex secret then Inl PlaintextUIPassword
       else if reservedUIUser user then Inl ReservedUIUser
       else pass_result (Set_pass (ce_hash C) user secret))"

definition confirmUIPasswordChange :: "config_env \<Rightarrow> crypt_pass \<Rightarrow> crypt_pass \<Rightarrow> crypt_pass \<Rightarrow> string \<Rightarrow> bool \<Rightarrow> bool" where
  "confirmUIPasswordChange C live submitted file_pass currentKDF fromFile = (
     if Type live \<noteq> AuthPassword then True
     else if submitted = '''' \<or> submitted = live \<or> submitted = file_pass \<or> fromFile then True
     else Valid (ce_cmp C) live (Username live) currentKDF)"

definition keepLiveUIPassword :: "bool \<Rightarrow> bool \<Rightarrow> crypt_pass \<Rightarrow> crypt_pass \<Rightarrow> bool" where
  "keepLiveUIPassword omitted fromFile submitted file_pass = (omitted \<or> \<not> fromFile \<and> submitted = file_pass)"

definition webserverRestartRequired :: "web_conf \<Rightarrow> web_conf \<Rightarrow> bool" where
  "webserverRestartRequired cur next = (let cur = normalizeURLBase cur; next = normalizeURLBase next in
     w_ListenAddr cur \<noteq> w_ListenAddr next \<or> w_URLBase cur \<noteq> w_URLBase next \<or> w_SSLCrtFile cur \<noteq> w_SSLCrtFile next
     \<or> w_SSLKeyFile cur \<noteq> w_SSLKeyFile next \<or> w_Metrics cur \<noteq> w_Metrics next \<or> w_Pprof cur \<noteq> w_Pprof next
     \<or> w_LogFile cur \<noteq> w_LogFile next \<or> w_LogFiles cur \<noteq> w_LogFiles next \<or> w_LogFileMb cur \<noteq> w_LogFileMb next)"

text \<open>\<open>validateAuth\<close> fills the permission cache.\<close>

definition validate_auth :: "web_conf \<Rightarrow> config_error + web_conf" where
  "validate_auth w = (case validateAuth (web_server.truncate w) of Inl e \<Rightarrow> Inl (AuthError e)
     | Inr v \<Rightarrow> Inr (w\<lparr>w_keyPerms := w_keyPerms v\<rparr>))"

definition expand_web :: "config_env \<Rightarrow> web_conf \<Rightarrow> config_error + web_conf" where
  "expand_web C w = (case ce_expandWeb C w of None \<Rightarrow> Inl ExpandError | Some w \<Rightarrow> Inr w)"

text \<open>A running configuration without a web server cannot answer the request.\<close>

definition applyLiveWebserverAuth :: "web_conf \<Rightarrow> server \<Rightarrow> server" where
  "applyLiveWebserverAuth next u = (case cf_Webserver (s_live u) of None \<Rightarrow> u
     | Some w \<Rightarrow> u\<lparr>s_live := (s_live u)\<lparr>cf_Webserver := Some (w\<lparr>w_APIKeys := w_APIKeys next, w_Roles := w_Roles next,
         w_UIPassword := w_UIPassword next, w_UIRoleHeader := trim_space (w_UIRoleHeader next),
         w_Upstreams := w_Upstreams next, w_WSOrigins := w_WSOrigins next, w_allow := w_allow next,
         w_keyPerms := w_keyPerms next\<rparr>)\<rparr>\<rparr>)"

text \<open>The password of a submitted section: the one to use, or the error.\<close>

definition submitted_password :: "config_env \<Rightarrow> crypt_pass \<Rightarrow> crypt_pass \<Rightarrow> crypt_pass \<Rightarrow> string \<Rightarrow> string
    \<Rightarrow> config_error + crypt_pass" where
  "submitted_password C live file_pass submitted user currentKDF = (let fromFile = has_prefix submitted filePrefix in
     case expandCryptPassFile (ce_ReadFile C) submitted of Inl e \<Rightarrow> Inl e
     | Inr pass \<Rightarrow> if fromFile \<and> pass = '''' then Inl EmptySecretFile
       else case normalizeStoredPassword C pass user fromFile of Inl e \<Rightarrow> Inl e
       | Inr pass \<Rightarrow> if confirmUIPasswordChange C live submitted file_pass currentKDF fromFile
           then Inr pass else Inl CurrentUIPassword)"

text \<open>\<open>cloneFileWebserver\<close>; the start always makes the file settings.\<close>

definition file_webserver :: "server \<Rightarrow> web_conf" where
  "file_webserver u = (case s_file u of None \<Rightarrow> zero_web | Some f \<Rightarrow> cloneWebserver (cf_Webserver f))"

text \<open>The section the file gets: the keys of the file for blank ones, and never the content of a secret file.\<close>

definition stored_web :: "web_conf \<Rightarrow> api_key list \<Rightarrow> crypt_pass \<Rightarrow> crypt_pass \<Rightarrow> web_conf" where
  "stored_web next fileKeys submitted file_pass = (let fileWeb = (cloneWebserver (Some next))\<lparr>w_APIKeys := fileKeys\<rparr> in
     if submitted = '''' then fileWeb\<lparr>w_UIPassword := file_pass\<rparr>
     else if has_prefix submitted filePrefix then fileWeb\<lparr>w_UIPassword := submitted\<rparr> else fileWeb)"

definition putWebserver :: "config_env \<Rightarrow> json \<Rightarrow> server \<Rightarrow> put" where
  "putWebserver C raw u = (case unmarshalObject (ce_web C) raw [''uiCurrentKdf''] of Inl e \<Rightarrow> refuse e u
     | Inr (next, kdf) \<Rightarrow> let next = normalizeURLBase next;
           next = next\<lparr>w_UIRoleHeader := trim_space (w_UIRoleHeader next)\<rparr> in
       case validateURLBase next of Some e \<Rightarrow> refuse e u
     | None \<Rightarrow> let currentKDF = trim_space kdf; submitted = w_UIPassword next; omitted = (submitted = '''');
           fromFile = has_prefix submitted filePrefix;
           liveSnap = cloneWebserver (cf_Webserver (s_live u)); fileSnap = file_webserver u in
       case (if omitted then Inr (w_UIPassword liveSnap)
             else submitted_password C (uiPassword u) (w_UIPassword fileSnap) submitted (uiPasswordUser u) currentKDF) of
         Inl e \<Rightarrow> refuse e u
       | Inr pass \<Rightarrow> let fileKeys = dropEmptyAPIKeys (keepNamedAPIKeys (w_APIKeys next) [w_APIKeys fileSnap]);
           next = next\<lparr>w_APIKeys := keepNamedAPIKeys (w_APIKeys next) [w_APIKeys liveSnap, w_APIKeys fileSnap],
             w_UIPassword := pass\<rparr>;
           fileWeb = stored_web next fileKeys submitted (w_UIPassword fileSnap) in
         case expand_web C next of Inl e \<Rightarrow> refuse e u
         | Inr next \<Rightarrow> (case validate_auth next of Inl e \<Rightarrow> refuse e u
         | Inr next \<Rightarrow> let next = next\<lparr>w_allow := ce_ips C (w_Upstreams next)\<rparr> in
           case expand_web C (cloneWebserver (Some fileWeb)) of Inl e \<Rightarrow> refuse e u
         | Inr fileCheck \<Rightarrow> (case validate_auth fileCheck of Inl e \<Rightarrow> refuse e u
         | Inr _ \<Rightarrow> let next = (if keepLiveUIPassword omitted fromFile submitted (w_UIPassword fileSnap)
               then next\<lparr>w_UIPassword := w_UIPassword liveSnap\<rparr> else next);
             restart = webserverRestartRequired fileSnap fileWeb
           in commit C restart (\<lambda>cfg. cfg\<lparr>cf_Webserver := Some fileWeb\<rparr>) (applyLiveWebserverAuth next) u)))"

subsection \<open>The lists\<close>

definition cf_list :: "string \<Rightarrow> config \<Rightarrow> starr_conf instances" where
  "cf_list app cfg = (if app = Lidarr then cf_Lidarr cfg else if app = Radarr then cf_Radarr cfg
     else if app = Readarr then cf_Readarr cfg else cf_Sonarr cfg)"

definition cf_set_list :: "string \<Rightarrow> starr_conf instances \<Rightarrow> config \<Rightarrow> config" where
  "cf_set_list app xs cfg = (if app = Lidarr then cfg\<lparr>cf_Lidarr := xs\<rparr> else if app = Radarr then cfg\<lparr>cf_Radarr := xs\<rparr>
     else if app = Readarr then cfg\<lparr>cf_Readarr := xs\<rparr> else cfg\<lparr>cf_Sonarr := xs\<rparr>)"

definition run_list :: "string \<Rightarrow> 'a daemon_scheme \<Rightarrow> starr instances" where
  "run_list app u = (if app = Lidarr then d_Lidarr u else if app = Radarr then d_Radarr u
     else if app = Readarr then d_Readarr u else d_Sonarr u)"

definition run_set_list :: "string \<Rightarrow> starr instances \<Rightarrow> 'a daemon_scheme \<Rightarrow> 'a daemon_scheme" where
  "run_set_list app xs u = (if app = Lidarr then u\<lparr>d_Lidarr := xs\<rparr> else if app = Radarr then u\<lparr>d_Radarr := xs\<rparr>
     else if app = Readarr then u\<lparr>d_Readarr := xs\<rparr> else u\<lparr>d_Sonarr := xs\<rparr>)"

text \<open>\<open>conf.URL + "\\x00" + conf.APIKey\<close>.\<close>

definition starrIdentity :: "'a starr_scheme \<Rightarrow> string" where
  "starrIdentity s = sr_URL s @ [CHR 0x00] @ sr_APIKey s"

definition seen_apps :: "starr instances \<Rightarrow> (string \<times> starr) list" where
  "seen_apps prev = foldl (\<lambda>seen (_, app). case app of None \<Rightarrow> seen | Some s \<Rightarrow> aput (starrIdentity s) s seen) [] prev"

definition carryQueues :: "starr instances \<Rightarrow> starr_conf instances \<Rightarrow> starr_conf instances" where
  "carryQueues prev next = (let seen = seen_apps prev in map (\<lambda>(key, app). (key, case app of None \<Rightarrow> None
     | Some s \<Rightarrow> (case aget seen (starrIdentity s) of Some old \<Rightarrow> Some (takeQueue s old) | None \<Rightarrow> Some s))) next)"

text \<open>The loop of \<open>putStarrList\<close> over the overlaid list; \<open>inPut\<close> are the slugs of the request.\<close>

fun check_starr_list :: "config_env \<Rightarrow> duration \<Rightarrow> duration \<Rightarrow> string \<Rightarrow> string list \<Rightarrow> starr_conf instances
    \<Rightarrow> config_error + starr_conf instances" where
  "check_starr_list C timeout delay app inPut [] = Inr []"
| "check_starr_list C timeout delay app inPut ((key, item) # kvs) = (
     if \<not> validateInstanceSlug key then Inl (InstanceSlug key)
     else case item of None \<Rightarrow> Inl NilConfigEntry
     | Some s \<Rightarrow> (case validateApp C timeout delay app s of
         Inl e \<Rightarrow> if key \<notin> set inPut \<and> skipInvalidApp e then check_starr_list C timeout delay app inPut kvs else Inl e
       | Inr s \<Rightarrow> (case validateStarrSettings app s of Inl e \<Rightarrow> Inl e
         | Inr s \<Rightarrow> (case check_starr_list C timeout delay app inPut kvs of Inl e \<Rightarrow> Inl e
           | Inr m \<Rightarrow> Inr ((key, Some (s\<lparr>sr_connected := True\<rparr>)) # m)))))"

definition ensureWorkThreads :: "int \<Rightarrow> server \<Rightarrow> server" where
  "ensureWorkThreads count u = (let count = (if count < 1 then 1 else count) in
     if s_workThreads u < count then u\<lparr>s_workThreads := count\<rparr> else u)"

definition putStarrList :: "config_env \<Rightarrow> string \<Rightarrow> json \<Rightarrow> server \<Rightarrow> put" where
  "putStarrList C app raw u = (case unmarshalInstances (ce_starr C) raw of Inl e \<Rightarrow> refuse e u
     | Inr list \<Rightarrow> let fileList = cloneStarrMap list in
       case applyEnvOverlay C (cf_set_list app (cloneStarrMap list)) u of Inl e \<Rightarrow> refuse e u
     | Inr preview \<Rightarrow> (case ce_expandStarr C (cf_list app preview) of None \<Rightarrow> refuse ExpandError u
     | Some liveList \<Rightarrow> (case check_starr_list C (g_Timeout (s_live u)) (g_DeleteDelay (s_live u)) app (akeys list) liveList of
         Inl e \<Rightarrow> refuse e u
       | Inr liveList \<Rightarrow> commit C False (cf_set_list app fileList) (\<lambda>u.
           let carried = carryQueues (run_list app u) liveList;
               u = u\<lparr>s_live := cf_set_list app carried (s_live u)\<rparr>;
               u = run_set_list app (map (\<lambda>(k, s). (k, map_option starr.truncate s)) carried) u
           in ensureWorkThreads (int (starrAppCount u)) u) u)))"

definition putHooksConfig :: "config_env \<Rightarrow> json \<Rightarrow> server \<Rightarrow> put" where
  "putHooksConfig C raw u = (case unmarshalStrict (ce_hooks C) raw of Inl e \<Rightarrow> refuse e u
     | Inr next \<Rightarrow> (case validateHookIDs (hc_CustomIDs next) of Some e \<Rightarrow> refuse (HookError e) u
     | None \<Rightarrow> (case applyEnvOverlay C (\<lambda>cfg. cfg\<lparr>cf_Hooks := next\<rparr>) u of Inl e \<Rightarrow> refuse e u
     | Inr preview \<Rightarrow> (case validateHookIDs (hc_CustomIDs (cf_Hooks preview)) of Some e \<Rightarrow> refuse (HookError e) u
     | None \<Rightarrow> commit C False (\<lambda>cfg. cfg\<lparr>cf_Hooks := next\<rparr>)
         (\<lambda>u. u\<lparr>s_live := (s_live u)\<lparr>cf_Hooks := cf_Hooks preview\<rparr>\<rparr>) u))))"

text \<open>An entry that is not in the request stays as its validation leaves it.\<close>

definition dropInvalidEnvOverlay :: "string list \<Rightarrow> 'a instances \<Rightarrow> ('a instances \<Rightarrow> 'e + 'a instances) \<Rightarrow> 'a instances" where
  "dropInvalidEnvOverlay inPut live check = List.map_filter (\<lambda>(key, item). if key \<in> set inPut then Some (key, item)
     else case check [(key, item)] of Inl _ \<Rightarrow> None
     | Inr m \<Rightarrow> Some (key, case aget m key of Some x \<Rightarrow> x | None \<Rightarrow> item)) live"

definition folder_list_error :: "folder_config instances \<Rightarrow> config_error option" where
  "folder_list_error list = (case List.map_filter (\<lambda>(key, f). if \<not> validateInstanceSlug key then Some (InstanceSlug key)
     else if f = None then Some NilConfigEntry else None) list of e # _ \<Rightarrow> Some e | [] \<Rightarrow> None)"

text \<open>
  The validation changes the entries of the list in place: the running list holds the changed ones,
  and the daemon's folder settings are the same.
\<close>

definition putFolders :: "config_env \<Rightarrow> json \<Rightarrow> server \<Rightarrow> put" where
  "putFolders C raw u = (case unmarshalObject (ce_folders C) raw [] of Inl e \<Rightarrow> refuse e u
     | Inr next \<Rightarrow> (case folder_list_error (fa_Folder next) of Some e \<Rightarrow> refuse e u
     | None \<Rightarrow> let fileList = cloneFolderMap (fa_Folder next);
           setf = (\<lambda>cfg. (case fa_Interval next of None \<Rightarrow> cfg | Some i \<Rightarrow> cfg\<lparr>cf_Interval := i\<rparr>)
             \<lparr>cf_Buffer := fa_Buffer next, cf_Folders := fileList\<rparr>) in
       case applyEnvOverlay C setf u of Inl e \<Rightarrow> refuse e u
     | Inr preview \<Rightarrow> (case ce_expandFolders C (cf_Folders preview) of None \<Rightarrow> refuse ExpandError u
     | Some live \<Rightarrow> let live = dropInvalidEnvOverlay (akeys (fa_Folder next)) live (validateFolderList (ce_toBytes C)) in
         case validateFolderList (ce_toBytes C) live of Inl e \<Rightarrow> refuse (FolderError e) u
       | Inr live \<Rightarrow> commit C True setf (\<lambda>u. u\<lparr>s_live := (s_live u)\<lparr>cf_Interval := cf_Interval preview,
             cf_Buffer := cf_Buffer preview, cf_Folders := live\<rparr>, d_FolderCfg := live\<rparr>) u)))"

text \<open>
  \<open>putHooks\<close> for webhooks (\<open>True\<close>) and command hooks. The validation changes the hooks in place;
  \<open>check_hooks\<close> is the list as it leaves it.
\<close>

definition check_hooks :: "config_env \<Rightarrow> bool \<Rightarrow> duration \<Rightarrow> hook instances \<Rightarrow> hook_error + hook instances" where
  "check_hooks C web timeout hs = (case (if web then validateWebhookList (ce_urls C) timeout hs
       else validateCmdhookList (Some (expandHomedir (ce_homedir C))) timeout hs) of
     Inl e \<Rightarrow> Inl e
   | Inr ws \<Rightarrow> Inr (map (\<lambda>(key, w). (key, case w of None \<Rightarrow> None | Some _ \<Rightarrow> aget (zip (map fst (instanceEntries hs)) ws) key)) hs))"

definition hook_list :: "bool \<Rightarrow> config \<Rightarrow> hook instances" where
  "hook_list web cfg = (if web then cf_Webhook cfg else cf_Cmdhook cfg)"

definition hook_set_list :: "bool \<Rightarrow> hook instances \<Rightarrow> config \<Rightarrow> config" where
  "hook_set_list web xs cfg = (if web then cfg\<lparr>cf_Webhook := xs\<rparr> else cfg\<lparr>cf_Cmdhook := xs\<rparr>)"

definition run_hooks :: "bool \<Rightarrow> hook instances \<Rightarrow> server \<Rightarrow> server" where
  "run_hooks web xs u = (let ys = map (\<lambda>(k, w). (k, map_option hook_config.truncate w)) xs in
     if web then u\<lparr>d_Webhook := ys\<rparr> else u\<lparr>d_Cmdhook := ys\<rparr>)"

definition putHooks :: "config_env \<Rightarrow> bool \<Rightarrow> json \<Rightarrow> server \<Rightarrow> put" where
  "putHooks C web raw u = (case unmarshalInstances (ce_hook C) raw of Inl e \<Rightarrow> refuse e u
     | Inr list \<Rightarrow> let list = (if web then map (\<lambda>(k, w). (k, map_option (NormalizeNotifiarr (ce_urls C)) w)) list else list);
           fileList = cloneHookMap list in
       case applyEnvOverlay C (hook_set_list web (cloneHookMap list)) u of Inl e \<Rightarrow> refuse e u
     | Inr preview \<Rightarrow> (case ce_expandHooks C (hook_list web preview) of None \<Rightarrow> refuse ExpandError u
     | Some live \<Rightarrow> let timeout = g_Timeout (s_live u);
             live = dropInvalidEnvOverlay (akeys list) live (check_hooks C web timeout) in
         case check_hooks C web timeout live of Inl e \<Rightarrow> refuse (HookError e) u
       | Inr live \<Rightarrow> commit C False (hook_set_list web fileList)
           (\<lambda>u. run_hooks web live (u\<lparr>s_live := hook_set_list web live (s_live u), s_hookWorker := True\<rparr>)) u))"

subsection \<open>The handlers\<close>

definition replaceConfigSection :: "config_env \<Rightarrow> env \<Rightarrow> instant \<Rightarrow> string \<Rightarrow> json \<Rightarrow> server \<Rightarrow> put" where
  "replaceConfigSection C E clk section raw u = (
     if section = ''general'' then putGeneral C E clk raw u
     else if section = ''webserver'' then putWebserver C raw u
     else if section = ''sonarr'' then putStarrList C Sonarr raw u
     else if section = ''radarr'' then putStarrList C Radarr raw u
     else if section = ''lidarr'' then putStarrList C Lidarr raw u
     else if section = ''readarr'' then putStarrList C Readarr raw u
     else if section = ''folders'' then putFolders C raw u
     else if section = ''hooks'' then putHooksConfig C raw u
     else if section = ''webhooks'' then putHooks C True raw u
     else if section = ''cmdhooks'' then putHooks C False raw u
     else refuse UnknownSection u)"

text \<open>\<open>statusForConfigPut\<close> of an error of the section; a cancelled wait is not modelled.\<close>

definition statusForConfigPut :: "config_error \<Rightarrow> nat" where
  "statusForConfigPut e = (if e = PersistError then 500 else 400)"

text \<open>\<open>decodeJSONBody\<close> of a body that was read and parsed as one value.\<close>

definition decodeJSONBody :: "json option \<Rightarrow> config_error + json" where
  "decodeJSONBody body = (case body of None \<Rightarrow> Inl InvalidJSON
     | Some raw \<Rightarrow> if raw = JNull then Inl EmptySection else Inr raw)"

definition configPutHandler :: "config_env \<Rightarrow> env \<Rightarrow> instant \<Rightarrow> string \<Rightarrow> json option \<Rightarrow> server \<Rightarrow> nat \<times> server" where
  "configPutHandler C E clk section body u = (case decodeJSONBody body of Inl _ \<Rightarrow> (400, u)
     | Inr raw \<Rightarrow> (case replaceConfigSection C E clk section raw u of
         (Inl e, u) \<Rightarrow> (statusForConfigPut e, u)
       | (Inr restart, u) \<Rightarrow> (200, u\<lparr>s_pendingRestart := s_pendingRestart u \<or> restart\<rparr>)))"

definition requireConfigPerm :: "web_server \<Rightarrow> bool \<Rightarrow> string \<Rightarrow> request \<Rightarrow> guard" where
  "requireConfigPerm w write section r = (case requireAuth w r of Refused c e \<Rightarrow> Refused c e
     | Granted info \<Rightarrow> if \<not> KnownSection section then Refused 404 ''unknown section''
       else let perm = (if write then PermWriteConfig section else PermReadConfig section) in
         if \<not> allows info perm then Refused 403 ''forbidden'' else Granted info)"

subsection \<open>What a GET shows\<close>

datatype section_view = ViewGeneral general | ViewWeb web_conf | ViewStarr "starr_conf instances"
  | ViewFolders folders_api | ViewHooks hooks_config | ViewHookList "hook instances"

definition publicWebserver :: "web_conf \<Rightarrow> web_conf" where
  "publicWebserver w = w\<lparr>w_UIPassword := publicCryptPass (w_UIPassword w)\<rparr>"

definition redactAPIKeysUnlessAll :: "auth_info \<Rightarrow> web_conf \<Rightarrow> web_conf" where
  "redactAPIKeysUnlessAll info w = (if allows info PermAll then w
     else w\<lparr>w_APIKeys := map (\<lambda>k. k\<lparr>k_Key := ''''\<rparr>) (w_APIKeys w)\<rparr>)"

definition foldersConfigFrom :: "config \<Rightarrow> folders_api" where
  "foldersConfigFrom cfg = \<lparr>fa_Interval = (if cf_Interval cfg \<noteq> 0 then Some (cf_Interval cfg) else None),
     fa_Buffer = cf_Buffer cfg, fa_Folder = cf_Folders cfg\<rparr>"

definition configSectionFrom :: "config \<Rightarrow> string \<Rightarrow> section_view option" where
  "configSectionFrom cfg section = (
     if section = ''general'' then Some (ViewGeneral (generalConfigFrom cfg))
     else if section = ''webserver'' then Some (ViewWeb (case cf_Webserver cfg of None \<Rightarrow> zero_web | Some w \<Rightarrow> w))
     else if section = ''sonarr'' then Some (ViewStarr (cf_Sonarr cfg))
     else if section = ''radarr'' then Some (ViewStarr (cf_Radarr cfg))
     else if section = ''lidarr'' then Some (ViewStarr (cf_Lidarr cfg))
     else if section = ''readarr'' then Some (ViewStarr (cf_Readarr cfg))
     else if section = ''folders'' then Some (ViewFolders (foldersConfigFrom cfg))
     else if section = ''hooks'' then Some (ViewHooks (cf_Hooks cfg))
     else if section = ''webhooks'' then Some (ViewHookList (cf_Webhook cfg))
     else if section = ''cmdhooks'' then Some (ViewHookList (cf_Cmdhook cfg)) else None)"

definition configGetHandler :: "auth_info \<Rightarrow> string \<Rightarrow> server \<Rightarrow> section_view option" where
  "configGetHandler info section u = (if section = ''webserver''
     then Some (ViewWeb (redactAPIKeysUnlessAll info (publicWebserver (file_webserver u))))
     else case s_file u of None \<Rightarrow> None | Some f \<Rightarrow> configSectionFrom (cloneConfig f) section)"

definition redactLiveStarr :: "starr_conf instances \<Rightarrow> starr_conf instances" where
  "redactLiveStarr items = map (\<lambda>(k, s). (k, map_option (\<lambda>s. s\<lparr>sr_APIKey := '''', sr_Password := '''', sr_HTTPPass := ''''\<rparr>) s)) items"

definition redactHookSecrets :: "hook instances \<Rightarrow> hook instances" where
  "redactHookSecrets items = map (\<lambda>(k, w). (k, map_option (\<lambda>w. w\<lparr>hk_Token := '''', hk_Headers := RedactHeaderSecrets (hk_Headers w)\<rparr>) w)) items"

definition redactLiveSecrets :: "config \<Rightarrow> config" where
  "redactLiveSecrets cfg = cfg\<lparr>cf_Sonarr := redactLiveStarr (cf_Sonarr cfg), cf_Radarr := redactLiveStarr (cf_Radarr cfg),
     cf_Lidarr := redactLiveStarr (cf_Lidarr cfg), cf_Readarr := redactLiveStarr (cf_Readarr cfg),
     cf_Webhook := redactHookSecrets (cf_Webhook cfg), cf_Cmdhook := redactHookSecrets (cf_Cmdhook cfg)\<rparr>"

definition liveGeneralConfig :: "server \<Rightarrow> general" where
  "liveGeneralConfig u = (let cfg = generalConfigFrom (s_live u) in
     case s_livePasswords u of None \<Rightarrow> cfg | Some ps \<Rightarrow> cfg\<lparr>g_Passwords := ps\<rparr>)"

definition configGetLiveHandler :: "auth_info \<Rightarrow> string \<Rightarrow> server \<Rightarrow> section_view option" where
  "configGetLiveHandler info section u = (if section = ''webserver''
     then Some (ViewWeb (redactAPIKeysUnlessAll info (publicWebserver (cloneWebserver (cf_Webserver (s_live u))))))
     else if section = ''general'' then Some (ViewGeneral (liveGeneralConfig u))
     else configSectionFrom (redactLiveSecrets (cloneConfig (s_live u))) section)"

end
