(* ===== verification/Startup.thy ===== *)
theory Startup
  imports ConfigPut HookDelivery
begin

text \<open>
  What a start makes of the settings that were read: the second half of \<open>unmarshalConfig\<close>
  (\<open>cnfgfile.go\<close>), the web UI password (\<open>password.go\<close>) and \<open>validateApps\<close> (\<open>apps.go\<close>). Finding and
  parsing the file is outside; \<open>gen\<close> is a generated password and \<open>envSet\<close> says whether the
  environment sets the password.
\<close>

subsection \<open>The web UI password\<close>

definition mutateUIPassword :: "(crypt_pass \<Rightarrow> config_error + crypt_pass) \<Rightarrow> server \<Rightarrow> config_error option \<times> server" where
  "mutateUIPassword f u = (case cf_Webserver (s_live u) of None \<Rightarrow> (None, u)
     | Some w \<Rightarrow> (case f (w_UIPassword w) of Inl e \<Rightarrow> (Some e, u)
       | Inr p \<Rightarrow> (None, u\<lparr>s_live := (s_live u)\<lparr>cf_Webserver := Some (w\<lparr>w_UIPassword := p\<rparr>)\<rparr>\<rparr>)))"

definition syncFileUIPassword :: "server \<Rightarrow> server" where
  "syncFileUIPassword u = (case s_file u of None \<Rightarrow> u
     | Some f \<Rightarrow> let w = (case cf_Webserver f of None \<Rightarrow> zero_web | Some w \<Rightarrow> w)
       in u\<lparr>s_file := Some (f\<lparr>cf_Webserver := Some (w\<lparr>w_UIPassword := uiPassword u\<rparr>)\<rparr>)\<rparr>)"

definition appendFileAPIKey :: "api_key \<Rightarrow> server \<Rightarrow> server" where
  "appendFileAPIKey key u = (case s_file u of None \<Rightarrow> u
     | Some f \<Rightarrow> let w = (case cf_Webserver f of None \<Rightarrow> zero_web | Some w \<Rightarrow> w)
       in u\<lparr>s_file := Some (f\<lparr>cf_Webserver := Some (w\<lparr>w_APIKeys := w_APIKeys w @ [key]\<rparr>)\<rparr>)\<rparr>)"

definition persistHashedUIPassword :: "config_env \<Rightarrow> bool \<Rightarrow> bool \<Rightarrow> server \<Rightarrow> server" where
  "persistHashedUIPassword C envSet keepFilepath u = (if keepFilepath \<or> envSet then u
     else persistConfigFile C (syncFileUIPassword u))"

definition web_Enabled :: "web_conf option \<Rightarrow> bool" where
  "web_Enabled w = (case w of None \<Rightarrow> False | Some w \<Rightarrow> trim_space (w_ListenAddr w) \<noteq> '''')"

definition set_plain :: "config_env \<Rightarrow> string \<Rightarrow> string \<Rightarrow> crypt_pass \<Rightarrow> config_error + crypt_pass" where
  "set_plain C user plain p = pass_result (SetPlain (ce_hash C) (ce_kdf C) user plain)"

text \<open>The second component is the password to show in the log, once.\<close>

definition setupUIPassword :: "config_env \<Rightarrow> string option \<Rightarrow> bool \<Rightarrow> bool \<Rightarrow> server
    \<Rightarrow> config_error option \<times> string option \<times> server" where
  "setupUIPassword C gen envSet reset u = (let web = cf_Webserver (s_live u) in
     if web = None \<or> \<not> reset \<and> \<not> web_Enabled web then (None, None, u)
     else let fromFile = has_prefix (uiPassword u) filePrefix in
     case mutateUIPassword (expandCryptPassFile (ce_ReadFile C)) u of (Some e, u) \<Rightarrow> (Some e, None, u)
     | (None, u) \<Rightarrow>
       if reset \<or> \<not> web_Enabled (cf_Webserver (s_live u)) then (None, None, u)
       else let pass = uiPassword u in
       case checkStored pass of Some e \<Rightarrow> (Some (PassError e), None, u)
       | None \<Rightarrow>
         if Webauth pass then
           (if Type pass = AuthHeader \<and> Header pass = '''' then (Some (PassError ErrEmptyAuthHeader), None, u) else (None, None, u))
         else if IsCrypted pass then (None, None, u)
         else if pass = '''' then (case gen of None \<Rightarrow> (None, None, u)
           | Some plain \<Rightarrow> (case mutateUIPassword (set_plain C defaultUIUser plain) u of (Some e, u) \<Rightarrow> (Some e, None, u)
             | (None, u) \<Rightarrow> (None, Some plain, persistHashedUIPassword C envSet fromFile u)))
         else let user = fst (splitUserPass pass defaultUIUser); plain = snd (splitUserPass pass defaultUIUser) in
           (case mutateUIPassword (set_plain C user plain) u of (Some e, u) \<Rightarrow> (Some e, None, u)
           | (None, u) \<Rightarrow> (None, None, persistHashedUIPassword C envSet fromFile u)))"

definition resetUIPassword :: "config_env \<Rightarrow> string option \<Rightarrow> server \<Rightarrow> config_error option \<times> string option \<times> server" where
  "resetUIPassword C gen u = (let user = uiPasswordUser u in
     case gen of None \<Rightarrow> (Some (PassError ErrEncrypt), None, u)
     | Some plain \<Rightarrow> (case mutateUIPassword (set_plain C user plain) u of (Some e, u) \<Rightarrow> (Some e, None, u)
       | (None, u) \<Rightarrow> (case writeConfigFile C (syncFileUIPassword u) of
           (Some e, u) \<Rightarrow> (Some e, None, u) | (None, u) \<Rightarrow> (None, Some plain, u))))"

subsection \<open>unmarshalConfig\<close>

definition setPasswords :: "config_env \<Rightarrow> server \<Rightarrow> config_error option \<times> server" where
  "setPasswords C u = (let u = u\<lparr>s_livePasswords := Some (g_Passwords (s_live u))\<rparr> in
     case expandPasswords (ce_ReadFile C) (g_Passwords (s_live u)) of Inl e \<Rightarrow> (Some e, u)
     | Inr ps \<Rightarrow> (None, u\<lparr>s_live := (s_live u)\<lparr>g_Passwords := ps\<rparr>\<rparr>))"

definition on_web :: "(web_conf \<Rightarrow> web_conf) \<Rightarrow> config \<Rightarrow> config" where
  "on_web f cfg = cfg\<lparr>cf_Webserver := map_option f (cf_Webserver cfg)\<rparr>"

text \<open>From the settings the file gave, which \<open>s_live\<close> holds.\<close>

definition load_settings :: "config_env \<Rightarrow> string option \<Rightarrow> bool \<Rightarrow> bool \<Rightarrow> server \<Rightarrow> config_error option \<times> server" where
  "load_settings C gen envSet reset u = (let u = u\<lparr>s_file := Some (cloneConfig (s_live u))\<rparr> in
     case ce_parseENV C (s_live u) of None \<Rightarrow> (Some EnvError, u)
     | Some cfg \<Rightarrow> let u = u\<lparr>s_live := recordBareStarrPaths C cfg\<rparr> in
       case setPasswords C u of (Some e, u) \<Rightarrow> (Some e, u)
     | (None, u) \<Rightarrow> (case setupUIPassword C gen envSet reset u of (Some e, _, u) \<Rightarrow> (Some e, u)
       | (None, _, u) \<Rightarrow> let u = u\<lparr>s_live := on_web normalizeURLBase (s_live u)\<rparr> in
         case (case cf_Webserver (s_live u) of None \<Rightarrow> None | Some w \<Rightarrow> validateURLBase w) of Some e \<Rightarrow> (Some e, u)
         | None \<Rightarrow> (None, publish (u\<lparr>s_live := clampConfig C (s_live u)\<rparr>))))"

subsection \<open>validateApps\<close>

text \<open>
  The hooks as their validation leaves them: the entries before the first error are changed, the
  others are not.
\<close>

definition hooks_after :: "(hook option list \<Rightarrow> duration \<Rightarrow> hook option list \<times> hook_error option) \<Rightarrow> duration \<Rightarrow> hook instances
    \<Rightarrow> hook instances \<times> bool" where
  "hooks_after validate timeout hs = (if \<not> list_all validateInstanceSlug (akeys hs) then (hs, False)
     else case validate (map Some (instanceValues hs)) timeout of
       (ws, err) \<Rightarrow> (map (\<lambda>(key, w). (key, case aget (zip (map fst (instanceEntries hs)) ws) key of Some v \<Rightarrow> v | None \<Rightarrow> w)) hs,
          err = None))"

text \<open>An error of the hooks is only logged.\<close>

definition start_hooks :: "config_env \<Rightarrow> server \<Rightarrow> server" where
  "start_hooks C u = (let timeout = g_Timeout (s_live u);
       cmds = fst (hooks_after (ValidateCmdhooks (Some (expandHomedir (ce_homedir C)))) timeout (cf_Cmdhook (s_live u)));
       webs = fst (hooks_after (ValidateWebhooks (ce_urls C)) timeout (cf_Webhook (s_live u)))
     in run_hooks True webs (run_hooks False cmds (u\<lparr>s_live := (s_live u)\<lparr>cf_Cmdhook := cmds, cf_Webhook := webs\<rparr>\<rparr>)))"

definition start_starr :: "config_env \<Rightarrow> string \<Rightarrow> server \<Rightarrow> config_error + server" where
  "start_starr C app u = (case validateStarrList C (g_Timeout (s_live u)) (g_DeleteDelay (s_live u)) app (cf_list app (s_live u)) of
     Inl e \<Rightarrow> Inl e
   | Inr m \<Rightarrow> Inr (run_set_list app (map (\<lambda>(k, s). (k, map_option starr.truncate s)) m)
       (u\<lparr>s_live := cf_set_list app m (s_live u)\<rparr>)))"

fun bind_error :: "'e + 'a \<Rightarrow> ('a \<Rightarrow> 'e + 'b) \<Rightarrow> 'e + 'b" where
  "bind_error (Inl e) f = Inl e"
| "bind_error (Inr x) f = f x"

definition validateApps :: "config_env \<Rightarrow> server \<Rightarrow> config_error + server" where
  "validateApps C u = (if remnantActionError (g_RemnantAction (s_live u)) then Inl RemnantActionError
     else let u = u\<lparr>s_live := (s_live u)\<lparr>g_RemnantAction := remnantAction (g_RemnantAction (s_live u))\<rparr>\<rparr> in
     bind_error (start_starr C Lidarr (publish u)) (\<lambda>u. bind_error (start_starr C Radarr u) (\<lambda>u.
     bind_error (start_starr C Readarr u) (\<lambda>u. bind_error (start_starr C Sonarr u) (\<lambda>u.
       case validateFolderList (ce_toBytes C) (cf_Folders (s_live u)) of Inl e \<Rightarrow> Inl (FolderError e)
       | Inr fs \<Rightarrow> let u = u\<lparr>s_live := (s_live u)\<lparr>cf_Folders := fs\<rparr>, d_FolderCfg := fs\<rparr> in
         case validateHookIDs (hc_CustomIDs (cf_Hooks (s_live u))) of Some e \<Rightarrow> Inl (HookError e)
         | None \<Rightarrow> Inr (start_hooks C u))))))"

end
