(* ===== verification/ConfigProps.thy ===== *)
theory ConfigProps
  imports Startup HookProps
begin

text \<open>
  What a PUT of the settings guarantees: it is done as a whole or not at all, the file never takes a
  value of the environment, what a GET shows can be put back, and Starr instances keep their queues.
\<close>

subsection \<open>The daemon's own operations do not touch the settings\<close>

lemma seed_more [simp]: "daemon.more (seedHookMessages u i m l) = daemon.more u"
  by (simp add: seedHookMessages_def Let_def split: option.split)

lemma queueHooks_more [simp]: "daemon.more (foldl (queueHook i l item) u ks) = daemon.more u"
  by (induction ks arbitrary: u) (simp_all add: queueHook_def)

lemma runAllHooks_more [simp]: "daemon.more (runAllHooks u p) = daemon.more u"
  by (simp add: runAllHooks_def Let_def)

lemma runHooks_more [simp]: "daemon.more (foldl runAllHooks u ps) = daemon.more u"
  by (induction ps arbitrary: u) simp_all

lemma unlock_more [simp]: "daemon.more (unlockHistory u) = daemon.more u"
  by (simp add: unlockHistory_def)

lemma notifyQueue_more [simp]: "daemon.more (notifyQueueLocked E clk u) = daemon.more u"
  by (simp add: notifyQueueLocked_def Let_def split: option.split)

lemma restamp_more [simp]: "daemon.more (restampQueueDeadlines E clk u) = daemon.more u"
  by (simp add: restampQueueDeadlines_def)

lemma seedFolder_more [simp]: "daemon.more (snd (seedFolderItemLocked i item b u)) = daemon.more u"
  by (simp add: seedFolderItemLocked_def set_item_def track_folder_def split: option.split)

lemma restore_row_more [simp]: "daemon.more (restore_row E now u rec) = daemon.more u"
  by (auto simp: restore_row_def set_item_def Let_def split: option.split prod.split)

lemma restore_rows_more [simp]: "daemon.more (foldl (restore_row E now) u rs) = daemon.more u"
  by (induction rs arbitrary: u) simp_all

lemma restore_more [simp]: "daemon.more (restoreQueueFromHistory E now u) = daemon.more u"
  by (simp add: restoreQueueFromHistory_def)

lemma loadHistory_hist: "hist.more (loadHistory E u) = hist.more u"
  by (auto simp: loadHistory_def compactHistoryLocked_def Let_def split: prod.split)

lemma hist_more_daemon: "hist.more u = hist.more v \<Longrightarrow> daemon.more u = daemon.more v" for u v :: "'a daemon_scheme"
  by (cases u; cases v) simp

lemma loadHistory_more [simp]: "daemon.more (loadHistory E u) = daemon.more u"
  by (rule hist_more_daemon) (rule loadHistory_hist)

lemma settings_eq:
  fixes u v :: server
  assumes "daemon.more u = daemon.more v"
  shows "s_file u = s_file v \<and> s_live u = s_live v \<and> s_disk u = s_disk v"
  using assms by (cases u; cases v) simp

subsection \<open>How a PUT ends\<close>

text \<open>
  A PUT of \<open>u\<close> is settled when an error leaves the state as it was and a success ends in a state with
  \<open>P\<close>. \<open>saved f u\<close> is the state once the staged settings are in the file.
\<close>

definition settled :: "(bool \<Rightarrow> server \<Rightarrow> bool) \<Rightarrow> server \<Rightarrow> put \<Rightarrow> bool" where
  "settled P u p \<longleftrightarrow> (case fst p of Inl e \<Rightarrow> snd p = u | Inr r \<Rightarrow> P r (snd p))"

definition saved :: "(config \<Rightarrow> config) \<Rightarrow> server \<Rightarrow> server" where
  "saved f u = (case s_file u of None \<Rightarrow> u
     | Some c \<Rightarrow> u\<lparr>s_disk := (if trim_space (d_ConfigFile u) = '''' then s_disk u else Some (f (cloneConfig c))),
         s_file := Some (f (cloneConfig c))\<rparr>)"

lemma saved_settings [simp]:
  "s_file (saved f u) = map_option (\<lambda>c. f (cloneConfig c)) (s_file u)" "s_live (saved f u) = s_live u"
  "s_disk (saved f u) = (if s_file u = None \<or> trim_space (d_ConfigFile u) = '''' then s_disk u else s_file (saved f u))"
  by (auto simp: saved_def split: option.split)

named_theorems settling

lemma settled_refuse [settling]: "settled P u (refuse e u)"
  by (simp add: settled_def refuse_def)

lemma settled_commit [settling]: "P r (live (saved f u)) \<Longrightarrow> settled P u (commit C r f live u)"
  by (auto simp: settled_def commit_def commitConfig_def writeConfigFrom_def saved_def Let_def
      split: option.split)

lemma settled_if [settling]: "(c \<Longrightarrow> settled P u a) \<Longrightarrow> (\<not> c \<Longrightarrow> settled P u b) \<Longrightarrow> settled P u (if c then a else b)"
  by simp

lemma settled_sum [settling]:
  "(\<And>x. s = Inr x \<Longrightarrow> settled P u (f x)) \<Longrightarrow> settled P u (case s of Inl e \<Rightarrow> refuse e u | Inr x \<Rightarrow> f x)"
  by (cases s) (auto intro: settled_refuse)

lemma settled_sum_error [settling]:
  "(\<And>x. s = Inr x \<Longrightarrow> settled P u (f x)) \<Longrightarrow> settled P u (case s of Inl e \<Rightarrow> refuse (h e) u | Inr x \<Rightarrow> f x)"
  by (cases s) (auto intro: settled_refuse)

lemma settled_error [settling]: "settled P u b \<Longrightarrow> settled P u (case x of Some e \<Rightarrow> refuse (h e) u | None \<Rightarrow> b)"
  by (cases x) (auto intro: settled_refuse)

lemma settled_option [settling]:
  "(\<And>y. x = Some y \<Longrightarrow> settled P u (f y)) \<Longrightarrow> settled P u (case x of None \<Rightarrow> refuse e u | Some y \<Rightarrow> f y)"
  by (cases x) (auto intro: settled_refuse)

lemma settled_pair [settling]: "(\<And>x y. p = (x, y) \<Longrightarrow> settled P u (f x y)) \<Longrightarrow> settled P u (case p of (x, y) \<Rightarrow> f x y)"
  by (cases p) simp

lemma settled_after: "settled (\<lambda>r v. P r (f v)) u p
    \<Longrightarrow> settled P u (case p of (Inl e, v) \<Rightarrow> (Inl e, v) | (Inr r, v) \<Rightarrow> (Inr r, f v))"
  by (auto simp: settled_def split: sum.splits prod.splits)

lemma settledD: "settled P u (Inr r, v) \<Longrightarrow> P r v"
  by (simp add: settled_def)

lemma settings_upd [simp]:
  fixes u :: server
  shows "s_file (run_set_list app xs u) = s_file u" "s_disk (run_set_list app xs u) = s_disk u"
    "s_file (ensureWorkThreads n u) = s_file u" "s_disk (ensureWorkThreads n u) = s_disk u"
    "s_file (run_hooks web hs u) = s_file u" "s_disk (run_hooks web hs u) = s_disk u"
    "s_file (applyLiveWebserverAuth w u) = s_file u" "s_disk (applyLiveWebserverAuth w u) = s_disk u"
    "s_file (resetTickers u) = s_file u" "s_disk (resetTickers u) = s_disk u" "s_live (resetTickers u) = s_live u"
    "s_file (publish u) = s_file u" "s_disk (publish u) = s_disk u" "s_live (publish u) = s_live u"
    "s_file (apply_general_live C p ps u) = s_file u" "s_disk (apply_general_live C p ps u) = s_disk u"
  by (simp_all add: run_set_list_def ensureWorkThreads_def run_hooks_def applyLiveWebserverAuth_def resetTickers_def
      publish_def apply_general_live_def Let_def split: option.split)

lemma after_general_more [simp]: "daemon.more (after_general E clk b u) = daemon.more u"
  by (simp add: after_general_def Let_def)

lemma after_general_settings [simp]:
  fixes u :: server
  shows "s_file (after_general E clk b u) = s_file u" "s_disk (after_general E clk b u) = s_disk u"
    "s_live (after_general E clk b u) = s_live u"
  using settings_eq [of "after_general E clk b u" u] by simp_all

subsection \<open>The file takes the request, not the environment\<close>











definition demo_general :: general where
  "demo_general = \<lparr>g_Debug = False, g_Quiet = False, g_Activity = False, g_Parallel = 1, g_ErrorStdErr = False,
     g_LogFile = '''', g_LogFiles = 0, g_LogFileMb = 10, g_LogFileMode = ''600'', g_MaxRetries = 0, g_RemnantAction = '''',
     g_FileMode = ''644'', g_DirMode = ''755'', g_LogQueues = 60 * nsecond, g_Interval = 60 * nsecond, g_Timeout = 10 * nsecond,
     g_DeleteDelay = 300 * nsecond, g_StartDelay = 60 * nsecond, g_RetryDelay = 60 * nsecond, g_Progress = 15 * nsecond,
     g_KeepHistory = 5, g_Passwords = []\<rparr>"

definition demo_config :: config where
  "demo_config = applyGeneral (zero_config\<lparr>cf_Webserver := Some (zero_web\<lparr>w_URLBase := ''/'',
       w_APIKeys := [\<lparr>k_Name = ''a'', k_Key = ''0123456789abcdef0123456789abcdef0123456789abcdef0123456789abcdef'', k_Roles = [''admin'']\<rparr>]\<rparr>)\<rparr>) demo_general"

definition demo_server :: server where
  "demo_server = daemon.extend demo_daemon \<lparr>s_file = Some demo_config, s_live = demo_config, s_livePasswords = None,
     s_disk = None, s_workThreads = 1, s_hookWorker = False, s_tickers = None, s_pendingRestart = False, s_writeErr = False\<rparr>"

text \<open>An environment that decodes every section to fixed settings.\<close>

definition demo_codecs_with :: "(string \<times> string) list \<Rightarrow> (config \<Rightarrow> config option) \<Rightarrow> config_env" where
  "demo_codecs_with us f = \<lparr>ce_general = (\<lambda>_. Some (demo_general\<lparr>g_MaxRetries := 3\<rparr>)), ce_web = (\<lambda>_. None), ce_starr = (\<lambda>_. None),
     ce_folders = (\<lambda>_. None), ce_hook = (\<lambda>_. None), ce_hooks = (\<lambda>_. Some (cf_Hooks zero_config)),
     ce_EnvPrefix = ''UN'', ce_Environ = [], ce_envUsed = us, ce_parseENV = f, ce_expandWeb = Some, ce_expandStarr = Some,
     ce_expandFolders = Some, ce_expandHooks = Some, ce_homedir = Some, ce_ReadFile = (\<lambda>_. None), ce_schema = True,
     ce_write = (\<lambda>_. True), ce_toBytes = (\<lambda>_. Some 0), ce_allPrint = (\<lambda>_. True), ce_ips = (\<lambda>_. []), ce_hash = Some,
     ce_cmp = (=), ce_kdf = (\<lambda>a b. a @ b), ce_urls = demo_urls, ce_windows = False, ce_gui = False\<rparr>"

definition demo_codecs :: config_env where
  "demo_codecs = demo_codecs_with [] Some"

















subsection \<open>The limits of the general settings\<close>

lemma octal_value_snoc: "octal_value (s @ [c]) = 8 * octal_value s + (of_char c - 48)"
  by (simp add: octal_value_def)

lemma format_octal_digits: "format_octal n \<noteq> [] \<and> list_all is_octal (format_octal n)"
proof (induction n rule: format_octal.induct)
  case (1 n)
  have d: "is_octal (digit_char d)" if "d < 8" for d using that by (simp add: is_octal_def of_char_digit)
  show ?case using 1 d by (subst (1 2) format_octal.simps) simp
qed

lemma octal_value_format [simp]: "octal_value (format_octal n) = n"
proof (induction n rule: format_octal.induct)
  case (1 n)
  show ?case
  proof (cases "n < 8")
    case True
    then show ?thesis by (subst format_octal.simps) (simp add: octal_value_def of_char_digit)
  next
    case False
    with 1 show ?thesis by (subst format_octal.simps) (simp add: octal_value_snoc of_char_digit)
  qed
qed

lemma trim_format_octal [simp]: "trim_space (format_octal n) = format_octal n"
proof (rule trim_space_id)
  have "\<not> is_space c" if "c \<in> set (format_octal n)" for c
    using format_octal_digits [of n] that by (auto simp: list_all_iff is_octal_def is_space_def)
  then show "\<not> is_space (hd (format_octal n))" "\<not> is_space (last (format_octal n))"
    using format_octal_digits [of n] by simp_all
qed (simp add: format_octal_digits)

lemma parse_bound: "fallback < 2 ^ 32 \<Longrightarrow> parseUnixMode raw fallback < 2 ^ 32"
  by (simp add: parseUnixMode_def Let_def)

lemma parse_format: "n < 2 ^ 32 \<Longrightarrow> parseUnixMode (format_octal n) fallback = n"
  by (simp add: parseUnixMode_def format_octal_digits)

lemma parse_clamp [simp]: "fallback < 2 ^ 32 \<Longrightarrow> parseUnixMode (format_octal (parseUnixMode raw fallback)) fallback' = parseUnixMode raw fallback"
  by (rule parse_format) (rule parse_bound)

text \<open>The general settings that are only read at the start, the modes by their value.\<close>

definition start_settings :: "config \<Rightarrow> (bool \<times> bool \<times> uint64 \<times> bool) \<times> (string \<times> int \<times> int) \<times> (nat \<times> nat \<times> nat) \<times> duration \<times> duration" where
  "start_settings c = ((g_Debug c, g_Quiet c, g_Parallel c, g_ErrorStdErr c), (g_LogFile c, g_LogFiles c, g_LogFileMb c),
     (parseUnixMode (g_LogFileMode c) defaultLogFileMode, parseUnixMode (g_FileMode c) defaultFileMode,
       parseUnixMode (g_DirMode c) defaultDirMode), g_Timeout c, g_DeleteDelay c)"

lemma clampConfig_fields:
  "g_Debug (clampConfig C c) = g_Debug c" "g_Quiet (clampConfig C c) = g_Quiet c"
  "g_Parallel (clampConfig C c) = (if g_Parallel c = 0 then 1 else g_Parallel c)"
  "g_ErrorStdErr (clampConfig C c) = (g_ErrorStdErr c \<and> \<not> ce_windows C)"
  "g_LogFile (clampConfig C c) = (if ce_gui C \<and> g_LogFile c = '''' then path_join [''~'', ''.unpackerr'', ''unpackerr.log''] else g_LogFile c)"
  "g_LogFiles (clampConfig C c) = g_LogFiles c"
  "g_LogFileMb (clampConfig C c) = (if g_LogFileMb c = 0 then 10 else g_LogFileMb c)"
  "g_LogFileMode (clampConfig C c) = format_octal (parseUnixMode (g_LogFileMode c) defaultLogFileMode)"
  "g_FileMode (clampConfig C c) = format_octal (parseUnixMode (g_FileMode c) defaultFileMode)"
  "g_DirMode (clampConfig C c) = format_octal (parseUnixMode (g_DirMode c) defaultDirMode)"
  "g_Timeout (clampConfig C c) = g_Timeout c"
  "g_DeleteDelay (clampConfig C c) = (if g_DeleteDelay c > 0 \<and> g_DeleteDelay c < nsecond then nsecond else g_DeleteDelay c)"
  by (auto simp: clampConfig_def clampUnixMode_def)

text \<open>Limits are reached in one pass: the settings a clamped general section is applied to clamp to it.\<close>

lemma clamp_start:
  assumes "start_settings c = start_settings (clampConfig C p)"
  shows "start_settings (clampConfig C c) = start_settings c"
  using assms by (auto simp: start_settings_def clampConfig_fields)

lemma restart_start_settings:
  "\<not> generalRestartRequired cur next \<Longrightarrow> start_settings next = start_settings cur"
  by (simp add: generalRestartRequired_def start_settings_def sameUnixMode_def)

lemma start_applyGeneral: "start_settings (applyGeneral dst (generalConfigFrom c)) = start_settings c"
  by (simp add: applyGeneral_def generalConfigFrom_def start_settings_def general.defs)

lemma live_start_settings:
  "start_settings (s_live (apply_general_live C (clampConfig C p) ps u)) = start_settings (clampConfig C p)"
proof -
  let ?c = "(applyGeneral (s_live u) (generalConfigFrom (clampConfig C p)))
      \<lparr>g_Passwords := ps, g_RemnantAction := remnantAction (g_RemnantAction (clampConfig C p))\<rparr>"
  have l: "s_live (apply_general_live C (clampConfig C p) ps u) = clampConfig C ?c"
    by (simp add: apply_general_live_def Let_def)
  have s: "start_settings ?c = start_settings (clampConfig C p)"
    using start_applyGeneral [of "s_live u" "clampConfig C p"] by (simp add: start_settings_def)
  show ?thesis unfolding l by (simp only: clamp_start [OF s] s)
qed

text \<open>
  C23. A change of the general settings that asks for no restart leaves every setting that is only read at
  the start as it was; any other accepted change of one of them is announced as needing a restart.
\<close>

theorem no_restart_keeps_start_settings:
  assumes "putGeneral C E clk raw u = (Inr False, v)"
  shows "start_settings (s_live v) = start_settings (s_live u)"
proof -
  have "settled (\<lambda>r v. \<not> r \<longrightarrow> start_settings (s_live v) = start_settings (s_live u)) u (putGeneral C E clk raw u)"
    unfolding putGeneral_def Let_def
    by (intro settled_sum settled_if settled_refuse settled_after settled_commit)
      (auto simp: live_start_settings restart_start_settings)
  with assms show ?thesis by (simp add: settled_def)
qed

abbreviation demo_general_body :: json where
  "demo_general_body \<equiv> JObj [(''max_retries'', JValue ''3'')]"

lemma demo_general_put: "fst (putGeneral demo_codecs demo_env 0 demo_general_body demo_server) = Inr False"
proof -
  let ?g = "demo_general\<lparr>g_MaxRetries := 3\<rparr>"
  let ?p = "clampConfig demo_codecs (applyGeneral (cloneConfig demo_config) ?g)"
  have u: "unmarshalObject (ce_general demo_codecs) demo_general_body [] = Inr ?g"
    by (simp add: unmarshalObject_def unmarshalStrict_def demo_codecs_def demo_codecs_with_def)
  have f: "s_file demo_server = Some demo_config" "s_live demo_server = demo_config" "d_ConfigFile demo_server = ''/c/u.conf''"
    by (simp_all add: demo_server_def daemon.defs demo_daemon_def)
  have o: "applyEnvOverlay demo_codecs (\<lambda>cfg. applyGeneral cfg ?g) demo_server = Inr (applyGeneral (cloneConfig demo_config) ?g)"
    by (simp add: applyEnvOverlay_def overlayEnv_def cloneFileConfig_def f demo_codecs_def demo_codecs_with_def)
  have e: "expandPasswords r (g_Passwords ?p) = Inr []" for r
    by (simp add: clampConfig_def applyGeneral_def demo_general_def)
  have r: "\<not> generalRestartRequired demo_config ?p"
    by (simp add: generalRestartRequired_def clampConfig_fields sameUnixMode_def applyGeneral_def demo_config_def demo_general_def
        demo_codecs_def demo_codecs_with_def)
  have a: "\<not> remnantActionError (g_RemnantAction demo_general)" by code_simp
  have t: "trim_space ''/c/u.conf'' = ''/c/u.conf''" by code_simp
  show ?thesis
    by (simp add: putGeneral_def u o e r a f t commit_def commitConfig_def writeConfigFrom_def Let_def)
      (simp add: demo_codecs_def demo_codecs_with_def)
qed

theorem no_restart_keeps_start_settings_witness:
  "start_settings (s_live (snd (putGeneral demo_codecs demo_env 0 demo_general_body demo_server))) = start_settings demo_config"
proof -
  have "putGeneral demo_codecs demo_env 0 demo_general_body demo_server
      = (Inr False, snd (putGeneral demo_codecs demo_env 0 demo_general_body demo_server))"
    using demo_general_put by (metis prod.collapse)
  from no_restart_keeps_start_settings [OF this] show ?thesis by (simp add: demo_server_def daemon.defs)
qed

subsection \<open>Starr instances keep their queues\<close>

definition identities :: "starr instances \<Rightarrow> string list" where
  "identities xs = List.map_filter (\<lambda>(_, a). map_option starrIdentity a) xs"

lemma seen_other: "i \<notin> set (identities prev)
    \<Longrightarrow> aget (foldl (\<lambda>seen (_, app). case app of None \<Rightarrow> seen | Some s \<Rightarrow> aput (starrIdentity s) s seen) m prev) i = aget m i"
proof (induction prev arbitrary: m)
  case (Cons kv prev)
  obtain k a where "kv = (k, a)" by (cases kv)
  with Cons show ?case by (cases a) (auto simp: identities_def map_filter_simps aget_aput)
qed simp

lemma seen_found:
  assumes "distinct (identities prev)" "(k, Some old) \<in> set prev"
  shows "aget (foldl (\<lambda>seen (_, app). case app of None \<Rightarrow> seen | Some s \<Rightarrow> aput (starrIdentity s) s seen) m prev) (starrIdentity old) = Some old"
  using assms
proof (induction prev arbitrary: m)
  case (Cons kv prev)
  obtain k' a where kv: "kv = (k', a)" by (cases kv)
  show ?case
  proof (cases "(k, Some old) = kv")
    case True
    with Cons.prems kv show ?thesis
      using seen_other [of "starrIdentity old" prev] by (auto simp: identities_def map_filter_simps aget_aput)
  next
    case False
    with Cons kv show ?thesis by (cases a) (auto simp: identities_def map_filter_simps)
  qed
qed simp

lemma run_list_upd [simp]:
  "run_list app (run_set_list app xs u) = xs" "run_list app (ensureWorkThreads n u') = run_list app u'"
  "run_list app (saved f u') = run_list app u'" "run_list app (u'\<lparr>s_live := c\<rparr>) = run_list app u'"
  by (auto simp: run_list_def run_set_list_def ensureWorkThreads_def saved_def Let_def split: option.split)

lemma carryQueues_map: "carryQueues prev next = map (\<lambda>(k, app). (k, map_option (\<lambda>s.
    case aget (seen_apps prev) (starrIdentity s) of Some old \<Rightarrow> takeQueue s old | None \<Rightarrow> s) app)) next"
  by (auto simp: carryQueues_def Let_def split: option.split)

lemma carried_entry:
  assumes "(k, Some s) \<in> set (map (\<lambda>(k, s). (k, map_option starr.truncate s)) (carryQueues prev next))"
  obtains t where "s = starr.truncate (case aget (seen_apps prev) (starrIdentity t) of Some old \<Rightarrow> takeQueue t old | None \<Rightarrow> t)"
    and "starrIdentity s = starrIdentity t"
proof -
  from assms obtain x where "Some s = map_option starr.truncate (map_option (\<lambda>s.
    case aget (seen_apps prev) (starrIdentity s) of Some old \<Rightarrow> takeQueue s old | None \<Rightarrow> s) x)"
    by (auto simp: carryQueues_map)
  then obtain t where "s = starr.truncate (case aget (seen_apps prev) (starrIdentity t) of Some old \<Rightarrow> takeQueue t old | None \<Rightarrow> t)"
    by (cases x) auto
  moreover then have "starrIdentity s = starrIdentity t"
    by (simp add: starrIdentity_def starr.defs takeQueue_def split: option.split)
  ultimately show ?thesis by (rule that)
qed

definition poll_state :: "'a starr_scheme \<Rightarrow> queue_view list option \<times> int \<times> int \<times> instant \<times> string \<times> bool" where
  "poll_state s = (sr_Queue s, sr_lastQueued s, sr_lastRetrieved s, sr_lastPolled s, sr_lastPollErr s, sr_polled s)"

text \<open>
  C21. A running instance that a PUT of its list does not point to another server keeps its download queue
  and the outcome of its last poll, under whatever name and with whatever other settings it is put, so
  that the items of the queue are not taken for gone.
\<close>

theorem queues_carried:
  assumes "putStarrList C app raw u = (Inr r, v)" and "distinct (identities (run_list app u))"
    and "(k, Some s) \<in> set (run_list app v)" and "(k', Some old) \<in> set (run_list app u)"
    and "sr_URL s = sr_URL old" "sr_APIKey s = sr_APIKey old"
  shows "poll_state s = poll_state old"
proof -
  have "settled (\<lambda>r v. \<exists>next. run_list app v = map (\<lambda>(k, s). (k, map_option starr.truncate s)) (carryQueues (run_list app u) next))
      u (putStarrList C app raw u)"
    unfolding putStarrList_def Let_def by (intro settling exI) (simp_all del: list.map)
  with assms(1) obtain next' where "run_list app v = map (\<lambda>(k, s). (k, map_option starr.truncate s)) (carryQueues (run_list app u) next')"
    by (auto simp: settled_def)
  with assms(3) obtain t where t: "s = starr.truncate (case aget (seen_apps (run_list app u)) (starrIdentity t) of
      Some old \<Rightarrow> takeQueue t old | None \<Rightarrow> t)" "starrIdentity s = starrIdentity t"
    by (metis carried_entry)
  have "starrIdentity t = starrIdentity old" using t(2) assms(5,6) by (simp add: starrIdentity_def)
  moreover have "aget (seen_apps (run_list app u)) (starrIdentity old) = Some old"
    using seen_found [OF assms(2,4)] by (simp add: seen_apps_def)
  ultimately show ?thesis using t(1) by (simp add: poll_state_def takeQueue_def starr.defs)
qed

definition demo_instance :: starr_conf where
  "demo_instance = \<lparr>sr_URL = ''http://l'', sr_APIKey = ''0123456789abcdef0123456789abcdef'', sr_Name = '''', sr_Paths = [''/d''],
     sr_Protocols = ''torrent'', sr_DeleteOrig = False, sr_DeleteDelay = 1, sr_Syncthing = False, sr_maxBytes = 0, sr_lastQueued = 0,
     sr_lastRetrieved = 0, sr_lastPolled = 0, sr_lastPollErr = '''', sr_polled = False, sr_Queue = None, sr_SplitFlac = False,
     sr_APEFormat = '''', sr_APECompression = 0, sr_Path = '''', sr_ValidSSL = False, sr_Timeout = 1, sr_MaxBytes = ''1'',
     sr_Password = '''', sr_HTTPPass = '''', sr_Client = None, sr_connected = False\<rparr>"

definition demo_running :: starr where
  "demo_running = (starr.truncate demo_instance)\<lparr>sr_Paths := [''/old''], sr_lastQueued := 3, sr_polled := True, sr_Queue := Some []\<rparr>"

definition demo_starr_put :: put where
  "demo_starr_put = putStarrList (demo_codecs\<lparr>ce_starr := \<lambda>_. Some demo_instance\<rparr>) Lidarr (JObj [(''new'', JValue '''')])
     (run_set_list Lidarr [(''old'', Some demo_running)] demo_server)"

theorem queues_carried_witness:
  "poll_state (the (snd (hd (run_list Lidarr (snd demo_starr_put))))) = poll_state demo_running"
proof -
  let ?s = "the (snd (hd (run_list Lidarr (snd demo_starr_put))))"
  have p: "putStarrList (demo_codecs\<lparr>ce_starr := \<lambda>_. Some demo_instance\<rparr>) Lidarr (JObj [(''new'', JValue '''')])
     (run_set_list Lidarr [(''old'', Some demo_running)] demo_server) = (Inr (projr (fst demo_starr_put)), snd demo_starr_put)"
  proof -
    have "\<not> sum.isl (fst demo_starr_put)" by code_simp
    then show ?thesis unfolding demo_starr_put_def by (simp add: prod_eq_iff)
  qed
  have "map (\<lambda>(k, s). (k, s = None, map_option sr_URL s, map_option sr_APIKey s)) (run_list Lidarr (snd demo_starr_put))
      = [(''new'', False, Some (sr_URL demo_running), Some (sr_APIKey demo_running))]" by code_simp
  then have "(''new'', Some ?s) \<in> set (run_list Lidarr (snd demo_starr_put))" "sr_URL ?s = sr_URL demo_running"
    "sr_APIKey ?s = sr_APIKey demo_running" by auto
  moreover have "distinct (identities (run_list Lidarr (run_set_list Lidarr [(''old'', Some demo_running)] demo_server)))"
    by (simp add: identities_def map_filter_simps)
  ultimately show ?thesis using queues_carried [OF p, of "''new''" ?s "''old''" demo_running] by simp
qed

subsection \<open>What a GET shows can be put back\<close>

lemma path_comps_base:
  assumes "\<forall>c \<in> set cs. good_comp c"
  shows "path_comps (''//'' @ slashed cs @ ''/'') = cs"
proof -
  have s: "split_slash (slashed cs @ ''/'') = [] # cs @ [[]]" if "\<forall>c \<in> set cs. sl \<notin> set c" for cs
    using that
  proof (induction cs)
    case (Cons c cs)
    have "split_slash (d @ slashed cs @ ''/'') = d # cs @ [[]]" if "sl \<notin> set d" for d
      using that Cons by (induction d) auto
    with Cons.prems show ?case by simp
  qed simp
  have "clean_comps True acc (cs @ [[]]) = rev acc @ cs" for acc
    using assms by (induction cs arbitrary: acc) (auto simp: good_comp_def)
  with s [of cs] assms show ?thesis by (simp add: path_comps_def is_abs_def good_comp_def)
qed

lemma normal_base:
  "\<exists>cs. (\<forall>c \<in> set cs. good_comp c) \<and> trim_suffix (path_join [''/'', x]) ''/'' @ ''/'' = slashed cs @ ''/''"
proof -
  let ?p = "''//'' @ x"
  have a: "is_abs ?p" by (simp add: is_abs_def)
  have j: "path_join [''/'', x] = clean ?p" by (simp add: path_join_def)
  show ?thesis
  proof (cases "path_comps ?p = []")
    case True
    then have "clean ?p = ''/''" using a by (simp add: clean_abs)
    then show ?thesis unfolding j by (intro exI [of _ "[]"]) (simp add: trim_suffix_def)
  next
    case False
    then have "\<not> has_suffix (clean ?p) ''/''" using suffix_slash_clean [OF a] by simp
    then have "trim_suffix (clean ?p) ''/'' = slashed (path_comps ?p)"
      using False a by (simp add: trim_suffix_def clean_abs)
    then show ?thesis unfolding j using path_comps_good [OF a] by (intro exI [of _ "path_comps ?p"]) simp
  qed
qed

lemma normalizeURLBase_idem [simp]: "normalizeURLBase (normalizeURLBase w) = normalizeURLBase w"
proof -
  obtain cs where cs: "\<forall>c \<in> set cs. good_comp c" "trim_suffix (path_join [''/'', w_URLBase w]) ''/'' @ ''/'' = slashed cs @ ''/''"
    using normal_base by blast
  let ?p = "''//'' @ slashed cs @ ''/''"
  have a: "is_abs ?p" by (simp add: is_abs_def)
  have j: "path_join [''/'', slashed cs @ ''/''] = clean ?p" by (simp add: path_join_def)
  have "trim_suffix (clean ?p) ''/'' = slashed cs"
  proof (cases "cs = []")
    case True
    then show ?thesis using a path_comps_base [OF cs(1)] by (simp add: clean_abs trim_suffix_def)
  next
    case False
    then show ?thesis using a suffix_slash_clean [OF a] path_comps_base [OF cs(1)] by (simp add: clean_abs trim_suffix_def)
  qed
  then show ?thesis by (simp add: normalizeURLBase_def cs(2) j)
qed

text \<open>Keys that a GET without their secrets names well: every one has a name of its own and a secret.\<close>

definition named_keys :: "api_key list \<Rightarrow> bool" where
  "named_keys ks \<longleftrightarrow> distinct (map k_Name ks) \<and> list_all (\<lambda>k. k_Name k \<noteq> '''' \<and> trim_space (k_Key k) \<noteq> '''') ks"

lemma trim_nonempty: "trim_space s \<noteq> '''' \<Longrightarrow> s \<noteq> ''''"
  by (auto simp: trim_space_def)

lemma keys_by_name_found:
  assumes "named_keys ks" "k \<in> set ks"
  shows "aget (keys_by_name ks) (k_Name k) = Some (k_Key k)"
proof -
  let ?f = "\<lambda>m k. if k_Name k = '''' \<or> k_Key k = '''' then m
     else if aget m (k_Name k) = None then aput (k_Name k) (k_Key k) m else m"
  have "aget (foldl ?f m ks) (k_Name k) = Some (k_Key k)"
    if "named_keys ks" "k \<in> set ks" "\<forall>k \<in> set ks. aget m (k_Name k) = None" for m
    using that
  proof (induction ks arbitrary: m)
    case (Cons a ks)
    have other: "aget (foldl ?f m ks) n = aget m n" if "n \<notin> k_Name ` set ks" for n m ks
      using that by (induction ks arbitrary: m) auto
    have a: "k_Name a \<noteq> ''''" "k_Key a \<noteq> ''''" "named_keys ks" "k_Name a \<notin> k_Name ` set ks"
      using Cons.prems(1) by (auto simp: named_keys_def dest: trim_nonempty)
    show ?case
    proof (cases "k = a")
      case True
      then show ?thesis using a Cons.prems(3) other [OF a(4)] by simp
    next
      case False
      then have "k \<in> set ks" using Cons.prems(2) by simp
      moreover have "\<forall>x \<in> set ks. aget (aput (k_Name a) (k_Key a) m) (k_Name x) = None"
        using Cons.prems(3) a(4) by (auto simp: image_iff)
      ultimately show ?thesis using a Cons.IH [OF a(3)] Cons.prems(3) by simp
    qed
  qed simp
  from this [of "[]"] assms show ?thesis by (simp add: keys_by_name_def)
qed

lemma keep_named: "named_keys ks \<Longrightarrow> keepNamedAPIKeys ks [ks] = ks"
  by (auto simp: keepNamedAPIKeys_def named_keys_def list_all_iff intro: map_idI)

lemma keep_redacted:
  assumes "named_keys ks"
  shows "keepNamedAPIKeys (map (\<lambda>k. k\<lparr>k_Key := ''''\<rparr>) ks) [ks] = ks"
proof -
  have "trim_space '''' = ''''" by (simp add: trim_space_def)
  then show ?thesis using keys_by_name_found [OF assms] by (simp add: keepNamedAPIKeys_def) (rule map_idI, simp)
qed

lemma dropEmpty_named: "named_keys ks \<Longrightarrow> dropEmptyAPIKeys ks = ks"
  by (simp add: dropEmptyAPIKeys_def named_keys_def list_all_iff)

lemma submitted_public:
  assumes "submitted_password C live p (publicCryptPass p) user kdf = Inr pass" "publicCryptPass p \<noteq> ''''"
    "\<not> has_prefix (publicCryptPass p) filePrefix"
  shows "pass = p" "publicCryptPass p = p"
proof -
  from assms(2,3) have p: "publicCryptPass p = p" "p \<noteq> ''''" "IsCrypted p \<or> Webauth p" "\<not> has_prefix p filePrefix"
    by (auto simp: publicCryptPass_def split: if_splits)
  then show "publicCryptPass p = p" by simp
  from p assms(1) show "pass = p"
    by (auto simp: submitted_password_def expandCryptPassFile_def normalizeStoredPassword_def split: if_splits)
qed

text \<open>The web server a PUT of what a GET shows stores: the names normalized, and nothing else changed.\<close>

definition normalized_web :: "web_conf \<Rightarrow> web_conf" where
  "normalized_web w = (normalizeURLBase w)\<lparr>w_UIRoleHeader := trim_space (w_UIRoleHeader w)\<rparr>"

lemma redacted_fields:
  "w_URLBase (redactAPIKeysUnlessAll info w) = w_URLBase w" "w_UIRoleHeader (redactAPIKeysUnlessAll info w) = w_UIRoleHeader w"
  "w_UIPassword (redactAPIKeysUnlessAll info w) = w_UIPassword w"
  "(redactAPIKeysUnlessAll info w)\<lparr>w_APIKeys := ks\<rparr> = w\<lparr>w_APIKeys := ks\<rparr>"
  by (simp_all add: redactAPIKeysUnlessAll_def)

lemma shown_keys:
  assumes "named_keys (w_APIKeys w)"
  shows "keepNamedAPIKeys (w_APIKeys (redactAPIKeysUnlessAll info (publicWebserver w))) [w_APIKeys w] = w_APIKeys w"
  using keep_named [OF assms] keep_redacted [OF assms] by (simp add: redactAPIKeysUnlessAll_def publicWebserver_def)


lemma stored_shown:
  assumes "publicCryptPass (w_UIPassword F) \<noteq> '''' \<longrightarrow> \<not> has_prefix (publicCryptPass (w_UIPassword F)) filePrefix \<longrightarrow> pass = w_UIPassword F"
    and "w_keyPerms F = None" "w_cookies F = None" "ks' = w_APIKeys F"
  shows "stored_web ((normalizeURLBase (redactAPIKeysUnlessAll info (publicWebserver F)))
      \<lparr>w_UIRoleHeader := trim_space (w_UIRoleHeader F), w_APIKeys := ks, w_UIPassword := pass\<rparr>) ks'
      (publicCryptPass (w_UIPassword F)) (w_UIPassword F) = normalized_web F"
  using assms
  by (cases F) (auto simp: stored_web_def cloneWebserver_def normalized_web_def normalizeURLBase_def publicWebserver_def
      redactAPIKeysUnlessAll_def publicCryptPass_def Let_def split: if_splits)

lemma normalized_no_restart: "\<not> webserverRestartRequired F (normalized_web F)"
proof -
  have "w_URLBase (normalizeURLBase (normalized_web F)) = w_URLBase (normalizeURLBase F)"
    using arg_cong [OF normalizeURLBase_idem [of F], of w_URLBase] by (simp add: normalized_web_def normalizeURLBase_def)
  then show ?thesis by (simp add: webserverRestartRequired_def Let_def) (simp add: normalized_web_def normalizeURLBase_def)
qed

lemma put_back:
  assumes "W = normalized_web (file_webserver u)" "s_file u \<noteq> None"
  shows "file_webserver (applyLiveWebserverAuth w (saved (\<lambda>cfg. cfg\<lparr>cf_Webserver := Some W\<rparr>) u)) = normalized_web (file_webserver u)
    \<and> \<not> webserverRestartRequired (file_webserver u) W"
proof -
  have "cloneWebserver (Some (normalized_web (file_webserver u))) = normalized_web (file_webserver u)"
    by (auto simp: cloneWebserver_def normalized_web_def normalizeURLBase_def file_webserver_def zero_web_def split: option.split)
  then show ?thesis using assms by (auto simp: normalized_no_restart file_webserver_def)
qed

lemma shown_fields:
  "w_UIPassword (normalizeURLBase w) = w_UIPassword w" "w_UIRoleHeader (normalizeURLBase w) = w_UIRoleHeader w"
  "w_APIKeys (normalizeURLBase w) = w_APIKeys w"
  "w_UIPassword (redactAPIKeysUnlessAll info (publicWebserver w)) = publicCryptPass (w_UIPassword w)"
  "w_UIRoleHeader (redactAPIKeysUnlessAll info (publicWebserver w)) = w_UIRoleHeader w"
  "w_UIPassword (w\<lparr>w_UIRoleHeader := x\<rparr>) = w_UIPassword w" "w_APIKeys (w\<lparr>w_UIRoleHeader := x\<rparr>) = w_APIKeys w"
  by (simp_all add: normalizeURLBase_def redactAPIKeysUnlessAll_def publicWebserver_def)

lemma settled_shown:
  assumes e: "unmarshalObject (ce_web C) raw [''uiCurrentKdf''] = Inr (redactAPIKeysUnlessAll info (publicWebserver (file_webserver u)), kdf)"
    and f: "s_file u \<noteq> None" and n: "named_keys (w_APIKeys (file_webserver u))"
  shows "settled (\<lambda>r v. file_webserver v = normalized_web (file_webserver u) \<and> \<not> r) u (putWebserver C raw u)"
  unfolding putWebserver_def Let_def e sum.case prod.case shown_fields shown_keys [OF n] dropEmpty_named [OF n]
  by (intro settling; rule put_back [OF _ f]; rule stored_shown; (simp add: file_webserver_def cloneWebserver_def zero_web_def split: option.split; fail)?)
    (metis submitted_public)

text \<open>
  C22. What the API shows of the web server can be put back: for a caller that may see everything and for one
  to whom the API keys are shown without their secrets, a PUT of exactly what a GET returned, once it is
  accepted, loses no key and no password of the file, plain passwords included, and needs no restart.
  The stored section is the one of before with its URL base and role header in normal form.
\<close>

theorem shown_webserver_can_be_put_back:
  assumes "unmarshalObject (ce_web C) raw [''uiCurrentKdf''] = Inr (redactAPIKeysUnlessAll info (publicWebserver (file_webserver u)), kdf)"
    and "s_file u \<noteq> None" and "named_keys (w_APIKeys (file_webserver u))"
    and "putWebserver C raw u = (Inr r, v)"
  shows "file_webserver v = normalized_web (file_webserver u) \<and> \<not> r"
  using settled_shown [OF assms(1-3)] assms(4) by (simp add: settled_def)

definition demo_view :: web_conf where
  "demo_view = redactAPIKeysUnlessAll \<lparr>ai_Username = ''x'', ai_APIKey = [], ai_Auth = [], ai_Via = [], ai_Permissions = []\<rparr> (publicWebserver (file_webserver demo_server))"

definition demo_back :: put where
  "demo_back = putWebserver (demo_codecs\<lparr>ce_web := \<lambda>_. Some (demo_view, '''')\<rparr>) (JObj [(''api_keys'', JArr [])]) demo_server"

theorem shown_webserver_can_be_put_back_witness:
  "file_webserver (snd demo_back) = normalized_web (file_webserver demo_server)"
proof -
  have "\<not> sum.isl (fst demo_back)" by code_simp
  then have p: "putWebserver (demo_codecs\<lparr>ce_web := \<lambda>_. Some (demo_view, '''')\<rparr>) (JObj [(''api_keys'', JArr [])]) demo_server
      = (Inr (projr (fst demo_back)), snd demo_back)"
    unfolding demo_back_def by (simp add: prod_eq_iff)
  have "named_keys (w_APIKeys (file_webserver demo_server))" by code_simp
  moreover have "s_file demo_server \<noteq> None" by (simp add: demo_server_def daemon.defs)
  moreover have "unmarshalObject (ce_web (demo_codecs\<lparr>ce_web := \<lambda>_. Some (demo_view, '''')\<rparr>)) (JObj [(''api_keys'', JArr [])])
      [''uiCurrentKdf''] = Inr (demo_view, '''')"
    by (simp add: unmarshalObject_def unmarshalStrict_def)
  ultimately show ?thesis using shown_webserver_can_be_put_back [OF _ _ _ p] unfolding demo_view_def by blast
qed

subsection \<open>A webhook that is not valid\<close>




end
