(* ===== verification/AtomicWrite.thy ===== *)
theory AtomicWrite
  imports Prelude
begin

text \<open>
  The write of the settings file (\<open>write.go\<close> of \<open>configdef\<close>): a temporary file, a backup and a rename. The
  directory is a map from names to contents and modes; what the operating system answers is given by
  \<open>disk_env\<close>. Every function returns, with its error, all the states of the directory it went through,
  the last one first, so that a crash at any moment can be spoken of.
\<close>

datatype write_error = EmptyConfigPath | MakeDir | CreateTemp | WriteTemp | SyncTemp | CloseTemp
  | BackupConfig | ReplaceConfig

type_synonym disk = "string \<rightharpoonup> string \<times> nat"

text \<open>A copy: whether source and target open, the bytes copied before an error, and sync and close.\<close>

record copy_env =
  cp_open :: bool
  cp_create :: bool
  cp_short :: "nat option"
  cp_sync :: bool
  cp_close :: bool

text \<open>
  \<open>de_tmp\<close> is the name of the temporary file, \<open>None\<close> if it cannot be made. Writing it stops after
  \<open>de_short\<close> bytes; \<open>de_umask\<close> is what the system makes of a requested mode. A name below a directory
  that does not exist has no entry.
\<close>

record disk_env =
  de_mkdir :: bool
  de_tmp :: "string option"
  de_chmod :: bool
  de_umask :: "nat \<Rightarrow> nat"
  de_short :: "nat option"
  de_sync :: bool
  de_close :: bool
  de_backup :: copy_env
  de_rename :: bool
  de_remove :: bool
  de_rename2 :: bool
  de_restore :: copy_env

definition configFileMode :: nat where
  "configFileMode = 384"

definition backupSuffix :: string where
  "backupSuffix = ''.bak''"

text \<open>The file gets the first bytes, or all of them.\<close>

definition write_bytes :: "nat option \<Rightarrow> string \<Rightarrow> string" where
  "write_bytes short data = (case short of None \<Rightarrow> data | Some n \<Rightarrow> take n data)"

definition set_data :: "string \<Rightarrow> string \<Rightarrow> disk \<Rightarrow> disk" where
  "set_data name data d = (case d name of None \<Rightarrow> d | Some (_, m) \<Rightarrow> d(name \<mapsto> (data, m)))"

text \<open>\<open>os.Rename\<close>.\<close>

definition rename_file :: "string \<Rightarrow> string \<Rightarrow> disk \<Rightarrow> disk" where
  "rename_file old new d = (case d old of None \<Rightarrow> d | Some f \<Rightarrow> (d(new \<mapsto> f))(old := None))"

text \<open>\<open>True\<close> is success. An empty target is there as soon as it was opened.\<close>

definition copyFile :: "disk_env \<Rightarrow> copy_env \<Rightarrow> string \<Rightarrow> string \<Rightarrow> nat \<Rightarrow> disk \<Rightarrow> bool \<times> disk list" where
  "copyFile E c src dst mode d = (case d src of
     None \<Rightarrow> (False, [d])
   | Some (data, _) \<Rightarrow> if \<not> cp_open c \<or> \<not> cp_create c then (False, [d])
     else let d1 = (case d dst of None \<Rightarrow> d(dst \<mapsto> ('''', de_umask E mode)) | Some (_, m) \<Rightarrow> d(dst \<mapsto> ('''', m)));
              d2 = set_data dst (write_bytes (cp_short c) data) d1
          in (cp_short c = None \<and> cp_sync c \<and> cp_close c, [d2, d1, d]))"

definition replaceFile :: "disk_env \<Rightarrow> string \<Rightarrow> string \<Rightarrow> nat \<Rightarrow> disk \<Rightarrow> write_error option \<times> disk list" where
  "replaceFile E path tmpName mode d = (let bak = path @ backupSuffix in
     case (if d path = None then (True, [d]) else copyFile E (de_backup E) path bak mode d) of
       (False, ds) \<Rightarrow> (Some BackupConfig, ds)
     | (True, ds) \<Rightarrow> let d = hd ds in
       if de_rename E then (None, rename_file tmpName path d # ds)
       else let d1 = (if de_remove E then d(path := None) else d) in
         if de_rename2 E then (None, rename_file tmpName path d1 # d1 # ds)
         else (Some ReplaceConfig, snd (copyFile E (de_restore E) bak path mode d1) @ d1 # ds))"

text \<open>The last state: the deferred removal of the temporary file.\<close>

definition with_removal :: "string \<Rightarrow> write_error option \<times> disk list \<Rightarrow> write_error option \<times> disk list" where
  "with_removal tmpName r = (case r of (e, ds) \<Rightarrow> (e, (hd ds)(tmpName := None) # ds))"

definition atomicWrite :: "disk_env \<Rightarrow> string \<Rightarrow> string \<Rightarrow> disk \<Rightarrow> write_error option \<times> disk list" where
  "atomicWrite E path data d = (if path = '''' then (Some EmptyConfigPath, [d])
     else if \<not> de_mkdir E then (Some MakeDir, [d])
     else let mode = (case d path of None \<Rightarrow> configFileMode | Some (_, m) \<Rightarrow> m) in
       case de_tmp E of None \<Rightarrow> (Some CreateTemp, [d])
       | Some tmpName \<Rightarrow> with_removal tmpName (
           let d1 = d(tmpName \<mapsto> ('''', if de_chmod E then mode else configFileMode));
               d2 = set_data tmpName (write_bytes (de_short E) data) d1; ds = [d2, d1, d] in
           if de_short E \<noteq> None then (Some WriteTemp, ds)
           else if \<not> de_sync E then (Some SyncTemp, ds)
           else if \<not> de_close E then (Some CloseTemp, ds)
           else case replaceFile E path tmpName mode d2 of (e, es) \<Rightarrow> (e, es @ ds)))"

subsection \<open>Properties\<close>

text \<open>Where the settings of before or of after can be found complete.\<close>

definition recoverable :: "string \<Rightarrow> string \<Rightarrow> string \<Rightarrow> disk \<Rightarrow> bool" where
  "recoverable path old new d \<longleftrightarrow> map_option fst (d path) = Some old \<or> map_option fst (d path) = Some new
     \<or> map_option fst (d (path @ backupSuffix)) = Some old"

lemma backup_other [simp]: "backupSuffix \<noteq> ''''" "path @ backupSuffix \<noteq> path" "path \<noteq> path @ backupSuffix"
  by (simp_all add: backupSuffix_def)

lemma copy_states:
  assumes "d' \<in> set (snd (copyFile E c src dst mode d))" "p \<noteq> dst"
  shows "d' p = d p"
  using assms by (auto simp: copyFile_def set_data_def Let_def split: option.splits if_splits prod.splits)

lemma copy_done:
  assumes "fst (copyFile E c src dst mode d)"
  shows "map_option fst (hd (snd (copyFile E c src dst mode d)) dst) = map_option fst (d src)"
  using assms by (auto simp: copyFile_def set_data_def write_bytes_def Let_def split: option.splits if_splits prod.splits)

lemma copy_ne [simp]: "snd (copyFile E c src dst mode d) \<noteq> []"
  by (auto simp: copyFile_def Let_def split: option.splits)

lemma copy_not_nil [simp]: "copyFile E c src dst mode d \<noteq> (ok, [])"
  by (metis copy_ne snd_conv)

lemma replace_ne [simp]: "snd (replaceFile E path tmp mode d) \<noteq> []"
  by (auto simp: replaceFile_def Let_def split: prod.split bool.split)

lemma replace_states:
  assumes t: "map_option fst (d tmp) = Some new" "tmp \<noteq> path" "tmp \<noteq> path @ backupSuffix"
    and o: "map_option fst (d path) = Some old"
    and s: "d' \<in> set (snd (replaceFile E path tmp mode d))"
  shows "recoverable path old new d'"
proof -
  let ?bak = "path @ backupSuffix"
  let ?c = "copyFile E (de_backup E) path ?bak mode d"
  have p: "d path \<noteq> None" using o by auto
  obtain ok ds where c: "?c = (ok, ds)" by (cases ?c)
  have ds: "d1 path = d path" "d1 tmp = d tmp" if "d1 \<in> set ds" for d1
    using copy_states [of d1 E "de_backup E" path ?bak mode d] that c t by auto
  then have before: "recoverable path old new d1" if "d1 \<in> set ds" for d1
    using that o by (simp add: recoverable_def)
  show ?thesis
  proof (cases ok)
    case False
    then show ?thesis using s before p c by (simp add: replaceFile_def Let_def)
  next
    case True
    have h: "hd ds \<in> set ds" using c copy_ne [of E "de_backup E" path ?bak mode d] by (metis hd_in_set snd_conv)
    have bak: "map_option fst (hd ds ?bak) = Some old" using copy_done [of E "de_backup E" path ?bak mode d] True c o by simp
    have tmp: "map_option fst (hd ds tmp) = Some new" using ds [OF h] t by simp
    have kept: "recoverable path old new d1" if "d1 ?bak = hd ds ?bak" for d1 using that bak by (simp add: recoverable_def)
    have moved: "recoverable path old new (rename_file tmp path d1)" if "d1 tmp = hd ds tmp" for d1
      using that tmp t by (auto simp: recoverable_def rename_file_def split: option.split)
    have rest: "recoverable path old new d2" if "d2 \<in> set (snd (copyFile E (de_restore E) ?bak path mode d1))" "d1 ?bak = hd ds ?bak" for d1 d2
      using kept copy_states [OF that(1), of ?bak] that(2) by simp
    let ?d1 = "if de_remove E then (hd ds)(path := None) else hd ds"
    have d1: "?d1 ?bak = hd ds ?bak" "?d1 tmp = hd ds tmp" using t by auto
    from s c p True consider "d' \<in> set ds" | "d' = rename_file tmp path (hd ds)" | "d' = rename_file tmp path ?d1" | "d' = ?d1"
      | "d' \<in> set (snd (copyFile E (de_restore E) ?bak path mode ?d1))"
      by (auto simp: replaceFile_def Let_def split: if_splits)
    then show ?thesis
    proof cases
      case 1 then show ?thesis by (rule before)
    next
      case 2 then show ?thesis by (simp add: moved)
    next
      case 3 then show ?thesis by (simp only: moved [of ?d1, OF d1(2)])
    next
      case 4 then show ?thesis by (simp only: kept [of ?d1, OF d1(1)])
    next
      case 5 then show ?thesis by (rule rest) (rule d1)
    qed
  qed
qed

text \<open>
  C24. A crash or an error while the settings file is written loses no settings: in every state the directory
  goes through, the file holds the complete old or the complete new settings, or its backup holds the
  old ones, however the operations fail and however short the writes are.
\<close>

theorem settings_survive_crash:
  assumes "map_option fst (d path) = Some old" and "d' \<in> set (snd (atomicWrite E path new d))"
    and "\<forall>tmp. de_tmp E = Some tmp \<longrightarrow> tmp \<notin> {path, path @ backupSuffix}"
  shows "recoverable path old new d'"
proof -
  have start: "recoverable path old new d1" if "d1 path = d path" for d1 using that assms(1) by (simp add: recoverable_def)
  show ?thesis
  proof (cases "path = '''' \<or> \<not> de_mkdir E \<or> de_tmp E = None")
    case True
    then have "d' = d" using assms(2) by (auto simp: atomicWrite_def Let_def split: if_splits option.splits)
    then show ?thesis by (simp add: start)
  next
    case False
    then obtain tmp where f: "path \<noteq> ''''" "de_mkdir E" "de_tmp E = Some tmp" by auto
    then have tmp: "tmp \<noteq> path" "tmp \<noteq> path @ backupSuffix" using assms(3) by auto
    let ?mode = "case d path of None \<Rightarrow> configFileMode | Some (_, m) \<Rightarrow> m"
    let ?d1 = "d(tmp \<mapsto> ('''', if de_chmod E then ?mode else configFileMode))"
    let ?d2 = "set_data tmp (write_bytes (de_short E) new) ?d1"
    have early: "d1 path = d path" if "d1 \<in> {d, ?d1, ?d2}" for d1
      using that tmp by (auto simp: set_data_def split: option.split prod.split)
    have late: "recoverable path old new d1"
      if "d1 \<in> set (snd (replaceFile E path tmp ?mode ?d2))" "de_short E = None" for d1
      using that tmp early [of ?d2] assms(1)
      by (intro replace_states [of ?d2 tmp new path old d1 E ?mode]) (auto simp: set_data_def write_bytes_def)
    have clear: "recoverable path old new (d1(tmp := None))" if "recoverable path old new d1" for d1
      using that tmp by (auto simp: recoverable_def)
    let ?r = "if de_short E \<noteq> None then (Some WriteTemp, [?d2, ?d1, d]) else if \<not> de_sync E then (Some SyncTemp, [?d2, ?d1, d])
           else if \<not> de_close E then (Some CloseTemp, [?d2, ?d1, d])
           else case replaceFile E path tmp ?mode ?d2 of (e, es) \<Rightarrow> (e, es @ [?d2, ?d1, d])"
    have all: "recoverable path old new d1" if "d1 \<in> set (snd ?r)" for d1
      using that start early late by (auto split: if_splits prod.splits)
    have ne: "snd ?r \<noteq> []" by (auto split: prod.split)
    have "atomicWrite E path new d = with_removal tmp ?r" using f by (simp add: atomicWrite_def Let_def)
    then have "d' \<in> set ((hd (snd ?r))(tmp := None) # snd ?r)" using assms(2) by (simp only: with_removal_def split: prod.splits) simp
    then show ?thesis using all clear ne by (metis hd_in_set set_ConsD)
  qed
qed

definition good_copy :: copy_env where
  "good_copy = \<lparr>cp_open = True, cp_create = True, cp_short = None, cp_sync = True, cp_close = True\<rparr>"

text \<open>A disk on which the file cannot be replaced, and is not brought back from the backup either.\<close>

definition demo_disk_env :: disk_env where
  "demo_disk_env = \<lparr>de_mkdir = True, de_tmp = Some ''/c/.unpackerr-1.tmp'', de_chmod = True, de_umask = id, de_short = None,
     de_sync = True, de_close = True, de_backup = good_copy, de_rename = False, de_remove = True, de_rename2 = False,
     de_restore = good_copy\<lparr>cp_short := Some 1\<rparr>\<rparr>"

definition demo_disk :: disk where
  "demo_disk = [''/c/u.conf'' \<mapsto> (''old'', 384)]"

theorem settings_survive_crash_witness:
  "recoverable ''/c/u.conf'' ''old'' ''new'' (hd (snd (atomicWrite demo_disk_env ''/c/u.conf'' ''new'' demo_disk)))
   \<and> map_option fst (hd (snd (atomicWrite demo_disk_env ''/c/u.conf'' ''new'' demo_disk)) ''/c/u.conf'') = Some ''o''"
proof
  show "recoverable ''/c/u.conf'' ''old'' ''new'' (hd (snd (atomicWrite demo_disk_env ''/c/u.conf'' ''new'' demo_disk)))"
  proof (rule settings_survive_crash)
    show "map_option fst (demo_disk ''/c/u.conf'') = Some ''old''" by (simp add: demo_disk_def)
    show "hd (snd (atomicWrite demo_disk_env ''/c/u.conf'' ''new'' demo_disk))
        \<in> set (snd (atomicWrite demo_disk_env ''/c/u.conf'' ''new'' demo_disk))"
      by (simp add: atomicWrite_def demo_disk_env_def with_removal_def Let_def split: prod.split)
    show "\<forall>tmp. de_tmp demo_disk_env = Some tmp \<longrightarrow> tmp \<notin> {''/c/u.conf'', ''/c/u.conf'' @ backupSuffix}"
      by (simp add: demo_disk_env_def backupSuffix_def)
  qed
  show "map_option fst (hd (snd (atomicWrite demo_disk_env ''/c/u.conf'' ''new'' demo_disk)) ''/c/u.conf'') = Some ''o''"
    by code_simp
qed

text \<open>
  A write that reports success did all of it: the file holds the new settings and its backup the old
  ones, the temporary file is gone and no other name is touched.
\<close>

lemma written_in_full:
  assumes "atomicWrite E path data d = (None, ds)" and "de_tmp E = Some tmp" "tmp \<noteq> path" "tmp \<noteq> path @ backupSuffix"
  shows "map_option fst (hd ds path) = Some data \<and> hd ds tmp = None
    \<and> (d path \<noteq> None \<longrightarrow> map_option fst (hd ds (path @ backupSuffix)) = map_option fst (d path))
    \<and> (\<forall>p. p \<notin> {path, path @ backupSuffix, tmp} \<longrightarrow> hd ds p = d p)"
proof -
  let ?mode = "case d path of None \<Rightarrow> configFileMode | Some (_, m) \<Rightarrow> m"
  let ?bak = "path @ backupSuffix"
  define d2 where "d2 = set_data tmp (write_bytes None data) (d(tmp \<mapsto> ('''', if de_chmod E then ?mode else configFileMode)))"
  have d2: "map_option fst (d2 tmp) = Some data" "d2 p = d p" if "p \<noteq> tmp" for p
    using that by (auto simp: d2_def set_data_def write_bytes_def)
  obtain e es where r: "replaceFile E path tmp ?mode d2 = (e, es)" by (cases "replaceFile E path tmp ?mode d2")
  have ne: "es \<noteq> []" using r replace_ne [of E path tmp ?mode d2] by simp
  have es: "replaceFile E path tmp ?mode d2 = (None, es)" "hd ds = (hd es)(tmp := None)"
    using assms r ne by (auto simp: atomicWrite_def with_removal_def d2_def Let_def split: if_splits)
  obtain ok cs where c: "(if d2 path = None then (True, [d2]) else copyFile E (de_backup E) path ?bak ?mode d2) = (ok, cs)"
    by (cases "if d2 path = None then (True, [d2]) else copyFile E (de_backup E) path ?bak ?mode d2")
  have cs: "cs \<noteq> []" using c by (auto split: if_splits)
  have keep: "hd cs p = d2 p" if "p \<noteq> ?bak" for p
    using c cs that copy_states [of "hd cs" E "de_backup E" path ?bak ?mode d2 p] by (auto split: if_splits)
  have ok: ok using es(1) c by (cases ok) (auto simp: replaceFile_def Let_def)
  then have bak: "d2 path \<noteq> None \<Longrightarrow> map_option fst (hd cs ?bak) = map_option fst (d2 path)"
    using c copy_done [of E "de_backup E" path ?bak ?mode d2] by (auto split: if_splits)
  let ?d1 = "if de_remove E then (hd cs)(path := None) else hd cs"
  have "es = rename_file tmp path (hd cs) # cs \<or> es = rename_file tmp path ?d1 # ?d1 # cs"
    using es(1) ok unfolding replaceFile_def Let_def c by (cases "de_rename E"; cases "de_rename2 E") simp_all
  then have "hd es = rename_file tmp path (hd cs) \<or> hd es = rename_file tmp path ?d1" by (elim disjE) (simp_all only: list.sel simp_thms)
  then obtain d3 where "d3 = hd cs \<or> d3 = ?d1" "hd es = rename_file tmp path d3" by blast
  then have d3: "d3 = hd cs \<or> d3 = (hd cs)(path := None)" "hd es = rename_file tmp path d3" by (simp_all split: if_splits)
  have tmp: "d3 tmp = d2 tmp" using d3(1) keep [of tmp] assms(3,4) by auto
  obtain f where f: "d2 tmp = Some f" "fst f = data" using d2(1) [of path] assms(3) by auto
  then have r: "hd ds = (d3(path \<mapsto> f))(tmp := None)" using es(2) d3(2) tmp by (simp add: rename_file_def)
  have other: "d3 p = d p" if "p \<notin> {path, ?bak, tmp}" for p using that d3(1) keep [of p] d2(2) by auto
  have "d3 ?bak = hd cs ?bak" using d3(1) by auto
  then have "hd ds ?bak = hd cs ?bak" using r assms(4) by simp
  moreover have "d2 path = d path" using d2(2) [of path] assms(3) by simp
  moreover have "hd ds path = Some f" "hd ds tmp = None" using r assms(3) by simp_all
  moreover have "hd ds p = d p" if "p \<notin> {path, ?bak, tmp}" for p using that other [OF that] r by simp
  ultimately show ?thesis using f(2) bak by simp
qed

end
