(* ===== verification/Toml.thy ===== *)
theory Toml
  imports Progress
begin

text \<open>
  Values as the renderer of the settings file sees them (\<open>live.go\<close> of \<open>configdef\<close>): a Go value by
  reflection, or a default of the YAML definitions, and its text in TOML. \<open>toml.Marshal\<close> and
  \<open>time.ParseDuration\<close> are parameters. Strings are the bytes of valid UTF-8.
\<close>

subsection \<open>Values\<close>

text \<open>
  \<open>GNil\<close> is an invalid value or a nil interface; \<open>GText\<close> a value of a type with \<open>MarshalText\<close>, with its text
  (\<open>None\<close> for an error) and whether its kind is a struct; \<open>GStatuses\<close> a slice of a named byte type; a
  float is its text. A field of a struct has its \<open>toml\<close> tag, whether \<open>omitempty\<close> is set, whether it is
  embedded and whether it is exported.
\<close>

datatype gval = GNil | GBool bool | GInt int | GUint nat | GFloat string | GStr string | GDuration int
  | GText "string option" bool | GStatuses "nat list" | GNilSlice | GSlice "gval list" | GNilMap
  | GMap "(string \<times> gval) list" | GPtr "gval option" | GStruct "(string \<times> bool \<times> bool \<times> bool \<times> gval) list"

record toml_env =
  te_Marshal :: "gval \<Rightarrow> string option"
  te_ParseDuration :: "string \<Rightarrow> int option"

fun derefValue :: "gval \<Rightarrow> gval" where
  "derefValue (GPtr None) = GNil"
| "derefValue (GPtr (Some v)) = derefValue v"
| "derefValue v = v"

definition isNilish :: "gval \<Rightarrow> bool" where
  "isNilish v = (v \<in> {GNil, GPtr None, GNilSlice, GNilMap})"

subsection \<open>Keys and strings\<close>

definition isBareTOMLKey :: "string \<Rightarrow> bool" where
  "isBareTOMLKey name = list_all (\<lambda>c. (65 \<le> (of_char c :: nat) \<and> (of_char c :: nat) \<le> 90)
     \<or> (97 \<le> (of_char c :: nat) \<and> (of_char c :: nat) \<le> 122) \<or> is_digit c \<or> c = CHR ''_'' \<or> c = CHR ''-'') name"

definition hex_char :: "nat \<Rightarrow> char" where
  "hex_char n = char_of (if n < 10 then 48 + n else 55 + n)"

definition quote_char :: "char \<Rightarrow> string" where
  "quote_char c = (if c = CHR 0x22 then [CHR 0x5C, CHR 0x22]
     else if c = CHR 0x5C then [CHR 0x5C, CHR 0x5C]
     else if c = CHR 0x0A then [CHR 0x5C, CHR ''n'']
     else if c = CHR 0x09 then [CHR 0x5C, CHR ''t'']
     else if c = CHR 0x0D then [CHR 0x5C, CHR ''r'']
     else if (of_char c :: nat) < 32 then CHR 0x5C # ''u00'' @ [hex_char (of_char c div 16), hex_char (of_char c mod 16)]
     else [c])"

definition quoteTOMLString :: "string \<Rightarrow> string" where
  "quoteTOMLString name = CHR 0x22 # concat (map quote_char name) @ [CHR 0x22]"

definition tomlKey :: "string \<Rightarrow> string" where
  "tomlKey name = (if name \<noteq> '''' \<and> isBareTOMLKey name then name else quoteTOMLString name)"

subsection \<open>formatTOML\<close>

definition pathishName :: "string \<Rightarrow> bool" where
  "pathishName name = (contains_sub name ''path'' \<or> has_suffix name ''file'' \<or> name = ''command'')"

definition preferPathQuotes :: "string \<Rightarrow> string \<Rightarrow> string" where
  "preferPathQuotes name out = (if \<not> pathishName name then out
     else if list_ex (\<lambda>c. c = CHR 0x5C \<or> c = CHR 0x27) out then out
     else replace_char (CHR 0x22) (CHR 0x27) out)"

definition no_value :: string where
  "no_value = [CHR 0x27, CHR 0x27]"

definition emptyCollectionTOML :: "gval \<Rightarrow> string" where
  "emptyCollectionTOML v = (case v of GNilSlice \<Rightarrow> ''[]'' | GNilMap \<Rightarrow> ''{}'' | _ \<Rightarrow> no_value)"

text \<open>The first entry of a map stands for the one its iteration gives; all have one type.\<close>

fun canInlineTOML :: "gval \<Rightarrow> bool" where
  "canInlineTOML (GPtr (Some v)) = canInlineTOML v"
| "canInlineTOML (GText _ _) = True"
| "canInlineTOML (GStruct _) = False"
| "canInlineTOML (GMap ((_, v) # _)) = canInlineTOML v"
| "canInlineTOML (GSlice (v # _)) = canInlineTOML v"
| "canInlineTOML _ = True"

definition namedUint8TOML :: "gval \<Rightarrow> string option" where
  "namedUint8TOML v = (case derefValue v of GStatuses ns \<Rightarrow> Some (''['' @ join '', '' (map itoa ns) @ '']'') | _ \<Rightarrow> None)"

definition marshalTOML :: "toml_env \<Rightarrow> gval \<Rightarrow> string" where
  "marshalTOML T v = (case namedUint8TOML v of Some out \<Rightarrow> out
     | None \<Rightarrow> if \<not> canInlineTOML v then no_value
       else (case te_Marshal T v of None \<Rightarrow> no_value | Some out \<Rightarrow> out))"

text \<open>\<open>sort_rows\<close>: the rows of a map by their keys.\<close>

definition sort_rows :: "(string \<times> 'a) list \<Rightarrow> (string \<times> 'a) list" where
  "sort_rows rows = sort_key fst rows"

lemma size_derefValue: "size (derefValue v) \<le> size v"
  by (induction v rule: derefValue.induct) auto

lemma size_map_entry: "(k, v) \<in> set kvs \<Longrightarrow> size v < size (GMap kvs)"
  by (induction kvs) auto

function formatTOML :: "toml_env \<Rightarrow> string \<Rightarrow> gval \<Rightarrow> string" where
  "formatTOML T name val = (if isNilish val then emptyCollectionTOML val
     else case derefValue val of
       GNil \<Rightarrow> no_value
     | GNilMap \<Rightarrow> ''{}''
     | GMap kvs \<Rightarrow> if kvs = [] then ''{}''
         else ''{ '' @ join '', '' (map (\<lambda>(k, s). tomlKey k @ '' = '' @ s)
           (sort_rows (map (\<lambda>(k, v). (k, formatTOML T '''' v)) kvs))) @ '' }''
     | GNilSlice \<Rightarrow> ''[]'' | GSlice [] \<Rightarrow> ''[]'' | GStatuses [] \<Rightarrow> ''[]''
     | v \<Rightarrow> trim_space (preferPathQuotes name (marshalTOML T v)))"
  by pat_completeness auto

termination
proof (relation "measure (\<lambda>(T, name, val). size val)", goal_cases)
  case (2 T name val kvs kv k v)
  then have "size v < size (derefValue val)" using size_map_entry [of k v kvs] by simp
  then show ?case using size_derefValue [of val] by simp
qed simp

declare formatTOML.simps [simp del]

subsection \<open>Defaults\<close>

fun durationOf :: "toml_env \<Rightarrow> gval \<Rightarrow> int option" where
  "durationOf T (GDuration n) = Some n"
| "durationOf T (GStr s) = te_ParseDuration T s"
| "durationOf T (GText text _) = (case text of None \<Rightarrow> None | Some s \<Rightarrow> te_ParseDuration T s)"
| "durationOf T (GPtr (Some v)) = durationOf T v"
| "durationOf T _ = None"

definition yamlZero :: "gval \<Rightarrow> bool" where
  "yamlZero v = (case v of GNil \<Rightarrow> True | GSlice vs \<Rightarrow> vs = [] | GNilSlice \<Rightarrow> True | GStatuses ns \<Rightarrow> ns = [] | GMap kvs \<Rightarrow> kvs = []
     | GNilMap \<Rightarrow> True | GStr s \<Rightarrow> s = '''' | GBool b \<Rightarrow> \<not> b | GInt n \<Rightarrow> n = 0 | GUint n \<Rightarrow> n = 0 | GFloat s \<Rightarrow> s = ''0''
     | GDuration n \<Rightarrow> n = 0 | GPtr p \<Rightarrow> p = None | _ \<Rightarrow> False)"

definition valuesEqual :: "toml_env \<Rightarrow> gval \<Rightarrow> gval \<Rightarrow> bool" where
  "valuesEqual T live yamlDefault = (let live = derefValue live in
     if live = GNil then yamlZero yamlDefault
     else case (durationOf T live, durationOf T yamlDefault) of
       (Some l, Some r) \<Rightarrow> l = r
     | _ \<Rightarrow> trim_space (formatTOML T '''' live) = trim_space (formatTOML T '''' yamlDefault))"

text \<open>
  \<open>fieldByTOML\<close>: fields in their order; embedded fields and fields without a tag are searched too.
\<close>

fun fieldByTOML :: "gval \<Rightarrow> string \<Rightarrow> gval option"
  and field_in :: "(string \<times> bool \<times> bool \<times> bool \<times> gval) list \<Rightarrow> string \<Rightarrow> gval option" where
  "fieldByTOML (GPtr (Some v)) key = fieldByTOML v key"
| "fieldByTOML (GStruct fs) key = field_in fs key"
| "fieldByTOML _ key = None"
| "field_in [] key = None"
| "field_in ((tag, omit, anonymous, exported, member) # fs) key = (
     if \<not> exported \<and> \<not> anonymous \<or> tag = ''-'' then field_in fs key
     else if tag = key then Some member
     else case (if anonymous \<or> tag = '''' then fieldByTOML member key else None) of
       Some inner \<Rightarrow> Some inner
     | None \<Rightarrow> field_in fs key)"

subsection \<open>Quoting can be read back\<close>

text \<open>
  What a TOML basic string stands for: the escapes that the quoting uses, and no bare quote, backslash or
  control character.
\<close>

definition hex_value :: "char \<Rightarrow> nat option" where
  "hex_value c = (let n = of_char c :: nat in
     if 48 \<le> n \<and> n \<le> 57 then Some (n - 48) else if 65 \<le> n \<and> n \<le> 70 then Some (n - 55) else None)"

fun basic_body :: "string \<Rightarrow> string option" where
  "basic_body [] = None"
| "basic_body [c] = (if c = CHR 0x22 then Some '''' else None)"
| "basic_body (c # d # s) = (
     if c = CHR 0x5C then
       (if d = CHR 0x22 \<or> d = CHR 0x5C then map_option (Cons d) (basic_body s)
        else if d = CHR ''n'' then map_option (Cons (CHR 0x0A)) (basic_body s)
        else if d = CHR ''t'' then map_option (Cons (CHR 0x09)) (basic_body s)
        else if d = CHR ''r'' then map_option (Cons (CHR 0x0D)) (basic_body s)
        else if d = CHR ''u'' then (case s of z # y # h # l # s' \<Rightarrow>
            (case (hex_value h, hex_value l) of (Some a, Some b) \<Rightarrow>
              if z = CHR ''0'' \<and> y = CHR ''0'' then map_option (Cons (char_of (16 * a + b))) (basic_body s') else None
            | _ \<Rightarrow> None) | _ \<Rightarrow> None)
        else None)
     else if c = CHR 0x22 \<or> (of_char c :: nat) < 32 \<and> c \<noteq> CHR 0x09 \<or> c = CHR 0x7F then None
     else map_option (Cons c) (basic_body (d # s)))"

definition basic_string :: "string \<Rightarrow> string option" where
  "basic_string s = (case s of [] \<Rightarrow> None | c # body \<Rightarrow> if c = CHR 0x22 then basic_body body else None)"

lemma hex_round: "n < 16 \<Longrightarrow> hex_value (hex_char n) = Some n"
  by (auto simp: hex_value_def hex_char_def Let_def)

lemma control_byte: "n < 32 \<Longrightarrow> char_of (16 * (n div 16) + n mod 16) = (char_of n :: char)" for n :: nat
  by (simp add: mult.commute)

lemma basic_quote:
  assumes "c \<noteq> CHR 0x7F" "rest \<noteq> []"
  shows "basic_body (quote_char c @ rest) = map_option (Cons c) (basic_body rest)"
proof -
  let ?n = "of_char c :: nat"
  obtain d s where r: "rest = d # s" using assms(2) by (cases rest) auto
  show ?thesis
  proof (cases "c \<in> {CHR 0x22, CHR 0x5C, CHR 0x0A, CHR 0x09, CHR 0x0D}")
    case True
    then show ?thesis by (auto simp: quote_char_def r)
  next
    case False
    show ?thesis
    proof (cases "?n < 32")
      case True
      then have "hex_value (hex_char (?n div 16)) = Some (?n div 16)" "hex_value (hex_char (?n mod 16)) = Some (?n mod 16)"
        by (simp_all add: hex_round)
      moreover have "char_of (16 * (?n div 16) + ?n mod 16) = c" by simp
      ultimately show ?thesis using False True by (simp add: quote_char_def)
    next
      case n: False
      with False assms(1) show ?thesis by (simp add: quote_char_def r)
    qed
  qed
qed

text \<open>
  C26. The key of a map in the settings file can be read back: whatever the key is, a TOML reader that follows
  the standard takes the quoted text for exactly that key, unless it has the control character DEL, which
  the quoting leaves as it is and the standard forbids.
\<close>

theorem quoted_key_roundtrip:
  "basic_string (quoteTOMLString name) = (if CHR 0x7F \<in> set name then None else Some name)"
proof -
  have one: "basic_body [CHR 0x22] = Some ''''" by simp
  have "basic_body (concat (map quote_char name) @ [CHR 0x22]) = (if CHR 0x7F \<in> set name then None else Some name)"
  proof (induction name)
    case (Cons c name)
    show ?case
    proof (cases "c = CHR 0x7F")
      case True
      then obtain d s where "concat (map quote_char name) @ [CHR 0x22] = d # s" by (cases "concat (map quote_char name) @ [CHR 0x22]") auto
      moreover have "quote_char (CHR 0x7F) = [CHR 0x7F]" by (simp add: quote_char_def)
      ultimately show ?thesis using True by simp
    next
      case False
      then show ?thesis using Cons basic_quote [of c "concat (map quote_char name) @ [CHR 0x22]"] by simp
    qed
  qed simp
  then show ?thesis by (simp add: basic_string_def quoteTOMLString_def)
qed

end
