(* ===== verification/Markdown.thy ===== *)
theory Markdown
  imports Prelude
begin

text \<open>
  The checks of generated website text (\<open>validate.go\<close> of \<open>configdef\<close>): what a Docusaurus MDX compiler would
  take for JSX. The scanners walk a string by its index as the code does; a position that the code
  returns as -1 is \<open>None\<close>. Strings are bytes.
\<close>

subsection \<open>Braces\<close>

abbreviation (input) backslash :: char where "backslash \<equiv> CHR 0x5C"
abbreviation (input) backtick :: char where "backtick \<equiv> CHR 0x60"
abbreviation (input) newline :: char where "newline \<equiv> CHR 0x0A"
abbreviation (input) tab :: char where "tab \<equiv> CHR 0x09"

definition oddEscapes :: "string \<Rightarrow> nat \<Rightarrow> bool" where
  "oddEscapes content idx = odd (length (takeWhile (\<lambda>c. c = backslash) (rev (take idx content))))"

text \<open>\<open>strings.Index\<close> in the rest of a string, as an index of the string.\<close>

definition index_from :: "string \<Rightarrow> nat \<Rightarrow> string \<Rightarrow> nat option" where
  "index_from content pos p = map_option (\<lambda>n. pos + n) (index_of (drop pos content) p)"

subsection \<open>Strings, comments and regular expressions of JavaScript\<close>

definition isJSIdentChar :: "char \<Rightarrow> bool \<Rightarrow> bool" where
  "isJSIdentChar c cont = (c = CHR ''_'' \<or> c = CHR ''$'' \<or> (65 \<le> (of_char c :: nat) \<and> (of_char c :: nat) \<le> 90)
     \<or> (97 \<le> (of_char c :: nat) \<and> (of_char c :: nat) \<le> 122) \<or> cont \<and> is_digit c)"

definition jsRegexKeyword :: "string \<Rightarrow> bool" where
  "jsRegexKeyword ident = (ident \<in> set [''return'', ''throw'', ''case'', ''else'', ''do'', ''typeof'', ''delete'', ''void'',
     ''new'', ''yield'', ''await'', ''in'', ''instanceof''])"

definition jsControlKeyword :: "string \<Rightarrow> bool" where
  "jsControlKeyword ident = (ident \<in> set [''if'', ''while'', ''for'', ''with''])"

definition isJSSpace :: "char \<Rightarrow> bool" where
  "isJSSpace c = (c = CHR '' '' \<or> c = tab \<or> c = newline \<or> c = CHR 0x0D)"

definition canStartJSRegex :: "char \<Rightarrow> bool" where
  "canStartJSRegex prev = (prev = CHR 0x00 \<or> prev \<in> set ''([{,=:;!&|?+-*%^~<>'')"

definition isJSRegexpFlag :: "char \<Rightarrow> bool" where
  "isJSRegexpFlag c = (c \<in> set ''dgimsuvy'')"

function skipJSRegexpFlags :: "string \<Rightarrow> nat \<Rightarrow> nat" where
  "skipJSRegexpFlags content pos = (if pos < length content \<and> isJSRegexpFlag (content ! pos)
     then skipJSRegexpFlags content (pos + 1) else pos)"
  by pat_completeness auto

termination
  by (relation "measure (\<lambda>(content, pos). length content - pos)") auto

declare skipJSRegexpFlags.simps [simp del]

function regex_loop :: "string \<Rightarrow> bool \<Rightarrow> nat \<Rightarrow> nat option" where
  "regex_loop content inClass idx = (if idx \<ge> length content then None
     else let c = content ! idx in
       if c = newline then None
       else if oddEscapes content idx then regex_loop content inClass (idx + 1)
       else if inClass then regex_loop content (c \<noteq> CHR '']'') (idx + 1)
       else if c = CHR ''['' then regex_loop content True (idx + 1)
       else if c = CHR ''/'' then Some (skipJSRegexpFlags content (idx + 1))
       else regex_loop content False (idx + 1))"
  by pat_completeness auto

termination
  by (relation "measure (\<lambda>(content, inClass, idx). length content - idx)") auto

declare regex_loop.simps [simp del]

definition skipJSRegex :: "string \<Rightarrow> nat \<Rightarrow> nat option" where
  "skipJSRegex content pos = regex_loop content False (pos + 1)"

function string_loop :: "string \<Rightarrow> char \<Rightarrow> nat \<Rightarrow> nat option" where
  "string_loop content quote idx = (if idx \<ge> length content then None
     else if content ! idx = quote \<and> \<not> oddEscapes content idx then Some (idx + 1)
     else string_loop content quote (idx + 1))"
  by pat_completeness auto

termination
  by (relation "measure (\<lambda>(content, quote, idx). length content - idx)") auto

declare string_loop.simps [simp del]

definition skipJSString :: "string \<Rightarrow> nat \<Rightarrow> nat option" where
  "skipJSString content pos = string_loop content (content ! pos) (pos + 1)"

definition skipJSLineComment :: "string \<Rightarrow> nat \<Rightarrow> nat" where
  "skipJSLineComment content pos = (case index_from content pos [newline] of Some n \<Rightarrow> n | None \<Rightarrow> length content)"

definition skipJSBlockComment :: "string \<Rightarrow> nat \<Rightarrow> nat" where
  "skipJSBlockComment content pos = (case index_from content (pos + 2) ''*/'' of None \<Rightarrow> length content | Some e \<Rightarrow> e + 2)"

text \<open>\<open>None\<close>: nothing starts here; \<open>Some None\<close>: it does not end.\<close>

definition skipJSLexical :: "string \<Rightarrow> nat \<Rightarrow> bool \<Rightarrow> nat option option" where
  "skipJSLexical content pos startRegex = (if pos \<ge> length content then None
     else let c = content ! pos in
       if c \<in> set [CHR 0x22, CHR 0x27, backtick] then Some (skipJSString content pos)
       else if c = CHR ''/'' then
         (if pos + 1 \<ge> length content then None
          else if content ! (pos + 1) = CHR ''/'' then Some (Some (skipJSLineComment content pos))
          else if content ! (pos + 1) = CHR ''*'' then Some (Some (skipJSBlockComment content pos))
          else if startRegex then Some (skipJSRegex content pos) else None)
       else None)"

subsection \<open>What a slash means: \<open>jsPunct\<close>\<close>

record jsPunct =
  jp_prev :: char
  jp_before :: char
  jp_ident :: string
  jp_parenDepth :: int
  jp_keyword :: bool
  jp_member :: bool
  jp_control :: bool
  jp_afterCtrl :: bool
  jp_forCtrl :: bool
  jp_forParen :: bool

definition zero_punct :: jsPunct where
  "zero_punct = \<lparr>jp_prev = CHR 0x00, jp_before = CHR 0x00, jp_ident = '''', jp_parenDepth = 0, jp_keyword = False, jp_member = False,
     jp_control = False, jp_afterCtrl = False, jp_forCtrl = False, jp_forParen = False\<rparr>"

definition sawPunct :: "char \<Rightarrow> bool \<Rightarrow> jsPunct \<Rightarrow> jsPunct" where
  "sawPunct c adjacent p = p\<lparr>jp_before := (if adjacent then jp_prev p else CHR 0x00), jp_prev := c\<rparr>"

definition finishIdent :: "jsPunct \<Rightarrow> jsPunct" where
  "finishIdent p = (if jp_ident p = '''' then p
     else let isFor = (jp_ident p = ''for''); ofInFor = (jp_ident p = ''of'' \<and> jp_forParen p \<and> jp_parenDepth p > 0) in
       p\<lparr>jp_keyword := \<not> jp_member p \<and> (jsRegexKeyword (jp_ident p) \<or> ofInFor),
         jp_control := \<not> jp_member p \<and> jsControlKeyword (jp_ident p), jp_forCtrl := \<not> jp_member p \<and> isFor,
         jp_ident := '''', jp_member := False\<rparr>)"

definition trackControl :: "char \<Rightarrow> jsPunct \<Rightarrow> jsPunct" where
  "trackControl c p = (
     if c = CHR ''('' then (if jp_control p \<and> jp_parenDepth p = 0 then p\<lparr>jp_parenDepth := 1, jp_forParen := jp_forCtrl p\<rparr>
         else if jp_parenDepth p > 0 then p\<lparr>jp_parenDepth := jp_parenDepth p + 1\<rparr> else p)
       \<lparr>jp_control := False, jp_forCtrl := False, jp_afterCtrl := False\<rparr>
     else if c = CHR '')'' then (if jp_parenDepth p = 0 then p\<lparr>jp_afterCtrl := False\<rparr>
       else let p = p\<lparr>jp_parenDepth := jp_parenDepth p - 1\<rparr> in
         if jp_parenDepth p = 0 then p\<lparr>jp_afterCtrl := True, jp_forParen := False\<rparr> else p)
     else p\<lparr>jp_control := False, jp_forCtrl := False, jp_afterCtrl := False\<rparr>)"

definition saw :: "char \<Rightarrow> bool \<Rightarrow> jsPunct \<Rightarrow> jsPunct" where
  "saw c adjacent p = (if isJSIdentChar c (jp_ident p \<noteq> '''') then
       let p = (if jp_ident p = '''' then p\<lparr>jp_member := (jp_prev p = CHR ''.''), jp_afterCtrl := False\<rparr> else p) in
       sawPunct c adjacent (p\<lparr>jp_ident := jp_ident p @ [c]\<rparr>)
     else sawPunct c adjacent (trackControl c ((finishIdent p)\<lparr>jp_keyword := False\<rparr>)))"

text \<open>Whether the group is complete, the depth, and the punctuation seen.\<close>

definition brace :: "char \<Rightarrow> int \<Rightarrow> bool \<Rightarrow> jsPunct \<Rightarrow> bool \<times> int \<times> bool \<times> jsPunct" where
  "brace c depth adjacent p = (
     if c = CHR ''{'' then (False, depth + 1, True, saw c adjacent p)
     else if c = CHR ''}'' then (if depth - 1 = 0 then (True, 0, adjacent, p) else (False, depth - 1, True, saw c adjacent p))
     else (False, depth, True, saw c adjacent p))"

definition canStartRegex :: "jsPunct \<Rightarrow> bool" where
  "canStartRegex p = (if jp_keyword p \<or> jp_afterCtrl p then True
     else if jp_prev p = CHR ''+'' \<and> jp_before p = CHR ''+'' then False
     else if jp_prev p = CHR ''-'' \<and> jp_before p = CHR ''-'' then False
     else canStartJSRegex (jp_prev p))"

definition afterLexical :: "string \<Rightarrow> nat \<Rightarrow> nat \<Rightarrow> jsPunct \<Rightarrow> jsPunct" where
  "afterLexical content start fin p = (if start \<ge> length content then p
     else if content ! start = CHR ''/'' \<and> start + 1 < length content
       \<and> (content ! (start + 1) = CHR ''/'' \<or> content ! (start + 1) = CHR ''*'') then p
     else let p = p\<lparr>jp_ident := '''', jp_keyword := False, jp_member := False, jp_control := False, jp_afterCtrl := False\<rparr> in
       if fin > start then p\<lparr>jp_prev := content ! (fin - 1), jp_before := CHR 0x00\<rparr> else p)"

subsection \<open>Every scan moves on\<close>

lemma index_of_bound: "index_of s p = Some n \<Longrightarrow> n + length p \<le> length s"
proof (induction s p arbitrary: n rule: index_of.induct)
  case (2 c s p)
  then show ?case using prefix_length_le [of p "c # s"] by (auto split: if_splits)
qed (simp split: if_splits)

lemma index_from_bound: "index_from content pos p = Some n \<Longrightarrow> pos \<le> length content \<Longrightarrow> pos \<le> n \<and> n + length p \<le> length content"
  by (auto simp: index_from_def dest!: index_of_bound)

lemma flags_bound: "pos \<le> length content \<Longrightarrow> pos \<le> skipJSRegexpFlags content pos \<and> skipJSRegexpFlags content pos \<le> length content"
proof (induction content pos rule: skipJSRegexpFlags.induct)
  case (1 content pos)
  then show ?case by (subst (1 2) skipJSRegexpFlags.simps) auto
qed

lemma regex_bound: "regex_loop content inClass idx = Some n \<Longrightarrow> idx < n \<and> n \<le> length content"
proof (induction content inClass idx rule: regex_loop.induct)
  case (1 content inClass idx)
  let ?c = "content ! idx"
  note e = regex_loop.simps [of content inClass idx, unfolded Let_def]
  have idx: "\<not> idx \<ge> length content" and nl: "?c \<noteq> newline" using "1.prems" e by (auto split: if_splits)
  note ih = 1(1) [OF idx refl nl] 1(2) [OF idx refl nl] 1(3) [OF idx refl nl] 1(4) [OF idx refl nl]
  consider "oddEscapes content idx" | "\<not> oddEscapes content idx" "inClass"
    | "\<not> oddEscapes content idx" "\<not> inClass" "?c = CHR ''[''" | "\<not> oddEscapes content idx" "\<not> inClass" "?c \<noteq> CHR ''[''" "?c = CHR ''/''"
    | "\<not> oddEscapes content idx" "\<not> inClass" "?c \<noteq> CHR ''[''" "?c \<noteq> CHR ''/''" by blast
  then show ?case
  proof cases
    case 1
    with "1.prems" [unfolded e] idx nl have "regex_loop content inClass (idx + 1) = Some n" by simp
    with ih(1) 1 show ?thesis by simp
  next
    case 2
    with "1.prems" [unfolded e] idx nl have "regex_loop content (?c \<noteq> CHR '']'') (idx + 1) = Some n" by simp
    with ih(2) 2 show ?thesis by simp
  next
    case 3
    with "1.prems" [unfolded e] idx nl have "regex_loop content True (idx + 1) = Some n" by simp
    with ih(3) 3 show ?thesis by simp
  next
    case 4
    with "1.prems" [unfolded e] idx nl have "n = skipJSRegexpFlags content (idx + 1)" by simp
    with flags_bound [of "idx + 1" content] idx show ?thesis by simp
  next
    case 5
    with "1.prems" [unfolded e] idx nl have "regex_loop content False (idx + 1) = Some n" by simp
    with ih(4) 5 show ?thesis by simp
  qed
qed

lemma string_bound: "string_loop content quote idx = Some n \<Longrightarrow> idx < n \<and> n \<le> length content"
proof (induction content quote idx rule: string_loop.induct)
  case (1 content quote idx)
  note e = string_loop.simps [of content quote idx]
  show ?case using "1.prems" 1(1) by (simp only: e split: if_splits) simp_all
qed

lemma index_of_first: "index_of s p = Some 0 \<Longrightarrow> prefix p s"
  by (cases s) (auto split: if_splits)

lemma lexical_bound:
  assumes "skipJSLexical content pos r = Some (Some n)"
  shows "pos < n \<and> n \<le> length content"
proof -
  have pos: "pos < length content" using assms by (auto simp: skipJSLexical_def split: if_splits)
  have line: "pos < skipJSLineComment content pos \<and> skipJSLineComment content pos \<le> length content" if "content ! pos = CHR ''/''"
  proof (cases "index_from content pos [newline]")
    case None
    then show ?thesis using pos by (simp add: skipJSLineComment_def)
  next
    case (Some m)
    have "m \<noteq> pos"
    proof
      assume "m = pos"
      then have "index_of (drop pos content) [newline] = Some 0" using Some by (auto simp: index_from_def)
      then have "prefix [newline] (drop pos content)" by (rule index_of_first)
      then have "drop pos content ! 0 = newline" by (cases "drop pos content") auto
      with that pos show False by simp
    qed
    with Some index_from_bound [OF Some] pos show ?thesis by (simp add: skipJSLineComment_def)
  qed
  have block: "pos < skipJSBlockComment content pos \<and> skipJSBlockComment content pos \<le> length content" if "pos + 1 < length content"
    using that index_from_bound [of content "pos + 2" "''*/''"] by (auto simp: skipJSBlockComment_def split: option.split)
  show ?thesis using assms line block
    by (auto simp: skipJSLexical_def skipJSString_def skipJSRegex_def Let_def split: if_splits dest!: string_bound regex_bound)
qed

subsection \<open>\<open>balancedBraceEnd\<close> and what it removes\<close>

function brace_loop :: "string \<Rightarrow> jsPunct \<Rightarrow> bool \<Rightarrow> int \<Rightarrow> nat \<Rightarrow> nat option" where
  "brace_loop content p adjacent depth pos = (if pos \<ge> length content then None
     else let p = (if isJSIdentChar (content ! pos) (jp_ident p \<noteq> '''') then p else finishIdent p) in
       case skipJSLexical content pos (canStartRegex p) of
         Some None \<Rightarrow> None
       | Some (Some nxt) \<Rightarrow> brace_loop content (afterLexical content pos nxt p) False depth nxt
       | None \<Rightarrow>
           if isJSSpace (content ! pos) then brace_loop content (finishIdent p) False depth (pos + 1)
           else if oddEscapes content pos then brace_loop content p adjacent depth (pos + 1)
           else case brace (content ! pos) depth adjacent p of (complete, depth, adjacent, p) \<Rightarrow>
             if complete then Some (pos + 1) else brace_loop content p adjacent depth (pos + 1))"
  by pat_completeness auto

termination
  by (relation "measure (\<lambda>(content, p, adjacent, depth, pos). length content - pos)") (auto dest: lexical_bound)

declare brace_loop.simps [simp del]

definition balancedBraceEnd :: "string \<Rightarrow> nat \<Rightarrow> nat option" where
  "balancedBraceEnd content idx = brace_loop content zero_punct False 0 idx"

lemma brace_complete: "brace c depth adjacent p = (True, d, a, q) \<Longrightarrow> c = CHR ''}''"
  by (auto simp: brace_def split: if_splits)

lemma brace_bound: "brace_loop content p adjacent depth pos = Some n \<Longrightarrow> pos < n \<and> n \<le> length content \<and> content ! (n - 1) = CHR ''}''"
proof (induction content p adjacent depth pos rule: brace_loop.induct)
  case (1 content p adjacent depth pos)
  note e = brace_loop.simps [of content p adjacent depth pos]
  define q where "q = (if isJSIdentChar (content ! pos) (jp_ident p \<noteq> '''') then p else finishIdent p)"
  have pos: "\<not> pos \<ge> length content" using "1.prems" e by (auto split: if_splits)
  note ih = 1(1) [OF pos q_def] 1(2) [OF pos q_def] 1(3) [OF pos q_def] 1(4) [OF pos q_def]
  consider "skipJSLexical content pos (canStartRegex q) = Some None" | nxt where "skipJSLexical content pos (canStartRegex q) = Some (Some nxt)"
    | "skipJSLexical content pos (canStartRegex q) = None" by (cases "skipJSLexical content pos (canStartRegex q)") auto
  then show ?case
  proof cases
    case 1
    with "1.prems" pos show ?thesis by (simp add: e q_def [symmetric])
  next
    case (2 nxt)
    with "1.prems" pos have "brace_loop content (afterLexical content pos nxt q) False depth nxt = Some n"
      by (simp add: e q_def [symmetric])
    with ih(4) [OF 2 refl] lexical_bound [OF 2] show ?thesis by auto
  next
    case 3
    obtain complete d a r where b: "brace (content ! pos) depth adjacent q = (complete, d, a, r)"
      by (cases "brace (content ! pos) depth adjacent q")
    show ?thesis
    proof (cases "isJSSpace (content ! pos) \<or> oddEscapes content pos \<or> complete")
      case True
      with "1.prems" pos 3 ih(1,2) b brace_complete [of "content ! pos" depth adjacent q d a r] show ?thesis
        by (auto simp: e q_def [symmetric] split: if_splits)
    next
      case False
      with "1.prems" pos 3 b have "brace_loop content r a d (pos + 1) = Some n" by (simp add: e q_def [symmetric])
      with False ih(3) [OF 3 _ _ b [symmetric] refl refl] show ?thesis by auto
    qed
  qed
qed

function strip_braces :: "string \<Rightarrow> nat \<Rightarrow> string" where
  "strip_braces line idx = (if idx \<ge> length line then ''''
     else let rest = drop idx line in
       if has_prefix rest ''{/*'' \<and> \<not> oddEscapes line idx then
         (case index_of rest ''*/}'' of None \<Rightarrow> rest | Some e \<Rightarrow> strip_braces line (idx + e + 3))
       else if has_prefix rest ''{{'' \<and> \<not> oddEscapes line idx then
         (case balancedBraceEnd line idx of None \<Rightarrow> line ! idx # strip_braces line (idx + 1)
          | Some e \<Rightarrow> strip_braces line e)
       else line ! idx # strip_braces line (idx + 1))"
  by pat_completeness auto

termination
  by (relation "measure (\<lambda>(line, idx). length line - idx)") (auto simp: balancedBraceEnd_def dest: brace_bound)

declare strip_braces.simps [simp del]

definition stripAllowedBraces :: "string \<Rightarrow> string" where
  "stripAllowedBraces line = strip_braces line 0"

definition hasUnescapedBrace :: "string \<Rightarrow> bool" where
  "hasUnescapedBrace line = (let stripped = stripAllowedBraces line in
     list_ex (\<lambda>idx. (stripped ! idx = CHR ''{'' \<or> stripped ! idx = CHR ''}'') \<and> \<not> oddEscapes stripped idx) [0..<length stripped])"

subsection \<open>Code spans\<close>

text \<open>The length of a run of backticks.\<close>

definition tick_run :: "string \<Rightarrow> nat \<Rightarrow> nat" where
  "tick_run content idx = length (takeWhile (\<lambda>c. c = backtick) (drop idx content))"

lemma tick_run_pos: "idx < length content \<Longrightarrow> content ! idx = backtick \<Longrightarrow> 0 < tick_run content idx"
  by (simp add: tick_run_def Cons_nth_drop_Suc [symmetric])

lemma tick_run_bound: "idx \<le> length content \<Longrightarrow> idx + tick_run content idx \<le> length content"
  using length_takeWhile_le [of "\<lambda>c. c = backtick" "drop idx content"] by (simp add: tick_run_def)

function findClosingBacktickRun :: "string \<Rightarrow> nat \<Rightarrow> nat \<Rightarrow> nat option" where
  "findClosingBacktickRun content idx run = (if idx \<ge> length content then None
     else if content ! idx \<noteq> backtick \<or> oddEscapes content idx then findClosingBacktickRun content (idx + 1) run
     else let len = tick_run content idx in
       if len = run then Some idx else findClosingBacktickRun content (idx + len) run)"
  by pat_completeness auto

termination
proof (relation "measure (\<lambda>(content, idx, run). length content - idx)", goal_cases)
  case (3 content idx run len)
  then show ?case using tick_run_pos [of idx content] by auto
qed auto

declare findClosingBacktickRun.simps [simp del]

lemma closing_bound: "findClosingBacktickRun content idx run = Some n \<Longrightarrow> idx \<le> n \<and> n < length content \<and> tick_run content n = run"
proof (induction content idx run rule: findClosingBacktickRun.induct)
  case (1 content idx run)
  note e = findClosingBacktickRun.simps [of content idx run]
  show ?case using "1.prems" 1(1,2) by (auto simp: e Let_def split: if_splits)
qed

function inline_loop :: "string \<Rightarrow> nat \<Rightarrow> string" where
  "inline_loop content idx = (if idx \<ge> length content then ''''
     else if content ! idx \<noteq> backtick \<or> oddEscapes content idx then content ! idx # inline_loop content (idx + 1)
     else let run = tick_run content idx in
       case findClosingBacktickRun content (idx + run) run of
         None \<Rightarrow> replicate run backtick @ inline_loop content (idx + run)
       | Some closer \<Rightarrow> inline_loop content (closer + run))"
  by pat_completeness auto

termination
proof (relation "measure (\<lambda>(content, idx). length content - idx)", goal_cases)
  case (3 content idx run)
  then show ?case using tick_run_pos [of idx content] by auto
next
  case (4 content idx run closer)
  then show ?case using tick_run_pos [of idx content] closing_bound [of content "idx + run" run closer] by auto
qed auto

declare inline_loop.simps [simp del]

definition stripInlineCode :: "string \<Rightarrow> string" where
  "stripInlineCode content = inline_loop content 0"

subsection \<open>Code blocks\<close>

text \<open>\<open>minFenceLen\<close>, \<open>maxFenceIndent\<close> and \<open>tabWidth\<close>; \<open>bulletStart\<close> is -1.\<close>

abbreviation (input) minFenceLen :: nat where "minFenceLen \<equiv> 3"
abbreviation (input) maxFenceIndent :: int where "maxFenceIndent \<equiv> 3"
abbreviation (input) tabWidth :: int where "tabWidth \<equiv> 4"

fun indent_loop :: "int \<Rightarrow> string \<Rightarrow> int" where
  "indent_loop col [] = col"
| "indent_loop col (c # s) = (if c = CHR '' '' then indent_loop (col + 1) s
     else if c = tab then indent_loop (col + (tabWidth - col mod tabWidth)) s else col)"

definition leadingIndent :: "string \<Rightarrow> int" where
  "leadingIndent line = indent_loop 0 line"

definition atxHeading :: "string \<Rightarrow> bool" where
  "atxHeading trimmed = (let hashes = length (takeWhile (\<lambda>c. c = CHR ''#'') trimmed) in
     if hashes < 1 \<or> hashes > 6 then False
     else hashes = length trimmed \<or> trimmed ! hashes = CHR '' '' \<or> trimmed ! hashes = tab)"

fun thematic_loop :: "char option \<Rightarrow> nat \<Rightarrow> string \<Rightarrow> bool" where
  "thematic_loop marker count [] = (count \<ge> minFenceLen)"
| "thematic_loop marker count (c # s) = (if c = CHR '' '' \<or> c = tab then thematic_loop marker count s
     else if c \<notin> set ''-*_'' then False
     else if marker \<noteq> None \<and> marker \<noteq> Some c then False
     else thematic_loop (Some c) (count + 1) s)"

definition thematicBreak :: "string \<Rightarrow> bool" where
  "thematicBreak trimmed = thematic_loop None 0 trimmed"

definition setextUnderline :: "string \<Rightarrow> bool" where
  "setextUnderline trimmed = (case trimmed of [] \<Rightarrow> False
     | marker # s \<Rightarrow> (marker = CHR ''='' \<or> marker = CHR ''-'') \<and> list_all (\<lambda>c. c = marker) s)"

definition leafBlockLine :: "string \<Rightarrow> bool \<Rightarrow> bool" where
  "leafBlockLine trimmed lastWasParagraph = (if atxHeading trimmed then True
     else if lastWasParagraph then setextUnderline trimmed \<or> thematicBreak trimmed else thematicBreak trimmed)"

definition fenceOpener :: "string \<Rightarrow> (char \<times> nat) option" where
  "fenceOpener line = (if length line < minFenceLen then None
     else let c = hd line in
       if c \<noteq> backtick \<and> c \<noteq> CHR ''~'' then None
       else let len = length (takeWhile (\<lambda>x. x = c) line) in
         if len < minFenceLen then None
         else if c = backtick \<and> backtick \<in> set (drop len line) then None else Some (c, len))"

definition fenceCloser :: "string \<Rightarrow> (char \<times> nat) option" where
  "fenceCloser line = (case fenceOpener line of None \<Rightarrow> None
     | Some (c, len) \<Rightarrow> if list_all (\<lambda>x. x = CHR '' '' \<or> x = tab) (drop len line) then Some (c, len) else None)"

definition fenceClosed :: "int \<Rightarrow> string \<Rightarrow> char \<Rightarrow> nat \<Rightarrow> bool" where
  "fenceClosed rel trimmed fenceChar fenceLen = (if rel < 0 \<or> rel > maxFenceIndent then False
     else case fenceCloser trimmed of None \<Rightarrow> False | Some (c, len) \<Rightarrow> c = fenceChar \<and> len \<ge> fenceLen)"

definition consumeListMarker :: "string \<Rightarrow> (nat \<times> int) option" where
  "consumeListMarker trimmed = (if trimmed = '''' then None
     else if hd trimmed \<in> set ''-*+'' then Some (1, -1)
     else let digits = length (takeWhile is_digit (take 9 trimmed)) in
       if digits = 0 \<or> digits \<ge> length trimmed \<or> trimmed ! digits \<notin> set '').'' then None
       else Some (digits + 1, int (digits_value (take digits trimmed))))"

text \<open>The loop over the padding: where the marker ends, what follows its first blank, the column.\<close>

fun pad_loop :: "int \<Rightarrow> string \<Rightarrow> int \<Rightarrow> string \<Rightarrow> (int \<times> string) option" where
  "pad_loop start after col [] = (if col = start then None else Some (col, ''''))"
| "pad_loop start after col (c # s) = (if c = CHR '' '' \<or> c = tab then
       let advance = (if c = tab then tabWidth - col mod tabWidth else 1) in
       if col - start + advance > tabWidth then Some (start + 1, after)
       else let col = col + advance in if col - start \<ge> tabWidth then Some (col, s) else pad_loop start after col s
     else if col = start then None else Some (col, c # s))"

definition listItemSplit :: "int \<Rightarrow> string \<Rightarrow> (int \<times> string) option" where
  "listItemSplit indent trimmed = (case consumeListMarker trimmed of None \<Rightarrow> None
     | Some (fin, _) \<Rightarrow> let col = indent + int fin in
       if fin = length trimmed then Some (col + 1, '''')
       else if trimmed ! fin \<noteq> CHR '' '' \<and> trimmed ! fin \<noteq> tab then None
       else pad_loop col (drop (fin + 1) trimmed) col (drop fin trimmed))"

definition listItemHasContent :: "string \<Rightarrow> bool" where
  "listItemHasContent trimmed = (case consumeListMarker trimmed of None \<Rightarrow> False
     | Some (fin, _) \<Rightarrow> fin < length trimmed \<and> trim_space (drop fin trimmed) \<noteq> '''')"

text \<open>The innermost list is the first of \<open>md_listIndents\<close>.\<close>

record mdScan =
  md_out :: string
  md_listIndents :: "int list"
  md_inFence :: bool
  md_fenceChar :: char
  md_fenceLen :: nat
  md_fenceBase :: int
  md_inIndented :: bool
  md_canStartIndented :: bool
  md_lastWasParagraph :: bool
  md_contentIndent :: int

definition new_scan :: mdScan where
  "new_scan = \<lparr>md_out = '''', md_listIndents = [], md_inFence = False, md_fenceChar = CHR 0x00, md_fenceLen = 0, md_fenceBase = 0,
     md_inIndented = False, md_canStartIndented = True, md_lastWasParagraph = False, md_contentIndent = 0\<rparr>"

definition pushList :: "int \<Rightarrow> mdScan \<Rightarrow> mdScan" where
  "pushList col scan = scan\<lparr>md_listIndents := col # md_listIndents scan, md_contentIndent := col\<rparr>"

definition popLists :: "int \<Rightarrow> mdScan \<Rightarrow> mdScan" where
  "popLists indent scan = (let ls = dropWhile (\<lambda>c. indent < c) (md_listIndents scan) in
     scan\<lparr>md_listIndents := ls, md_contentIndent := (case ls of [] \<Rightarrow> 0 | c # _ \<Rightarrow> c)\<rparr>)"

definition syncList :: "int \<Rightarrow> string \<Rightarrow> mdScan \<Rightarrow> mdScan" where
  "syncList indent trimmed scan = (if trimmed = '''' then scan else popLists indent scan)"

definition startFence :: "char \<Rightarrow> nat \<Rightarrow> int \<Rightarrow> mdScan \<Rightarrow> mdScan" where
  "startFence c len bas scan = scan\<lparr>md_inFence := True, md_fenceChar := c, md_fenceLen := len, md_fenceBase := bas,
     md_inIndented := False, md_canStartIndented := True, md_lastWasParagraph := False\<rparr>"

definition allowListItem :: "string \<Rightarrow> mdScan \<Rightarrow> bool" where
  "allowListItem trimmed scan = (if \<not> md_lastWasParagraph scan then True
     else case consumeListMarker trimmed of None \<Rightarrow> False
     | Some (_, start) \<Rightarrow> listItemHasContent trimmed \<and> (start = -1 \<or> start = 1))"

definition continueFence :: "int \<Rightarrow> string \<Rightarrow> mdScan \<Rightarrow> bool \<times> mdScan" where
  "continueFence indent trimmed scan = (
     if fenceClosed (indent - md_fenceBase scan) trimmed (md_fenceChar scan) (md_fenceLen scan) then
       (True, scan\<lparr>md_inFence := False, md_canStartIndented := True, md_lastWasParagraph := False\<rparr>)
     else if trimmed = '''' \<or> indent \<ge> md_fenceBase scan then (True, scan)
     else (False, (popLists indent (scan\<lparr>md_inFence := False\<rparr>))\<lparr>md_canStartIndented := True, md_lastWasParagraph := False\<rparr>))"

definition openFence :: "int \<Rightarrow> int \<Rightarrow> string \<Rightarrow> mdScan \<Rightarrow> bool \<times> mdScan" where
  "openFence indent rel trimmed scan = (if rel > maxFenceIndent then (False, scan)
     else case fenceOpener trimmed of Some (c, len) \<Rightarrow> (True, startFence c len (md_contentIndent scan) scan)
     | None \<Rightarrow> if md_lastWasParagraph scan \<and> setextUnderline trimmed then (False, scan)
       else (case listItemSplit indent trimmed of None \<Rightarrow> (False, scan)
         | Some (col, rest) \<Rightarrow> if \<not> allowListItem trimmed scan then (False, scan)
           else (case fenceOpener (trim_space rest) of None \<Rightarrow> (False, scan)
             | Some (c, len) \<Rightarrow> (True, startFence c len col (pushList col scan)))))"

definition writeContent :: "string \<Rightarrow> int \<Rightarrow> string \<Rightarrow> int \<Rightarrow> mdScan \<Rightarrow> mdScan" where
  "writeContent line indent trimmed rel scan = (let
     scan = scan\<lparr>md_out := md_out scan @ line @ [newline], md_inIndented := False\<rparr>;
     scan = (if \<not> thematicBreak trimmed \<and> (\<not> md_lastWasParagraph scan \<or> \<not> setextUnderline trimmed) then
         (case listItemSplit indent trimmed of None \<Rightarrow> scan
          | Some (col, _) \<Rightarrow> if rel \<le> maxFenceIndent \<and> allowListItem trimmed scan then pushList col scan else scan) else scan);
     can = (rel \<le> maxFenceIndent \<and> leafBlockLine trimmed (md_lastWasParagraph scan))
   in scan\<lparr>md_canStartIndented := can, md_lastWasParagraph := \<not> can\<rparr>)"

definition scan_line :: "string \<Rightarrow> mdScan \<Rightarrow> mdScan" where
  "scan_line line scan = (let indent = leadingIndent line; trimmed = trim_space line;
     (handled, scan) = (if md_inFence scan then continueFence indent trimmed scan else (False, scan)) in
     if handled then scan
     else let scan = syncList indent trimmed scan; rel = indent - md_contentIndent scan;
         rel = (if rel < 0 then indent else rel); (opened, scan) = openFence indent rel trimmed scan in
       if opened then scan
       else if trimmed = '''' then scan\<lparr>md_out := md_out scan @ line @ [newline], md_inIndented := False,
         md_canStartIndented := True, md_lastWasParagraph := False\<rparr>
       else if rel > maxFenceIndent \<and> (md_canStartIndented scan \<or> md_inIndented scan)
         then scan\<lparr>md_inIndented := True, md_lastWasParagraph := False\<rparr>
       else writeContent line indent trimmed rel scan)"

definition stripCodeBlocks :: "string \<Rightarrow> string" where
  "stripCodeBlocks content = md_out (foldl (\<lambda>scan line. scan_line line scan) new_scan (split_lines content))"

subsection \<open>The problems of a text\<close>

datatype mdx_problem = AdmonitionTitle | UnescapedBrace

text \<open>\<open>admonitionSpace\<close> on one line: the marker, a blank and something more.\<close>

definition admonition_line :: "string \<Rightarrow> bool" where
  "admonition_line line = list_ex (\<lambda>w. has_prefix line ('':::'' @ w @ '' '') \<and> length line > length w + 4)
     [''note'', ''tip'', ''info'', ''caution'', ''danger'', ''warning'', ''important'', ''success'', ''secondary'']"

definition mdxProblems :: "string \<Rightarrow> mdx_problem list" where
  "mdxProblems content = (let ls = split_lines (stripInlineCode (stripCodeBlocks content)) in
     (if list_ex admonition_line ls then [AdmonitionTitle] else [])
     @ (if list_ex hasUnescapedBrace ls then [UnescapedBrace] else []))"

definition validImportIdent :: "string \<Rightarrow> bool" where
  "validImportIdent name = (case name of [] \<Rightarrow> False
     | c # s \<Rightarrow> list_all (\<lambda>x. isJSIdentChar x True \<and> x \<noteq> CHR ''$'') name \<and> \<not> is_digit c)"

text \<open>A comment that ends with the characters that open it is taken for complete.\<close>

lemma unclosed_comment_accepted: "mdxProblems ''{/*/}'' = []"
  by code_simp

end
