(* ===== verification/ConfigDef.thy ===== *)
theory ConfigDef
  imports Toml Markdown
begin

text \<open>
  The definitions of the settings (\<open>definitions.yml\<close>, package \<open>configdef\<close>) and what is made of them: the
  example settings file (\<open>config.go\<close>), the environment of the compose file (\<open>compose.go\<close>), the website
  (\<open>docusaurus.go\<close>), the help of the UI (\<open>help.go\<close>) and their validation (\<open>validate.go\<close>). A function that
  would end the process or panic on broken definitions returns \<open>None\<close>.
\<close>

subsection \<open>Definitions\<close>

abbreviation (input) kind_list :: string where "kind_list \<equiv> ''list''"
abbreviation (input) kind_named :: string where "kind_named \<equiv> ''named''"
abbreviation (input) kind_tables :: string where "kind_tables \<equiv> ''tables''"

record param =
  pa_Name :: string
  pa_EnvVar :: string
  pa_Default :: gval
  pa_Docker :: gval
  pa_Example :: gval
  pa_Short :: string
  pa_UIShort :: string
  pa_Desc :: string
  pa_Kind :: string
  pa_Recommend :: "(string \<times> gval) list"
  pa_Apps :: "string list"
  pa_OmitCompose :: bool

record header =
  he_Tail :: string
  he_Title :: string
  he_Text :: string
  he_Docs :: string
  he_Notes :: string
  he_Prefix :: string
  he_Params :: "param option list"
  he_Kind :: string
  he_NoHeader :: bool

record def_section =
  df_Comment :: bool
  df_Title :: string
  df_Prefix :: string
  df_Text :: string
  df_Defaults :: "(string \<times> gval) list"
  df_Examples :: "(string \<times> gval) list"
  df_DockerExample :: "(string \<times> gval) list"

type_synonym defs = "(string \<times> def_section option) list"

text \<open>A null section, definition or parameter is \<open>None\<close>.\<close>

record definitions =
  cd_DefOrder :: "(string \<times> string list) list"
  cd_Defs :: "(string \<times> defs option) list"
  cd_Prefix :: string
  cd_Order :: "string list"
  cd_Sections :: "(string \<times> header option) list"

definition section_of :: "definitions \<Rightarrow> string \<Rightarrow> header option" where
  "section_of c name = (case aget (cd_Sections c) name of Some h \<Rightarrow> h | None \<Rightarrow> None)"

definition order_of :: "definitions \<Rightarrow> string \<Rightarrow> string list" where
  "order_of c name = (case aget (cd_DefOrder c) name of Some o' \<Rightarrow> o' | None \<Rightarrow> [])"

definition defs_of :: "definitions \<Rightarrow> string \<Rightarrow> defs option" where
  "defs_of c name = (case aget (cd_Defs c) name of Some ds \<Rightarrow> ds | None \<Rightarrow> None)"

definition def_of :: "defs \<Rightarrow> string \<Rightarrow> def_section option" where
  "def_of ds item = (case aget ds item of Some d \<Rightarrow> d | None \<Rightarrow> None)"

definition isNested :: "param \<Rightarrow> bool" where
  "isNested p = (pa_Kind p = ''map'' \<or> pa_Kind p = kind_tables)"

definition repeatable :: "header \<Rightarrow> bool" where
  "repeatable h = (he_Kind h = kind_list \<or> he_Kind h = kind_named)"

text \<open>The parameters that apply to a section, with the overrides of its definition.\<close>

definition override :: "def_section \<Rightarrow> param \<Rightarrow> param" where
  "override d p = p\<lparr>
     pa_Default := (case aget (df_Defaults d) (pa_Name p) of Some v \<Rightarrow> v | None \<Rightarrow> pa_Default p),
     pa_Example := (case aget (df_Examples d) (pa_Name p) of Some v \<Rightarrow> v | None \<Rightarrow> pa_Example p),
     pa_Docker := (case aget (df_DockerExample d) (pa_Name p) of Some v \<Rightarrow> v | None \<Rightarrow> pa_Docker p)\<rparr>"

definition createDefinedSection :: "def_section \<Rightarrow> header \<Rightarrow> string \<Rightarrow> header" where
  "createDefinedSection d h name = \<lparr>he_Tail = '''', he_Title = df_Title d, he_Text = df_Text d, he_Docs = '''', he_Notes = '''',
     he_Prefix = df_Prefix d,
     he_Params = map (\<lambda>p. Some (override d p))
       (filter (\<lambda>p. pa_Apps p = [] \<or> name \<in> set (pa_Apps p)) (List.map_filter id (he_Params h))),
     he_Kind = he_Kind h, he_NoHeader = False\<rparr>"

text \<open>The texts of all items in order, \<open>None\<close> if one is missing.\<close>

fun concat_options :: "string option list \<Rightarrow> string option" where
  "concat_options [] = Some ''''"
| "concat_options (x # xs) = (case (x, concat_options xs) of (Some a, Some b) \<Rightarrow> Some (a @ b) | _ \<Rightarrow> None)"

subsection \<open>config.go\<close>

abbreviation (input) nl :: string where "nl \<equiv> [CHR 0x0A]"

definition param_value :: "toml_env \<Rightarrow> param \<Rightarrow> string" where
  "param_value T p = (if pa_Example p \<noteq> GNil then formatTOML T (pa_Name p) (pa_Example p) else formatTOML T (pa_Name p) (pa_Default p))"

definition writeTOMLHeader :: "header \<Rightarrow> string \<Rightarrow> string \<Rightarrow> string \<Rightarrow> string" where
  "writeTOMLHeader h name key comment = (
     if he_Kind h = kind_list then comment @ ''[['' @ name @ '']]'' @ nl
     else if he_Kind h = kind_named then comment @ ''['' @ name @ ''.'' @ (if key = '''' then ''0'' else key) @ '']'' @ nl
     else comment @ ''['' @ name @ '']'' @ nl)"

text \<open>The description of a parameter, each line commented.\<close>

definition desc_text :: "bool \<Rightarrow> param \<Rightarrow> string" where
  "desc_text noHeader p = (if pa_Desc p = '''' then ''''
     else (if noHeader then nl else '''') @ ''## ''
       @ concat (map (\<lambda>c. if c = CHR 0x0A then nl @ ''## '' else [c]) (trim_space (pa_Desc p))) @ nl)"

definition makeSection :: "toml_env \<Rightarrow> header \<Rightarrow> string \<Rightarrow> bool \<Rightarrow> bool \<Rightarrow> string" where
  "makeSection T h name showHeader showValue = (let sp = (if he_NoHeader h then '''' else '' '') in
     he_Text h
     @ (if he_NoHeader h then '''' else writeTOMLHeader h name ''0'' (if repeatable h \<and> \<not> showHeader then ''#'' else ''''))
     @ concat (map (\<lambda>p. desc_text (he_NoHeader h) p
         @ (if isNested p then ''''
            else (if \<not> showValue \<and> (pa_Example p \<noteq> GNil \<or> repeatable h) then ''#'' else '''')
              @ sp @ pa_Name p @ '' = '' @ param_value T p @ nl)) (List.map_filter id (he_Params h)))
     @ nl)"

definition makeDefinedSection :: "toml_env \<Rightarrow> header \<Rightarrow> defs \<Rightarrow> string list \<Rightarrow> bool \<Rightarrow> string option" where
  "makeDefinedSection T h ds order showValue = concat_options (map (\<lambda>name. case def_of ds name of None \<Rightarrow> None
     | Some d \<Rightarrow> Some (makeSection T (createDefinedSection d h name) name (\<not> df_Comment d) showValue)) order)"

definition ExampleTOML :: "toml_env \<Rightarrow> definitions \<Rightarrow> string option" where
  "ExampleTOML T c = concat_options (map (\<lambda>name. case section_of c name of None \<Rightarrow> None
     | Some h \<Rightarrow> (case defs_of c name of Some ds \<Rightarrow> makeDefinedSection T h ds (order_of c name) False
       | None \<Rightarrow> Some (makeSection T h name False False))) (cd_Order c))"

text \<open>The set of names; a list stands for the map.\<close>

definition ParamNames :: "definitions \<Rightarrow> string list" where
  "ParamNames c = filter (\<lambda>n. n \<noteq> '''') (
     concat (map (\<lambda>(name, h). name # (case h of None \<Rightarrow> [] | Some h \<Rightarrow> map pa_Name (List.map_filter id (he_Params h)))) (cd_Sections c))
     @ concat (map (\<lambda>(_, ds). case ds of None \<Rightarrow> [] | Some ds \<Rightarrow> akeys ds) (cd_Defs c)))"

subsection \<open>compose.go\<close>

text \<open>\<open>fmt.Sprint\<close> of a value of the definitions.\<close>

lemma size_slice_entry: "v \<in> set vs \<Longrightarrow> size v < size (GSlice vs)"
  by (induction vs) auto

function sprint :: "gval \<Rightarrow> string" where
  "sprint v = (case v of GBool b \<Rightarrow> if b then ''true'' else ''false'' | GInt n \<Rightarrow> int_text n | GUint n \<Rightarrow> itoa n | GFloat s \<Rightarrow> s
     | GStr s \<Rightarrow> s | GSlice vs \<Rightarrow> ''['' @ join '' '' (map sprint vs) @ '']''
     | GMap kvs \<Rightarrow> ''map['' @ join '' '' (map (\<lambda>(k, s). k @ '':'' @ s) (sort_rows (map (\<lambda>(k, x). (k, sprint x)) kvs))) @ '']''
     | _ \<Rightarrow> ''<nil>'')"
  by pat_completeness auto

termination
proof (relation "measure size", goal_cases)
  case (2 v vs x)
  then show ?case using size_slice_entry [of x vs] by simp
next
  case (3 v kvs kv k x)
  then show ?case using size_map_entry [of k x kvs] by simp
qed simp

declare sprint.simps [simp del]

definition Compose :: "param \<Rightarrow> string \<Rightarrow> string" where
  "Compose p pfx = (let val = (if pa_Docker p \<noteq> GNil then pa_Docker p else if pa_Example p = GNil then pa_Default p else pa_Example p) in
     if isNested p then ''''
     else if pa_Kind p = kind_list then (case val of
         GSlice items \<Rightarrow> concat (map (\<lambda>(idx, sv). pfx @ pa_EnvVar p @ itoa idx @ ''='' @ sprint sv @ nl) (enumerate 0 items))
       | _ \<Rightarrow> '''')
     else if pa_Kind p = ''conlist'' then (case val of
         GSlice items \<Rightarrow> pfx @ pa_EnvVar p @ ''='' @ concat (map sprint items) @ nl | _ \<Rightarrow> '''')
     else pfx @ pa_EnvVar p @ ''='' @ sprint val @ nl)"

definition makeCompose :: "header \<Rightarrow> string \<Rightarrow> bool \<Rightarrow> string" where
  "makeCompose h pfx bare = (let params = List.map_filter id (he_Params h) in
     (if he_Params h = [] then '''' else (if bare then '''' else ''    '') @ ''## '' @ he_Title h @ nl)
     @ concat (map (\<lambda>p. if pa_OmitCompose p \<and> \<not> bare then ''''
         else Compose p ((if bare then '''' else ''    - '') @ pfx @ he_Prefix h @ (if repeatable h then ''0_'' else ''''))) params))"

definition makeComposeDefined :: "header \<Rightarrow> string \<Rightarrow> defs \<Rightarrow> string list \<Rightarrow> bool \<Rightarrow> string option" where
  "makeComposeDefined h pfx ds order bare = concat_options (map (\<lambda>name. case def_of ds name of None \<Rightarrow> None
     | Some d \<Rightarrow> Some (makeCompose (createDefinedSection d h name) pfx bare)) order)"

text \<open>\<open>createCompose\<close> after its constant head.\<close>

definition createCompose :: "definitions \<Rightarrow> string option" where
  "createCompose c = map_option (\<lambda>s. s @ nl) (concat_options (map (\<lambda>name. case section_of c name of None \<Rightarrow> None
     | Some h \<Rightarrow> (case defs_of c name of None \<Rightarrow> Some (makeCompose h (cd_Prefix c) False)
       | Some ds \<Rightarrow> makeComposeDefined h (cd_Prefix c) ds (order_of c name) False)) (cd_Order c)))"

subsection \<open>help.go\<close>

record field_help =
  fh_Short :: string
  fh_UIShort :: string
  fh_Desc :: string
  fh_Env :: string

definition uiSectionName :: "string \<Rightarrow> string" where
  "uiSectionName name = (if name = ''global'' then ''general''
     else if name = ''webserver'' then ''webserver'' else if name = ''starr'' then ''starr''
     else if name = ''folders'' \<or> name = ''folder'' then ''folders'' else if name = ''hooks'' then ''payload''
     else if name = ''webhook'' then ''webhook'' else if name = ''cmdhook'' then ''cmdhook'' else '''')"

definition uiSectionAlias :: "string \<Rightarrow> string" where
  "uiSectionAlias name = (if name = ''webhook'' \<or> name = ''cmdhook'' then ''hooks'' else '''')"

text \<open>Empty lines end a paragraph; the lines of one are joined by blanks.\<close>

fun fold_lines :: "string list \<Rightarrow> string list \<Rightarrow> string list" where
  "fold_lines buf [] = (if buf = [] then [] else [join '' '' buf])"
| "fold_lines buf (l # ls) = (let line = trim_space l in
     if line = '''' then (if buf = [] then fold_lines [] ls else join '' '' buf # fold_lines [] ls)
     else fold_lines (buf @ [line]) ls)"

definition foldHelp :: "string \<Rightarrow> string" where
  "foldHelp txt = (let txt = trim_space txt in if txt = '''' then txt else join (nl @ nl) (fold_lines [] (split_lines txt)))"

fun split_on :: "char \<Rightarrow> string \<Rightarrow> string list" where
  "split_on d [] = [[]]"
| "split_on d (c # s) = (if c = d then [] # split_on d s else case split_on d s of [] \<Rightarrow> [[c]] | x # xs \<Rightarrow> (c # x) # xs)"

definition snakeToCamel :: "string \<Rightarrow> string" where
  "snakeToCamel name = (case split_on (CHR ''_'') name of [] \<Rightarrow> name
     | [_] \<Rightarrow> name
     | p # parts \<Rightarrow> p @ concat (map (\<lambda>part. case part of [] \<Rightarrow> '''' | c # s \<Rightarrow> up_char c # s) parts))"

definition exampleEnv :: "header \<Rightarrow> string \<Rightarrow> param \<Rightarrow> string" where
  "exampleEnv h pfx p = (if pa_EnvVar p = '''' then ''''
     else let envVar = pfx @ he_Prefix h @ (if repeatable h then ''0_'' else '''') @ pa_EnvVar p in
       if pa_Kind p = kind_list then envVar @ ''0'' else if pa_Kind p = kind_tables then envVar @ ''0_*'' else envVar)"

definition paramHelp :: "string \<Rightarrow> header \<Rightarrow> param \<Rightarrow> field_help" where
  "paramHelp pfx h p = (let uishort = foldHelp (pa_UIShort p) in
     \<lparr>fh_Short = (if uishort \<noteq> '''' then uishort else foldHelp (pa_Short p)), fh_UIShort = uishort, fh_Desc = foldHelp (pa_Desc p),
      fh_Env = exampleEnv h pfx p\<rparr>)"

definition helpHeader :: "definitions \<Rightarrow> string \<Rightarrow> header \<Rightarrow> header" where
  "helpHeader c name h = (case (order_of c name, defs_of c name) of
     (item # _, Some ds) \<Rightarrow> (case def_of ds item of None \<Rightarrow> h | Some d \<Rightarrow> h\<lparr>he_Prefix := df_Prefix d\<rparr>)
   | _ \<Rightarrow> h)"

definition addHelp :: "string \<Rightarrow> string \<Rightarrow> field_help \<Rightarrow> bool \<Rightarrow> (string \<times> field_help) list \<Rightarrow> (string \<times> field_help) list" where
  "addHelp sec name help keepFirst out = (let put = (\<lambda>key out. if keepFirst \<and> aget out key \<noteq> None then out else aput key help out);
     out = put (''config.'' @ sec @ ''.'' @ name) out; camel = snakeToCamel name in
     if camel \<noteq> name then put (''config.'' @ sec @ ''.'' @ camel) out else out)"

definition param_help_rows :: "definitions \<Rightarrow> string \<Rightarrow> string \<Rightarrow> header \<Rightarrow> param \<Rightarrow> (string \<times> field_help) list \<Rightarrow> (string \<times> field_help) list" where
  "param_help_rows c sec alias envHeader p out = (let help = paramHelp (cd_Prefix c) envHeader p in
     if pa_Name p = '''' \<or> fh_Short help = '''' \<and> fh_Desc help = '''' then out
     else let out = addHelp sec (pa_Name p) help False out;
         out = (if alias \<noteq> '''' then addHelp alias (pa_Name p) help True out else out) in
       if pa_Name p \<noteq> ''paths'' then out
       else let out = addHelp sec ''path'' help False out in
         if alias \<noteq> '''' then addHelp alias ''path'' help True out else out)"

definition UIHelp :: "definitions \<Rightarrow> (string \<times> field_help) list" where
  "UIHelp c = foldl (\<lambda>out name. case section_of c name of None \<Rightarrow> out
     | Some h \<Rightarrow> if uiSectionName name = '''' then out
       else foldl (\<lambda>out p. param_help_rows c (uiSectionName name) (uiSectionAlias name) (helpHeader c name h) p out) out
         (List.map_filter id (he_Params h))) [] (cd_Order c)"

subsection \<open>docusaurus.go\<close>

text \<open>\<open>IsZero\<close> of a default of the YAML file.\<close>

definition is_zero :: "gval \<Rightarrow> bool" where
  "is_zero v = (case v of GStr s \<Rightarrow> s = '''' | GInt n \<Rightarrow> n = 0 | GUint n \<Rightarrow> n = 0 | GFloat s \<Rightarrow> s = ''0'' | GNilSlice \<Rightarrow> True | GNilMap \<Rightarrow> True
     | _ \<Rightarrow> False)"

text \<open>A row of the table; \<open>IsZero\<close> panics on a default that is nil.\<close>

definition docs_row :: "toml_env \<Rightarrow> header \<Rightarrow> string \<Rightarrow> param \<Rightarrow> string option" where
  "docs_row T h pfx p = (if pa_Default p = GNil then None
     else let def = (if (case pa_Default p of GBool _ \<Rightarrow> True | v \<Rightarrow> \<not> is_zero v)
             then (case te_Marshal T (pa_Default p) of Some t \<Rightarrow> if t \<noteq> '''' then [CHR 0x60] @ t @ [CHR 0x60] else ''No Default'' | None \<Rightarrow> ''No Default'')
             else ''No Default'');
         envVar = exampleEnv h pfx p in
       Some (if envVar = '''' then ''|'' @ pa_Name p @ ''|file only|'' @ def @ '' / '' @ pa_Short p @ ''|'' @ nl
         else ''|'' @ pa_Name p @ ''|'' @ [CHR 0x60] @ envVar @ [CHR 0x60] @ ''|'' @ def @ '' / '' @ pa_Short p @ ''|'' @ nl))"

definition makeDocsTable :: "toml_env \<Rightarrow> header \<Rightarrow> string \<Rightarrow> string option" where
  "makeDocsTable T h pfx = map_option (\<lambda>rows. ''|Config Name|Variable Name|Default / Note|'' @ nl @ ''|---|---|---|'' @ nl @ rows)
     (concat_options (map (docs_row T h pfx) (List.map_filter id (he_Params h))))"

definition makeDocs :: "toml_env \<Rightarrow> header \<Rightarrow> string \<Rightarrow> string \<Rightarrow> string option" where
  "makeDocs T h pfx name = map_option (\<lambda>table.
     ''## '' @ he_Title h @ nl @ nl @ ''<details>'' @ nl @ ''  <summary>Examples. Prefix: <b>'' @ pfx
     @ (if he_NoHeader h then '''' else he_Prefix h @ ''</b>, Header: <b> ''
         @ (if he_Kind h = kind_list then ''[['' @ name @ '']]'' else if he_Kind h = kind_named then ''['' @ name @ ''.0'' @ '']''
            else ''['' @ name @ '']''))
     @ ''</b></summary>'' @ nl @ nl @ ''- Using the config file:'' @ nl @ nl @ replicate 3 (CHR 0x60) @ ''yaml'' @ nl
     @ trim_space (makeSection T h name True True) @ nl @ replicate 3 (CHR 0x60) @ nl @ nl
     @ ''- Using environment variables:'' @ nl @ nl @ replicate 3 (CHR 0x60) @ ''js'' @ nl
     @ makeCompose h pfx True @ replicate 3 (CHR 0x60) @ nl @ nl @ ''</details>'' @ nl @ nl
     @ he_Docs h @ nl @ table @ nl @ he_Tail h
     @ (if he_Notes h = '''' then '''' else ''### Notes for '' @ he_Title h @ nl @ nl @ he_Notes h)) (makeDocsTable T h pfx)"

definition makeDefinedDocs :: "toml_env \<Rightarrow> header \<Rightarrow> string \<Rightarrow> defs \<Rightarrow> string list \<Rightarrow> string option" where
  "makeDefinedDocs T h pfx ds order = concat_options (map (\<lambda>name. case def_of ds name of None \<Rightarrow> None
     | Some d \<Rightarrow> makeDocs T (createDefinedSection d h name) pfx name) order)"

text \<open>\<open>createDocusaurus\<close>: the names and contents of the files, without date and footer.\<close>

definition has_params :: "definitions \<Rightarrow> string \<Rightarrow> bool" where
  "has_params c name = (case section_of c name of None \<Rightarrow> False | Some h \<Rightarrow> he_Params h \<noteq> [])"

definition makeIndexDocs :: "definitions \<Rightarrow> string" where
  "makeIndexDocs c = (let names = filter (\<lambda>name. has_params c name \<and> name \<noteq> ''global'') (cd_Order c) in
     concat (map (\<lambda>name. ''import G'' @ name @ '' from '' @ [CHR 0x27] @ ''./'' @ name @ ''.md'' @ [CHR 0x27] @ '';'' @ nl) names)
     @ nl @ concat (map (\<lambda>name. ''<G'' @ name @ ''/>'' @ nl) names))"

definition section_docs :: "toml_env \<Rightarrow> definitions \<Rightarrow> string \<Rightarrow> header \<Rightarrow> string option" where
  "section_docs T c name h = (case defs_of c name of Some ds \<Rightarrow> makeDefinedDocs T h (cd_Prefix c) ds (order_of c name)
     | None \<Rightarrow> makeDocs T h (cd_Prefix c) name)"

fun docs_files :: "toml_env \<Rightarrow> definitions \<Rightarrow> string list \<Rightarrow> (string \<times> string) list option" where
  "docs_files T c [] = Some []"
| "docs_files T c (name # names) = (case section_of c name of None \<Rightarrow> None
     | Some h \<Rightarrow> if he_Params h = [] then docs_files T c names
       else (case (section_docs T c name h, docs_files T c names) of (Some d, Some fs) \<Rightarrow> Some ((name, d) # fs) | _ \<Rightarrow> None))"

text \<open>The index dereferences every section first.\<close>

definition createDocusaurus :: "toml_env \<Rightarrow> definitions \<Rightarrow> (string \<times> string) list option" where
  "createDocusaurus T c = (if list_ex (\<lambda>name. section_of c name = None) (cd_Order c) then None
     else map_option (Cons (''index'', makeIndexDocs c)) (docs_files T c (cd_Order c)))"

end
