(* ===== verification/ConfigCheck.thy ===== *)
theory ConfigCheck
  imports ConfigDef
begin

text \<open>
  The validation of the settings definitions (\<open>validate.go\<close> of \<open>configdef\<close>): the structure of the sections,
  parameters and definitions, then every document rendered and checked. A problem names where it was found;
  an error of the code is the non-empty list. The maps are association lists, in the order they are visited.
\<close>

subsection \<open>Structure\<close>

datatype problem = PrefixRequired | OrderEmpty | Mdx string mdx_problem
  | OrderDuplicates string | OrderNotSection string | SectionNotInOrder string
  | DefOrderMissing string | DefNotInOrder string | DefEmpty string
  | DefOrderNoSection string | DefOrderNoDefs string | DefOrderDuplicates string string | DefOrderLists string string
  | UnknownKind string string | ParamEmpty string | ParamNoName string | MissingEnvvar string | MissingDefault string
  | MustBeList string string | PipeInShort string | BadImport string string

definition mdx_at :: "string \<Rightarrow> string \<Rightarrow> problem list" where
  "mdx_at content loc = map (Mdx loc) (mdxProblems content)"

definition isSeq :: "gval \<Rightarrow> bool" where
  "isSeq v = (case v of GSlice _ \<Rightarrow> True | _ \<Rightarrow> False)"

definition list_kind :: "param \<Rightarrow> bool" where
  "list_kind p = (pa_Kind p = kind_list \<or> pa_Kind p = ''conlist'')"

definition validateListValues :: "param \<Rightarrow> string \<Rightarrow> problem list" where
  "validateListValues p loc = (if \<not> list_kind p then []
     else concat (map (\<lambda>(label, v). if v \<noteq> GNil \<and> \<not> isSeq v then [MustBeList loc label] else [])
       [(''default'', pa_Default p), (''example'', pa_Example p), (''docker'', pa_Docker p)]))"

definition validate_param :: "string \<Rightarrow> param option \<Rightarrow> problem list" where
  "validate_param name po = (case po of None \<Rightarrow> [ParamEmpty name] | Some p \<Rightarrow> let loc = name @ ''.'' @ pa_Name p in
     (if pa_Name p = '''' then [ParamNoName name] else [])
     @ (if pa_EnvVar p = '''' \<and> \<not> isNested p then [MissingEnvvar loc] else [])
     @ (if pa_Default p = GNil then [MissingDefault loc] else [])
     @ (if pa_Kind p \<in> {'''', kind_list, ''conlist'', ''map'', kind_tables} then [] else [UnknownKind loc (pa_Kind p)])
     @ validateListValues p loc
     @ mdx_at (pa_Short p) (loc @ '' short'')
     @ (if CHR ''|'' \<in> set (pa_Short p) then [PipeInShort (loc @ '' short'')] else []))"

definition validate_header :: "header \<Rightarrow> string \<Rightarrow> problem list" where
  "validate_header h name = mdx_at (he_Title h) (name @ '' title'') @ mdx_at (he_Docs h) (name @ '' docs'')
     @ mdx_at (he_Notes h) (name @ '' notes'') @ mdx_at (he_Tail h) (name @ '' tail'')
     @ mdx_at (he_Prefix h) (name @ '' envvar_prefix'')
     @ (if he_Kind h \<in> {'''', kind_list, kind_named} then [] else [UnknownKind name (he_Kind h)])
     @ concat (map (validate_param name) (he_Params h))"

fun order_loop :: "definitions \<Rightarrow> string list \<Rightarrow> string list \<Rightarrow> problem list" where
  "order_loop c seen [] = []"
| "order_loop c seen (name # names) = (if name \<in> set seen then OrderDuplicates name # order_loop c seen names
     else (case section_of c name of None \<Rightarrow> [OrderNotSection name] | Some h \<Rightarrow> validate_header h name)
       @ order_loop c (name # seen) names)"

definition validateOrder :: "definitions \<Rightarrow> problem list" where
  "validateOrder c = order_loop c [] (cd_Order c)
     @ map SectionNotInOrder (filter (\<lambda>name. name \<notin> set (cd_Order c)) (akeys (cd_Sections c)))"

definition validateDefListOverrides :: "definitions \<Rightarrow> string \<Rightarrow> string \<Rightarrow> def_section \<Rightarrow> problem list" where
  "validateDefListOverrides c defName item d = (case section_of c defName of None \<Rightarrow> [] | Some h \<Rightarrow>
     concat (map (\<lambda>p. if \<not> list_kind p then [] else
         concat (map (\<lambda>(label, m). case aget m (pa_Name p) of None \<Rightarrow> []
             | Some v \<Rightarrow> if isSeq v then [] else [MustBeList (defName @ ''.'' @ item @ ''.'' @ pa_Name p) label])
           [(''default override'', df_Defaults d), (''example override'', df_Examples d), (''docker override'', df_DockerExample d)]))
       (List.map_filter id (he_Params h))))"

definition validate_def :: "definitions \<Rightarrow> string \<Rightarrow> string \<times> def_section option \<Rightarrow> problem list" where
  "validate_def c defName = (\<lambda>(item, d).
     (if item \<in> set (order_of c defName) then [] else [DefNotInOrder (defName @ ''.'' @ item)])
     @ (case d of None \<Rightarrow> [DefEmpty (defName @ ''.'' @ item)]
        | Some d \<Rightarrow> mdx_at (df_Title d) (defName @ ''.'' @ item @ '' title'') @ validateDefListOverrides c defName item d))"

fun def_order_loop :: "string \<Rightarrow> defs \<Rightarrow> string list \<Rightarrow> string list \<Rightarrow> problem list" where
  "def_order_loop defName ds seen [] = []"
| "def_order_loop defName ds seen (item # items) = (if item \<in> set seen then DefOrderDuplicates defName item # def_order_loop defName ds seen items
     else (if def_of ds item = None then [DefOrderLists defName item] else []) @ def_order_loop defName ds (item # seen) items)"

definition validateDefs :: "definitions \<Rightarrow> problem list" where
  "validateDefs c =
     concat (map (\<lambda>(defName, ds). (if order_of c defName = [] then [DefOrderMissing defName] else [])
         @ concat (map (validate_def c defName) (case ds of None \<Rightarrow> [] | Some ds \<Rightarrow> ds))) (cd_Defs c))
     @ concat (map (\<lambda>(defName, order). (if section_of c defName = None then [DefOrderNoSection defName] else [])
         @ (case defs_of c defName of None \<Rightarrow> [DefOrderNoDefs defName] | Some ds \<Rightarrow> def_order_loop defName ds [] order)) (cd_DefOrder c))"

subsection \<open>The rendered documents\<close>

definition generatedImportNames :: "definitions \<Rightarrow> string list" where
  "generatedImportNames c = map (\<lambda>name. CHR ''G'' # name) (filter (\<lambda>name. has_params c name \<and> name \<noteq> ''global'') (cd_Order c))"

text \<open>The second field of a line that begins with \<open>import G\<close> starts at that \<open>G\<close>.\<close>

definition checkGeneratedMDX :: "string \<Rightarrow> string \<Rightarrow> problem list" where
  "checkGeneratedMDX filename content = mdx_at content filename
     @ concat (map (\<lambda>line. if \<not> has_prefix line ''import G'' then []
         else let ident = takeWhile (\<lambda>x. \<not> is_space x) (drop 7 line) in
           if validImportIdent ident then [] else [BadImport filename ident]) (split_lines content))"

definition definedListValid :: "definitions \<Rightarrow> string \<Rightarrow> bool" where
  "definedListValid c name = (section_of c name \<noteq> None \<and> (case defs_of c name of None \<Rightarrow> False
     | Some ds \<Rightarrow> list_all (\<lambda>item. def_of ds item \<noteq> None) (order_of c name)))"

text \<open>\<open>None\<close> is a panic while rendering.\<close>

fun docs_loop :: "toml_env \<Rightarrow> definitions \<Rightarrow> string list \<Rightarrow> problem list option" where
  "docs_loop T c [] = Some []"
| "docs_loop T c (name # names) = (case section_of c name of None \<Rightarrow> docs_loop T c names
     | Some h \<Rightarrow> if he_Params h = [] \<or> defs_of c name \<noteq> None \<and> \<not> definedListValid c name then docs_loop T c names
       else (case section_docs T c name h of None \<Rightarrow> None
         | Some data \<Rightarrow> map_option (append (checkGeneratedMDX (name @ ''.md'') data)) (docs_loop T c names)))"

definition validateGeneratedDocs :: "toml_env \<Rightarrow> definitions \<Rightarrow> problem list option" where
  "validateGeneratedDocs T c = map_option (append (checkGeneratedMDX ''index.md'' (makeIndexDocs c))) (docs_loop T c (cd_Order c))"

definition structural_problems :: "definitions \<Rightarrow> problem list" where
  "structural_problems c = (if cd_Prefix c = '''' then [PrefixRequired] else []) @ mdx_at (cd_Prefix c) ''envvar_prefix''
     @ (if cd_Order c = [] then [OrderEmpty] else []) @ validateOrder c @ validateDefs c
     @ map (\<lambda>name. BadImport '''' name) (filter (\<lambda>name. \<not> validImportIdent name) (generatedImportNames c))"

definition validate :: "toml_env \<Rightarrow> definitions \<Rightarrow> problem list option" where
  "validate T c = (if structural_problems c = [] then validateGeneratedDocs T c else Some (structural_problems c))"

subsection \<open>What the absence of problems says\<close>

lemma concat_options_None: "concat_options xs = None \<longleftrightarrow> None \<in> set xs"
  by (induction xs) (auto split: option.splits)

lemma order_loop_sound: "order_loop c seen names = [] \<Longrightarrow>
    distinct names \<and> list_all (\<lambda>name. name \<notin> set seen \<and> (\<exists>h. section_of c name = Some h \<and> validate_header h name = [])) names"
  by (induction names arbitrary: seen) (fastforce simp: list_all_iff split: if_splits option.splits)+

lemma def_order_loop_sound: "def_order_loop defName ds seen items = [] \<Longrightarrow>
    distinct items \<and> list_all (\<lambda>item. item \<notin> set seen \<and> def_of ds item \<noteq> None) items"
  by (induction items arbitrary: seen) (fastforce simp: list_all_iff split: if_splits)+

text \<open>What holds of the sections when their structure has no problem.\<close>

lemma structure_sections:
  assumes "structural_problems c = []" and "name \<in> set (cd_Order c)"
  shows "\<exists>h. section_of c name = Some h \<and> validate_header h name = []"
proof -
  have "order_loop c [] (cd_Order c) = []" using assms(1) by (simp add: structural_problems_def validateOrder_def)
  from order_loop_sound [OF this] show ?thesis using assms(2) by (auto simp: list_all_iff)
qed

lemma structure_distinct: "structural_problems c = [] \<Longrightarrow> distinct (cd_Order c)"
  using order_loop_sound [of c "[]" "cd_Order c"] by (simp add: structural_problems_def validateOrder_def)

lemma structure_defs:
  assumes "structural_problems c = []" and "defs_of c name = Some ds" and "item \<in> set (order_of c name)"
  shows "def_of ds item \<noteq> None"
proof -
  from assms(3) obtain order where o': "aget (cd_DefOrder c) name = Some order" "item \<in> set order"
    by (cases "aget (cd_DefOrder c) name") (auto simp: order_of_def)
  have "def_order_loop name ds [] order = []"
    using assms(1,2) map_of_SomeD [OF o'(1)] by (fastforce simp: structural_problems_def validateDefs_def)
  from def_order_loop_sound [OF this] show ?thesis using o'(2) by (auto simp: list_all_iff)
qed

lemma structure_params:
  assumes "structural_problems c = []" and "name \<in> set (cd_Order c)" and "section_of c name = Some h"
  shows "None \<notin> set (he_Params h)" and "p \<in> set (List.map_filter id (he_Params h)) \<Longrightarrow> pa_Default p \<noteq> GNil"
proof -
  have v: "po \<in> set (he_Params h) \<Longrightarrow> validate_param name po = []" for po
    using assms(3) structure_sections [OF assms(1,2)] by (simp add: validate_header_def)
  show "None \<notin> set (he_Params h)" using v [of None] by (auto simp: validate_param_def)
  show "p \<in> set (List.map_filter id (he_Params h)) \<Longrightarrow> pa_Default p \<noteq> GNil"
    using v [of "Some p"] by (auto simp: validate_param_def Let_def List.map_filter_def split: if_splits)
qed

subsection \<open>Rendering\<close>

lemma docs_row_None: "docs_row T h pfx p = None \<longleftrightarrow> pa_Default p = GNil"
  by (simp add: docs_row_def Let_def)

text \<open>A document cannot be rendered exactly when a parameter has no default.\<close>

definition no_default :: "header \<Rightarrow> bool" where
  "no_default h = list_ex (\<lambda>p. pa_Default p = GNil) (List.map_filter id (he_Params h))"

lemma makeDocs_None: "makeDocs T h pfx name = None \<longleftrightarrow> no_default h"
  by (auto simp: makeDocs_def makeDocsTable_def concat_options_None no_default_def list_ex_iff image_iff
      docs_row_None eq_commute [of None])

lemma makeDefinedDocs_None: "makeDefinedDocs T h pfx ds order = None \<longleftrightarrow>
    list_ex (\<lambda>item. case def_of ds item of None \<Rightarrow> True | Some d \<Rightarrow> no_default (createDefinedSection d h item)) order"
  by (force simp: makeDefinedDocs_def concat_options_None list_ex_iff image_iff makeDocs_None
      eq_commute [of None] split: option.splits)

text \<open>A parameter of the section that a definition in its order overrides with the default null.\<close>

definition null_override :: "definitions \<Rightarrow> string \<Rightarrow> bool" where
  "null_override c name = (case (section_of c name, defs_of c name) of
     (Some h, Some ds) \<Rightarrow> list_ex (\<lambda>item. case def_of ds item of None \<Rightarrow> False
       | Some d \<Rightarrow> list_ex (\<lambda>p. (pa_Apps p = [] \<or> item \<in> set (pa_Apps p)) \<and> aget (df_Defaults d) (pa_Name p) = Some GNil)
           (List.map_filter id (he_Params h))) (order_of c name)
   | _ \<Rightarrow> False)"

lemma map_filter_Some: "List.map_filter id (map (\<lambda>x. Some (f x)) xs) = map f xs"
  by (induction xs) (auto simp: List.map_filter_def)

lemma no_default_created:
  assumes "\<And>p. p \<in> set (List.map_filter id (he_Params h)) \<Longrightarrow> pa_Default p \<noteq> GNil"
  shows "no_default (createDefinedSection d h item) \<longleftrightarrow>
    list_ex (\<lambda>p. (pa_Apps p = [] \<or> item \<in> set (pa_Apps p)) \<and> aget (df_Defaults d) (pa_Name p) = Some GNil)
      (List.map_filter id (he_Params h))"
  using assms by (auto simp: no_default_def createDefinedSection_def map_filter_Some override_def list_ex_iff split: option.splits)

lemma section_docs_None:
  assumes s: "structural_problems c = []" and n: "name \<in> set (cd_Order c)" and h: "section_of c name = Some h"
  shows "section_docs T c name h = None \<longleftrightarrow> null_override c name"
proof (cases "defs_of c name")
  case None
  have "\<not> no_default h" using structure_params(2) [OF s n h] by (auto simp: no_default_def list_ex_iff)
  then show ?thesis using None h by (simp add: section_docs_def null_override_def makeDocs_None)
next
  case (Some ds)
  have "(case def_of ds item of None \<Rightarrow> True | Some d \<Rightarrow> no_default (createDefinedSection d h item)) \<longleftrightarrow>
      (case def_of ds item of None \<Rightarrow> False | Some d \<Rightarrow> list_ex (\<lambda>p. (pa_Apps p = [] \<or> item \<in> set (pa_Apps p))
        \<and> aget (df_Defaults d) (pa_Name p) = Some GNil) (List.map_filter id (he_Params h)))"
    if "item \<in> set (order_of c name)" for item
    using structure_defs [OF s Some that] no_default_created [OF structure_params(2) [OF s n h]]
    by (cases "def_of ds item") auto
  then show ?thesis using Some h
    by (auto simp: section_docs_def null_override_def makeDefinedDocs_None list_ex_iff)
qed

lemma structure_definedListValid:
  assumes "structural_problems c = []" and "name \<in> set (cd_Order c)" and "defs_of c name \<noteq> None"
  shows "definedListValid c name"
  using assms(3) structure_sections [OF assms(1,2)] structure_defs [OF assms(1)]
  by (auto simp: definedListValid_def list_all_iff)

lemma docs_loop_None:
  assumes s: "structural_problems c = []" and "set names \<subseteq> set (cd_Order c)"
  shows "docs_loop T c names = None \<longleftrightarrow> list_ex (\<lambda>name. has_params c name \<and> null_override c name) names"
  using assms(2)
proof (induction names)
  case (Cons name names)
  then obtain h where h: "section_of c name = Some h" using structure_sections [OF s, of name] by auto
  show ?case using Cons h section_docs_None [OF s _ h, of T] structure_definedListValid [OF s, of name]
    by (auto simp: has_params_def split: option.splits)
qed simp

lemma docs_loop_clean:
  assumes s: "structural_problems c = []" and "set names \<subseteq> set (cd_Order c)" and "docs_loop T c names = Some []"
  shows "\<exists>fs. docs_files T c names = Some fs \<and> map fst fs = filter (has_params c) names
    \<and> list_all (\<lambda>(n, data). mdxProblems data = []) fs"
  using assms(2,3)
proof (induction names)
  case (Cons name names)
  then obtain h where h: "section_of c name = Some h" using structure_sections [OF s, of name] by auto
  show ?case
  proof (cases "he_Params h = []")
    case True
    then show ?thesis using Cons h by (simp add: has_params_def)
  next
    case False
    then obtain data where d: "section_docs T c name h = Some data" "docs_loop T c names = Some []"
        "checkGeneratedMDX (name @ ''.md'') data = []"
      using Cons h structure_definedListValid [OF s, of name] by (auto split: option.splits if_splits)
    then obtain fs where "docs_files T c names = Some fs" "map fst fs = filter (has_params c) names"
        "list_all (\<lambda>(n, data). mdxProblems data = []) fs" using Cons by auto
    moreover have "has_params c name" using h False by (simp add: has_params_def)
    moreover have "mdxProblems data = []" using d(3) by (simp add: checkGeneratedMDX_def mdx_at_def)
    ultimately show ?thesis using d(1) h False by simp
  qed
qed simp

text \<open>The example and the compose file go through the sections alike.\<close>

lemma sections_total:
  assumes s: "structural_problems c = []"
    and plain: "\<And>name h. section_of c name = Some h \<Longrightarrow> defs_of c name = None \<Longrightarrow> r name \<noteq> None"
    and defined: "\<And>name h ds. section_of c name = Some h \<Longrightarrow> defs_of c name = Some ds
      \<Longrightarrow> (\<And>item. item \<in> set (order_of c name) \<Longrightarrow> def_of ds item \<noteq> None) \<Longrightarrow> r name \<noteq> None"
  shows "concat_options (map r (cd_Order c)) \<noteq> None"
proof -
  have "r name \<noteq> None" if n: "name \<in> set (cd_Order c)" for name
  proof -
    obtain h where h: "section_of c name = Some h" using structure_sections [OF s n] by blast
    show ?thesis
    proof (cases "defs_of c name")
      case None
      then show ?thesis using plain [OF h] by simp
    next
      case (Some ds)
      show ?thesis by (rule defined [OF h Some structure_defs [OF s Some]])
    qed
  qed
  then have "None \<notin> r ` set (cd_Order c)" by (metis imageE)
  then show ?thesis by (simp add: concat_options_None)
qed

lemma item_texts: "(\<And>item. item \<in> set items \<Longrightarrow> def_of ds item \<noteq> None) \<Longrightarrow>
    concat_options (map (\<lambda>item. case def_of ds item of None \<Rightarrow> None | Some d \<Rightarrow> Some (f item d)) items) \<noteq> None"
  by (induction items) (auto split: option.splits)

lemma example_total: "structural_problems c = [] \<Longrightarrow> ExampleTOML T c \<noteq> None"
  unfolding ExampleTOML_def makeDefinedSection_def
  by (erule sections_total) (simp_all add: item_texts [unfolded not_None_eq])

lemma compose_total: "structural_problems c = [] \<Longrightarrow> createCompose c \<noteq> None"
  unfolding createCompose_def option.map_disc_iff makeComposeDefined_def
  by (erule sections_total) (simp_all add: item_texts [unfolded not_None_eq])

subsection \<open>What the generator relies on\<close>

text \<open>
  C27. Definitions that pass the validation can be used: the example settings file, the compose file and the
  website are made of them without a panic or an abort; the website has the index and one document for each
  section of the order that has parameters, in that order, and no document has an MDX problem.
\<close>

theorem validated_definitions_render:
  assumes "validate T c = Some []"
  shows "\<exists>toml compose files. ExampleTOML T c = Some toml \<and> createCompose c = Some compose \<and> createDocusaurus T c = Some files
    \<and> map fst files = ''index'' # filter (has_params c) (cd_Order c)
    \<and> list_all (\<lambda>(n, data). mdxProblems data = []) files"
proof -
  have s: "structural_problems c = []" using assms by (auto simp: validate_def split: if_splits)
  then have v: "docs_loop T c (cd_Order c) = Some []" "mdxProblems (makeIndexDocs c) = []"
    using assms by (auto simp: validate_def validateGeneratedDocs_def checkGeneratedMDX_def mdx_at_def)
  have "\<not> list_ex (\<lambda>name. section_of c name = None) (cd_Order c)"
    using structure_sections [OF s] by (fastforce simp: list_ex_iff)
  then show ?thesis
    using docs_loop_clean [OF s subset_refl v(1)] example_total [OF s, of T] compose_total [OF s] v(2)
    by (fastforce simp: createDocusaurus_def)
qed

text \<open>
  C28. The validation itself panics exactly when the structure has no problem but a definition that is listed
  overrides the default of a parameter that applies to it with null: the parameter checks look at the defaults
  of the section, the rendering at the overridden ones.
\<close>

theorem validation_panics_on_null_override:
  "validate T c = None \<longleftrightarrow>
     structural_problems c = [] \<and> list_ex (\<lambda>name. has_params c name \<and> null_override c name) (cd_Order c)"
  using docs_loop_None [of c "cd_Order c" T] by (auto simp: validate_def validateGeneratedDocs_def)

subsection \<open>A small example\<close>

text \<open>One repeatable section with one parameter, whose only definition sets the default \<open>v\<close>.\<close>

definition example_param :: param where
  "example_param = \<lparr>pa_Name = ''u'', pa_EnvVar = ''U'', pa_Default = GBool True, pa_Docker = GNil, pa_Example = GNil, pa_Short = '''',
     pa_UIShort = '''', pa_Desc = '''', pa_Kind = '''', pa_Recommend = [], pa_Apps = [], pa_OmitCompose = False\<rparr>"

definition example_definitions :: "gval \<Rightarrow> definitions" where
  "example_definitions v = \<lparr>cd_DefOrder = [(''s'', [''a''])],
     cd_Defs = [(''s'', Some [(''a'', Some \<lparr>df_Comment = False, df_Title = '''', df_Prefix = ''A'', df_Text = '''',
       df_Defaults = [(''u'', v)], df_Examples = [], df_DockerExample = []\<rparr>)])],
     cd_Prefix = ''P'', cd_Order = [''s''],
     cd_Sections = [(''s'', Some \<lparr>he_Tail = '''', he_Title = '''', he_Text = '''', he_Docs = '''', he_Notes = '''', he_Prefix = '''',
       he_Params = [Some example_param], he_Kind = kind_list, he_NoHeader = False\<rparr>)]\<rparr>"

definition example_toml :: toml_env where
  "example_toml = \<lparr>te_Marshal = (\<lambda>v. if v = GBool True then Some ''true'' else None), te_ParseDuration = (\<lambda>_. None)\<rparr>"

lemma example_valid: "validate example_toml (example_definitions (GBool True)) = Some []"
  by code_simp

lemma example_structure: "structural_problems (example_definitions GNil) = []"
  by code_simp

theorem validated_definitions_render_witness:
  "\<exists>files. createDocusaurus example_toml (example_definitions (GBool True)) = Some files \<and> map fst files = [''index'', ''s'']
    \<and> list_all (\<lambda>(n, data). mdxProblems data = []) files"
proof -
  have "filter (has_params (example_definitions (GBool True))) (cd_Order (example_definitions (GBool True))) = [''s'']"
    by code_simp
  then show ?thesis using validated_definitions_render [OF example_valid] by auto
qed

theorem validation_panics_on_null_override_witness: "validate example_toml (example_definitions GNil) = None"
proof -
  have "list_ex (\<lambda>name. has_params (example_definitions GNil) name \<and> null_override (example_definitions GNil) name)
      (cd_Order (example_definitions GNil))" by code_simp
  then show ?thesis using validation_panics_on_null_override [of example_toml] example_structure by simp
qed

end
