(* ===== verification/LiveToml.thy ===== *)
theory LiveToml
  imports ConfigDef
begin

text \<open>
  The settings file rendered from the running settings (\<open>live.go\<close> of \<open>configdef\<close>): the sections of the
  definitions in their order, with the values of the settings; a key that is at its default is commented
  out unless it was set in the file before. A map whose first entry is a struct has a struct type, as the
  settings' maps have; the fields found are exported.
\<close>

subsection \<open>The keys to keep\<close>

definition newPersistSet :: "string list \<Rightarrow> string list" where
  "newPersistSet keys = filter (\<lambda>k. k \<noteq> '''') keys"

definition persisted :: "string list \<Rightarrow> string \<Rightarrow> string \<Rightarrow> bool" where
  "persisted persist sec name = (name \<in> set persist \<or> sec @ ''.'' @ name \<in> set persist)"

subsection \<open>Nested tables\<close>

text \<open>The elements of a slice by reflection.\<close>

definition slice_items :: "gval \<Rightarrow> gval list" where
  "slice_items v = (case v of GSlice vs \<Rightarrow> vs | GStatuses ns \<Rightarrow> map GUint ns | _ \<Rightarrow> [])"

definition is_struct :: "gval \<Rightarrow> bool" where
  "is_struct v = (case v of GStruct _ \<Rightarrow> True | GText _ b \<Rightarrow> b | _ \<Rightarrow> False)"

definition writeStructFields :: "toml_env \<Rightarrow> gval \<Rightarrow> string" where
  "writeStructFields T v = (case derefValue v of
     GStruct fs \<Rightarrow> concat (map (\<lambda>(tag, omit, anonymous, exported, fieldVal).
       if \<not> exported \<or> tag = '''' \<or> tag = ''-'' \<or> omit \<and> derefValue fieldVal = GStr '''' then ''''
       else '' '' @ tag @ '' = '' @ formatTOML T tag fieldVal @ nl) fs)
   | _ \<Rightarrow> '''')"

definition nestedTableName :: "string \<Rightarrow> string \<Rightarrow> string \<Rightarrow> string" where
  "nestedTableName sec instanceKey name = (if instanceKey = '''' then sec @ ''.'' @ name else sec @ ''.'' @ instanceKey @ ''.'' @ name)"

definition renderNestedKVMap :: "toml_env \<Rightarrow> string \<Rightarrow> string \<Rightarrow> string \<Rightarrow> (string \<times> gval) list \<Rightarrow> string" where
  "renderNestedKVMap T sec instanceKey name kvs = (if kvs = [] then ''''
     else ''['' @ nestedTableName sec instanceKey name @ '']'' @ nl
       @ concat (map (\<lambda>(k, v). '' '' @ tomlKey k @ '' = '' @ formatTOML T '''' v @ nl) (sort_rows kvs)) @ nl)"

definition renderNestedMap :: "toml_env \<Rightarrow> string \<Rightarrow> string \<Rightarrow> string \<Rightarrow> gval \<Rightarrow> string" where
  "renderNestedMap T sec instanceKey name v = (
     if is_struct v then let fields = writeStructFields T v in
       if fields = '''' then '''' else ''['' @ nestedTableName sec instanceKey name @ '']'' @ nl @ fields @ nl
     else (case v of GMap kvs \<Rightarrow>
         if \<not> (case kvs of [] \<Rightarrow> False | (_, e) # _ \<Rightarrow> is_struct (derefValue e)) then renderNestedKVMap T sec instanceKey name kvs
         else concat (map (\<lambda>(k, e). ''['' @ sec @ ''.'' @ name @ ''.'' @ tomlKey k @ '']'' @ nl @ writeStructFields T e @ nl) (sort_rows kvs))
       | _ \<Rightarrow> ''''))"

definition renderNestedTables :: "toml_env \<Rightarrow> string \<Rightarrow> string \<Rightarrow> gval \<Rightarrow> string" where
  "renderNestedTables T sec name v =
     concat (map (\<lambda>e. ''[['' @ sec @ ''.'' @ name @ '']]'' @ nl @ writeStructFields T e @ nl) (slice_items v))"

definition renderNestedValue :: "toml_env \<Rightarrow> string \<Rightarrow> string \<Rightarrow> string \<Rightarrow> string \<Rightarrow> gval \<Rightarrow> string" where
  "renderNestedValue T sec instanceKey name kind v = (
     if isNilish v \<or> slice_items v = [] \<and> (case v of GMap kvs \<Rightarrow> kvs = [] | _ \<Rightarrow> \<not> is_struct v) then ''''
     else if kind = kind_tables then renderNestedTables T sec name v
     else if kind = ''map'' then renderNestedMap T sec instanceKey name v else '''')"

definition renderNestedLive :: "toml_env \<Rightarrow> header \<Rightarrow> string \<Rightarrow> string \<Rightarrow> gval \<Rightarrow> string" where
  "renderNestedLive T h sec instanceKey live = (let live = derefValue live in
     if live = GNil then ''''
     else concat (map (\<lambda>p. if \<not> isNested p then '''' else case fieldByTOML live (pa_Name p) of None \<Rightarrow> ''''
         | Some field \<Rightarrow> renderNestedValue T sec instanceKey (pa_Name p) (pa_Kind p) (derefValue field))
       (List.map_filter id (he_Params h))))"

subsection \<open>Parameters and sections\<close>

text \<open>The text of a parameter's value, and whether the value is the default.\<close>

definition live_value :: "toml_env \<Rightarrow> gval \<Rightarrow> param \<Rightarrow> string \<times> bool" where
  "live_value T live p = (case fieldByTOML live (pa_Name p) of
     Some field \<Rightarrow> if isNilish field then (formatTOML T (pa_Name p) (pa_Default p), True)
       else (formatTOML T (pa_Name p) field, valuesEqual T field (pa_Default p))
   | None \<Rightarrow> (formatTOML T (pa_Name p) (pa_Default p), True))"

definition writeLiveParam :: "toml_env \<Rightarrow> string \<Rightarrow> string \<Rightarrow> gval \<Rightarrow> string list \<Rightarrow> bool \<Rightarrow> param \<Rightarrow> string" where
  "writeLiveParam T sec sp live persist noHeader p = desc_text noHeader p
     @ (if isNested p then '''' else case live_value T live p of (txt, atDefault) \<Rightarrow>
         (if atDefault \<and> \<not> persisted persist sec (pa_Name p) then ''#'' else '''') @ sp @ pa_Name p @ '' = '' @ txt @ nl)"

definition writeLiveParams :: "toml_env \<Rightarrow> header \<Rightarrow> string \<Rightarrow> string \<Rightarrow> string \<Rightarrow> gval \<Rightarrow> string list \<Rightarrow> string" where
  "writeLiveParams T h sec instanceKey sp live persist =
     concat (map (writeLiveParam T sec sp live persist (he_NoHeader h)) (List.map_filter id (he_Params h)))
     @ nl @ renderNestedLive T h sec instanceKey live"

definition makeSectionLive :: "toml_env \<Rightarrow> header \<Rightarrow> string \<Rightarrow> string \<Rightarrow> bool \<Rightarrow> gval \<Rightarrow> string list \<Rightarrow> string" where
  "makeSectionLive T h sec key showHeader live persist = he_Text h
     @ (if he_NoHeader h then '''' else writeTOMLHeader h sec key (if repeatable h \<and> \<not> showHeader then ''#'' else ''''))
     @ writeLiveParams T h sec key (if he_NoHeader h then '''' else '' '') (derefValue live) persist"

definition renderNamedLive :: "toml_env \<Rightarrow> header \<Rightarrow> string \<Rightarrow> gval \<Rightarrow> string list \<Rightarrow> string" where
  "renderNamedLive T h sec live persist = (case live of
     GMap (e # es) \<Rightarrow> let out = concat (map (\<lambda>(key, v). let item = derefValue v in
           if item = GNil then '''' else makeSectionLive T h sec key True item persist) (sort_rows (e # es))) in
         if out = '''' then makeSection T h sec False False else out
   | _ \<Rightarrow> makeSection T h sec False False)"

definition renderListLive :: "toml_env \<Rightarrow> header \<Rightarrow> string \<Rightarrow> gval \<Rightarrow> string list \<Rightarrow> string" where
  "renderListLive T h sec live persist = (let live = derefValue live in
     if he_Kind h = kind_named then renderNamedLive T h sec live persist
     else if slice_items live = [] then makeSection T h sec False False
     else concat (map (\<lambda>v. makeSectionLive T h sec '''' True (derefValue v) persist) (slice_items live)))"

text \<open>The value of a section, invalid if the settings have none.\<close>

definition section_value :: "gval \<Rightarrow> string \<Rightarrow> gval" where
  "section_value root name = (case fieldByTOML root name of None \<Rightarrow> GNil | Some v \<Rightarrow> v)"

definition renderDefinedLive :: "toml_env \<Rightarrow> header \<Rightarrow> defs \<Rightarrow> string list \<Rightarrow> gval \<Rightarrow> string list \<Rightarrow> string" where
  "renderDefinedLive T h ds order root persist = concat (map (\<lambda>item. case def_of ds item of None \<Rightarrow> ''''
     | Some d \<Rightarrow> renderListLive T (createDefinedSection d h item) item (section_value root item) persist) order)"

definition renderLive :: "toml_env \<Rightarrow> definitions \<Rightarrow> gval \<Rightarrow> string list \<Rightarrow> string" where
  "renderLive T c live persist = (let root = derefValue live in
     concat (map (\<lambda>name. case section_of c name of None \<Rightarrow> ''''
       | Some h \<Rightarrow> (case defs_of c name of Some ds \<Rightarrow> renderDefinedLive T h ds (order_of c name) root persist
         | None \<Rightarrow> let sectionVal = (if he_NoHeader h then root else section_value root name) in
             if repeatable h then renderListLive T h name sectionVal persist
             else makeSectionLive T h name '''' False sectionVal persist)) (cd_Order c)))"

datatype render_mode = RenderExample | RenderLive

definition RenderTOML :: "toml_env \<Rightarrow> definitions \<Rightarrow> gval \<Rightarrow> render_mode \<Rightarrow> string list \<Rightarrow> string option" where
  "RenderTOML T c live mode persist = (if live = GNil \<or> mode \<noteq> RenderLive then ExampleTOML T c
     else Some (renderLive T c live (newPersistSet persist)))"

subsection \<open>The lines that are in effect\<close>

text \<open>A line of the file takes effect unless it is empty or a comment.\<close>

definition active_lines :: "string \<Rightarrow> string list" where
  "active_lines s = filter (\<lambda>l. l \<noteq> '''' \<and> hd l \<noteq> CHR ''#'') (split_lines s)"


lemma split_lines_ne [simp]: "split_lines s \<noteq> []"
  by (induction s) (auto split: list.splits)





lemma active_nil [simp]: "active_lines '''' = []" "active_lines (CHR 0x0A # b) = active_lines b"
  by (simp_all add: active_lines_def)


















end
