(* ===== verification/Spec2Isabelle.thy ===== *)
theory Spec2Isabelle
  imports FolderPaths AuthProps HubProps HistoryProps DaemonProps RemnantProps Recovery QueueProps FolderProps
    RestoreProps DeleteProps HookProps ConfigProps AtomicWrite ConfigCheck LiveToml
begin

text \<open>
  A model of the UnpackUI daemon, the program under \<open>src/pkg\<close> that polls the Starr applications and watches
  folders, extracts finished downloads, cleans up after their import, tells webhooks about it, and shows its
  queue, history and settings in a browser.

  Base. \<open>Status\<close> and \<open>Model\<close> hold the data of \<open>pkg/extract\<close>, of \<open>pkg/folders/config.go\<close> and of the rows of
  \<open>historyfile.go\<close>; \<open>Prelude\<close> and \<open>GoPath\<close> the association lists that stand for Go maps and the parts of
  \<open>path/filepath\<close> and \<open>strings\<close> the program uses; \<open>Files\<close> is a tree of files with the calls of \<open>os\<close> and their
  errors. \<open>Paths\<close> and \<open>FolderPaths\<close> are the containment tests of \<open>pkg/folders\<close> and \<open>recovery.go\<close>.

  The daemon. \<open>Daemon\<close> is the record of \<open>start.go\<close> with the status change \<open>updateQueueStatus\<close> every handler ends
  in, the hook queue and the message IDs of \<open>webhook.go\<close>. \<open>History\<close> is the store of \<open>historyfile.go\<close>, \<open>Remnants\<close>
  \<open>remnants.go\<close>, \<open>Recovery\<close> \<open>recovery.go\<close>, \<open>Progress\<close> the arrival estimate. \<open>Queue\<close> holds the handlers, polls and
  user actions of the Starr queue (\<open>handlers.go\<close>, \<open>starrpoll.go\<close>, \<open>lidarr.go\<close>, \<open>queue_actions.go\<close>); \<open>Watch\<close> and
  \<open>FolderQueue\<close> the watcher (\<open>pkg/folders/watch.go\<close>) and the watched items (\<open>folder.go\<close>); \<open>Restore\<close> what a start
  makes of the history (\<open>historyrestore.go\<close>); \<open>DeleteWorker\<close> the worker of \<open>start.go\<close>. \<open>MainLoop\<close> composes them as
  \<open>Run\<close> does: one operation per branch of its \<open>select\<close>.

  Hooks. \<open>Hooks\<close> is the configuration and validation of \<open>pkg/hooks\<close>, \<open>HookDelivery\<close> the requests, the edits of
  Discord and Telegram messages, and the worker.

  Access. \<open>Perms\<close>, \<open>Password\<close> and \<open>Auth\<close> are \<open>permissions.go\<close>, \<open>apikeys.go\<close>, \<open>password.go\<close> and \<open>auth.go\<close>; \<open>Hub\<close> is
  the live hub of \<open>livehub.go\<close> and \<open>livews.go\<close>.

  Settings. \<open>Config\<close> holds the settings, their copies and limits (\<open>apps.go\<close>, \<open>configclone.go\<close>, \<open>cnfgfile.go\<close>,
  \<open>instancemap.go\<close>), \<open>ConfigPut\<close> every section of a GET and a PUT (\<open>configapi.go\<close>, \<open>configput.go\<close>), \<open>Startup\<close> what a
  start makes of the file. \<open>AtomicWrite\<close> is the write of the file (\<open>pkg/configdef/write.go\<close>). \<open>ConfigDef\<close> holds the
  definitions of the settings and what is generated of them (\<open>config.go\<close>, \<open>compose.go\<close>, \<open>docusaurus.go\<close>, \<open>help.go\<close>
  and the types of \<open>start.go\<close> in \<open>pkg/configdef\<close>), \<open>Toml\<close> and \<open>LiveToml\<close> the file rendered from the running settings
  (\<open>live.go\<close>), \<open>Markdown\<close> and \<open>ConfigCheck\<close> the scanners and the validation of \<open>validate.go\<close>.

  State. Go structs are records, Go maps association lists (the order of the list is the order of one iteration
  of the map; where that order may matter the properties hold for every list). A record of the daemon extends
  the record of the history, so that the operations of the history run on the daemon as they are. A lock is left
  out: every operation holds the one mutex from its first to its last access, and \<open>unlockHistory\<close>, which also
  delivers the hooks that wait, is modelled where the code calls it. Pointers compared by the code
  (\<open>hookMsgCache.live\<close>) are addresses in \<open>e_addr\<close>. A null pointer that is read, or another panic, is \<open>None\<close>; an
  error of the code is a value of a sum or option type. Counters that wrap are words of 64 bits.

  Parameters. \<open>env\<close> holds what lies outside of the sources: float arithmetic, number formatting, the extraction
  library's file counts; \<open>xlib\<close> the archive library's search for archives, and \<open>rm\<close> its \<open>DeleteFiles\<close>, of which
  \<open>removes_all\<close> is assumed. \<open>fsn\<close>, \<open>canWatch\<close> and \<open>canPoll\<close> are the file notification library, \<open>web\<close> and \<open>urls\<close>
  the remote servers, JSON, templates, processes and \<open>net/url\<close>, \<open>config_env\<close> the codecs, \<open>cnfg\<close>, \<open>cnfgfile\<close> and
  bcrypt, \<open>toml_env\<close> the TOML marshaller and \<open>time.ParseDuration\<close>, \<open>disk_env\<close> what the operating system answers to
  the write of a file. Answers of the Starr applications, time stamps and the state of the disk are arguments of
  the operations, so the theorems hold for all of them.

  Interfaces. \<open>containment\<close> (\<open>Paths\<close>) is what both containment tests promise; \<open>replay_log\<close> (\<open>HistoryLog\<close>) a log of
  keyed rows, interpreted on the merge of the history file; \<open>item_sweep\<close> (\<open>Sweep\<close>) a pass over the queue that has
  one meaning whatever the order of the map, interpreted on the passes of the Starr queue (\<open>QueueSweeps\<close>,
  \<open>QueueRefines\<close>) and of the watched folders (\<open>FolderSweep\<close>); \<open>loop_relation\<close> (\<open>QueueLoop\<close>) what every branch of the
  main loop keeps, interpreted in \<open>QueueRefines\<close> and \<open>MainLoop\<close>.

  Theorems. \<open>Lifecycle\<close> is the abstract life of one download; \<open>QueueRefines\<close> shows that every operation of the main
  loop takes it by these steps, and \<open>QueueProps\<close> draws the consequences for runs: retries, deletes, downloads given
  up. \<open>FolderFrames\<close> and \<open>FolderSound\<close> say what the operations on watched items leave alone and keep, \<open>FolderProps\<close>
  and \<open>WatchProps\<close> what becomes work and what is deleted; \<open>MainLoop\<close> shows that no branch panics. \<open>RestoreProps\<close> and
  \<open>HistoryProps\<close>: what survives a restart, and the bounds of the store. \<open>RemnantProps\<close> and \<open>DeleteProps\<close>: which files
  a cleanup touches. \<open>DaemonProps\<close> and \<open>HookProps\<close>: status changes, hook messages and their delivery. \<open>AuthProps\<close> and
  \<open>HubProps\<close>: which identity a request gets, who sees what, delivery and buffers. \<open>ConfigProps\<close>: a PUT is done as a
  whole or not at all, and writes nothing that came from the environment. \<open>AtomicWrite\<close>: a crash during the write
  loses no settings. \<open>LiveToml\<close> and \<open>Toml\<close>: which lines of a rendered section take effect, and that quoted keys are
  read back. \<open>ConfigCheck\<close>: what validated definitions guarantee, and when the validation panics.

  Loops and bounds. Loops over lists are structural recursions. Scans of a string by position end since the position
  grows (\<open>Markdown\<close>); the search for a free remnant name stops after \<open>maxRemnantCopies\<close>, the code's own bound; the
  one search that may run on, \<open>unusedKeyName\<close>, is a partial function that is shown to end. No fuel is used.

  Not modelled: the HTTP clients of the Starr applications and the manual import of Lidarr, which only call remote
  servers; the web server with its routing, file browser and log files, and \<open>configtest.go\<close>, which are input and
  output around library calls; \<open>configdump.go\<close> and other logging, of which nothing depends; finding and creating the
  settings file; the command line of the generator of \<open>pkg/configdef\<close>, its download of the definitions, the constant
  texts and dates of its files; the tray, the dialogs and the update check, which are glue to the operating system.
\<close>

end
